(* ===== verification/Prelude.thy ===== *)
theory Prelude
  imports Main "HOL-Library.Char_ord" "HOL-Library.List_Lexorder" "HOL-Library.Product_Lexorder"
begin

text \<open>
  Shared vocabulary of the development.

  \<^item> Exceptions are values: a Python \<open>raise C("m")\<close> is \<open>Inl (Exn ''C'' ''m'')\<close>, with the class
    name and the literal part of the message, and a function that may raise has type \<open>'a result\<close>.
  \<^item> A Pydantic validator is a list of guarded raises in source order: \<open>raises\<close> returns the
    first one whose condition holds, \<open>None\<close> when the object is accepted.
  \<^item> \<open>rbind\<close> and \<open>traverse\<close> sequence calls that may raise; the first exception wins.
  \<^item> Python strings are HOL strings; identifiers and digests are ASCII by their patterns, free
    text is restricted to code points below 256.  Orders on strings and tuples are the
    lexicographic ones of the library, as Python's are.
\<close>

section \<open>Results\<close>

datatype exn = Exn (exn_class: string) (exn_msg: string)

type_synonym 'a result = "exn + 'a"

named_theorems result_simps "how results, guards and traversals succeed"

fun raises :: "(bool \<times> exn) list \<Rightarrow> exn option" where
  "raises [] = None"
| "raises ((bad, e) # rest) = (if bad then Some e else raises rest)"

definition orelse :: "exn option \<Rightarrow> exn option \<Rightarrow> exn option" where
  "orelse c d = (case c of Some e \<Rightarrow> Some e | None \<Rightarrow> d)"

fun rbind :: "'a result \<Rightarrow> ('a \<Rightarrow> 'b result) \<Rightarrow> 'b result" where
  "rbind (Inl e) f = Inl e"
| "rbind (Inr x) f = f x"

definition check :: "exn option \<Rightarrow> 'a result \<Rightarrow> 'a result" where
  "check c r = (case c of Some e \<Rightarrow> Inl e | None \<Rightarrow> r)"

fun traverse :: "('a \<Rightarrow> 'b result) \<Rightarrow> 'a list \<Rightarrow> 'b list result" where
  "traverse f [] = Inr []"
| "traverse f (x # xs) = rbind (f x) (\<lambda>y. rbind (traverse f xs) (\<lambda>ys. Inr (y # ys)))"

lemma raises_None_iff [result_simps]:
  "raises cs = None \<longleftrightarrow> (\<forall>(bad, e) \<in> set cs. \<not> bad)"
  by (induction cs rule: raises.induct) auto

lemma raises_Cons_None [simp]: "raises ((bad, e) # rest) = None \<longleftrightarrow> \<not> bad \<and> raises rest = None"
  by simp

declare raises.simps(2) [simp del]

lemma raises_False [simp]: "raises ((False, e) # rest) = raises rest"
  and raises_True [simp]: "raises ((True, e) # rest) = Some e"
  by (simp_all add: raises.simps)

lemma orelse_None_iff [result_simps]: "orelse c d = None \<longleftrightarrow> c = None \<and> d = None"
  by (simp add: orelse_def split: option.split)

lemma raises_append: "raises (xs @ ys) = (case raises xs of None \<Rightarrow> raises ys | Some e \<Rightarrow> Some e)"
  by (induction xs rule: raises.induct) (auto simp: raises.simps)

lemma raises_append_None [simp]: "raises (xs @ ys) = None \<longleftrightarrow> raises xs = None \<and> raises ys = None"
  by (simp add: raises_append split: option.split)

lemma raises_map_None [simp]: "raises (map (\<lambda>x. (f x, g x)) xs) = None \<longleftrightarrow> (\<forall>x \<in> set xs. \<not> f x)"
  by (induction xs) auto

lemma raises_map_pair_None [simp]:
  "raises (map (\<lambda>(x, y). (f x y, g x y)) xs) = None \<longleftrightarrow> (\<forall>(x, y) \<in> set xs. \<not> f x y)"
  by (induction xs) auto

lemma raises_Some_member: "raises cs = Some e \<Longrightarrow> (True, e) \<in> set cs"
  by (induction cs rule: raises.induct) (auto simp: raises.simps split: if_splits)

lemma rbind_Inr_iff [result_simps]: "rbind r f = Inr z \<longleftrightarrow> (\<exists>y. r = Inr y \<and> f y = Inr z)"
  by (cases r) auto

lemma rbind_Inl_iff: "rbind r f = Inl e \<longleftrightarrow> r = Inl e \<or> (\<exists>y. r = Inr y \<and> f y = Inl e)"
  by (cases r) auto

lemma rbind_assoc: "rbind (rbind r f) g = rbind r (\<lambda>x. rbind (f x) g)"
  by (cases r) auto

lemma check_Inr_iff [result_simps]: "check c r = Inr z \<longleftrightarrow> c = None \<and> r = Inr z"
  by (simp add: check_def split: option.split)

lemma check_None [simp]: "check None r = r"
  and check_Some [simp]: "check (Some e) r = Inl e"
  by (simp_all add: check_def)

lemma traverse_Inr_iff [result_simps]:
  "traverse f xs = Inr ys \<longleftrightarrow> list_all2 (\<lambda>x y. f x = Inr y) xs ys"
  by (induction xs arbitrary: ys) (auto simp: rbind_Inr_iff list_all2_Cons1)

lemma traverse_length: "traverse f xs = Inr ys \<Longrightarrow> length ys = length xs"
  by (auto simp: traverse_Inr_iff list_all2_lengthD)

lemma traverse_nth: "traverse f xs = Inr ys \<Longrightarrow> i < length xs \<Longrightarrow> f (xs ! i) = Inr (ys ! i)"
  by (auto simp: traverse_Inr_iff dest: list_all2_nthD)

lemma traverse_cong [fundef_cong]:
  "xs = ys \<Longrightarrow> (\<And>x. x \<in> set ys \<Longrightarrow> f x = g x) \<Longrightarrow> traverse f xs = traverse g ys"
  by (induction xs arbitrary: ys) auto

lemma traverse_total: "(\<And>x. x \<in> set xs \<Longrightarrow> \<exists>y. f x = Inr y) \<Longrightarrow> \<exists>ys. traverse f xs = Inr ys"
proof (induction xs)
  case (Cons x xs)
  then obtain y ys where "f x = Inr y" "traverse f xs = Inr ys" by fastforce
  then show ?case by simp
qed simp

lemma traverse_Inl_member: "traverse f xs = Inl e \<Longrightarrow> \<exists>x \<in> set xs. f x = Inl e"
  by (induction xs) (auto simp: rbind_Inl_iff)

section \<open>Lists\<close>

text \<open>\<open>itertools.pairwise\<close>.\<close>

fun pairwise :: "'a list \<Rightarrow> ('a \<times> 'a) list" where
  "pairwise (x # y # zs) = (x, y) # pairwise (y # zs)"
| "pairwise zs = []"

lemma pairwise_sorted_wrt:
  assumes "transp P" "\<forall>(x, y) \<in> set (pairwise xs). P x y"
  shows "sorted_wrt P xs"
  using assms(2)
proof (induction xs rule: pairwise.induct)
  case (1 x y zs)
  then have IH: "sorted_wrt P (y # zs)" and xy: "P x y" by auto
  have "P x z" if "z \<in> set zs" for z
    using IH xy that assms(1) by (auto dest: transpD)
  then show ?case using IH xy by simp
qed simp_all

lemma sorted_wrt_pairwise: "sorted_wrt P xs \<Longrightarrow> (x, y) \<in> set (pairwise xs) \<Longrightarrow> P x y"
  by (induction xs rule: pairwise.induct) auto

lemma distinct_map_filter_unique:
  "distinct (map f xs) \<Longrightarrow> x \<in> set xs \<Longrightarrow> y \<in> set xs \<Longrightarrow> f x = f y \<Longrightarrow> x = y"
  by (auto simp: distinct_map inj_on_def)

lemma map_of_distinct_Some:
  "distinct (map f xs) \<Longrightarrow> x \<in> set xs \<Longrightarrow> map_of (map (\<lambda>y. (f y, g y)) xs) (f x) = Some (g x)"
  by (induction xs) (auto simp: image_iff)

lemma find_None_all: "find P xs = None \<longleftrightarrow> (\<forall>x \<in> set xs. \<not> P x)"
  by (auto simp: find_None_iff)

lemma find_Some_mem: "find P xs = Some x \<Longrightarrow> x \<in> set xs \<and> P x"
  by (auto simp: find_Some_iff)

section \<open>Character classes\<close>

definition is_digit :: "char \<Rightarrow> bool" where
  "is_digit c \<longleftrightarrow> CHR ''0'' \<le> c \<and> c \<le> CHR ''9''"

definition is_lower :: "char \<Rightarrow> bool" where
  "is_lower c \<longleftrightarrow> CHR ''a'' \<le> c \<and> c \<le> CHR ''z''"

definition is_upper :: "char \<Rightarrow> bool" where
  "is_upper c \<longleftrightarrow> CHR ''A'' \<le> c \<and> c \<le> CHR ''Z''"

definition is_hex :: "char \<Rightarrow> bool" where
  "is_hex c \<longleftrightarrow> is_digit c \<or> (CHR ''a'' \<le> c \<and> c \<le> CHR ''f'')"

fun startswith :: "string \<Rightarrow> string \<Rightarrow> bool" where
  "startswith s [] = True"
| "startswith [] (p # ps) = False"
| "startswith (c # cs) (p # ps) = (c = p \<and> startswith cs ps)"

lemma startswith_iff: "startswith s p \<longleftrightarrow> (\<exists>r. s = p @ r)"
  by (induction s p rule: startswith.induct) auto

end
