(* ===== verification/Binary64.thy ===== *)
theory Binary64
  imports Prelude Complex_Main "HOL-Library.Log_Nat"
begin

text \<open>
  Python floats.  A finite \<open>float\<close> is a rational that IEEE 754 binary64 represents exactly, and
  \<open>+\<close>, \<open>-\<close>, \<open>*\<close>, \<open>/\<close> return the exact result rounded to nearest, ties to even, by \<open>fl64\<close>
  (53-bit significand, subnormals below \<open>2^-1022\<close>).  Overflow to infinity is not represented:
  every magnitude in the modelled code is bounded by \<open>8192 * 10^6\<close>.  \<open>fsum\<close> is the built-in
  \<open>sum\<close> of CPython 3.11, the version the project pins: a left fold from 0.

  The locale \<open>rounding\<close> collects what the clients use of the rounding function; \<open>fl64\<close>
  interprets it.
\<close>

section \<open>Rounding to nearest, ties to even\<close>

definition rne :: "rat \<Rightarrow> int" where
  "rne r = (let f = \<lfloor>r\<rfloor>; d = r - of_int f in
     if d < 1/2 then f else if d > 1/2 then f + 1 else if even f then f else f + 1)"

text \<open>\<open>ilog2 x\<close> is the binary exponent of a positive \<open>x\<close>: \<open>2^e \<le> x < 2^(e+1)\<close>.\<close>

definition ilog2 :: "rat \<Rightarrow> int" where
  "ilog2 x = (let (n, d) = quotient_of x; e = bitlen n - bitlen d in
     if 2 powi e \<le> x then e else e - 1)"

definition ulp64 :: "rat \<Rightarrow> rat" where
  "ulp64 x = 2 powi (max (ilog2 \<bar>x\<bar>) (-1022) - 52)"

definition fl64 :: "rat \<Rightarrow> rat" where
  "fl64 x = (if x = 0 then 0 else of_int (rne (x / ulp64 x)) * ulp64 x)"

definition is_f64 :: "rat \<Rightarrow> bool" where
  "is_f64 x \<longleftrightarrow> fl64 x = x"

definition fadd :: "rat \<Rightarrow> rat \<Rightarrow> rat" where "fadd a b = fl64 (a + b)"
definition fsub :: "rat \<Rightarrow> rat \<Rightarrow> rat" where "fsub a b = fl64 (a - b)"
definition fmul :: "rat \<Rightarrow> rat \<Rightarrow> rat" where "fmul a b = fl64 (a * b)"
definition fdiv :: "rat \<Rightarrow> rat \<Rightarrow> rat" where "fdiv a b = fl64 (a / b)"

definition fsum :: "rat list \<Rightarrow> rat" where
  "fsum xs = foldl fadd 0 xs"

lemma rne_mono: "r \<le> s \<Longrightarrow> rne r \<le> rne s"
proof -
  assume rs: "r \<le> s"
  then have fl: "\<lfloor>r\<rfloor> \<le> \<lfloor>s\<rfloor>" by (rule floor_mono)
  show ?thesis
  proof (cases "\<lfloor>r\<rfloor> = \<lfloor>s\<rfloor>")
    case True
    then show ?thesis using rs by (auto simp: rne_def Let_def)
  next
    case False
    then have "\<lfloor>r\<rfloor> + 1 \<le> \<lfloor>s\<rfloor>" using fl by simp
    moreover have "rne r \<le> \<lfloor>r\<rfloor> + 1" "\<lfloor>s\<rfloor> \<le> rne s" by (auto simp: rne_def Let_def)
    ultimately show ?thesis by simp
  qed
qed

lemma rne_of_int [simp]: "rne (of_int i) = i"
  by (simp add: rne_def)

lemma rne_error: "\<bar>of_int (rne r) - r\<bar> \<le> 1/2"
proof -
  have "0 \<le> r - of_int \<lfloor>r\<rfloor>" "r - of_int \<lfloor>r\<rfloor> < 1" by linarith+
  then show ?thesis by (auto simp: rne_def Let_def abs_le_iff)
qed

lemma rne_uminus: "rne (- r) = - rne r"
proof (cases "r = of_int \<lfloor>r\<rfloor>")
  case True
  then show ?thesis using rne_of_int[of "\<lfloor>r\<rfloor>"] rne_of_int[of "- \<lfloor>r\<rfloor>"] by simp
next
  case False
  then have "\<lfloor>- r\<rfloor> = - \<lfloor>r\<rfloor> - 1"
    by (simp add: floor_minus ceiling_altdef)
  then show ?thesis by (auto simp: rne_def Let_def)
qed


lemma bitlen_powi_bounds:
  assumes "0 < (n::int)"
  shows "(2::rat) powi (bitlen n - 1) \<le> of_int n" "of_int n < (2::rat) powi (bitlen n)"
proof -
  have b: "2 ^ nat (bitlen n - 1) \<le> n" "n < 2 ^ nat (bitlen n)"
    using bitlen_bounds[OF assms] by auto
  have p: "0 < bitlen n" using assms bitlen_nonneg[of n] bitlen_eq_zero_iff[of n] by linarith
  have "(2::rat) powi (bitlen n - 1) = of_int (2 ^ nat (bitlen n - 1))"
    using p by (simp add: power_int_def)
  then show "(2::rat) powi (bitlen n - 1) \<le> of_int n" using b(1) by (simp only: of_int_le_iff)
  have "(2::rat) powi (bitlen n) = of_int (2 ^ nat (bitlen n))"
    using p by (simp add: power_int_def)
  then show "of_int n < (2::rat) powi (bitlen n)" using b(2) by (simp only: of_int_less_iff)
qed

lemma ilog2_bounds:
  assumes "0 < x"
  shows "2 powi (ilog2 x) \<le> x" "x < 2 powi (ilog2 x + 1)"
proof -
  obtain n d where q: "quotient_of x = (n, d)" by fastforce
  have d: "0 < d" using quotient_of_denom_pos[OF q] .
  have x: "x = of_int n / of_int d" using quotient_of_div[OF q] .
  have n: "0 < n" using assms d unfolding x by (simp add: zero_less_divide_iff)
  let ?e = "bitlen n - bitlen d"
  have "x < 2 powi (bitlen n) / 2 powi (bitlen d - 1)"
    unfolding x using bitlen_powi_bounds[OF n] bitlen_powi_bounds[OF d] n d
    by (intro frac_less) auto
  then have hi: "x < 2 powi (?e + 1)" by (simp add: power_int_diff power_int_add)
  have "2 powi (bitlen n - 1) / 2 powi (bitlen d) \<le> x"
    unfolding x using bitlen_powi_bounds[OF n] bitlen_powi_bounds[OF d] n d
    by (intro frac_le) auto
  then have lo: "2 powi (?e - 1) \<le> x" by (simp add: power_int_diff)
  have il: "ilog2 x = (if 2 powi ?e \<le> x then ?e else ?e - 1)"
    by (simp add: ilog2_def q Let_def)
  show "2 powi (ilog2 x) \<le> x" "x < 2 powi (ilog2 x + 1)"
    using lo hi by (auto simp: il)
qed

definition exp64 :: "rat \<Rightarrow> int" where
  "exp64 x = max (ilog2 \<bar>x\<bar>) (-1022)"

lemma powi_two_mono: "a \<le> b \<Longrightarrow> (2::rat) powi a \<le> 2 powi b"
  by (rule power_int_increasing) auto

lemma powi_two_less: "a < b \<longleftrightarrow> (2::rat) powi a < 2 powi b"
  by (metis not_less power_int_strict_increasing powi_two_mono one_less_numeral_iff
      semiring_norm(76))

lemma ulp64_pos: "0 < ulp64 x"
  by (simp add: ulp64_def)

lemma ulp64_exp64: "ulp64 x = 2 powi (exp64 x - 52)"
  by (simp add: ulp64_def exp64_def)

lemma abs_less_exp64: "x \<noteq> 0 \<Longrightarrow> \<bar>x\<bar> < 2 powi (exp64 x + 1)"
  using ilog2_bounds(2)[of "\<bar>x\<bar>"] powi_two_mono[of "ilog2 \<bar>x\<bar> + 1" "exp64 x + 1"]
  by (simp add: exp64_def)

lemma exp64_mono: "0 < x \<Longrightarrow> x \<le> y \<Longrightarrow> exp64 x \<le> exp64 y"
proof -
  assume x: "0 < x" "x \<le> y"
  have "2 powi (ilog2 x) < (2::rat) powi (ilog2 y + 1)"
    using ilog2_bounds(1)[OF x(1)] ilog2_bounds(2)[of y] x by linarith
  then have "ilog2 x < ilog2 y + 1" by (simp only: powi_two_less)
  then show ?thesis using x by (simp add: exp64_def)
qed

text \<open>Powers of two at and above the last place are multiples of it.\<close>

lemma powi_over_ulp: "0 \<le> k \<Longrightarrow> 2 powi (exp64 x - 52 + k) / ulp64 x = of_int (2 ^ nat k)"
proof -
  assume k: "0 \<le> k"
  have "(2::rat) powi (exp64 x - 52 + k) = 2 powi (exp64 x - 52) * 2 powi k"
    by (rule power_int_add) simp
  moreover have "(2::rat) powi k = of_int (2 ^ nat k)" using k by (simp add: power_int_def)
  ultimately show ?thesis by (simp add: ulp64_exp64)
qed

lemma fl64_zero [simp]: "fl64 0 = 0"
  by (simp add: fl64_def)

lemma fl64_uminus: "fl64 (- x) = - fl64 x"
  by (simp add: fl64_def ulp64_def rne_uminus)

lemma fl64_pos_upper:
  assumes "0 < x" shows "fl64 x \<le> 2 powi (exp64 x + 1)"
proof -
  have "x / ulp64 x \<le> 2 powi (exp64 x - 52 + 53) / ulp64 x"
    using abs_less_exp64[of x] assms ulp64_pos[of x] by (intro divide_right_mono) (auto simp: add.commute)
  also have "\<dots> = of_int (2 ^ nat 53)" by (rule powi_over_ulp) simp
  finally have "rne (x / ulp64 x) \<le> 2 ^ nat 53" using rne_mono rne_of_int by metis
  then have "of_int (rne (x / ulp64 x)) * ulp64 x \<le> of_int (2 ^ nat 53) * ulp64 x"
    using ulp64_pos[of x] by (intro mult_right_mono) (auto simp: le_less)
  also have "\<dots> = 2 powi (exp64 x - 52 + 53)"
    using powi_over_ulp[of 53 x] ulp64_pos[of x] by (simp add: field_simps)
  finally show ?thesis using assms by (simp add: fl64_def add.commute)
qed

lemma fl64_pos_lower:
  assumes "0 < x" "0 \<le> k" "2 powi (exp64 x - 52 + k) \<le> x"
  shows "2 powi (exp64 x - 52 + k) \<le> fl64 x"
proof -
  have "of_int (2 ^ nat k) \<le> x / ulp64 x"
    using divide_right_mono[OF assms(3), of "ulp64 x"] ulp64_pos[of x] powi_over_ulp[OF assms(2), of x]
    by simp
  then have "2 ^ nat k \<le> rne (x / ulp64 x)" using rne_mono rne_of_int by metis
  then have "of_int (2 ^ nat k) * ulp64 x \<le> of_int (rne (x / ulp64 x)) * ulp64 x"
    using ulp64_pos[of x] by (intro mult_right_mono) (auto simp: le_less)
  moreover have "of_int (2 ^ nat k) * ulp64 x = 2 powi (exp64 x - 52 + k)"
    using powi_over_ulp[OF assms(2), of x] ulp64_pos[of x] by (simp add: field_simps)
  ultimately show ?thesis using assms(1) by (simp add: fl64_def)
qed

lemma fl64_nonneg: "0 \<le> x \<Longrightarrow> 0 \<le> fl64 x"
proof (cases "x = 0")
  case False
  assume "0 \<le> x"
  then have "0 \<le> x / ulp64 x" using ulp64_pos[of x] by simp
  then have "0 \<le> rne (x / ulp64 x)" using rne_mono[of 0] rne_of_int[of 0] by fastforce
  then show ?thesis using ulp64_pos[of x] by (simp add: fl64_def)
qed simp

lemma fl64_mono_pos:
  assumes "0 < x" "x \<le> y" shows "fl64 x \<le> fl64 y"
proof (cases "exp64 x = exp64 y")
  case True
  then have u: "ulp64 x = ulp64 y" by (simp add: ulp64_exp64)
  have "x / ulp64 y \<le> y / ulp64 y" using assms(2) ulp64_pos[of y] by (simp add: divide_right_mono)
  then have "rne (x / ulp64 y) \<le> rne (y / ulp64 y)" by (rule rne_mono)
  then show ?thesis using assms u ulp64_pos[of y] by (simp add: fl64_def mult_right_mono)
next
  case False
  then have lt: "exp64 x + 1 \<le> exp64 y" using exp64_mono[OF assms] by simp
  then have "exp64 y = ilog2 y" using assms by (auto simp: exp64_def)
  then have "2 powi (exp64 y) \<le> y" using ilog2_bounds(1)[of y] assms by simp
  then have "2 powi (exp64 y) \<le> fl64 y" using fl64_pos_lower[of y 52] assms by simp
  moreover have "fl64 x \<le> 2 powi (exp64 y)"
    using fl64_pos_upper[OF assms(1)] powi_two_mono[OF lt] by linarith
  ultimately show ?thesis by linarith
qed

lemma fl64_mono: "x \<le> y \<Longrightarrow> fl64 x \<le> fl64 y"
proof -
  assume xy: "x \<le> y"
  consider "0 < x" | "x \<le> 0" "0 \<le> y" | "y < 0" by linarith
  then show ?thesis
  proof cases
    case 1
    then show ?thesis using fl64_mono_pos xy by blast
  next
    case 2
    have "fl64 x \<le> 0" using fl64_nonneg[of "- x"] 2 by (simp add: fl64_uminus)
    then show ?thesis using fl64_nonneg[of y] 2 by linarith
  next
    case 3
    then show ?thesis using fl64_mono_pos[of "- y" "- x"] xy by (simp add: fl64_uminus)
  qed
qed

lemma fl64_integral:
  assumes "x / ulp64 x = of_int i" shows "fl64 x = x"
proof -
  have "rne (x / ulp64 x) = i" by (simp only: assms rne_of_int)
  then have "of_int (rne (x / ulp64 x)) * ulp64 x = x / ulp64 x * ulp64 x" by (simp only: assms)
  also have "\<dots> = x" using ulp64_pos[of x] by simp
  finally show ?thesis by (simp add: fl64_def)
qed

text \<open>Every multiple of the last place of \<open>x\<close> up to the next binade is represented exactly.\<close>

lemma fl64_exact:
  assumes "x = of_int m * 2 powi q" "\<bar>m\<bar> \<le> 2 ^ 53" "-1074 \<le> q"
  shows "fl64 x = x"
proof (cases "\<bar>m\<bar> = 2 ^ 53 \<or> x = 0")
  case True
  then show ?thesis
  proof
    assume "x = 0" then show ?thesis by simp
  next
    assume m: "\<bar>m\<bar> = 2 ^ 53"
    have xs: "x = of_int (sgn m) * 2 powi (q + 53)"
    proof -
      have "x = of_int (sgn m * \<bar>m\<bar>) * 2 powi q" by (simp add: assms(1) sgn_mult_abs)
      also have "\<dots> = of_int (sgn m) * ((2::rat) ^ 53 * 2 powi q)" using m by simp
      also have "(2::rat) ^ 53 * 2 powi q = 2 powi (q + 53)" by (simp add: power_int_add)
      finally show ?thesis .
    qed
    then have ax: "\<bar>x\<bar> = 2 powi (q + 53)" using m by (cases "m = 0") (auto simp: abs_mult sgn_if)
    have x0: "x \<noteq> 0" using ax by auto
    have "ilog2 \<bar>x\<bar> = q + 53"
    proof -
      have "2 powi (ilog2 \<bar>x\<bar>) \<le> (2::rat) powi (q + 53)" "(2::rat) powi (q + 53) < 2 powi (ilog2 \<bar>x\<bar> + 1)"
        using ilog2_bounds[of "\<bar>x\<bar>"] ax x0 by auto
      then show ?thesis by (metis powi_two_less not_less zle_add1_eq_le order_antisym)
    qed
    then have e: "exp64 x = q + 53" using assms(3) by (simp add: exp64_def)
    have "x / ulp64 x = of_int (sgn m * 2 ^ 52)"
    proof -
      have "x / ulp64 x = of_int (sgn m) * (2 powi (q + 53) / ulp64 x)"
        by (subst xs) simp
      moreover have "2 powi (q + 53) / ulp64 x = of_int (2 ^ 52)"
        using powi_over_ulp[of 52 x] e by (simp add: add.commute)
      ultimately show ?thesis by (simp only: of_int_mult)
    qed
    then show ?thesis by (rule fl64_integral)
  qed
next
  case False
  then have m: "\<bar>m\<bar> < 2 ^ 53" and x0: "x \<noteq> 0" using assms(2) by auto
  have "of_int \<bar>m\<bar> < (2::rat) ^ 53" using m by (metis of_int_less_iff of_int_numeral of_int_power)
  then have "\<bar>x\<bar> < 2 ^ 53 * 2 powi q" by (simp add: assms(1) abs_mult)
  also have "\<dots> = 2 powi (q + 53)" by (simp add: power_int_add)
  finally have "2 powi (ilog2 \<bar>x\<bar>) < (2::rat) powi (q + 53)"
    using ilog2_bounds(1)[of "\<bar>x\<bar>"] x0 by linarith
  then have "ilog2 \<bar>x\<bar> < q + 53" by (simp only: powi_two_less)
  then have e: "exp64 x - 52 \<le> q" using assms(3) by (simp add: exp64_def)
  have "x / ulp64 x = of_int m * (2 powi (exp64 x - 52 + (q - (exp64 x - 52))) / ulp64 x)"
    by (simp add: assms(1))
  also have "\<dots> = of_int (m * 2 ^ nat (q - (exp64 x - 52)))"
    using powi_over_ulp[of "q - (exp64 x - 52)" x] e by simp
  finally show ?thesis by (rule fl64_integral)
qed

lemma fl64_idem: "fl64 (fl64 x) = fl64 x"
proof (cases "x = 0")
  case False
  have "\<bar>x / ulp64 x\<bar> \<le> 2 powi (exp64 x - 52 + 53) / ulp64 x"
    using abs_less_exp64[OF False] ulp64_pos[of x] by (simp add: abs_divide divide_right_mono add.commute)
  also have "\<dots> = of_int (2 ^ nat 53)" by (rule powi_over_ulp) simp
  finally have "\<bar>x / ulp64 x\<bar> \<le> of_int (2 ^ 53)" by simp
  then have "x / ulp64 x \<le> of_int (2 ^ 53)" "of_int (- (2 ^ 53)) \<le> x / ulp64 x"
    by (simp_all only: abs_le_iff of_int_minus) linarith+
  then have "rne (x / ulp64 x) \<le> 2 ^ 53" "- (2 ^ 53) \<le> rne (x / ulp64 x)"
    using rne_mono rne_of_int by metis+
  then have "\<bar>rne (x / ulp64 x)\<bar> \<le> 2 ^ 53" by linarith
  moreover have "-1074 \<le> exp64 x - 52" by (simp add: exp64_def)
  ultimately show ?thesis
    using fl64_exact[of "fl64 x" "rne (x / ulp64 x)" "exp64 x - 52"] False
    by (simp add: fl64_def ulp64_exp64)
qed simp

lemma is_f64_fl64 [simp]: "is_f64 (fl64 x)"
  by (simp add: is_f64_def fl64_idem)

lemma fl64_of_int: "\<bar>i\<bar> \<le> 2 ^ 53 \<Longrightarrow> fl64 (of_int i) = of_int i"
  using fl64_exact[of "of_int i" i 0] by simp

lemma fl64_one [simp]: "fl64 1 = 1"
  using fl64_of_int[of 1] by simp

lemma fl64_error:
  assumes "\<bar>x\<bar> < 2 powi e" "-1022 < e"
  shows "\<bar>fl64 x - x\<bar> \<le> 2 powi (e - 54)"
proof (cases "x = 0")
  case False
  have "2 powi (ilog2 \<bar>x\<bar>) < (2::rat) powi e" using ilog2_bounds(1)[of "\<bar>x\<bar>"] False assms(1) by simp
  then have "ilog2 \<bar>x\<bar> < e" by (simp only: powi_two_less)
  then have "exp64 x - 52 \<le> e - 53" using assms(2) by (simp add: exp64_def)
  then have u: "ulp64 x \<le> 2 powi (e - 53)" unfolding ulp64_exp64 by (rule powi_two_mono)
  have "fl64 x - x = (of_int (rne (x / ulp64 x)) - x / ulp64 x) * ulp64 x"
    using False ulp64_pos[of x] by (simp add: fl64_def left_diff_distrib)
  then have "\<bar>fl64 x - x\<bar> = \<bar>of_int (rne (x / ulp64 x)) - x / ulp64 x\<bar> * ulp64 x"
    using ulp64_pos[of x] by (simp add: abs_mult)
  also have "\<dots> \<le> 1/2 * ulp64 x" using rne_error ulp64_pos[of x] by (intro mult_right_mono) auto
  also have "\<dots> \<le> 1/2 * 2 powi (e - 53)" using u by simp
  also have "\<dots> = 2 powi (e - 54)" using power_int_add[of "2::rat" "e - 54" 1] by (simp add: algebra_simps)
  finally show ?thesis .
qed simp

section \<open>What the clients use of rounding\<close>

locale rounding =
  fixes rnd :: "rat \<Rightarrow> rat"
  assumes rnd_mono: "x \<le> y \<Longrightarrow> rnd x \<le> rnd y"
    and rnd_idem: "rnd (rnd x) = rnd x"
    and rnd_zero: "rnd 0 = 0"
    and rnd_one: "rnd 1 = 1"
begin

lemma rnd_unit: "0 \<le> x \<Longrightarrow> x \<le> 1 \<Longrightarrow> 0 \<le> rnd x \<and> rnd x \<le> 1"
  using rnd_mono rnd_zero rnd_one by metis

lemma rnd_fixed_le: "rnd a = a \<Longrightarrow> a \<le> x \<Longrightarrow> a \<le> rnd x"
  using rnd_mono by metis

lemma rnd_le_fixed: "rnd b = b \<Longrightarrow> x \<le> b \<Longrightarrow> rnd x \<le> b"
  using rnd_mono by metis

lemma sum_ge_start:
  "rnd a = a \<Longrightarrow> \<forall>x \<in> set xs. 0 \<le> x \<Longrightarrow> a \<le> foldl (\<lambda>s x. rnd (s + x)) a xs"
proof (induction xs arbitrary: a)
  case (Cons x xs)
  have "a \<le> rnd (a + x)" using Cons.prems by (intro rnd_fixed_le) auto
  also have "\<dots> \<le> foldl (\<lambda>s x. rnd (s + x)) (rnd (a + x)) xs"
    using Cons.prems by (intro Cons.IH) (auto simp: rnd_idem)
  finally show ?case by simp
qed simp

text \<open>The rounded sum of a sublist of nonnegative terms never exceeds the rounded sum of all.\<close>

lemma sum_filter_le:
  "rnd b = b \<Longrightarrow> a \<le> b \<Longrightarrow> \<forall>x \<in> set xs. 0 \<le> f x \<Longrightarrow>
    foldl (\<lambda>s x. rnd (s + x)) a (map f (filter P xs)) \<le> foldl (\<lambda>s x. rnd (s + x)) b (map f xs)"
proof (induction xs arbitrary: a b)
  case (Cons x xs)
  show ?case
  proof (cases "P x")
    case True
    have "rnd (a + f x) \<le> rnd (b + f x)" using Cons.prems by (intro rnd_mono) simp
    then show ?thesis using True Cons.prems Cons.IH[of "rnd (b + f x)" "rnd (a + f x)"]
      by (simp add: rnd_idem)
  next
    case False
    have "b \<le> rnd (b + f x)" using Cons.prems by (intro rnd_fixed_le) auto
    then show ?thesis using False Cons.prems Cons.IH[of "rnd (b + f x)" a] by (simp add: rnd_idem)
  qed
qed simp

lemma quotient_unit: "0 \<le> p \<Longrightarrow> p \<le> t \<Longrightarrow> 0 \<le> rnd (p / t) \<and> rnd (p / t) \<le> 1"
  by (rule rnd_unit) (auto simp: divide_le_eq_1)

end

interpretation f64: rounding fl64
  by unfold_locales (auto simp: fl64_mono fl64_idem)

lemma fsum_fold: "fsum xs = foldl (\<lambda>s x. fl64 (s + x)) 0 xs"
  unfolding fsum_def by (simp add: fadd_def[abs_def])

lemma fsum_nonneg: "\<forall>x \<in> set xs. 0 \<le> x \<Longrightarrow> 0 \<le> fsum xs"
  unfolding fsum_fold by (rule f64.sum_ge_start) auto

lemma fsum_filter_le: "\<forall>x \<in> set xs. 0 \<le> f x \<Longrightarrow> fsum (map f (filter P xs)) \<le> fsum (map f xs)"
  unfolding fsum_fold by (rule f64.sum_filter_le) auto

lemma fadd_mono: "a \<le> a' \<Longrightarrow> b \<le> b' \<Longrightarrow> fadd a b \<le> fadd a' b'"
  by (simp add: fadd_def fl64_mono add_mono)

lemma fdiv_unit: "0 \<le> p \<Longrightarrow> p \<le> t \<Longrightarrow> 0 \<le> fdiv p t \<and> fdiv p t \<le> 1"
  unfolding fdiv_def by (rule f64.quotient_unit)

lemma fmul_unit_le:
  "is_f64 c \<Longrightarrow> 0 \<le> c \<Longrightarrow> 0 \<le> x \<Longrightarrow> x \<le> 1 \<Longrightarrow> 0 \<le> fmul c x \<and> fmul c x \<le> c"
  unfolding fmul_def is_f64_def
  by (metis f64.rnd_fixed_le f64.rnd_le_fixed fl64_zero mult_left_le mult_nonneg_nonneg)

text \<open>\<open>f + (1 - f)\<close> never rounds above 1 for a float \<open>f\<close> in the unit interval.\<close>

lemma fadd_fsub_one_le:
  assumes "0 \<le> f" "f \<le> 1" shows "fadd f (fsub 1 f) \<le> 1"
proof (cases "f = 0")
  case True
  then show ?thesis by (simp add: fadd_def fsub_def)
next
  case False
  have "\<bar>fl64 (1 - f) - (1 - f)\<bar> \<le> 2 powi (0 - 54)"
    using assms False by (intro fl64_error) auto
  then have "f + fl64 (1 - f) \<le> 1 + 2 powi (-54)" unfolding abs_le_iff by simp
  then have "fl64 (f + fl64 (1 - f)) \<le> fl64 (1 + 2 powi (-54))" by (rule fl64_mono)
  also have "\<dots> = 1" by code_simp
  finally show ?thesis by (simp add: fadd_def fsub_def)
qed

end
