(* ===== verification/Canonical.thy ===== *)
theory Canonical
  imports Complex_Main Prelude "HOL-Library.Word"
begin

text \<open>
  \<open>canonical.py\<close>: canonical JSON and content digests.  \<open>json\<close> is the JSON-compatible data a
  Pydantic model dumps to (finite floats, objects as key/value lists); \<open>json_dumps\<close> is
  \<open>json.dumps(ensure_ascii=False, sort_keys=True, separators=(",", ":"))\<close>.  SHA-256
  (\<open>hashlib\<close>) and the shortest float representation (\<open>float.__repr__\<close>) are the two
  parameters collected in \<open>hasher\<close>.
\<close>

type_synonym byte = "8 word"

datatype json =
    JNull
  | JBool bool
  | JInt int
  | JFloat rat
  | JStr string
  | JArr "json list"
  | JObj "(string \<times> json) list"

record hasher =
  sha256 :: "byte list \<Rightarrow> string"
  float_repr :: "rat \<Rightarrow> string"

section \<open>Serialisation\<close>

definition digit :: "nat \<Rightarrow> char" where
  "digit d = char_of (48 + d)"

fun nat_repr :: "nat \<Rightarrow> string" where
  "nat_repr n = (if n < 10 then [digit n] else nat_repr (n div 10) @ [digit (n mod 10)])"

declare nat_repr.simps [simp del]

definition int_repr :: "int \<Rightarrow> string" where
  "int_repr i = (if i < 0 then CHR ''-'' # nat_repr (nat (- i)) else nat_repr (nat i))"

definition hex_digit :: "nat \<Rightarrow> char" where
  "hex_digit d = (if d < 10 then char_of (48 + d) else char_of (87 + d))"

definition bslash :: char where
  "bslash = char_of (92 :: nat)"

definition dquote :: char where
  "dquote = char_of (34 :: nat)"

definition escape_char :: "char \<Rightarrow> string" where
  "escape_char c =
     (if c = dquote then [bslash, dquote]
      else if c = bslash then [bslash, bslash]
      else if c = char_of (10::nat) then [bslash, CHR ''n'']
      else if c = char_of (13::nat) then [bslash, CHR ''r'']
      else if c = char_of (9::nat) then [bslash, CHR ''t'']
      else if c = char_of (12::nat) then [bslash, CHR ''f'']
      else if c = char_of (8::nat) then [bslash, CHR ''b'']
      else if of_char c < (32::nat)
        then [bslash] @ ''u00'' @ [hex_digit (of_char c div 16), hex_digit (of_char c mod 16)]
      else [c])"

definition string_repr :: "string \<Rightarrow> string" where
  "string_repr s = [dquote] @ concat (map escape_char s) @ [dquote]"

fun join_comma :: "string list \<Rightarrow> string" where
  "join_comma [] = []"
| "join_comma [x] = x"
| "join_comma (x # y # zs) = x @ '','' @ join_comma (y # zs)"

fun json_dumps :: "(rat \<Rightarrow> string) \<Rightarrow> json \<Rightarrow> string" where
  "json_dumps fr JNull = ''null''"
| "json_dumps fr (JBool b) = (if b then ''true'' else ''false'')"
| "json_dumps fr (JInt i) = int_repr i"
| "json_dumps fr (JFloat x) = fr x"
| "json_dumps fr (JStr s) = string_repr s"
| "json_dumps fr (JArr xs) = ''['' @ join_comma (map (json_dumps fr) xs) @ '']''"
| "json_dumps fr (JObj kvs) =
     ''{'' @ join_comma (map (\<lambda>(k, v). string_repr k @ '':'' @ v)
        (sort_key fst (map (\<lambda>(k, v). (k, json_dumps fr v)) kvs))) @ ''}''"

definition utf8_char :: "char \<Rightarrow> byte list" where
  "utf8_char c = (let n = of_char c :: nat in
     if n < 128 then [of_nat n] else [of_nat (192 + n div 64), of_nat (128 + n mod 64)])"

definition utf8 :: "string \<Rightarrow> byte list" where
  "utf8 s = concat (map utf8_char s)"

definition canonical_json_bytes :: "hasher \<Rightarrow> json \<Rightarrow> byte list" where
  "canonical_json_bytes h v = utf8 (json_dumps (float_repr h) v) @ [10]"

definition sha256_json :: "hasher \<Rightarrow> json \<Rightarrow> string" where
  "sha256_json h v = sha256 h (canonical_json_bytes h v)"

text \<open>\<open>_reject_duplicate_keys\<close>, the hook every parsed object goes through.\<close>

fun reject_duplicate_keys_from :: "string set \<Rightarrow> (string \<times> 'v) list \<Rightarrow> (string \<times> 'v) list result" where
  "reject_duplicate_keys_from seen [] = Inr []"
| "reject_duplicate_keys_from seen ((k, v) # rest) =
     (if k \<in> seen then Inl (Exn ''CanonicalJSONError'' (''duplicate JSON key: '' @ k))
      else rbind (reject_duplicate_keys_from (insert k seen) rest) (\<lambda>r. Inr ((k, v) # r)))"

definition reject_duplicate_keys :: "(string \<times> 'v) list \<Rightarrow> (string \<times> 'v) list result" where
  "reject_duplicate_keys pairs = reject_duplicate_keys_from {} pairs"

text \<open>Dump helpers for optional and repeated fields.\<close>

definition jopt :: "('a \<Rightarrow> json) \<Rightarrow> 'a option \<Rightarrow> json" where
  "jopt f x = (case x of None \<Rightarrow> JNull | Some y \<Rightarrow> f y)"

definition jarr :: "('a \<Rightarrow> json) \<Rightarrow> 'a list \<Rightarrow> json" where
  "jarr f xs = JArr (map f xs)"

definition jdict :: "('a \<Rightarrow> json) \<Rightarrow> (string \<times> 'a) list \<Rightarrow> json" where
  "jdict f kvs = JObj (map (\<lambda>(k, v). (k, f v)) kvs)"

end
