(* ===== verification/Models.thy ===== *)
theory Models
  imports Binary64 Canonical
begin

text \<open>
  \<open>models.py\<close>: the frozen data contracts of grading, replay anchoring and aggregation.  Each class is
  a record (field names carry a short prefix per class, since Isabelle's field names are global);
  \<open>X_check\<close> is the class's validation, field constraints first and then its model validator, in
  source order, and \<open>X_json\<close> is \<open>model_dump(mode="json")\<close>.  A float field carries the constraint
  \<open>is_f64\<close>: the value is a binary64 number.  Fields fixed by \<open>Literal\<close> are not stored, only dumped.
\<close>

abbreviation VE :: "string \<Rightarrow> exn" where
  "VE m \<equiv> Exn ''ValidationError'' m"

section \<open>Scalar field types\<close>

definition sha256_ok :: "string \<Rightarrow> bool" where
  "sha256_ok s \<longleftrightarrow> length s = 64 \<and> list_all is_hex s"

definition hex40_ok :: "string \<Rightarrow> bool" where
  "hex40_ok s \<longleftrightarrow> length s = 40 \<and> list_all is_hex s"

definition id_start :: "char \<Rightarrow> bool" where
  "id_start c \<longleftrightarrow> is_lower c \<or> is_upper c \<or> is_digit c"

definition id_char :: "char \<Rightarrow> bool" where
  "id_char c \<longleftrightarrow> id_start c \<or> c \<in> set ''._/@:+-''"

definition stable_id :: "string \<Rightarrow> bool" where
  "stable_id s = (case s of [] \<Rightarrow> False | c # cs \<Rightarrow> id_start c \<and> list_all id_char cs \<and> length cs \<le> 127)"

definition opt_ok :: "('a \<Rightarrow> bool) \<Rightarrow> 'a option \<Rightarrow> bool" where
  "opt_ok p x = (case x of None \<Rightarrow> True | Some y \<Rightarrow> p y)"

definition text_ok :: "nat \<Rightarrow> nat \<Rightarrow> string \<Rightarrow> bool" where
  "text_ok lo hi s \<longleftrightarrow> lo \<le> length s \<and> length s \<le> hi"

definition float_in :: "rat \<Rightarrow> rat \<Rightarrow> rat \<Rightarrow> bool" where
  "float_in lo hi x \<longleftrightarrow> is_f64 x \<and> lo \<le> x \<and> x \<le> hi"

definition weight_ok :: "rat \<Rightarrow> bool" where
  "weight_ok w \<longleftrightarrow> is_f64 w \<and> 0 < w \<and> w \<le> 1000000"

text \<open>What the code relies on of \<open>hashlib.sha256(...).hexdigest()\<close>: 64 lowercase hexadecimal digits.\<close>

definition hexdigest_ok :: "hasher \<Rightarrow> bool" where
  "hexdigest_ok h \<longleftrightarrow> (\<forall>bs. sha256_ok (sha256 h bs))"

section \<open>Enumerations\<close>

datatype stage = INGEST | COMPILE | OBJECT_POLICY | VERIFIER | FUNCTIONAL | SEMANTICS

definition STAGE_ORDER :: "stage list" where
  "STAGE_ORDER = [INGEST, COMPILE, OBJECT_POLICY, VERIFIER, FUNCTIONAL, SEMANTICS]"

fun stage_value :: "stage \<Rightarrow> string" where
  "stage_value INGEST = ''ingest''"
| "stage_value COMPILE = ''compile''"
| "stage_value OBJECT_POLICY = ''object_policy''"
| "stage_value VERIFIER = ''verifier''"
| "stage_value FUNCTIONAL = ''functional''"
| "stage_value SEMANTICS = ''semantics''"

datatype outcome = PASS | FAIL | TIMEOUT | SKIPPED | INFRA_ERROR | UNSUPPORTED

fun outcome_value :: "outcome \<Rightarrow> string" where
  "outcome_value PASS = ''pass''"
| "outcome_value FAIL = ''fail''"
| "outcome_value TIMEOUT = ''timeout''"
| "outcome_value SKIPPED = ''skipped''"
| "outcome_value INFRA_ERROR = ''infra_error''"
| "outcome_value UNSUPPORTED = ''unsupported''"

datatype origin = O_MICROVM | O_NATIVE_LINUX | O_RECORDED | O_SYNTHETIC

fun origin_value :: "origin \<Rightarrow> string" where
  "origin_value O_MICROVM = ''microvm''"
| "origin_value O_NATIVE_LINUX = ''native_linux''"
| "origin_value O_RECORDED = ''recorded''"
| "origin_value O_SYNTHETIC = ''synthetic''"

datatype isolation = I_MICROVM | I_NATIVE_LINUX | I_SYNTHETIC

fun isolation_value :: "isolation \<Rightarrow> string" where
  "isolation_value I_MICROVM = ''microvm''"
| "isolation_value I_NATIVE_LINUX = ''native_linux''"
| "isolation_value I_SYNTHETIC = ''synthetic''"

datatype diagnostic = D_NONE | D_RAW | D_BPFIX

fun diagnostic_value :: "diagnostic \<Rightarrow> string" where
  "diagnostic_value D_NONE = ''none''"
| "diagnostic_value D_RAW = ''raw''"
| "diagnostic_value D_BPFIX = ''bpfix''"

datatype family = REPAIR | GENERATION

fun family_value :: "family \<Rightarrow> string" where
  "family_value REPAIR = ''repair''"
| "family_value GENERATION = ''generation''"

section \<open>Artifacts and checks\<close>

record artifact_ref =
  ar_sha256 :: string
  ar_size_bytes :: int
  ar_media_type :: string

definition artifact_ref_ok :: "artifact_ref \<Rightarrow> bool" where
  "artifact_ref_ok a \<longleftrightarrow>
     sha256_ok (ar_sha256 a) \<and> 0 \<le> ar_size_bytes a \<and> text_ok 1 127 (ar_media_type a)"

definition artifact_ref_json :: "artifact_ref \<Rightarrow> json" where
  "artifact_ref_json a = JObj
     [(''sha256'', JStr (ar_sha256 a)), (''size_bytes'', JInt (ar_size_bytes a)),
      (''media_type'', JStr (ar_media_type a))]"

type_synonym artifact_dict = "(string \<times> artifact_ref) list"

definition dict_ok :: "('v \<Rightarrow> bool) \<Rightarrow> (string \<times> 'v) list \<Rightarrow> bool" where
  "dict_ok p kvs \<longleftrightarrow> distinct (map fst kvs) \<and> list_all (p \<circ> snd) kvs"

record check_evidence =
  ce_check_id :: string
  ce_outcome :: outcome
  ce_required :: bool
  ce_weight :: rat
  ce_reason_code :: string
  ce_message :: string
  ce_facts :: "(string \<times> json) list"
  ce_artifacts :: artifact_dict

definition check_evidence_check :: "check_evidence \<Rightarrow> exn option" where
  "check_evidence_check c = raises
     [(\<not> stable_id (ce_check_id c), VE ''check_id''),
      (ce_outcome c \<notin> {PASS, FAIL, TIMEOUT}, VE ''outcome''),
      (\<not> weight_ok (ce_weight c), VE ''weight''),
      (\<not> stable_id (ce_reason_code c), VE ''reason_code''),
      (\<not> text_ok 0 4096 (ce_message c), VE ''message''),
      (\<not> dict_ok (\<lambda>_. True) (ce_facts c), VE ''facts''),
      (\<not> dict_ok artifact_ref_ok (ce_artifacts c), VE ''artifacts'')]"

definition check_evidence_json :: "check_evidence \<Rightarrow> json" where
  "check_evidence_json c = JObj
     [(''check_id'', JStr (ce_check_id c)), (''outcome'', JStr (outcome_value (ce_outcome c))),
      (''required'', JBool (ce_required c)), (''weight'', JFloat (ce_weight c)),
      (''reason_code'', JStr (ce_reason_code c)), (''message'', JStr (ce_message c)),
      (''facts'', JObj (ce_facts c)), (''artifacts'', jdict artifact_ref_json (ce_artifacts c))]"

record stage_evidence =
  se_stage :: stage
  se_outcome :: outcome
  se_reason_code :: string
  se_message :: string
  se_duration_ms :: int
  se_exit_code :: "int option"
  se_checks :: "check_evidence list"
  se_facts :: "(string \<times> json) list"
  se_artifacts :: artifact_dict

definition se_required :: "stage_evidence \<Rightarrow> check_evidence list" where
  "se_required s = filter ce_required (se_checks s)"

definition se_failed :: "stage_evidence \<Rightarrow> check_evidence list" where
  "se_failed s = filter (\<lambda>c. ce_outcome c \<noteq> PASS) (se_required s)"

definition stage_evidence_check :: "stage_evidence \<Rightarrow> exn option" where
  "stage_evidence_check s = raises
     [(\<not> stable_id (se_reason_code s), VE ''reason_code''),
      (\<not> text_ok 0 4096 (se_message s), VE ''message''),
      (\<not> 0 \<le> se_duration_ms s, VE ''duration_ms''),
      (4096 < length (se_checks s), VE ''checks''),
      (\<exists>c \<in> set (se_checks s). check_evidence_check c \<noteq> None, VE ''checks''),
      (\<not> dict_ok (\<lambda>_. True) (se_facts s), VE ''facts''),
      (\<not> dict_ok artifact_ref_ok (se_artifacts s), VE ''artifacts''),
      (\<not> distinct (map ce_check_id (se_checks s)), VE ''check IDs must be unique within a stage''),
      (se_outcome s = PASS \<and> se_stage s \<in> {OBJECT_POLICY, FUNCTIONAL, SEMANTICS} \<and> se_required s = [],
        VE (''a passing '' @ stage_value (se_stage s) @ '' stage requires evidence checks'')),
      (se_outcome s = PASS \<and> se_failed s \<noteq> [],
        VE ''a passing stage cannot contain a failed required check''),
      (se_outcome s = FAIL \<and> se_required s \<noteq> [] \<and> se_failed s = [],
        VE ''a failed checked stage needs a failed required check''),
      (se_outcome s = SKIPPED \<and> (se_checks s \<noteq> [] \<or> se_artifacts s \<noteq> []),
        VE ''a skipped stage cannot claim checks or artifacts'')]"

definition stage_evidence_json :: "stage_evidence \<Rightarrow> json" where
  "stage_evidence_json s = JObj
     [(''stage'', JStr (stage_value (se_stage s))), (''outcome'', JStr (outcome_value (se_outcome s))),
      (''reason_code'', JStr (se_reason_code s)), (''message'', JStr (se_message s)),
      (''duration_ms'', JInt (se_duration_ms s)), (''exit_code'', jopt JInt (se_exit_code s)),
      (''checks'', jarr check_evidence_json (se_checks s)), (''facts'', JObj (se_facts s)),
      (''artifacts'', jdict artifact_ref_json (se_artifacts s))]"

text \<open>\<open>StageEvidence.required_fraction\<close>.\<close>

definition required_fraction :: "stage_evidence \<Rightarrow> rat" where
  "required_fraction s =
     (let required = se_required s in
      if required = [] then (if se_outcome s = PASS then 1 else 0)
      else let total = fsum (map ce_weight required);
               passed = fsum (map ce_weight (filter (\<lambda>c. ce_outcome c = PASS) required))
           in fdiv passed total)"

section \<open>Environment, request, evidence\<close>

record environment =
  en_environment_id :: string
  en_isolation :: isolation
  en_architecture :: string
  en_kernel_release :: string
  en_kernel_image_sha256 :: string
  en_kernel_config_sha256 :: string
  en_kernel_btf_sha256 :: string
  en_rootfs_sha256 :: string
  en_snapshot_sha256 :: "string option"
  en_clang_version :: string
  en_clang_sha256 :: string
  en_libbpf_version :: string
  en_libbpf_commit :: string
  en_bpfix_commit :: "string option"
  en_runner_sha256 :: string
  en_compile_recipe_sha256 :: string
  en_normalizer_version :: string
  en_normalizer_sha256 :: string
  en_public_sdk_sha256 :: string
  en_resource_limits_sha256 :: string

definition environment_check :: "environment \<Rightarrow> exn option" where
  "environment_check e = raises
     [(\<not> stable_id (en_environment_id e), VE ''environment_id''),
      (\<not> stable_id (en_architecture e), VE ''architecture''),
      (\<not> text_ok 1 256 (en_kernel_release e), VE ''kernel_release''),
      (\<not> sha256_ok (en_kernel_image_sha256 e), VE ''kernel_image_sha256''),
      (\<not> sha256_ok (en_kernel_config_sha256 e), VE ''kernel_config_sha256''),
      (\<not> sha256_ok (en_kernel_btf_sha256 e), VE ''kernel_btf_sha256''),
      (\<not> sha256_ok (en_rootfs_sha256 e), VE ''rootfs_sha256''),
      (\<not> opt_ok sha256_ok (en_snapshot_sha256 e), VE ''snapshot_sha256''),
      (\<not> text_ok 1 256 (en_clang_version e), VE ''clang_version''),
      (\<not> sha256_ok (en_clang_sha256 e), VE ''clang_sha256''),
      (\<not> text_ok 1 128 (en_libbpf_version e), VE ''libbpf_version''),
      (\<not> hex40_ok (en_libbpf_commit e), VE ''libbpf_commit''),
      (\<not> opt_ok hex40_ok (en_bpfix_commit e), VE ''bpfix_commit''),
      (\<not> sha256_ok (en_runner_sha256 e), VE ''runner_sha256''),
      (\<not> sha256_ok (en_compile_recipe_sha256 e), VE ''compile_recipe_sha256''),
      (\<not> stable_id (en_normalizer_version e), VE ''normalizer_version''),
      (\<not> sha256_ok (en_normalizer_sha256 e), VE ''normalizer_sha256''),
      (\<not> sha256_ok (en_public_sdk_sha256 e), VE ''public_sdk_sha256''),
      (\<not> sha256_ok (en_resource_limits_sha256 e), VE ''resource_limits_sha256''),
      (en_isolation e = I_MICROVM \<and> en_snapshot_sha256 e = None,
        VE ''microVM environments require a snapshot digest'')]"

definition environment_json :: "environment \<Rightarrow> json" where
  "environment_json e = JObj
     [(''schema_version'', JStr ''bpe.environment.v1''),
      (''environment_id'', JStr (en_environment_id e)),
      (''isolation'', JStr (isolation_value (en_isolation e))),
      (''architecture'', JStr (en_architecture e)),
      (''kernel_release'', JStr (en_kernel_release e)),
      (''kernel_image_sha256'', JStr (en_kernel_image_sha256 e)),
      (''kernel_config_sha256'', JStr (en_kernel_config_sha256 e)),
      (''kernel_btf_sha256'', JStr (en_kernel_btf_sha256 e)),
      (''rootfs_sha256'', JStr (en_rootfs_sha256 e)),
      (''snapshot_sha256'', jopt JStr (en_snapshot_sha256 e)),
      (''clang_version'', JStr (en_clang_version e)),
      (''clang_sha256'', JStr (en_clang_sha256 e)),
      (''libbpf_version'', JStr (en_libbpf_version e)),
      (''libbpf_commit'', JStr (en_libbpf_commit e)),
      (''bpfix_commit'', jopt JStr (en_bpfix_commit e)),
      (''runner_sha256'', JStr (en_runner_sha256 e)),
      (''compile_recipe_sha256'', JStr (en_compile_recipe_sha256 e)),
      (''normalizer_version'', JStr (en_normalizer_version e)),
      (''normalizer_sha256'', JStr (en_normalizer_sha256 e)),
      (''public_sdk_sha256'', JStr (en_public_sdk_sha256 e)),
      (''resource_limits_sha256'', JStr (en_resource_limits_sha256 e))]"

record request =
  rq_request_id :: string
  rq_experiment_id :: string
  rq_experiment_manifest_sha256 :: string
  rq_model_id :: string
  rq_model_artifact_sha256 :: string
  rq_checkpoint_id :: string
  rq_checkpoint_artifact_sha256 :: string
  rq_sampling_config_sha256 :: string
  rq_episode_id :: string
  rq_suite_id :: string
  rq_suite_manifest_sha256 :: string
  rq_task_id :: string
  rq_task_version :: string
  rq_task_bundle_sha256 :: string
  rq_candidate :: artifact_ref
  rq_environment_id :: string
  rq_training_seed :: int
  rq_sample_index :: int
  rq_generation_seed :: int
  rq_attempt_index :: int
  rq_diagnostic_condition :: diagnostic
  rq_parent_request_id :: "string option"

definition request_check :: "request \<Rightarrow> exn option" where
  "request_check r = raises
     [(\<not> stable_id (rq_request_id r), VE ''request_id''),
      (\<not> stable_id (rq_experiment_id r), VE ''experiment_id''),
      (\<not> sha256_ok (rq_experiment_manifest_sha256 r), VE ''experiment_manifest_sha256''),
      (\<not> stable_id (rq_model_id r), VE ''model_id''),
      (\<not> sha256_ok (rq_model_artifact_sha256 r), VE ''model_artifact_sha256''),
      (\<not> stable_id (rq_checkpoint_id r), VE ''checkpoint_id''),
      (\<not> sha256_ok (rq_checkpoint_artifact_sha256 r), VE ''checkpoint_artifact_sha256''),
      (\<not> sha256_ok (rq_sampling_config_sha256 r), VE ''sampling_config_sha256''),
      (\<not> stable_id (rq_episode_id r), VE ''episode_id''),
      (\<not> stable_id (rq_suite_id r), VE ''suite_id''),
      (\<not> sha256_ok (rq_suite_manifest_sha256 r), VE ''suite_manifest_sha256''),
      (\<not> stable_id (rq_task_id r), VE ''task_id''),
      (\<not> stable_id (rq_task_version r), VE ''task_version''),
      (\<not> sha256_ok (rq_task_bundle_sha256 r), VE ''task_bundle_sha256''),
      (\<not> artifact_ref_ok (rq_candidate r), VE ''candidate''),
      (\<not> stable_id (rq_environment_id r), VE ''environment_id''),
      (\<not> 0 \<le> rq_training_seed r, VE ''training_seed''),
      (\<not> 0 \<le> rq_sample_index r, VE ''sample_index''),
      (\<not> 0 \<le> rq_generation_seed r, VE ''generation_seed''),
      (\<not> 0 \<le> rq_attempt_index r, VE ''attempt_index''),
      (\<not> opt_ok stable_id (rq_parent_request_id r), VE ''parent_request_id'')]"

definition request_json :: "request \<Rightarrow> json" where
  "request_json r = JObj
     [(''schema_version'', JStr ''bpe.request.v1''),
      (''request_id'', JStr (rq_request_id r)),
      (''experiment_id'', JStr (rq_experiment_id r)),
      (''experiment_manifest_sha256'', JStr (rq_experiment_manifest_sha256 r)),
      (''model_id'', JStr (rq_model_id r)),
      (''model_artifact_sha256'', JStr (rq_model_artifact_sha256 r)),
      (''checkpoint_id'', JStr (rq_checkpoint_id r)),
      (''checkpoint_artifact_sha256'', JStr (rq_checkpoint_artifact_sha256 r)),
      (''sampling_config_sha256'', JStr (rq_sampling_config_sha256 r)),
      (''episode_id'', JStr (rq_episode_id r)),
      (''suite_id'', JStr (rq_suite_id r)),
      (''suite_manifest_sha256'', JStr (rq_suite_manifest_sha256 r)),
      (''task_id'', JStr (rq_task_id r)),
      (''task_version'', JStr (rq_task_version r)),
      (''task_bundle_sha256'', JStr (rq_task_bundle_sha256 r)),
      (''candidate'', artifact_ref_json (rq_candidate r)),
      (''environment_id'', JStr (rq_environment_id r)),
      (''training_seed'', JInt (rq_training_seed r)),
      (''sample_index'', JInt (rq_sample_index r)),
      (''generation_seed'', JInt (rq_generation_seed r)),
      (''attempt_index'', JInt (rq_attempt_index r)),
      (''diagnostic_condition'', JStr (diagnostic_value (rq_diagnostic_condition r))),
      (''parent_request_id'', jopt JStr (rq_parent_request_id r))]"

text \<open>\<open>identity.grader_id_for\<close>.\<close>

definition STRICT_SCORING_POLICY_ID :: string where
  "STRICT_SCORING_POLICY_ID = ''strict-success-v1''"

definition grader_id_for :: "hasher \<Rightarrow> request \<Rightarrow> environment \<Rightarrow> string \<Rightarrow> string" where
  "grader_id_for h r e harness_commit = sha256_json h (JObj
     [(''schema_version'', JStr ''bpe.grader-id.v1''),
      (''strict_scoring_policy_id'', JStr STRICT_SCORING_POLICY_ID),
      (''suite_id'', JStr (rq_suite_id r)),
      (''suite_manifest_sha256'', JStr (rq_suite_manifest_sha256 r)),
      (''environment_sha256'', JStr (sha256_json h (environment_json e))),
      (''harness_commit'', JStr harness_commit)])"

record evidence =
  ev_origin :: origin
  ev_request :: request
  ev_environment :: environment
  ev_harness_commit :: string
  ev_grader_id :: string
  ev_stages :: "stage_evidence list"
  ev_observation_artifacts :: artifact_dict

text \<open>The loop of \<open>EvaluationEvidence.validate_pipeline\<close> over the stages.\<close>

fun pipeline_check :: "bool \<Rightarrow> stage_evidence list \<Rightarrow> exn option" where
  "pipeline_check stopped [] = None"
| "pipeline_check stopped (item # rest) =
     (if stopped \<and> se_outcome item \<noteq> SKIPPED
        then Some (VE ''stages after the first non-pass result must be skipped'')
      else if \<not> stopped \<and> se_outcome item = SKIPPED
        then Some (VE ''a stage cannot be skipped before the pipeline stops'')
      else pipeline_check (stopped \<or> se_outcome item \<noteq> PASS) rest)"

definition evidence_check :: "hasher \<Rightarrow> evidence \<Rightarrow> exn option" where
  "evidence_check h e = orelse (raises
     [(request_check (ev_request e) \<noteq> None, VE ''request''),
      (environment_check (ev_environment e) \<noteq> None, VE ''environment''),
      (\<not> hex40_ok (ev_harness_commit e), VE ''harness_commit''),
      (\<not> sha256_ok (ev_grader_id e), VE ''grader_id''),
      (\<exists>s \<in> set (ev_stages e). stage_evidence_check s \<noteq> None, VE ''stages''),
      (\<not> dict_ok artifact_ref_ok (ev_observation_artifacts e), VE ''observation_artifacts''),
      (rq_environment_id (ev_request e) \<noteq> en_environment_id (ev_environment e),
        VE ''request and evidence environment IDs differ''),
      (rq_diagnostic_condition (ev_request e) = D_BPFIX \<and> en_bpfix_commit (ev_environment e) = None,
        VE ''bpfix diagnostic evidence requires a pinned bpfix commit''),
      (map se_stage (ev_stages e) \<noteq> STAGE_ORDER,
        VE ''evidence must contain every stage in canonical order''),
      (ev_origin e = O_MICROVM \<and> en_isolation (ev_environment e) \<noteq> I_MICROVM,
        VE ''microVM evidence requires a microVM fingerprint''),
      (ev_origin e = O_SYNTHETIC \<and> en_isolation (ev_environment e) \<noteq> I_SYNTHETIC,
        VE ''synthetic evidence requires a synthetic fingerprint''),
      (ev_origin e = O_NATIVE_LINUX \<and> en_isolation (ev_environment e) \<noteq> I_NATIVE_LINUX,
        VE ''native Linux evidence requires a native Linux fingerprint''),
      (ev_grader_id e \<noteq> grader_id_for h (ev_request e) (ev_environment e) (ev_harness_commit e),
        VE ''grader_id does not bind this task, harness, and environment'')])
     (pipeline_check False (ev_stages e))"

definition evidence_json :: "evidence \<Rightarrow> json" where
  "evidence_json e = JObj
     [(''schema_version'', JStr ''bpe.evidence.v1''),
      (''origin'', JStr (origin_value (ev_origin e))),
      (''request'', request_json (ev_request e)),
      (''environment'', environment_json (ev_environment e)),
      (''harness_commit'', JStr (ev_harness_commit e)),
      (''grader_id'', JStr (ev_grader_id e)),
      (''stages'', jarr stage_evidence_json (ev_stages e)),
      (''observation_artifacts'', jdict artifact_ref_json (ev_observation_artifacts e))]"

section \<open>Scoring contract, reward policy, grade\<close>

record expected_check =
  xc_stage :: stage
  xc_check_id :: string
  xc_required :: bool
  xc_weight :: rat
  xc_input_artifacts :: artifact_dict

definition expected_check_ok :: "expected_check \<Rightarrow> bool" where
  "expected_check_ok c \<longleftrightarrow>
     xc_stage c \<in> {OBJECT_POLICY, FUNCTIONAL, SEMANTICS} \<and> stable_id (xc_check_id c) \<and>
     weight_ok (xc_weight c) \<and> dict_ok artifact_ref_ok (xc_input_artifacts c) \<and>
     list_all (stable_id \<circ> fst) (xc_input_artifacts c)"

definition expected_check_json :: "expected_check \<Rightarrow> json" where
  "expected_check_json c = JObj
     [(''stage'', JStr (stage_value (xc_stage c))), (''check_id'', JStr (xc_check_id c)),
      (''required'', JBool (xc_required c)), (''weight'', JFloat (xc_weight c)),
      (''input_artifacts'', jdict artifact_ref_json (xc_input_artifacts c))]"

record contract =
  sc_task_id :: string
  sc_task_version :: string
  sc_task_bundle_sha256 :: string
  sc_checks :: "expected_check list"

definition contract_check :: "contract \<Rightarrow> exn option" where
  "contract_check c = raises
     ([(\<not> stable_id (sc_task_id c), VE ''task_id''),
       (\<not> stable_id (sc_task_version c), VE ''task_version''),
       (\<not> sha256_ok (sc_task_bundle_sha256 c), VE ''task_bundle_sha256''),
       (length (sc_checks c) < 3 \<or> 8192 < length (sc_checks c), VE ''checks''),
       (\<not> list_all expected_check_ok (sc_checks c), VE ''checks''),
       (\<not> distinct (map (\<lambda>x. (xc_stage x, xc_check_id x)) (sc_checks c)),
         VE ''scoring-contract check identities must be unique'')] @
      map (\<lambda>stage. (\<not> (\<exists>x \<in> set (sc_checks c). xc_stage x = stage \<and> xc_required x),
             VE (''scoring contract requires a required '' @ stage_value stage @ '' check'')))
        [OBJECT_POLICY, FUNCTIONAL, SEMANTICS])"

definition contract_json :: "contract \<Rightarrow> json" where
  "contract_json c = JObj
     [(''schema_version'', JStr ''bpe.scoring-contract.v1''),
      (''strict_policy_id'', JStr ''strict-success-v1''),
      (''task_id'', JStr (sc_task_id c)), (''task_version'', JStr (sc_task_version c)),
      (''task_bundle_sha256'', JStr (sc_task_bundle_sha256 c)),
      (''checks'', jarr expected_check_json (sc_checks c))]"

record policy =
  rp_policy_id :: string
  rp_description :: string
  rp_ingest_failure_reward :: rat
  rp_compile_failure_reward :: rat
  rp_object_policy_failure_reward :: rat
  rp_verifier_failure_reward :: rat
  rp_functional_reward_cap :: rat
  rp_semantics_reward_cap :: rat
  rp_success_reward :: rat
  rp_explicit_hack_reward :: rat
  rp_explicit_hack_reason_prefix :: string

definition reward_sequence :: "policy \<Rightarrow> rat list" where
  "reward_sequence p =
     [rp_ingest_failure_reward p, rp_compile_failure_reward p, rp_object_policy_failure_reward p,
      rp_verifier_failure_reward p, rp_functional_reward_cap p, rp_semantics_reward_cap p,
      rp_success_reward p]"

definition policy_check :: "policy \<Rightarrow> exn option" where
  "policy_check p = raises
     [(\<not> stable_id (rp_policy_id p), VE ''policy_id''),
      (\<not> text_ok 1 1024 (rp_description p), VE ''description''),
      (\<not> float_in (-1) 1 (rp_ingest_failure_reward p), VE ''ingest_failure_reward''),
      (\<not> float_in (-1) 1 (rp_compile_failure_reward p), VE ''compile_failure_reward''),
      (\<not> float_in (-1) 1 (rp_object_policy_failure_reward p), VE ''object_policy_failure_reward''),
      (\<not> float_in (-1) 1 (rp_verifier_failure_reward p), VE ''verifier_failure_reward''),
      (\<not> float_in 0 1 (rp_functional_reward_cap p), VE ''functional_reward_cap''),
      (\<not> float_in 0 1 (rp_semantics_reward_cap p), VE ''semantics_reward_cap''),
      (\<not> float_in 0 1 (rp_success_reward p), VE ''success_reward''),
      (\<not> float_in (-1) 0 (rp_explicit_hack_reward p), VE ''explicit_hack_reward''),
      (\<not> stable_id (rp_explicit_hack_reason_prefix p), VE ''explicit_hack_reason_prefix''),
      (\<exists>(left, right) \<in> set (pairwise (reward_sequence p)). left > right,
        VE ''stage rewards must be monotonically non-decreasing'')]"

record grade =
  gr_policy_id :: string
  gr_grader_id :: string
  gr_task_id :: string
  gr_candidate_sha256 :: string
  gr_evidence_sha256 :: string
  gr_contract_sha256 :: string
  gr_comparable :: bool
  gr_strict_success :: "bool option"
  gr_benchmark_score :: "rat option"
  gr_training_reward :: "rat option"
  gr_first_failure :: "stage option"
  gr_failure_reason :: "string option"
  gr_stage_outcomes :: "stage \<rightharpoonup> outcome"

definition grade_first_non_pass :: "grade \<Rightarrow> stage option" where
  "grade_first_non_pass g = find (\<lambda>s. gr_stage_outcomes g s \<noteq> Some PASS) STAGE_ORDER"

definition grade_check :: "grade \<Rightarrow> exn option" where
  "grade_check g = raises
     ([(\<not> stable_id (gr_policy_id g), VE ''policy_id''),
       (\<not> sha256_ok (gr_grader_id g), VE ''grader_id''),
       (\<not> stable_id (gr_task_id g), VE ''task_id''),
       (\<not> sha256_ok (gr_candidate_sha256 g), VE ''candidate_sha256''),
       (\<not> sha256_ok (gr_evidence_sha256 g), VE ''evidence_sha256''),
       (\<not> sha256_ok (gr_contract_sha256 g), VE ''contract_sha256''),
       (\<not> opt_ok (float_in 0 1) (gr_benchmark_score g), VE ''benchmark_score''),
       (\<not> opt_ok (float_in (-1) 1) (gr_training_reward g), VE ''training_reward''),
       (\<not> opt_ok stable_id (gr_failure_reason g), VE ''failure_reason''),
       (\<not> (\<forall>s \<in> set STAGE_ORDER. gr_stage_outcomes g s \<noteq> None),
         VE ''grade must include every canonical stage outcome''),
       (gr_comparable g \<and>
          (gr_strict_success g = None \<or> gr_benchmark_score g = None \<or> gr_training_reward g = None),
         VE ''comparable grades require success, benchmark, and reward values''),
       (\<not> gr_comparable g \<and>
          (gr_strict_success g \<noteq> None \<or> gr_benchmark_score g \<noteq> None \<or> gr_training_reward g \<noteq> None),
         VE ''incomparable grades cannot carry score values''),
       (gr_strict_success g = Some True \<and> gr_benchmark_score g \<noteq> Some 1,
         VE ''strict success must have benchmark score 1''),
       (gr_strict_success g = Some False \<and> gr_benchmark_score g \<noteq> Some 0,
         VE ''strict failure must have benchmark score 0'')] @
      (if gr_strict_success g = Some True
       then [(grade_first_non_pass g \<noteq> None \<or> gr_first_failure g \<noteq> None \<or>
                gr_failure_reason g \<notin> {None, Some []},
               VE ''strict success cannot contain failure fields'')]
       else case grade_first_non_pass g of
         None \<Rightarrow> [(True, VE ''non-success grade requires a non-passing stage'')]
       | Some first_non_pass \<Rightarrow>
          [(gr_first_failure g \<noteq> Some first_non_pass \<or> gr_failure_reason g = None,
             VE ''failure fields must identify the earliest non-passing stage''),
           (gr_comparable g \<and> gr_stage_outcomes g first_non_pass \<in> {Some INFRA_ERROR, Some UNSUPPORTED},
             VE ''infrastructure outcomes are not comparable''),
           (\<not> gr_comparable g \<and>
              gr_stage_outcomes g first_non_pass \<notin> {Some INFRA_ERROR, Some UNSUPPORTED},
             VE ''incomparable grade requires an infrastructure outcome'')]))"

definition grade_json :: "grade \<Rightarrow> json" where
  "grade_json g = JObj
     [(''schema_version'', JStr ''bpe.grade.v1''),
      (''policy_id'', JStr (gr_policy_id g)), (''grader_id'', JStr (gr_grader_id g)),
      (''task_id'', JStr (gr_task_id g)), (''candidate_sha256'', JStr (gr_candidate_sha256 g)),
      (''evidence_sha256'', JStr (gr_evidence_sha256 g)),
      (''contract_sha256'', JStr (gr_contract_sha256 g)),
      (''comparable'', JBool (gr_comparable g)),
      (''strict_success'', jopt JBool (gr_strict_success g)),
      (''benchmark_score'', jopt JFloat (gr_benchmark_score g)),
      (''training_reward'', jopt JFloat (gr_training_reward g)),
      (''first_failure'', jopt (JStr \<circ> stage_value) (gr_first_failure g)),
      (''failure_reason'', jopt JStr (gr_failure_reason g)),
      (''stage_outcomes'', JObj (concat (map (\<lambda>s. case gr_stage_outcomes g s of
          None \<Rightarrow> [] | Some out \<Rightarrow> [(stage_value s, JStr (outcome_value out))]) STAGE_ORDER)))]"

section \<open>Shared facts\<close>

lemma stage_in_order [simp]: "st \<in> set STAGE_ORDER"
  by (cases st) (simp_all add: STAGE_ORDER_def)

lemma sha256_json_ok: "hexdigest_ok h \<Longrightarrow> sha256_ok (sha256_json h v)"
  by (simp add: hexdigest_ok_def sha256_json_def)

end
