(* ===== verification/Samples.thy ===== *)
theory Samples
  imports Models
begin

text \<open>
  Concrete values of the data contracts: a digest function, a request, an environment, the evidence of
  an attempt that stops at a chosen stage, the contract it is graded against, and the default reward
  policy of \<open>models.py\<close>.  The theorems about grading and aggregation are applied to these values.
\<close>

definition sample_hasher :: hasher where
  "sample_hasher = \<lparr> sha256 = (\<lambda>_. replicate 64 CHR ''a''), float_repr = (\<lambda>_. ''1.0'') \<rparr>"

definition digest_a :: string where
  "digest_a = replicate 64 CHR ''a''"

definition commit_b :: string where
  "commit_b = replicate 40 CHR ''b''"

definition sample_ref :: artifact_ref where
  "sample_ref = \<lparr> ar_sha256 = digest_a, ar_size_bytes = 12, ar_media_type = ''text/x-c'' \<rparr>"

definition sample_environment :: environment where
  "sample_environment =
     \<lparr> en_environment_id = ''env'', en_isolation = I_SYNTHETIC, en_architecture = ''x86_64'',
       en_kernel_release = ''6.8.0'', en_kernel_image_sha256 = digest_a, en_kernel_config_sha256 = digest_a,
       en_kernel_btf_sha256 = digest_a, en_rootfs_sha256 = digest_a, en_snapshot_sha256 = None,
       en_clang_version = ''18.1'', en_clang_sha256 = digest_a, en_libbpf_version = ''1.4'',
       en_libbpf_commit = commit_b, en_bpfix_commit = None, en_runner_sha256 = digest_a,
       en_compile_recipe_sha256 = digest_a, en_normalizer_version = ''n1'', en_normalizer_sha256 = digest_a,
       en_public_sdk_sha256 = digest_a, en_resource_limits_sha256 = digest_a \<rparr>"

definition sample_request :: request where
  "sample_request =
     \<lparr> rq_request_id = ''r0'', rq_experiment_id = ''x'', rq_experiment_manifest_sha256 = digest_a,
       rq_model_id = ''m'', rq_model_artifact_sha256 = digest_a, rq_checkpoint_id = ''c'',
       rq_checkpoint_artifact_sha256 = digest_a, rq_sampling_config_sha256 = digest_a,
       rq_episode_id = ''e0'', rq_suite_id = ''s'', rq_suite_manifest_sha256 = digest_a,
       rq_task_id = ''t'', rq_task_version = ''v1'', rq_task_bundle_sha256 = digest_a,
       rq_candidate = sample_ref, rq_environment_id = ''env'', rq_training_seed = 0,
       rq_sample_index = 0, rq_generation_seed = 0, rq_attempt_index = 0,
       rq_diagnostic_condition = D_NONE, rq_parent_request_id = None \<rparr>"

definition sample_check :: "outcome \<Rightarrow> string \<Rightarrow> check_evidence" where
  "sample_check out reason =
     \<lparr> ce_check_id = ''k'', ce_outcome = out, ce_required = True, ce_weight = 1,
       ce_reason_code = reason, ce_message = [], ce_facts = [], ce_artifacts = [(''in'', sample_ref)] \<rparr>"

definition checked_stages :: "stage set" where
  "checked_stages = {OBJECT_POLICY, FUNCTIONAL, SEMANTICS}"

definition sample_stage :: "stage \<Rightarrow> outcome \<Rightarrow> check_evidence list \<Rightarrow> stage_evidence" where
  "sample_stage st out checks =
     \<lparr> se_stage = st, se_outcome = out, se_reason_code = ''R'', se_message = [], se_duration_ms = 5,
       se_exit_code = None, se_checks = checks, se_facts = [], se_artifacts = [] \<rparr>"

definition passed_stage :: "stage \<Rightarrow> stage_evidence" where
  "passed_stage st = sample_stage st PASS (if st \<in> checked_stages then [sample_check PASS ''OK''] else [])"

definition evidence_of :: "stage_evidence list \<Rightarrow> evidence" where
  "evidence_of stages =
     \<lparr> ev_origin = O_SYNTHETIC, ev_request = sample_request, ev_environment = sample_environment,
       ev_harness_commit = commit_b, ev_grader_id = digest_a, ev_stages = stages,
       ev_observation_artifacts = [] \<rparr>"

text \<open>The pipeline stops at the stage evidence \<open>s\<close>: every stage before it passed, every later one is skipped.\<close>

fun stop_at :: "stage_evidence \<Rightarrow> stage list \<Rightarrow> stage_evidence list" where
  "stop_at s [] = []"
| "stop_at s (st # sts) =
     (if st = se_stage s then s # map (\<lambda>st. sample_stage st SKIPPED []) sts else passed_stage st # stop_at s sts)"

definition stopped_evidence :: "stage_evidence \<Rightarrow> evidence" where
  "stopped_evidence s = evidence_of (stop_at s STAGE_ORDER)"

definition solved_evidence :: evidence where
  "solved_evidence = evidence_of (map passed_stage STAGE_ORDER)"

definition sample_expected :: "stage \<Rightarrow> expected_check" where
  "sample_expected st =
     \<lparr> xc_stage = st, xc_check_id = ''k'', xc_required = True, xc_weight = 1,
       xc_input_artifacts = [(''in'', sample_ref)] \<rparr>"

definition sample_contract :: contract where
  "sample_contract =
     \<lparr> sc_task_id = ''t'', sc_task_version = ''v1'', sc_task_bundle_sha256 = digest_a,
       sc_checks = map sample_expected [OBJECT_POLICY, FUNCTIONAL, SEMANTICS] \<rparr>"

text \<open>The default field values of \<open>RewardPolicy\<close>; a decimal literal denotes the nearest binary64 number.\<close>

definition default_policy :: "string \<Rightarrow> policy" where
  "default_policy name =
     \<lparr> rp_policy_id = name, rp_description = ''default'', rp_ingest_failure_reward = -1,
       rp_compile_failure_reward = fl64 (-1/2), rp_object_policy_failure_reward = fl64 (-1/4),
       rp_verifier_failure_reward = 0, rp_functional_reward_cap = fl64 (1/10),
       rp_semantics_reward_cap = fl64 (6/10), rp_success_reward = 1, rp_explicit_hack_reward = -1,
       rp_explicit_hack_reason_prefix = ''HACK_'' \<rparr>"

text \<open>A policy whose semantics cap equals its success reward, both the binary64 number nearest to 0.21.\<close>

definition tight_policy :: policy where
  "tight_policy = (default_policy ''tight'')
     \<lparr> rp_functional_reward_cap := fl64 (8/100), rp_semantics_reward_cap := fl64 (21/100),
       rp_success_reward := fl64 (21/100) \<rparr>"

section \<open>They are valid\<close>

lemma digest_a_ok [simp]: "sha256_ok digest_a"
  by (simp add: digest_a_def sha256_ok_def is_hex_def is_digit_def numeral_eq_Suc)

lemma commit_b_ok [simp]: "hex40_ok commit_b"
  by (simp add: commit_b_def hex40_ok_def is_hex_def is_digit_def numeral_eq_Suc)

lemma sample_sha256_json [simp]: "sha256_json sample_hasher v = digest_a"
  by (simp add: sha256_json_def sample_hasher_def digest_a_def)

lemma sample_hexdigest_ok [simp]: "hexdigest_ok sample_hasher"
  using digest_a_ok by (simp add: hexdigest_ok_def sample_hasher_def digest_a_def)

lemmas id_simps = stable_id_def id_start_def id_char_def is_lower_def is_upper_def is_digit_def text_ok_def
  opt_ok_def

lemma sample_ref_ok [simp]: "artifact_ref_ok sample_ref"
  by (simp add: sample_ref_def artifact_ref_ok_def text_ok_def)

lemma sample_environment_ok [simp]: "environment_check sample_environment = None"
  by (simp add: environment_check_def sample_environment_def id_simps)

lemma sample_request_ok [simp]: "request_check sample_request = None"
  by (simp add: request_check_def sample_request_def id_simps)

lemma sample_check_ok [simp]:
  "check_evidence_check (sample_check out reason) = None \<longleftrightarrow> out \<in> {PASS, FAIL, TIMEOUT} \<and> stable_id reason"
  by (auto simp: check_evidence_check_def sample_check_def weight_ok_def is_f64_def dict_ok_def
      stable_id_def id_start_def is_lower_def text_ok_def)

lemma stable_reasons [simp]: "stable_id ''R''" "stable_id ''OK''" "stable_id ''HACK_X''"
  by (simp_all add: id_simps)

lemma skipped_stage_ok [simp]: "stage_evidence_check (sample_stage st SKIPPED []) = None"
  by (simp add: stage_evidence_check_def sample_stage_def text_ok_def dict_ok_def se_required_def)

lemma passed_stage_ok [simp]: "stage_evidence_check (passed_stage st) = None"
  by (auto simp: stage_evidence_check_def sample_stage_def passed_stage_def text_ok_def dict_ok_def
      se_required_def se_failed_def sample_check_def[of PASS "''OK''", THEN arg_cong[of _ _ ce_required]]
      sample_check_def[of PASS "''OK''", THEN arg_cong[of _ _ ce_outcome]] checked_stages_def)

lemma sample_stage_simps [simp]:
  "se_stage (sample_stage st out cs) = st" "se_outcome (sample_stage st out cs) = out"
  "se_checks (sample_stage st out cs) = cs" "se_reason_code (sample_stage st out cs) = ''R''"
  "se_stage (passed_stage st) = st" "se_outcome (passed_stage st) = PASS"
  by (simp_all add: sample_stage_def passed_stage_def)

lemma stop_at_stages [simp]: "map se_stage (stop_at s sts) = sts"
  by (induction sts) (auto simp: o_def)

lemma stop_at_valid: "stage_evidence_check s = None \<Longrightarrow> x \<in> set (stop_at s sts) \<Longrightarrow> stage_evidence_check x = None"
  by (induction sts) (auto split: if_splits)

lemma pipeline_check_skipped [simp]:
  "pipeline_check True (map (\<lambda>st. sample_stage st SKIPPED []) sts) = None"
  by (induction sts) auto

lemma stop_at_pipeline:
  "se_outcome s \<notin> {PASS, SKIPPED} \<Longrightarrow> pipeline_check False (stop_at s sts) = None"
  by (induction sts) auto

lemma evidence_of_ok:
  assumes "\<And>x. x \<in> set stages \<Longrightarrow> stage_evidence_check x = None" "map se_stage stages = STAGE_ORDER"
    and "pipeline_check False stages = None"
  shows "evidence_check sample_hasher (evidence_of stages) = None"
  using assms by (auto simp: evidence_check_def evidence_of_def orelse_None_iff dict_ok_def
      grader_id_for_def) (simp_all add: sample_request_def sample_environment_def)

lemma stopped_evidence_ok:
  assumes "stage_evidence_check s = None" "se_outcome s \<notin> {PASS, SKIPPED}"
  shows "evidence_check sample_hasher (stopped_evidence s) = None"
  unfolding stopped_evidence_def
  using stop_at_valid[OF assms(1)] stop_at_pipeline[OF assms(2)] by (intro evidence_of_ok) auto

lemma pipeline_check_passed [simp]: "pipeline_check False (map passed_stage sts) = None"
  by (induction sts) auto

lemma solved_evidence_ok [simp]: "evidence_check sample_hasher solved_evidence = None"
  unfolding solved_evidence_def by (intro evidence_of_ok) (auto simp: o_def)

lemma sample_contract_ok [simp]: "contract_check sample_contract = None"
  by (auto simp: contract_check_def sample_contract_def sample_expected_def expected_check_ok_def
      weight_ok_def is_f64_def dict_ok_def id_simps)

lemma default_policy_ok [simp]: "stable_id name \<Longrightarrow> policy_check (default_policy name) = None"
  using fl64_mono[of "-1" "-1/2"] fl64_mono[of "-1/2" "-1/4"] fl64_mono[of "-1/4" 0]
    fl64_mono[of 0 "1/10"] fl64_mono[of "1/10" "6/10"] fl64_mono[of "6/10" 1]
  by (auto simp: policy_check_def default_policy_def reward_sequence_def float_in_def text_ok_def
      fl64_uminus is_f64_def fl64_idem id_simps)

lemma tight_policy_ok [simp]: "policy_check tight_policy = None"
  using fl64_mono[of "-1" "-1/2"] fl64_mono[of "-1/2" "-1/4"] fl64_mono[of "-1/4" 0]
    fl64_mono[of 0 "8/100"] fl64_mono[of "8/100" "21/100"] fl64_mono[of "21/100" 1]
  by (auto simp: policy_check_def tight_policy_def default_policy_def reward_sequence_def float_in_def
      text_ok_def fl64_uminus is_f64_def fl64_idem id_simps)

end
