(* ===== verification/Grading.thy ===== *)
theory Grading
  imports Samples
begin

text \<open>
  \<open>grading.py\<close>: the pure scorer.  \<open>score_evidence\<close> revalidates its three inputs, checks the evidence
  against the frozen contract, and returns a \<open>Grade\<close>; constructing the grade validates it, so the
  model's result is an exception whenever \<open>grade_check\<close> objects.
\<close>

abbreviation ValueError :: "string \<Rightarrow> exn" where
  "ValueError m \<equiv> Exn ''ValueError'' m"

definition infra_outcomes :: "outcome set" where
  "infra_outcomes = {INFRA_ERROR, UNSUPPORTED}"

definition first_non_pass :: "evidence \<Rightarrow> stage_evidence option" where
  "first_non_pass e = find (\<lambda>s. se_outcome s \<noteq> PASS) (ev_stages e)"

definition training_reward ::
  "evidence \<Rightarrow> policy \<Rightarrow> stage option \<Rightarrow> string option \<Rightarrow> bool \<Rightarrow> rat result" where
  "training_reward e p first_failure_stage first_failure_reason explicit_hack =
     (case first_failure_stage of
        None \<Rightarrow> Inr (rp_success_reward p)
      | Some st \<Rightarrow>
        if explicit_hack \<or> (case first_failure_reason of None \<Rightarrow> False
             | Some r \<Rightarrow> r \<noteq> [] \<and> startswith r (rp_explicit_hack_reason_prefix p))
        then Inr (rp_explicit_hack_reward p)
        else if st = INGEST then Inr (rp_ingest_failure_reward p)
        else if st = COMPILE then Inr (rp_compile_failure_reward p)
        else if st = OBJECT_POLICY then Inr (rp_object_policy_failure_reward p)
        else if st = VERIFIER then Inr (rp_verifier_failure_reward p)
        else case find (\<lambda>s. se_stage s = st) (ev_stages e) of
          None \<Rightarrow> Inl (Exn ''StopIteration'' [])
        | Some failed \<Rightarrow>
          if st = FUNCTIONAL
          then Inr (fmul (rp_functional_reward_cap p) (required_fraction failed))
          else Inr (fadd (rp_functional_reward_cap p)
                 (fmul (fsub (rp_semantics_reward_cap p) (rp_functional_reward_cap p))
                    (required_fraction failed))))"

text \<open>\<open>_validate_contract\<close>: the loop over one stage's evidence, then over all stages.\<close>

definition check_matches :: "check_evidence list \<Rightarrow> expected_check \<Rightarrow> exn option" where
  "check_matches actual x =
     (case find (\<lambda>c. ce_check_id c = xc_check_id x) actual of
        None \<Rightarrow> Some (Exn ''KeyError'' (xc_check_id x))
      | Some c \<Rightarrow> raises
          ([(ce_required c \<noteq> xc_required x \<or> ce_weight c \<noteq> xc_weight x,
              ValueError (''check metadata differs from contract: '' @ xc_check_id x))] @
           map (\<lambda>(name, ref). (map_of (ce_artifacts c) name \<noteq> Some ref,
                 ValueError (''check input artifact differs from contract: '' @ xc_check_id x @ ''/'' @ name)))
             (xc_input_artifacts x)))"

fun first_error :: "exn option list \<Rightarrow> exn option" where
  "first_error [] = None"
| "first_error (c # cs) = orelse c (first_error cs)"

definition stage_matches :: "contract \<Rightarrow> stage_evidence \<Rightarrow> exn option" where
  "stage_matches c s =
     (let expected = filter (\<lambda>x. xc_stage x = se_stage s) (sc_checks c) in
      if se_outcome s = SKIPPED then None
      else if se_outcome s \<in> {INFRA_ERROR, UNSUPPORTED} \<and> se_checks s = [] then None
      else if set (map ce_check_id (se_checks s)) \<noteq> set (map xc_check_id expected)
        then Some (ValueError (stage_value (se_stage s) @ '' evidence check set does not match contract''))
      else first_error (map (check_matches (se_checks s)) expected))"

definition validate_contract :: "evidence \<Rightarrow> contract \<Rightarrow> exn option" where
  "validate_contract e c =
     (let r = ev_request e in
      if (rq_task_id r, rq_task_version r, rq_task_bundle_sha256 r) \<noteq>
         (sc_task_id c, sc_task_version c, sc_task_bundle_sha256 c)
      then Some (ValueError ''scoring contract does not match the evidence task identity'')
      else first_error (map (stage_matches c) (ev_stages e)))"

definition stage_outcomes_of :: "evidence \<Rightarrow> stage \<rightharpoonup> outcome" where
  "stage_outcomes_of e = map_of (rev (map (\<lambda>s. (se_stage s, se_outcome s)) (ev_stages e)))"

definition explicit_hack :: "evidence \<Rightarrow> policy \<Rightarrow> bool" where
  "explicit_hack e p \<longleftrightarrow> (\<exists>s \<in> set (ev_stages e). \<exists>c \<in> set (se_checks s).
     ce_required c \<and> ce_outcome c \<noteq> PASS \<and>
     startswith (ce_reason_code c) (rp_explicit_hack_reason_prefix p))"

definition make_grade :: "grade \<Rightarrow> grade result" where
  "make_grade g = check (grade_check g) (Inr g)"

definition incomparable_grade :: "hasher \<Rightarrow> evidence \<Rightarrow> contract \<Rightarrow> policy \<Rightarrow> grade" where
  "incomparable_grade h e c p =
     \<lparr> gr_policy_id = rp_policy_id p, gr_grader_id = ev_grader_id e,
       gr_task_id = rq_task_id (ev_request e),
       gr_candidate_sha256 = ar_sha256 (rq_candidate (ev_request e)),
       gr_evidence_sha256 = sha256_json h (evidence_json e),
       gr_contract_sha256 = sha256_json h (contract_json c),
       gr_comparable = False, gr_strict_success = None, gr_benchmark_score = None,
       gr_training_reward = None,
       gr_first_failure = map_option se_stage (first_non_pass e),
       gr_failure_reason = map_option se_reason_code (first_non_pass e),
       gr_stage_outcomes = stage_outcomes_of e \<rparr>"

definition comparable_grade :: "hasher \<Rightarrow> evidence \<Rightarrow> contract \<Rightarrow> policy \<Rightarrow> rat \<Rightarrow> grade" where
  "comparable_grade h e c p reward =
     (let success = (first_non_pass e = None) in
     \<lparr> gr_policy_id = rp_policy_id p, gr_grader_id = ev_grader_id e,
       gr_task_id = rq_task_id (ev_request e),
       gr_candidate_sha256 = ar_sha256 (rq_candidate (ev_request e)),
       gr_evidence_sha256 = sha256_json h (evidence_json e),
       gr_contract_sha256 = sha256_json h (contract_json c),
       gr_comparable = True, gr_strict_success = Some success,
       gr_benchmark_score = Some (if success then 1 else 0),
       gr_training_reward = Some reward,
       gr_first_failure = map_option se_stage (first_non_pass e),
       gr_failure_reason = map_option se_reason_code (first_non_pass e),
       gr_stage_outcomes = stage_outcomes_of e \<rparr>)"

definition score_evidence :: "hasher \<Rightarrow> evidence \<Rightarrow> contract \<Rightarrow> policy \<Rightarrow> grade result" where
  "score_evidence h e c p =
     check (evidence_check h e) (check (contract_check c) (check (policy_check p)
     (check (validate_contract e c)
     (if (case first_non_pass e of None \<Rightarrow> False | Some s \<Rightarrow> se_outcome s \<in> infra_outcomes)
      then make_grade (incomparable_grade h e c p)
      else rbind (training_reward e p (map_option se_stage (first_non_pass e))
                    (map_option se_reason_code (first_non_pass e)) (explicit_hack e p))
             (\<lambda>reward. make_grade (comparable_grade h e c p reward))))))"

section \<open>What the grades mean\<close>

text \<open>
  The specification the scorer is held to: when a task is solved, when an attempt counts as a hack, and
  the interval a policy leaves for the reward of an attempt that first fails at a given stage.
\<close>

definition stage_low :: "policy \<Rightarrow> stage \<Rightarrow> rat" where
  "stage_low p st = (case st of
      INGEST \<Rightarrow> rp_ingest_failure_reward p | COMPILE \<Rightarrow> rp_compile_failure_reward p
    | OBJECT_POLICY \<Rightarrow> rp_object_policy_failure_reward p | VERIFIER \<Rightarrow> rp_verifier_failure_reward p
    | FUNCTIONAL \<Rightarrow> 0 | SEMANTICS \<Rightarrow> rp_functional_reward_cap p)"

definition stage_high :: "policy \<Rightarrow> stage \<Rightarrow> rat" where
  "stage_high p st = (case st of
      INGEST \<Rightarrow> rp_ingest_failure_reward p | COMPILE \<Rightarrow> rp_compile_failure_reward p
    | OBJECT_POLICY \<Rightarrow> rp_object_policy_failure_reward p | VERIFIER \<Rightarrow> rp_verifier_failure_reward p
    | FUNCTIONAL \<Rightarrow> rp_functional_reward_cap p | SEMANTICS \<Rightarrow> 1)"

definition hack_reason :: "policy \<Rightarrow> string option \<Rightarrow> bool" where
  "hack_reason p rs = (case rs of None \<Rightarrow> False
     | Some r \<Rightarrow> r \<noteq> [] \<and> startswith r (rp_explicit_hack_reason_prefix p))"

definition solved :: "evidence \<Rightarrow> contract \<Rightarrow> bool" where
  "solved e c \<longleftrightarrow>
     (\<forall>s \<in> set (ev_stages e). se_outcome s = PASS) \<and>
     (\<forall>x \<in> set (sc_checks c). xc_required x \<longrightarrow>
        (\<exists>s \<in> set (ev_stages e). se_stage s = xc_stage x \<and>
          (\<exists>k \<in> set (se_checks s). ce_check_id k = xc_check_id x \<and> ce_required k \<and>
             ce_outcome k = PASS \<and> ce_weight k = xc_weight x \<and>
             (\<forall>(n, r) \<in> set (xc_input_artifacts x). map_of (ce_artifacts k) n = Some r))))"


definition hacked :: "evidence \<Rightarrow> policy \<Rightarrow> bool" where
  "hacked e p \<longleftrightarrow> explicit_hack e p \<or> hack_reason p (map_option se_reason_code (first_non_pass e))"

section \<open>Unpacking validation\<close>

lemma first_error_None_iff [result_simps]: "first_error cs = None \<longleftrightarrow> (\<forall>c \<in> set cs. c = None)"
  by (induction cs) (auto simp: orelse_None_iff)

lemma evidence_checkD:
  assumes "evidence_check h e = None"
  shows "map se_stage (ev_stages e) = STAGE_ORDER"
    and "\<And>s. s \<in> set (ev_stages e) \<Longrightarrow> stage_evidence_check s = None"
    and "pipeline_check False (ev_stages e) = None"
    and "sha256_ok (ev_grader_id e)" "request_check (ev_request e) = None"
  using assms by (auto simp: evidence_check_def result_simps)

lemma stage_evidence_checkD:
  assumes "stage_evidence_check s = None"
  shows "\<And>c. c \<in> set (se_checks s) \<Longrightarrow> check_evidence_check c = None"
    and "distinct (map ce_check_id (se_checks s))" "stable_id (se_reason_code s)"
    and "se_outcome s = PASS \<Longrightarrow> se_failed s = []"
    and "se_outcome s = PASS \<Longrightarrow> se_stage s \<in> {OBJECT_POLICY, FUNCTIONAL, SEMANTICS} \<Longrightarrow> se_required s \<noteq> []"
    and "se_outcome s = SKIPPED \<Longrightarrow> se_checks s = []"
  using assms by (auto simp: stage_evidence_check_def result_simps)

lemma check_evidence_weight: "check_evidence_check c = None \<Longrightarrow> is_f64 (ce_weight c) \<and> 0 < ce_weight c"
  by (auto simp: check_evidence_check_def result_simps weight_ok_def)

lemma request_checkD:
  assumes "request_check r = None"
  shows "stable_id (rq_task_id r)" "artifact_ref_ok (rq_candidate r)"
  using assms by (auto simp: request_check_def result_simps)

lemma policy_checkD:
  assumes "policy_check p = None"
  shows "stable_id (rp_policy_id p)"
    and "float_in (-1) 1 (rp_ingest_failure_reward p)" "float_in (-1) 1 (rp_compile_failure_reward p)"
    and "float_in (-1) 1 (rp_object_policy_failure_reward p)"
    and "float_in (-1) 1 (rp_verifier_failure_reward p)"
    and "float_in 0 1 (rp_functional_reward_cap p)" "float_in 0 1 (rp_semantics_reward_cap p)"
    and "float_in 0 1 (rp_success_reward p)" "float_in (-1) 0 (rp_explicit_hack_reward p)"
    and "rp_ingest_failure_reward p \<le> rp_compile_failure_reward p"
    and "rp_compile_failure_reward p \<le> rp_object_policy_failure_reward p"
    and "rp_object_policy_failure_reward p \<le> rp_verifier_failure_reward p"
    and "rp_verifier_failure_reward p \<le> rp_functional_reward_cap p"
    and "rp_functional_reward_cap p \<le> rp_semantics_reward_cap p"
    and "rp_semantics_reward_cap p \<le> rp_success_reward p"
  using assms by (auto simp: policy_check_def result_simps reward_sequence_def)

lemma stable_id_nonempty: "stable_id s \<Longrightarrow> s \<noteq> []"
  by (auto simp: stable_id_def)

lemma validate_contractD:
  assumes "validate_contract e c = None"
  shows "rq_task_id (ev_request e) = sc_task_id c"
    and "\<And>s. s \<in> set (ev_stages e) \<Longrightarrow> stage_matches c s = None"
  using assms by (auto simp: validate_contract_def result_simps Let_def split: if_splits)

text \<open>A stage that ran matches the contract check for check.\<close>

lemma stage_matches_check:
  assumes "stage_matches c s = None" "se_outcome s \<notin> {SKIPPED, INFRA_ERROR, UNSUPPORTED}"
    and "x \<in> set (sc_checks c)" "xc_stage x = se_stage s"
  obtains k where "k \<in> set (se_checks s)" "ce_check_id k = xc_check_id x"
    "ce_required k = xc_required x" "ce_weight k = xc_weight x"
    "\<forall>(n, r) \<in> set (xc_input_artifacts x). map_of (ce_artifacts k) n = Some r"
proof -
  have "check_matches (se_checks s) x = None"
    using assms by (auto simp: stage_matches_def Let_def result_simps split: if_splits)
  then show thesis
    using that by (auto simp: check_matches_def dest!: find_Some_mem split: option.splits)
qed

section \<open>Stage outcomes\<close>

lemma stages_unique: "map se_stage (ev_stages e) = STAGE_ORDER \<Longrightarrow> distinct (map se_stage (ev_stages e))"
  by (simp add: STAGE_ORDER_def)

lemma stage_outcomes_of_eq:
  assumes "map se_stage (ev_stages e) = STAGE_ORDER" "s \<in> set (ev_stages e)"
  shows "stage_outcomes_of e (se_stage s) = Some (se_outcome s)"
proof -
  have d: "distinct (map se_stage (ev_stages e))" using assms(1) by (rule stages_unique)
  then have "map_of (map (\<lambda>s. (se_stage s, se_outcome s)) (rev (ev_stages e))) (se_stage s) = Some (se_outcome s)"
    using assms(2) by (intro map_of_distinct_Some) (auto simp: rev_map[symmetric])
  then show ?thesis by (simp add: stage_outcomes_of_def rev_map)
qed

lemma find_map: "find P (map f xs) = map_option f (find (P \<circ> f) xs)"
  by (induction xs) auto

lemma find_cong_on: "(\<And>x. x \<in> set xs \<Longrightarrow> P x = Q x) \<Longrightarrow> find P xs = find Q xs"
  by (induction xs) auto

lemma first_non_pass_order:
  assumes "map se_stage (ev_stages e) = STAGE_ORDER" "gr_stage_outcomes g = stage_outcomes_of e"
  shows "grade_first_non_pass g = map_option se_stage (first_non_pass e)"
proof -
  have "grade_first_non_pass g
      = map_option se_stage (find (\<lambda>s. stage_outcomes_of e (se_stage s) \<noteq> Some PASS) (ev_stages e))"
    by (simp add: grade_first_non_pass_def assms(2) assms(1)[symmetric] find_map o_def)
  also have "find (\<lambda>s. stage_outcomes_of e (se_stage s) \<noteq> Some PASS) (ev_stages e) = first_non_pass e"
    unfolding first_non_pass_def by (rule find_cong_on) (simp add: stage_outcomes_of_eq[OF assms(1)])
  finally show ?thesis .
qed

lemma stage_outcomes_total:
  assumes "map se_stage (ev_stages e) = STAGE_ORDER" "st \<in> set STAGE_ORDER"
  shows "stage_outcomes_of e st \<noteq> None"
proof -
  obtain s where "s \<in> set (ev_stages e)" "se_stage s = st"
    using assms by (metis imageE list.set_map)
  then show ?thesis using stage_outcomes_of_eq[OF assms(1)] by fastforce
qed

lemma not_pass_first_not_skipped:
  assumes "pipeline_check False ss = None" "find (\<lambda>s. se_outcome s \<noteq> PASS) ss = Some s"
  shows "se_outcome s \<noteq> SKIPPED"
  using assms by (induction ss) (auto split: if_splits)

section \<open>Rewards in binary64\<close>

lemma required_fraction_unit:
  assumes "stage_evidence_check s = None"
  shows "0 \<le> required_fraction s" "required_fraction s \<le> 1"
proof -
  have w: "\<forall>c \<in> set (se_required s). 0 \<le> ce_weight c"
  proof
    fix c assume "c \<in> set (se_required s)"
    then have "check_evidence_check c = None"
      using stage_evidence_checkD(1)[OF assms] by (auto simp: se_required_def)
    then show "0 \<le> ce_weight c" using check_evidence_weight[of c] by simp
  qed
  let ?P = "\<lambda>c. ce_outcome c = PASS"
  have "0 \<le> fsum (map ce_weight (filter ?P (se_required s)))"
    by (rule fsum_nonneg) (use w in auto)
  moreover have "fsum (map ce_weight (filter ?P (se_required s))) \<le> fsum (map ce_weight (se_required s))"
    by (rule fsum_filter_le) (rule w)
  ultimately show "0 \<le> required_fraction s" "required_fraction s \<le> 1"
    using fdiv_unit by (auto simp: required_fraction_def Let_def)
qed

lemma semantics_reward_bounds:
  assumes "float_in 0 1 f" "float_in 0 1 s" "f \<le> s" "0 \<le> x" "x \<le> 1"
  shows "f \<le> fadd f (fmul (fsub s f) x)" "fadd f (fmul (fsub s f) x) \<le> 1"
proof -
  have f: "is_f64 f" "0 \<le> f" "f \<le> 1" and s: "s \<le> 1" using assms by (auto simp: float_in_def)
  have span: "is_f64 (fsub s f)" "0 \<le> fsub s f"
    using assms(3) by (auto simp: fsub_def fl64_nonneg)
  have m: "0 \<le> fmul (fsub s f) x" "fmul (fsub s f) x \<le> fsub s f"
    using fmul_unit_le[OF span assms(4,5)] by auto
  show "f \<le> fadd f (fmul (fsub s f) x)"
    unfolding fadd_def using f m by (intro f64.rnd_fixed_le) (auto simp: is_f64_def)
  have "fsub s f \<le> fsub 1 f" unfolding fsub_def using s by (intro fl64_mono) simp
  then have "fadd f (fmul (fsub s f) x) \<le> fadd f (fsub 1 f)"
    using m by (intro fadd_mono) auto
  also have "\<dots> \<le> 1" using f by (intro fadd_fsub_one_le)
  finally show "fadd f (fmul (fsub s f) x) \<le> 1" .
qed

lemma training_reward_hack:
  "hack \<or> hack_reason p rs \<Longrightarrow> training_reward e p (Some st) rs hack = Inr (rp_explicit_hack_reward p)"
  by (simp add: training_reward_def hack_reason_def)

lemma training_reward_nohack:
  assumes "\<not> (hack \<or> hack_reason p rs)"
  shows "training_reward e p (Some st) rs hack =
     (case st of
        INGEST \<Rightarrow> Inr (rp_ingest_failure_reward p) | COMPILE \<Rightarrow> Inr (rp_compile_failure_reward p)
      | OBJECT_POLICY \<Rightarrow> Inr (rp_object_policy_failure_reward p)
      | VERIFIER \<Rightarrow> Inr (rp_verifier_failure_reward p)
      | _ \<Rightarrow> (case find (\<lambda>s. se_stage s = st) (ev_stages e) of
          None \<Rightarrow> Inl (Exn ''StopIteration'' [])
        | Some failed \<Rightarrow> Inr (if st = FUNCTIONAL
            then fmul (rp_functional_reward_cap p) (required_fraction failed)
            else fadd (rp_functional_reward_cap p)
                 (fmul (fsub (rp_semantics_reward_cap p) (rp_functional_reward_cap p))
                    (required_fraction failed)))))"
proof -
  have "(hack \<or> (case rs of None \<Rightarrow> False
      | Some r \<Rightarrow> r \<noteq> [] \<and> startswith r (rp_explicit_hack_reason_prefix p))) = False"
    using assms by (simp add: hack_reason_def)
  then show ?thesis unfolding training_reward_def
    by (cases st) (simp_all only: option.case stage.case stage.distinct stage.distinct[symmetric] if_False if_True
        simp_thms split: option.split)
qed

lemma training_reward_bounds:
  assumes e: "evidence_check h e = None" and p: "policy_check p = None"
    and nohack: "\<not> (hack \<or> hack_reason p rs)"
    and r: "training_reward e p (Some st) rs hack = Inr r"
  shows "stage_low p st \<le> r \<and> r \<le> stage_high p st \<and> is_f64 r"
proof -
  note pd = policy_checkD[OF p] and eq = training_reward_nohack[OF nohack]
  show ?thesis
  proof (cases "st \<in> {FUNCTIONAL, SEMANTICS}")
    case False
    then show ?thesis using r pd(2-5) unfolding eq
      by (cases st) (simp_all add: stage_low_def stage_high_def float_in_def)
  next
    case True
    then obtain s where s: "find (\<lambda>s. se_stage s = st) (ev_stages e) = Some s"
      using r unfolding eq by (cases st) (simp_all split: option.splits)
    have frac: "0 \<le> required_fraction s" "required_fraction s \<le> 1"
      using required_fraction_unit evidence_checkD(2)[OF e] find_Some_mem[OF s] by blast+
    have f: "is_f64 (rp_functional_reward_cap p)" "0 \<le> rp_functional_reward_cap p"
      using pd(6) by (simp_all add: float_in_def)
    show ?thesis
      using True r s fmul_unit_le[OF f frac] semantics_reward_bounds[OF pd(6,7,14) frac] unfolding eq
      by (cases st) (auto simp: stage_low_def stage_high_def fmul_def fadd_def)
  qed
qed

lemma training_reward_range:
  assumes e: "evidence_check h e = None" and p: "policy_check p = None"
    and r: "training_reward e p st rs hack = Inr r"
  shows "float_in (-1) 1 r"
proof (cases st)
  case None
  then show ?thesis using r policy_checkD(8)[OF p] by (auto simp: training_reward_def float_in_def)
next
  case (Some s)
  show ?thesis
  proof (cases "hack \<or> hack_reason p rs")
    case True
    then have "r = rp_explicit_hack_reward p" using r Some by (simp add: training_reward_hack)
    then show ?thesis using policy_checkD(9)[OF p] by (simp add: float_in_def)
  next
    case False
    then have b: "stage_low p s \<le> r \<and> r \<le> stage_high p s \<and> is_f64 r"
      using r Some by (intro training_reward_bounds[OF e p]) simp_all
    have "-1 \<le> stage_low p s" "stage_high p s \<le> 1"
      using policy_checkD[OF p] by (auto simp: stage_low_def stage_high_def float_in_def split: stage.split)
    then show ?thesis using b by (auto simp: float_in_def)
  qed
qed

lemma training_reward_defined:
  assumes "map se_stage (ev_stages e) = STAGE_ORDER" "\<forall>s. st = Some s \<longrightarrow> s \<in> set STAGE_ORDER"
  shows "\<exists>r. training_reward e p st rs hack = Inr r"
proof (cases st)
  case (Some s)
  then obtain x where "x \<in> set (ev_stages e)" "se_stage x = s"
    using assms by (metis imageE list.set_map)
  then have "find (\<lambda>s'. se_stage s' = s) (ev_stages e) \<noteq> None" by (auto simp: find_None_all)
  then show ?thesis using Some by (auto simp: training_reward_def)
qed (simp add: training_reward_def)

section \<open>The scorer\<close>

lemma score_evidence_checks:
  assumes "score_evidence h e c p = Inr g"
  shows "evidence_check h e = None" "contract_check c = None" "policy_check p = None"
    "validate_contract e c = None"
  using assms by (auto simp: score_evidence_def result_simps)

text \<open>A scorer that returns either met an infrastructure failure first or rewarded the attempt.\<close>

lemma score_evidenceE:
  assumes "score_evidence h e c p = Inr g"
  obtains (infra) s where "first_non_pass e = Some s" "se_outcome s \<in> infra_outcomes"
      "g = incomparable_grade h e c p"
  | (scored) r where "\<And>s. first_non_pass e = Some s \<Longrightarrow> se_outcome s \<notin> infra_outcomes"
      "g = comparable_grade h e c p r"
      "training_reward e p (map_option se_stage (first_non_pass e))
         (map_option se_reason_code (first_non_pass e)) (explicit_hack e p) = Inr r"
  using assms that
  by (auto simp: score_evidence_def make_grade_def result_simps split: if_splits option.splits)

lemmas grade_defs = incomparable_grade_def comparable_grade_def Let_def

lemma all_pass_solved:
  assumes e: "evidence_check h e = None" and v: "validate_contract e c = None"
    and pass: "\<forall>s \<in> set (ev_stages e). se_outcome s = PASS"
  shows "solved e c"
proof -
  have "\<exists>s \<in> set (ev_stages e). se_stage s = xc_stage x \<and>
      (\<exists>k \<in> set (se_checks s). ce_check_id k = xc_check_id x \<and> ce_required k \<and> ce_outcome k = PASS \<and>
         ce_weight k = xc_weight x \<and>
         (\<forall>(n, r) \<in> set (xc_input_artifacts x). map_of (ce_artifacts k) n = Some r))"
    if x: "x \<in> set (sc_checks c)" "xc_required x" for x
  proof -
    have "xc_stage x \<in> set STAGE_ORDER" by (cases "xc_stage x") (auto simp: STAGE_ORDER_def)
    then obtain s where s: "s \<in> set (ev_stages e)" "se_stage s = xc_stage x"
      using evidence_checkD(1)[OF e] by (metis imageE list.set_map)
    obtain k where k: "k \<in> set (se_checks s)" "ce_check_id k = xc_check_id x"
      "ce_required k = xc_required x" "ce_weight k = xc_weight x"
      "\<forall>(n, r) \<in> set (xc_input_artifacts x). map_of (ce_artifacts k) n = Some r"
      using stage_matches_check[OF validate_contractD(2)[OF v s(1)] _ x(1)] pass s by auto
    have "ce_outcome k = PASS"
      using stage_evidence_checkD(4)[OF evidence_checkD(2)[OF e s(1)]] pass s(1) k(1,3) x(2)
      by (auto simp: se_failed_def se_required_def filter_empty_conv)
    then show ?thesis using s k x(2) by blast
  qed
  then show ?thesis using pass by (auto simp: solved_def)
qed

lemma first_non_pass_None: "first_non_pass e = None \<longleftrightarrow> (\<forall>s \<in> set (ev_stages e). se_outcome s = PASS)"
  by (auto simp: first_non_pass_def find_None_all)

text \<open>
  C1. A grade reports strict success, and the benchmark score 1, exactly when the evidence solves the
  task: all six stages passed and every required check of the frozen contract is present in its
  stage, passed, carries the contracted weight and was run on the contracted input artifacts.
\<close>

theorem strict_success_iff_solved:
  assumes "score_evidence h e c p = Inr g"
  shows "(gr_strict_success g = Some True \<longleftrightarrow> solved e c) \<and> (gr_benchmark_score g = Some 1 \<longleftrightarrow> solved e c)"
proof -
  note chk = score_evidence_checks[OF assms]
  have sol: "solved e c \<longleftrightarrow> first_non_pass e = None"
    using all_pass_solved[OF chk(1,4)] by (auto simp: first_non_pass_None solved_def)
  show ?thesis using assms by (cases rule: score_evidenceE) (auto simp: sol grade_defs)
qed

text \<open>The grades the scorer builds always pass the validation of \<open>Grade\<close>.\<close>

lemma first_non_pass_mem: "first_non_pass e = Some s \<Longrightarrow> s \<in> set (ev_stages e)"
  by (auto simp: first_non_pass_def dest: find_Some_mem)

lemma comparable_grade_valid:
  assumes e: "evidence_check h e = None" and p: "policy_check p = None"
    and hex: "hexdigest_ok h" and r: "float_in (-1) 1 r"
    and nin: "\<And>s. first_non_pass e = Some s \<Longrightarrow> se_outcome s \<notin> infra_outcomes"
  shows "grade_check (comparable_grade h e c p r) = None"
proof -
  note ed = evidence_checkD[OF e]
  have np: "grade_first_non_pass (comparable_grade h e c p r) = map_option se_stage (first_non_pass e)"
    by (rule first_non_pass_order[OF ed(1)]) (simp add: grade_defs)
  note facts = np ed(4) request_checkD[OF ed(5)] policy_checkD(1)[OF p] sha256_json_ok[OF hex] r
    stage_outcomes_total[OF ed(1)]
  show ?thesis
  proof (cases "first_non_pass e")
    case None
    then show ?thesis using facts
      by (simp add: grade_check_def artifact_ref_ok_def opt_ok_def float_in_def is_f64_def grade_defs)
  next
    case (Some s)
    note mem = first_non_pass_mem[OF Some]
    have "stage_outcomes_of e (se_stage s) \<notin> {Some INFRA_ERROR, Some UNSUPPORTED}"
      using stage_outcomes_of_eq[OF ed(1) mem] nin[OF Some] by (auto simp: infra_outcomes_def)
    then show ?thesis using facts Some stage_evidence_checkD(3)[OF ed(2)[OF mem]]
      by (simp add: grade_check_def artifact_ref_ok_def opt_ok_def float_in_def is_f64_def grade_defs)
  qed
qed

lemma incomparable_grade_valid:
  assumes e: "evidence_check h e = None" and p: "policy_check p = None" and hex: "hexdigest_ok h"
    and np: "first_non_pass e = Some s" "se_outcome s \<in> infra_outcomes"
  shows "grade_check (incomparable_grade h e c p) = None"
proof -
  note ed = evidence_checkD[OF e] and mem = first_non_pass_mem[OF np(1)]
  have fnp: "grade_first_non_pass (incomparable_grade h e c p) = map_option se_stage (first_non_pass e)"
    by (rule first_non_pass_order[OF ed(1)]) (simp add: grade_defs)
  have "stage_outcomes_of e (se_stage s) \<in> {Some INFRA_ERROR, Some UNSUPPORTED}"
    using stage_outcomes_of_eq[OF ed(1) mem] np(2) by (auto simp: infra_outcomes_def)
  then show ?thesis
    using fnp ed(4) request_checkD[OF ed(5)] policy_checkD(1)[OF p] sha256_json_ok[OF hex]
      stage_outcomes_total[OF ed(1)] stage_evidence_checkD(3)[OF ed(2)[OF mem]] np(1)
    by (simp add: grade_check_def artifact_ref_ok_def opt_ok_def grade_defs)
qed

lemma score_incomparable:
  assumes e: "evidence_check h e = None" and c: "contract_check c = None" and p: "policy_check p = None"
    and v: "validate_contract e c = None" and hex: "hexdigest_ok h"
    and s: "first_non_pass e = Some s" "se_outcome s \<in> infra_outcomes"
  shows "score_evidence h e c p = Inr (incomparable_grade h e c p)"
  using e c p v s incomparable_grade_valid[OF e p hex s] by (simp add: score_evidence_def make_grade_def)

lemma score_comparable:
  assumes e: "evidence_check h e = None" and c: "contract_check c = None" and p: "policy_check p = None"
    and v: "validate_contract e c = None" and hex: "hexdigest_ok h"
    and ninf: "\<not> (\<exists>s. first_non_pass e = Some s \<and> se_outcome s \<in> infra_outcomes)"
  obtains r where "score_evidence h e c p = Inr (comparable_grade h e c p r)"
    "training_reward e p (map_option se_stage (first_non_pass e))
       (map_option se_reason_code (first_non_pass e)) (explicit_hack e p) = Inr r"
proof -
  obtain r where r: "training_reward e p (map_option se_stage (first_non_pass e))
      (map_option se_reason_code (first_non_pass e)) (explicit_hack e p) = Inr r"
    using training_reward_defined[OF evidence_checkD(1)[OF e]] stage_in_order by blast
  have "grade_check (comparable_grade h e c p r) = None"
    using ninf by (intro comparable_grade_valid[OF e p hex training_reward_range[OF e p r]]) auto
  moreover have "(case first_non_pass e of None \<Rightarrow> False | Some s \<Rightarrow> se_outcome s \<in> infra_outcomes) = False"
    using ninf by (auto split: option.split)
  ultimately show thesis using that e c p v r by (simp add: score_evidence_def make_grade_def)
qed

lemma score_total:
  assumes "evidence_check h e = None" "contract_check c = None" "policy_check p = None"
    and "validate_contract e c = None" "hexdigest_ok h"
  shows "\<exists>g. score_evidence h e c p = Inr g"
  using score_incomparable[OF assms] score_comparable[OF assms] by metis


section \<open>Comparability and rewards\<close>






text \<open>
  What a grade says about an attempt depends on the reward policy only through the reward: the
  evidence graded under any other valid policy gets the same verdict, benchmark score, comparability,
  failure fields and digests.
\<close>

theorem verdict_independent_of_policy:
  assumes g: "score_evidence h e c p = Inr g" and p': "policy_check p' = None" and hex: "hexdigest_ok h"
  shows "\<exists>r. score_evidence h e c p' = Inr (g\<lparr>gr_policy_id := rp_policy_id p', gr_training_reward := r\<rparr>)"
proof -
  note chk = score_evidence_checks[OF g]
  obtain g' where g': "score_evidence h e c p' = Inr g'"
    using score_total[OF chk(1,2) p' chk(4) hex] by blast
  have "g' = g\<lparr>gr_policy_id := rp_policy_id p', gr_training_reward := gr_training_reward g'\<rparr>"
    using g
  proof (cases rule: score_evidenceE)
    case infra
    from g' show ?thesis
      by (cases rule: score_evidenceE) (use infra in \<open>auto simp: grade_defs\<close>)
  next
    case scored
    from g' show ?thesis
      by (cases rule: score_evidenceE) (use scored in \<open>auto simp: grade_defs\<close>)
  qed
  then show ?thesis using g' by metis
qed

text \<open>
  C5. Grades are fail-closed on infrastructure: a grade is comparable exactly when the first stage that
  did not pass is no infrastructure outcome, and an incomparable grade carries neither a verdict, a
  benchmark score nor a reward.  A comparable failed attempt classified as a hack earns exactly the
  hack reward.
\<close>

theorem comparable_and_hacks:
  assumes g: "score_evidence h e c p = Inr g"
  shows "(gr_comparable g \<longleftrightarrow> \<not> (\<exists>s. first_non_pass e = Some s \<and> se_outcome s \<in> infra_outcomes)) \<and>
    (\<not> gr_comparable g \<longrightarrow> gr_strict_success g = None \<and> gr_benchmark_score g = None \<and>
       gr_training_reward g = None) \<and>
    (gr_comparable g \<and> gr_strict_success g = Some False \<and> hacked e p \<longrightarrow>
       gr_training_reward g = Some (rp_explicit_hack_reward p))"
  using g
proof (cases rule: score_evidenceE)
  case infra
  then show ?thesis by (simp add: grade_defs)
next
  case (scored r)
  have "r = rp_explicit_hack_reward p" if "first_non_pass e = Some s" "hacked e p" for s
    using that scored(3) training_reward_hack[of "explicit_hack e p" p _ e] by (auto simp: hacked_def)
  then show ?thesis using scored(1,2) by (auto simp: grade_defs)
qed

section \<open>Concrete gradings\<close>

lemma reason_R: "\<not> startswith ''R'' ''HACK_''" "\<not> startswith ''OK'' ''HACK_''"
  by (simp_all add: startswith_iff)

lemmas sample_eval = stopped_evidence_def evidence_of_def solved_evidence_def STAGE_ORDER_def
  passed_stage_def sample_check_def checked_stages_def first_non_pass_def

lemmas match_eval = validate_contract_def stage_matches_def check_matches_def sample_contract_def
  sample_expected_def sample_request_def Let_def orelse_None_iff

lemma solved_matches [simp]: "validate_contract solved_evidence sample_contract = None"
  by (simp add: sample_eval match_eval)

lemma compile_matches [simp]:
  "validate_contract (stopped_evidence (sample_stage COMPILE out [])) sample_contract = None"
  by (simp add: sample_eval match_eval)

lemma functional_matches [simp]:
  "validate_contract (stopped_evidence (sample_stage FUNCTIONAL out [sample_check out' r])) sample_contract = None"
  by (simp add: sample_eval match_eval)

lemma semantics_matches [simp]:
  "validate_contract (stopped_evidence (sample_stage SEMANTICS out [sample_check out' r])) sample_contract = None"
  by (simp add: sample_eval match_eval)

lemma stopped_first [simp]:
  "se_outcome s \<noteq> PASS \<Longrightarrow> first_non_pass (stopped_evidence s) = Some s"
  by (cases "se_stage s") (simp_all add: sample_eval)

lemma solved_first [simp]: "first_non_pass solved_evidence = None"
  by (simp add: sample_eval)

lemma unchecked_stage_ok [simp]:
  "stage_evidence_check (sample_stage st FAIL []) = None" "stage_evidence_check (sample_stage st INFRA_ERROR []) = None"
  by (simp_all add: stage_evidence_check_def sample_stage_def text_ok_def dict_ok_def se_required_def se_failed_def)

lemma checked_stage_ok [simp]:
  "stable_id r \<Longrightarrow> stage_evidence_check (sample_stage st FAIL [sample_check FAIL r]) = None"
  "stable_id r \<Longrightarrow> stage_evidence_check (sample_stage st TIMEOUT [sample_check PASS r]) = None"
  by (simp_all add: stage_evidence_check_def sample_stage_def text_ok_def dict_ok_def se_required_def se_failed_def)
    (simp_all add: sample_check_def)

abbreviation compile_failure :: stage_evidence where
  "compile_failure \<equiv> sample_stage COMPILE FAIL []"

abbreviation functional_failure :: "string \<Rightarrow> stage_evidence" where
  "functional_failure r \<equiv> sample_stage FUNCTIONAL FAIL [sample_check FAIL r]"

abbreviation semantics_timeout :: stage_evidence where
  "semantics_timeout \<equiv> sample_stage SEMANTICS TIMEOUT [sample_check PASS ''OK'']"

lemma stable_p [simp]: "stable_id ''p''" "stable_id ''q''"
  by (simp_all add: id_simps)

lemma sample_not_hacked [simp]:
  "\<not> hacked (stopped_evidence compile_failure) (default_policy n)"
  "\<not> hacked (stopped_evidence (functional_failure ''R'')) (default_policy n)"
  by (simp_all add: hacked_def explicit_hack_def hack_reason_def default_policy_def)
    (simp_all add: sample_eval reason_R)

lemma sample_score:
  assumes "stage_evidence_check s = None" "se_outcome s \<in> {FAIL, TIMEOUT}"
    and "validate_contract (stopped_evidence s) sample_contract = None" "policy_check p = None"
  obtains g r where "score_evidence sample_hasher (stopped_evidence s) sample_contract p = Inr g"
    "gr_comparable g" "gr_first_failure g = Some (se_stage s)" "gr_strict_success g = Some False"
    "gr_training_reward g = Some r"
    "training_reward (stopped_evidence s) p (Some (se_stage s)) (Some (se_reason_code s))
       (explicit_hack (stopped_evidence s) p) = Inr r"
proof -
  have f: "first_non_pass (stopped_evidence s) = Some s" using assms(2) by (intro stopped_first) auto
  have "evidence_check sample_hasher (stopped_evidence s) = None"
    using assms by (intro stopped_evidence_ok) auto
  then obtain r where
    "score_evidence sample_hasher (stopped_evidence s) sample_contract p =
       Inr (comparable_grade sample_hasher (stopped_evidence s) sample_contract p r)"
    "training_reward (stopped_evidence s) p (Some (se_stage s)) (Some (se_reason_code s))
       (explicit_hack (stopped_evidence s) p) = Inr r"
    using assms f by (auto elim!: score_comparable[OF _ _ assms(4,3)] simp: infra_outcomes_def)
  then show thesis by (intro that) (auto simp: comparable_grade_def f)
qed

theorem strict_success_iff_solved_witness:
  "\<exists>g. score_evidence sample_hasher solved_evidence sample_contract (default_policy ''p'') = Inr g \<and>
     gr_strict_success g = Some True \<and> gr_benchmark_score g = Some 1"
proof -
  obtain g where g: "score_evidence sample_hasher solved_evidence sample_contract (default_policy ''p'') = Inr g"
    using score_total[of sample_hasher solved_evidence sample_contract "default_policy ''p''"] by auto
  have "solved solved_evidence sample_contract"
    by (rule all_pass_solved[where h = sample_hasher]) (simp_all flip: first_non_pass_None)
  then show ?thesis using g strict_success_iff_solved[OF g] by blast
qed




theorem verdict_independent_of_policy_witness:
  "\<exists>g r. score_evidence sample_hasher solved_evidence sample_contract (default_policy ''p'') = Inr g \<and>
     score_evidence sample_hasher solved_evidence sample_contract (default_policy ''q'') =
       Inr (g\<lparr>gr_policy_id := ''q'', gr_training_reward := r\<rparr>)"
proof -
  obtain g where g: "score_evidence sample_hasher solved_evidence sample_contract (default_policy ''p'') = Inr g"
    using score_total[of sample_hasher solved_evidence sample_contract "default_policy ''p''"] by auto
  have "rp_policy_id (default_policy ''q'') = ''q''" by (simp add: default_policy_def)
  then show ?thesis using g verdict_independent_of_policy[OF g, of "default_policy ''q''"] by auto
qed

theorem comparable_and_hacks_witness:
  "\<exists>g. score_evidence sample_hasher (stopped_evidence (functional_failure ''HACK_X'')) sample_contract
       (default_policy ''p'') = Inr g \<and> gr_training_reward g = Some (-1)"
proof -
  obtain g where g: "score_evidence sample_hasher (stopped_evidence (functional_failure ''HACK_X'')) sample_contract
      (default_policy ''p'') = Inr g" "gr_comparable g" "gr_strict_success g = Some False"
    by (rule sample_score[of "functional_failure ''HACK_X''" "default_policy ''p''"]) simp_all
  have "explicit_hack (stopped_evidence (functional_failure ''HACK_X'')) (default_policy ''p'')"
    by (simp add: explicit_hack_def default_policy_def sample_eval startswith_iff)
  then have "hacked (stopped_evidence (functional_failure ''HACK_X'')) (default_policy ''p'')"
    by (simp add: hacked_def)
  then show ?thesis using g comparable_and_hacks[OF g(1)] by (simp add: default_policy_def)
qed

lemma tight_semantics_reward:
  "fl64 (21/100) < fadd (fl64 (8/100)) (fmul (fsub (fl64 (21/100)) (fl64 (8/100))) 1)"
  by code_simp

lemma semantics_timeout_fraction [simp]: "required_fraction semantics_timeout = 1"
  by (simp add: required_fraction_def se_required_def sample_check_def fsum_def fadd_def fdiv_def fl64_one fl64_zero)

lemma semantics_timeout_not_hacked: "\<not> explicit_hack (stopped_evidence semantics_timeout) tight_policy"
  by (simp add: explicit_hack_def tight_policy_def default_policy_def) (simp add: sample_eval)

lemma stopped_find [simp]: "find (\<lambda>x. se_stage x = se_stage s) (ev_stages (stopped_evidence s)) = Some s"
  by (cases "se_stage s") (simp_all add: sample_eval)

text \<open>
  C6. The caps bound the shaped reward only up to rounding.  With a semantics cap equal to the success
  reward, an attempt whose semantics stage times out after passing its required checks is strictly a
  failure and yet earns more than a solved attempt does.
\<close>

theorem semantics_reward_exceeds_success:
  "\<exists>g r. policy_check tight_policy = None \<and>
     score_evidence sample_hasher (stopped_evidence semantics_timeout) sample_contract tight_policy = Inr g \<and>
     gr_strict_success g = Some False \<and> gr_training_reward g = Some r \<and> rp_success_reward tight_policy < r"
proof -
  obtain g r where g: "score_evidence sample_hasher (stopped_evidence semantics_timeout) sample_contract
      tight_policy = Inr g" "gr_strict_success g = Some False" "gr_training_reward g = Some r"
    "training_reward (stopped_evidence semantics_timeout) tight_policy (Some SEMANTICS) (Some ''R'')
       (explicit_hack (stopped_evidence semantics_timeout) tight_policy) = Inr r"
    by (rule sample_score[of semantics_timeout tight_policy]) simp_all
  have nh: "\<not> (False \<or> hack_reason tight_policy (Some ''R''))"
    by (simp add: hack_reason_def tight_policy_def default_policy_def reason_R)
  have "r = fadd (rp_functional_reward_cap tight_policy)
      (fmul (fsub (rp_semantics_reward_cap tight_policy) (rp_functional_reward_cap tight_policy)) 1)"
    using g(4) training_reward_nohack[OF nh, of "stopped_evidence semantics_timeout" SEMANTICS]
      stopped_find[of semantics_timeout] by (simp add: semantics_timeout_not_hacked)
  then have "rp_success_reward tight_policy < r"
    using tight_semantics_reward by (simp add: tight_policy_def)
  then show ?thesis using g(1-3) by simp
qed

end
