(* ===== verification/Bytes.thy ===== *)
theory Bytes
  imports Canonical
begin

text \<open>
  Bytes as the wire formats use them: lowercase hexadecimal (\<open>bytes.hex\<close>, \<open>bytearray.fromhex\<close>) and
  big-endian unsigned integers (\<open>struct\<close> formats \<open>B\<close>, \<open>H\<close>, \<open>I\<close>, \<open>Q\<close> with \<open>!\<close>).  The locale \<open>codec\<close> is
  the contract of a wire format: the decoder inverts the encoder on valid values and accepts nothing
  that the encoder does not produce.  Hexadecimal and the native launcher's frames interpret it.
\<close>

section \<open>Wire formats\<close>

locale codec =
  fixes enc :: "'a \<Rightarrow> 'b" and dec :: "'b \<Rightarrow> 'a result" and valid :: "'a \<Rightarrow> bool"
  assumes dec_enc: "valid x \<Longrightarrow> dec (enc x) = Inr x"
    and dec_sound: "dec y = Inr x \<Longrightarrow> valid x \<and> enc x = y"
begin

lemma dec_iff: "dec y = Inr x \<longleftrightarrow> valid x \<and> y = enc x"
  using dec_enc dec_sound by auto

lemma enc_inj: "valid x \<Longrightarrow> valid x' \<Longrightarrow> enc x = enc x' \<Longrightarrow> x = x'"
  using dec_enc by (metis sum.inject(2))

lemma dec_inj: "dec y = Inr x \<Longrightarrow> dec y' = Inr x \<Longrightarrow> y = y'"
  using dec_sound by metis

text \<open>Decoding a sequence of encodings, element by element.\<close>

lemma traverse_dec_iff: "traverse dec ys = Inr xs \<longleftrightarrow> list_all valid xs \<and> ys = map enc xs"
proof (induction ys arbitrary: xs)
  case (Cons y ys)
  then show ?case by (cases xs) (auto simp: rbind_Inr_iff dec_iff)
qed auto

end

section \<open>Hexadecimal\<close>

definition hex_val :: "char \<Rightarrow> nat option" where
  "hex_val c = (if is_digit c then Some (of_char c - 48)
     else if CHR ''a'' \<le> c \<and> c \<le> CHR ''f'' then Some (of_char c - 87) else None)"

text \<open>\<open>bytearray.fromhex\<close> on the strings the patterns of \<open>HexBytes\<close> and \<open>NonEmptyHexBytes\<close> admit.\<close>

fun fromhex :: "string \<Rightarrow> byte list result" where
  "fromhex [] = Inr []"
| "fromhex [c] = Inl (Exn ''ValueError'' ''non-hexadecimal number found in fromhex() arg'')"
| "fromhex (c # d # cs) =
     (case (hex_val c, hex_val d) of
        (Some a, Some b) \<Rightarrow> rbind (fromhex cs) (\<lambda>bs. Inr (word_of_nat (16 * a + b) # bs))
      | _ \<Rightarrow> Inl (Exn ''ValueError'' ''non-hexadecimal number found in fromhex() arg''))"

definition hex_byte :: "byte \<Rightarrow> string" where
  "hex_byte b = [hex_digit (unat b div 16), hex_digit (unat b mod 16)]"

definition tohex :: "byte list \<Rightarrow> string" where
  "tohex bs = concat (map hex_byte bs)"

definition hex_bytes_ok :: "string \<Rightarrow> bool" where
  "hex_bytes_ok s \<longleftrightarrow> even (length s) \<and> list_all is_hex s"

section \<open>Big-endian integers\<close>

definition be_bytes :: "nat \<Rightarrow> nat \<Rightarrow> byte list" where
  "be_bytes n v = map (\<lambda>i. word_of_nat (v div 256 ^ (n - 1 - i))) [0..<n]"

definition be_val :: "byte list \<Rightarrow> nat" where
  "be_val bs = foldl (\<lambda>acc b. 256 * acc + unat b) 0 bs"

section \<open>Hexadecimal round trips\<close>

lemma hex_val_digit: "n < 16 \<Longrightarrow> hex_val (hex_digit n) = Some n"
  by (simp add: hex_val_def hex_digit_def is_digit_def less_eq_char_def)

lemma hex_val_is_hex: "hex_val c \<noteq> None \<longleftrightarrow> is_hex c"
  by (auto simp: hex_val_def is_hex_def)

lemma hex_digit_val: "hex_val c = Some n \<Longrightarrow> n < 16 \<and> hex_digit n = c"
  by (auto simp: hex_val_def hex_digit_def is_digit_def less_eq_char_def split: if_splits)

lemma hex_digit_is_hex: "n < 16 \<Longrightarrow> is_hex (hex_digit n)"
  using hex_val_digit hex_val_is_hex by fastforce

lemma byte_halves: "(word_of_nat (16 * (unat b div 16) + unat b mod 16) :: byte) = b"
  by simp

lemma unat_byte_less: "unat (b :: byte) < 256"
  using unsigned_less[of b] by simp

lemma byte_digits:
  assumes "a < 16" "b < 16"
  shows "unat (16 * word_of_nat a + word_of_nat b :: byte) = 16 * a + b"
proof -
  have "(16 * word_of_nat a + word_of_nat b :: byte) = word_of_nat (16 * a + b)" by simp
  then show ?thesis using assms by (simp only: unat_of_nat) simp
qed

lemma fromhex_tohex: "fromhex (tohex bs) = Inr bs"
proof (induction bs)
  case (Cons b bs)
  have "unat b div 16 < 16" using unat_byte_less[of b] by simp
  then show ?case
    using Cons by (simp add: tohex_def hex_byte_def hex_val_digit byte_halves)
qed (simp add: tohex_def)

lemma tohex_fromhex: "fromhex s = Inr bs \<Longrightarrow> tohex bs = s"
proof (induction s arbitrary: bs rule: fromhex.induct)
  case (3 c d cs)
  then obtain a b bs' where "hex_val c = Some a" "hex_val d = Some b" "fromhex cs = Inr bs'"
    "bs = word_of_nat (16 * a + b) # bs'"
    by (auto simp: rbind_Inr_iff split: option.splits)
  then show ?case
    using 3(1) hex_digit_val[of c a] hex_digit_val[of d b] by (simp add: tohex_def hex_byte_def byte_digits)
qed (auto simp: tohex_def)

interpretation hex: codec tohex fromhex "\<lambda>_. True"
  by unfold_locales (auto simp: fromhex_tohex tohex_fromhex)

lemma tohex_simps [simp]: "tohex [] = []" "tohex (b # bs) = hex_byte b @ tohex bs"
  by (simp_all add: tohex_def)

lemma length_tohex [simp]: "length (tohex bs) = 2 * length bs"
  by (induction bs) (simp_all add: hex_byte_def)

lemma tohex_eq [simp]: "tohex bs = tohex bs' \<longleftrightarrow> bs = bs'"
  using hex.enc_inj by auto

lemma tohex_ok [simp]: "hex_bytes_ok (tohex bs)"
proof (induction bs)
  case (Cons b bs)
  have "unat b div 16 < 16" using unat_byte_less[of b] by simp
  then show ?case using Cons by (simp add: hex_bytes_ok_def hex_byte_def hex_digit_is_hex)
qed (simp add: hex_bytes_ok_def)

lemma hex_bytes_ok_fromhex: "hex_bytes_ok s \<Longrightarrow> \<exists>bs. fromhex s = Inr bs"
proof (induction s rule: fromhex.induct)
  case (3 c d cs)
  then obtain a b where "hex_val c = Some a" "hex_val d = Some b"
    using hex_val_is_hex[of c] hex_val_is_hex[of d] by (auto simp: hex_bytes_ok_def)
  then show ?case using 3 by (fastforce simp: hex_bytes_ok_def)
qed (auto simp: hex_bytes_ok_def)

lemma hex_bytes_okE:
  assumes "hex_bytes_ok s"
  obtains bs where "s = tohex bs" "fromhex s = Inr bs"
  using hex_bytes_ok_fromhex[OF assms] tohex_fromhex by blast

section \<open>Big-endian round trips\<close>

lemma be_bytes_Suc: "be_bytes (Suc n) v = word_of_nat (v div 256 ^ n) # be_bytes n v"
proof -
  have "map (\<lambda>i. (word_of_nat (v div 256 ^ (n - i)) :: byte)) (map Suc [0..<n]) = be_bytes n v"
    by (simp add: be_bytes_def)
  then show ?thesis by (simp add: be_bytes_def upt_conv_Cons map_Suc_upt[symmetric] del: upt_Suc map_map)
qed

lemma length_be_bytes [simp]: "length (be_bytes n v) = n"
  by (simp add: be_bytes_def)

lemma be_val_acc: "foldl (\<lambda>acc b. 256 * acc + unat b) a bs = a * 256 ^ length bs + be_val (bs :: byte list)"
proof (induction bs arbitrary: a)
  case (Cons b bs)
  show ?case unfolding be_val_def using Cons[of "256 * a + unat b"] Cons[of "unat b"]
    by (simp add: algebra_simps)
qed (simp add: be_val_def)

lemma be_val_Nil [simp]: "be_val [] = 0"
  by (simp add: be_val_def)

lemma be_val_Cons: "be_val (b # bs) = unat b * 256 ^ length bs + be_val bs"
  using be_val_acc[of "unat b" bs] by (simp add: be_val_def)

lemma be_val_less: "be_val bs < 256 ^ length bs"
proof (induction bs)
  case (Cons b bs)
  have "unat b * 256 ^ length bs + be_val bs < (unat b + 1) * 256 ^ length bs" using Cons by simp
  also have "\<dots> \<le> 256 * 256 ^ length bs"
    using unat_byte_less[of b] by (intro mult_right_mono) auto
  finally show ?case by (simp add: be_val_Cons)
qed simp

lemma be_val_be_bytes: "v < 256 ^ n \<Longrightarrow> be_val (be_bytes n v) = v"
proof -
  have "be_val (be_bytes n v) = v mod 256 ^ n"
  proof (induction n)
    case (Suc n)
    have "v mod 256 ^ Suc n = v div 256 ^ n mod 256 * 256 ^ n + v mod 256 ^ n"
      by (metis add.commute mod_mult2_eq mult.commute power_Suc2)
    then show ?case using Suc by (simp add: be_bytes_Suc be_val_Cons unat_of_nat take_bit_eq_mod)
  qed (simp add: be_bytes_def)
  then show "v < 256 ^ n \<Longrightarrow> ?thesis" by simp
qed

lemma byte_256: "(256 :: byte) = 0"
  by (simp add: word_eq_iff_unsigned)

lemma be_bytes_be_val: "be_bytes (length bs) (be_val bs) = bs"
proof (induction bs)
  case (Cons b bs)
  have l: "be_val bs < 256 ^ length bs" by (rule be_val_less)
  have "be_bytes (length bs) (unat b * 256 ^ length bs + be_val bs) = be_bytes (length bs) (be_val bs)"
    unfolding be_bytes_def
  proof (rule map_cong[OF refl])
    fix i assume "i \<in> set [0..<length bs]"
    then have "(256::nat) ^ length bs = 256 ^ (i + 1) * 256 ^ (length bs - 1 - i)"
      by (subst power_add[symmetric], intro arg_cong[where f = "\<lambda>k. 256 ^ k"]) simp
    then have "(unat b * 256 ^ length bs + be_val bs) div 256 ^ (length bs - 1 - i)
        = unat b * 256 ^ (i + 1) + be_val bs div 256 ^ (length bs - 1 - i)"
      by (simp add: mult.assoc[symmetric])
    then show "(word_of_nat ((unat b * 256 ^ length bs + be_val bs) div 256 ^ (length bs - 1 - i)) :: byte)
        = word_of_nat (be_val bs div 256 ^ (length bs - 1 - i))"
      by (simp only: of_nat_add of_nat_mult of_nat_power) (simp add: byte_256)
  qed
  then show ?case using Cons l by (simp add: be_bytes_Suc be_val_Cons)
qed (simp add: be_bytes_def)

end
