(* ===== verification/Oracle.thy ===== *)
theory Oracle
  imports Models Bytes
begin

text \<open>
  \<open>oracle.py\<close>: the XDP differential oracle.  A frozen contract declares, per case, which observations
  are compared (assertions) and which byte ranges are masked first (normalisations);
  \<open>derive_oracle_report\<close> normalises a candidate and a reference trace, compares them assertion by
  assertion and reports the first required mismatch; \<open>verify_oracle_report\<close> accepts a stored report only
  if it is that derivation.  Observed bytes are lowercase hexadecimal strings, as in the records.
\<close>

abbreviation OCE :: "string \<Rightarrow> exn" where
  "OCE m \<equiv> Exn ''OracleContractError'' m"

definition MAX_ORACLE_CASES :: nat where "MAX_ORACLE_CASES = 256"
definition MAX_ASSERTIONS_PER_CASE :: nat where "MAX_ASSERTIONS_PER_CASE = 256"
definition MAX_COLLECTION_ITEMS :: nat where "MAX_COLLECTION_ITEMS = 16384"
definition MAX_OBSERVATION_BYTES :: nat where "MAX_OBSERVATION_BYTES = 16 * 1024 * 1024"
definition MAX_TRACE_OBSERVATION_BYTES :: nat where "MAX_TRACE_OBSERVATION_BYTES = 128 * 1024 * 1024"
definition MAX_NORMALIZATIONS_PER_CASE :: nat where "MAX_NORMALIZATIONS_PER_CASE = 256"

lemmas max_defs = MAX_ORACLE_CASES_def MAX_ASSERTIONS_PER_CASE_def MAX_COLLECTION_ITEMS_def
  MAX_OBSERVATION_BYTES_def MAX_TRACE_OBSERVATION_BYTES_def MAX_NORMALIZATIONS_PER_CASE_def

definition HexBytes :: "string \<Rightarrow> bool" where
  "HexBytes s \<longleftrightarrow> hex_bytes_ok s \<and> length s \<le> MAX_OBSERVATION_BYTES * 2"

definition NonEmptyHexBytes :: "string \<Rightarrow> bool" where
  "NonEmptyHexBytes s \<longleftrightarrow> hex_bytes_ok s \<and> 2 \<le> length s \<and> length s \<le> MAX_OBSERVATION_BYTES * 2"

definition Unsigned32 :: "int \<Rightarrow> bool" where "Unsigned32 i \<longleftrightarrow> 0 \<le> i \<and> i \<le> 2 ^ 32 - 1"
definition Unsigned64 :: "int \<Rightarrow> bool" where "Unsigned64 i \<longleftrightarrow> 0 \<le> i \<and> i \<le> 2 ^ 64 - 1"
definition CounterDelta :: "int \<Rightarrow> bool" where "CounterDelta i \<longleftrightarrow> - (2 ^ 64) + 1 \<le> i \<and> i \<le> 2 ^ 64 - 1"

section \<open>The contract\<close>

record content_identity =
  ci_sha256 :: string
  ci_size_bytes :: int
  ci_media_type :: string

definition content_identity_ok :: "content_identity \<Rightarrow> bool" where
  "content_identity_ok c \<longleftrightarrow> sha256_ok (ci_sha256 c) \<and>
     1 \<le> ci_size_bytes c \<and> ci_size_bytes c \<le> int MAX_OBSERVATION_BYTES \<and> text_ok 1 127 (ci_media_type c)"

definition content_identity_json :: "content_identity \<Rightarrow> json" where
  "content_identity_json c = JObj
     [(''sha256'', JStr (ci_sha256 c)), (''size_bytes'', JInt (ci_size_bytes c)),
      (''media_type'', JStr (ci_media_type c))]"

record case_input =
  xi_fixture :: content_identity

definition case_input_ok :: "case_input \<Rightarrow> bool" where
  "case_input_ok i \<longleftrightarrow> content_identity_ok (xi_fixture i)"

definition case_input_json :: "case_input \<Rightarrow> json" where
  "case_input_json i = JObj
     [(''fixture'', content_identity_json (xi_fixture i)), (''driver'', JStr ''bpf_prog_run/xdp@1''),
      (''repeat'', JInt 1)]"

datatype counter_mode = MODE_FINAL | MODE_DELTA

fun mode_value :: "counter_mode \<Rightarrow> string" where
  "mode_value MODE_FINAL = ''final''"
| "mode_value MODE_DELTA = ''delta''"

text \<open>What an assertion observes: its kind with the identifiers that kind carries.\<close>

datatype target =
    Retval
  | PacketBytes
  | ContextBytes
  | MapSnapshot string
  | MapDelta string
  | OrderedEvents string
  | Counter string counter_mode

fun kind_value :: "target \<Rightarrow> string" where
  "kind_value Retval = ''retval''"
| "kind_value PacketBytes = ''packet_bytes''"
| "kind_value ContextBytes = ''context_bytes''"
| "kind_value (MapSnapshot m) = ''map_snapshot''"
| "kind_value (MapDelta m) = ''map_delta''"
| "kind_value (OrderedEvents s) = ''ordered_events''"
| "kind_value (Counter c m) = ''counter''"

fun target_ok :: "target \<Rightarrow> bool" where
  "target_ok (MapSnapshot m) = stable_id m"
| "target_ok (MapDelta m) = stable_id m"
| "target_ok (OrderedEvents s) = stable_id s"
| "target_ok (Counter c m) = stable_id c"
| "target_ok _ = True"

fun target_fields :: "target \<Rightarrow> (string \<times> json) list" where
  "target_fields (MapSnapshot m) = [(''map_id'', JStr m)]"
| "target_fields (MapDelta m) = [(''map_id'', JStr m)]"
| "target_fields (OrderedEvents s) = [(''stream_id'', JStr s)]"
| "target_fields (Counter c m) = [(''counter_id'', JStr c), (''mode'', JStr (mode_value m))]"
| "target_fields _ = []"

record assertion =
  as_assertion_id :: string
  as_required :: bool
  as_weight :: rat
  as_target :: target

definition assertion_ok :: "assertion \<Rightarrow> bool" where
  "assertion_ok a \<longleftrightarrow> stable_id (as_assertion_id a) \<and> weight_ok (as_weight a) \<and> target_ok (as_target a)"

definition assertion_json :: "assertion \<Rightarrow> json" where
  "assertion_json a = JObj
     ([(''assertion_id'', JStr (as_assertion_id a)), (''required'', JBool (as_required a)),
       (''weight'', JFloat (as_weight a)), (''kind'', JStr (kind_value (as_target a)))] @
      target_fields (as_target a))"

datatype component = C_BYTES | C_KEY | C_VALUE | C_RECORD

fun component_value :: "component \<Rightarrow> string" where
  "component_value C_BYTES = ''bytes''"
| "component_value C_KEY = ''key''"
| "component_value C_VALUE = ''value''"
| "component_value C_RECORD = ''record''"

fun allowed_components :: "target \<Rightarrow> component set" where
  "allowed_components PacketBytes = {C_BYTES}"
| "allowed_components ContextBytes = {C_BYTES}"
| "allowed_components (MapSnapshot m) = {C_KEY, C_VALUE}"
| "allowed_components (MapDelta m) = {C_KEY, C_VALUE}"
| "allowed_components (OrderedEvents s) = {C_RECORD}"
| "allowed_components _ = {}"

record byte_range =
  br_offset :: nat
  br_length :: nat

definition byte_range_ok :: "byte_range \<Rightarrow> bool" where
  "byte_range_ok r \<longleftrightarrow> br_offset r \<le> MAX_OBSERVATION_BYTES \<and>
     1 \<le> br_length r \<and> br_length r \<le> MAX_OBSERVATION_BYTES \<and>
     br_offset r + br_length r \<le> MAX_OBSERVATION_BYTES"

definition position :: "byte_range \<Rightarrow> nat \<times> nat" where
  "position r = (br_offset r, br_offset r + br_length r)"

definition overlapping :: "(nat \<times> nat) list \<Rightarrow> bool" where
  "overlapping ps \<longleftrightarrow> (\<exists>((_, left_end), (right_start, _)) \<in> set (pairwise ps). left_end > right_start)"

record mask_rule =
  mr_normalization_id :: string
  mr_assertion_id :: string
  mr_component :: component
  mr_ranges :: "byte_range list"

definition mask_rule_check :: "mask_rule \<Rightarrow> exn option" where
  "mask_rule_check r = raises
     [(\<not> stable_id (mr_normalization_id r), VE ''normalization_id''),
      (\<not> stable_id (mr_assertion_id r), VE ''assertion_id''),
      (mr_ranges r = [] \<or> 256 < length (mr_ranges r), VE ''ranges''),
      (\<not> list_all byte_range_ok (mr_ranges r), VE ''ranges''),
      (\<not> sorted (map position (mr_ranges r)), VE ''normalization byte ranges must be sorted''),
      (overlapping (map position (mr_ranges r)), VE ''normalization byte ranges must not overlap'')]"

definition byte_range_json :: "byte_range \<Rightarrow> json" where
  "byte_range_json r = JObj [(''offset'', JInt (int (br_offset r))), (''length'', JInt (int (br_length r)))]"

definition mask_rule_json :: "mask_rule \<Rightarrow> json" where
  "mask_rule_json r = JObj
     [(''kind'', JStr ''mask_byte_ranges''), (''normalization_id'', JStr (mr_normalization_id r)),
      (''assertion_id'', JStr (mr_assertion_id r)),
      (''component'', JStr (component_value (mr_component r))),
      (''ranges'', jarr byte_range_json (mr_ranges r))]"

record oracle_case =
  cs_case_id :: string
  cs_input :: case_input
  cs_assertions :: "assertion list"
  cs_normalizations :: "mask_rule list"

definition assertion_by_id :: "assertion list \<Rightarrow> string \<Rightarrow> assertion option" where
  "assertion_by_id as i = find (\<lambda>a. as_assertion_id a = i) as"

text \<open>The byte ranges all rules together occupy in one component of one assertion.\<close>

definition slot :: "mask_rule list \<Rightarrow> string \<times> component \<Rightarrow> (nat \<times> nat) list" where
  "slot rules key = concat (map (\<lambda>r. map position (mr_ranges r))
     (filter (\<lambda>r. (mr_assertion_id r, mr_component r) = key) rules))"

definition oracle_case_check :: "oracle_case \<Rightarrow> exn option" where
  "oracle_case_check c = raises
     ([(\<not> stable_id (cs_case_id c), VE ''case_id''),
       (\<not> case_input_ok (cs_input c), VE ''input''),
       (cs_assertions c = [] \<or> MAX_ASSERTIONS_PER_CASE < length (cs_assertions c), VE ''assertions''),
       (\<not> list_all assertion_ok (cs_assertions c), VE ''assertions''),
       (MAX_NORMALIZATIONS_PER_CASE < length (cs_normalizations c), VE ''normalizations''),
       (\<exists>r \<in> set (cs_normalizations c). mask_rule_check r \<noteq> None, VE ''normalizations''),
       (\<not> distinct (map as_assertion_id (cs_assertions c)),
         VE ''oracle assertion IDs must be unique within a case''),
       (\<not> (\<exists>a \<in> set (cs_assertions c). as_required a),
         VE ''each oracle case requires at least one required assertion''),
       (\<not> distinct (map as_target (cs_assertions c)),
         VE ''oracle assertion targets must be unique within a case''),
       (\<not> distinct (map mr_normalization_id (cs_normalizations c)),
         VE ''normalization IDs must be unique within a case''),
       (\<not> sorted (map mr_normalization_id (cs_normalizations c)),
         VE ''normalization rules must be sorted by normalization ID'')] @
      concat (map (\<lambda>r.
        [(assertion_by_id (cs_assertions c) (mr_assertion_id r) = None,
           VE ''normalization targets an undeclared assertion''),
         (case assertion_by_id (cs_assertions c) (mr_assertion_id r) of None \<Rightarrow> False
          | Some a \<Rightarrow> mr_component r \<notin> allowed_components (as_target a),
           VE ''normalization component is incompatible with assertion kind'')]) (cs_normalizations c)) @
      [(\<exists>r \<in> set (cs_normalizations c).
          overlapping (sort (slot (cs_normalizations c) (mr_assertion_id r, mr_component r))),
         VE ''normalization rules overlap for one assertion component'')])"

definition oracle_case_json :: "oracle_case \<Rightarrow> json" where
  "oracle_case_json c = JObj
     [(''case_id'', JStr (cs_case_id c)), (''input'', case_input_json (cs_input c)),
      (''assertions'', jarr assertion_json (cs_assertions c)),
      (''normalizations'', jarr mask_rule_json (cs_normalizations c))]"

record oracle_contract =
  oc_task_id :: string
  oc_task_version :: string
  oc_task_bundle_sha256 :: string
  oc_evaluation_plan_sha256 :: string
  oc_grader_id :: string
  oc_environment_id :: string
  oc_environment_sha256 :: string
  oc_harness_commit :: string
  oc_normalizer_version :: string
  oc_normalizer_sha256 :: string
  oc_reference_program :: content_identity
  oc_cases :: "oracle_case list"

definition oracle_contract_check :: "oracle_contract \<Rightarrow> exn option" where
  "oracle_contract_check c = raises
     [(\<not> stable_id (oc_task_id c), VE ''task_id''),
      (\<not> stable_id (oc_task_version c), VE ''task_version''),
      (\<not> sha256_ok (oc_task_bundle_sha256 c), VE ''task_bundle_sha256''),
      (\<not> sha256_ok (oc_evaluation_plan_sha256 c), VE ''evaluation_plan_sha256''),
      (\<not> sha256_ok (oc_grader_id c), VE ''grader_id''),
      (\<not> stable_id (oc_environment_id c), VE ''environment_id''),
      (\<not> sha256_ok (oc_environment_sha256 c), VE ''environment_sha256''),
      (\<not> hex40_ok (oc_harness_commit c), VE ''harness_commit''),
      (\<not> stable_id (oc_normalizer_version c), VE ''normalizer_version''),
      (\<not> sha256_ok (oc_normalizer_sha256 c), VE ''normalizer_sha256''),
      (\<not> content_identity_ok (oc_reference_program c), VE ''reference_program''),
      (oc_cases c = [] \<or> MAX_ORACLE_CASES < length (oc_cases c), VE ''cases''),
      (\<exists>x \<in> set (oc_cases c). oracle_case_check x \<noteq> None, VE ''cases''),
      (\<not> distinct (map cs_case_id (oc_cases c)), VE ''oracle case IDs must be unique'')]"

definition oracle_contract_json :: "oracle_contract \<Rightarrow> json" where
  "oracle_contract_json c = JObj
     [(''schema_version'', JStr ''bpe.xdp-oracle-contract.v1''),
      (''profile'', JStr ''xdp-differential-oracle-v1''),
      (''task_id'', JStr (oc_task_id c)), (''task_version'', JStr (oc_task_version c)),
      (''task_bundle_sha256'', JStr (oc_task_bundle_sha256 c)),
      (''evaluation_plan_sha256'', JStr (oc_evaluation_plan_sha256 c)),
      (''grader_id'', JStr (oc_grader_id c)), (''environment_id'', JStr (oc_environment_id c)),
      (''environment_sha256'', JStr (oc_environment_sha256 c)),
      (''harness_commit'', JStr (oc_harness_commit c)),
      (''normalizer_version'', JStr (oc_normalizer_version c)),
      (''normalizer_sha256'', JStr (oc_normalizer_sha256 c)),
      (''reference_program'', content_identity_json (oc_reference_program c)),
      (''cases'', jarr oracle_case_json (oc_cases c))]"

section \<open>Raw traces\<close>

record map_entry =
  me_key :: string
  me_value :: string

definition map_entry_ok :: "map_entry \<Rightarrow> bool" where
  "map_entry_ok e \<longleftrightarrow> NonEmptyHexBytes (me_key e) \<and> NonEmptyHexBytes (me_value e)"

definition map_entry_json :: "map_entry \<Rightarrow> json" where
  "map_entry_json e = JObj [(''key'', JStr (me_key e)), (''value'', JStr (me_value e))]"

record map_state =
  ms_map_id :: string
  ms_before :: "map_entry list"
  ms_after :: "map_entry list"

definition map_state_check :: "map_state \<Rightarrow> exn option" where
  "map_state_check s = raises
     ([(\<not> stable_id (ms_map_id s), VE ''map_id''),
       (MAX_COLLECTION_ITEMS < length (ms_before s) \<or> \<not> list_all map_entry_ok (ms_before s), VE ''before''),
       (MAX_COLLECTION_ITEMS < length (ms_after s) \<or> \<not> list_all map_entry_ok (ms_after s), VE ''after'')] @
      concat (map (\<lambda>(label, entries).
        [(\<not> sorted (map me_key entries), VE (''map '' @ label @ '' entries must be sorted by key bytes'')),
         (\<not> distinct (map me_key entries), VE (''map '' @ label @ '' keys must be unique''))])
        [(''before'', ms_before s), (''after'', ms_after s)]))"

definition map_state_json :: "map_state \<Rightarrow> json" where
  "map_state_json s = JObj [(''map_id'', JStr (ms_map_id s)), (''before'', jarr map_entry_json (ms_before s)),
     (''after'', jarr map_entry_json (ms_after s))]"

record event_stream =
  es_stream_id :: string
  es_records :: "string list"

definition event_stream_ok :: "event_stream \<Rightarrow> bool" where
  "event_stream_ok e \<longleftrightarrow> stable_id (es_stream_id e) \<and> length (es_records e) \<le> MAX_COLLECTION_ITEMS \<and>
     list_all NonEmptyHexBytes (es_records e)"

definition event_stream_json :: "event_stream \<Rightarrow> json" where
  "event_stream_json e = JObj [(''stream_id'', JStr (es_stream_id e)), (''records'', jarr JStr (es_records e))]"

record counter_trace =
  ct_counter_id :: string
  ct_before :: int
  ct_after :: int

definition counter_trace_ok :: "counter_trace \<Rightarrow> bool" where
  "counter_trace_ok c \<longleftrightarrow> stable_id (ct_counter_id c) \<and> Unsigned64 (ct_before c) \<and> Unsigned64 (ct_after c)"

definition counter_trace_json :: "counter_trace \<Rightarrow> json" where
  "counter_trace_json c = JObj [(''counter_id'', JStr (ct_counter_id c)), (''before'', JInt (ct_before c)),
     (''after'', JInt (ct_after c))]"

record raw_observation =
  ro_retval :: int
  ro_packet_bytes :: "string option"
  ro_context_bytes :: "string option"
  ro_maps :: "map_state list"
  ro_events :: "event_stream list"
  ro_counters :: "counter_trace list"

definition byte_size :: "raw_observation \<Rightarrow> nat" where
  "byte_size o1 =
     sum_list (map (\<lambda>v. case v of None \<Rightarrow> 0 | Some s \<Rightarrow> length s div 2) [ro_packet_bytes o1, ro_context_bytes o1]) +
     sum_list (map (\<lambda>e. (length (me_key e) + length (me_value e)) div 2)
       (concat (map (\<lambda>st. ms_before st @ ms_after st) (ro_maps o1)))) +
     sum_list (map (\<lambda>r. length r div 2) (concat (map es_records (ro_events o1))))"

definition raw_observation_check :: "raw_observation \<Rightarrow> exn option" where
  "raw_observation_check o1 = raises
     ([(\<not> Unsigned32 (ro_retval o1), VE ''retval''),
       (\<not> opt_ok HexBytes (ro_packet_bytes o1), VE ''packet_bytes''),
       (\<not> opt_ok HexBytes (ro_context_bytes o1), VE ''context_bytes''),
       (MAX_COLLECTION_ITEMS < length (ro_maps o1), VE ''maps''),
       (\<exists>m \<in> set (ro_maps o1). map_state_check m \<noteq> None, VE ''maps''),
       (MAX_COLLECTION_ITEMS < length (ro_events o1) \<or> \<not> list_all event_stream_ok (ro_events o1), VE ''events''),
       (MAX_COLLECTION_ITEMS < length (ro_counters o1) \<or> \<not> list_all counter_trace_ok (ro_counters o1),
         VE ''counters'')] @
      concat (map (\<lambda>(label, ids).
        [(\<not> sorted ids, VE (label @ '' traces must be sorted by identifier'')),
         (\<not> distinct ids, VE (label @ '' trace identifiers must be unique''))])
        [(''map'', map ms_map_id (ro_maps o1)), (''event stream'', map es_stream_id (ro_events o1)),
         (''counter'', map ct_counter_id (ro_counters o1))]) @
      [(MAX_OBSERVATION_BYTES < byte_size o1, VE ''raw observation exceeds the aggregate byte bound'')])"

definition raw_observation_json :: "raw_observation \<Rightarrow> json" where
  "raw_observation_json o1 = JObj
     [(''retval'', JInt (ro_retval o1)), (''packet_bytes'', jopt JStr (ro_packet_bytes o1)),
      (''context_bytes'', jopt JStr (ro_context_bytes o1)), (''maps'', jarr map_state_json (ro_maps o1)),
      (''events'', jarr event_stream_json (ro_events o1)),
      (''counters'', jarr counter_trace_json (ro_counters o1))]"

record case_trace =
  xt_case_id :: string
  xt_input :: case_input
  xt_observation :: raw_observation

definition case_trace_json :: "case_trace \<Rightarrow> json" where
  "case_trace_json t = JObj [(''case_id'', JStr (xt_case_id t)), (''input'', case_input_json (xt_input t)),
     (''observation'', raw_observation_json (xt_observation t))]"

datatype role = CANDIDATE | REFERENCE

fun role_value :: "role \<Rightarrow> string" where
  "role_value CANDIDATE = ''candidate''"
| "role_value REFERENCE = ''reference''"

record xdp_trace =
  tr_role :: role
  tr_task_id :: string
  tr_task_version :: string
  tr_task_bundle_sha256 :: string
  tr_evaluation_plan_sha256 :: string
  tr_grader_id :: string
  tr_environment_id :: string
  tr_environment_sha256 :: string
  tr_harness_commit :: string
  tr_program :: content_identity
  tr_cases :: "case_trace list"

definition xdp_trace_check :: "xdp_trace \<Rightarrow> exn option" where
  "xdp_trace_check t = raises
     [(\<not> stable_id (tr_task_id t), VE ''task_id''),
      (\<not> stable_id (tr_task_version t), VE ''task_version''),
      (\<not> sha256_ok (tr_task_bundle_sha256 t), VE ''task_bundle_sha256''),
      (\<not> sha256_ok (tr_evaluation_plan_sha256 t), VE ''evaluation_plan_sha256''),
      (\<not> sha256_ok (tr_grader_id t), VE ''grader_id''),
      (\<not> stable_id (tr_environment_id t), VE ''environment_id''),
      (\<not> sha256_ok (tr_environment_sha256 t), VE ''environment_sha256''),
      (\<not> hex40_ok (tr_harness_commit t), VE ''harness_commit''),
      (\<not> content_identity_ok (tr_program t), VE ''program''),
      (tr_cases t = [] \<or> MAX_ORACLE_CASES < length (tr_cases t), VE ''cases''),
      (\<exists>c \<in> set (tr_cases t). \<not> stable_id (xt_case_id c) \<or> \<not> case_input_ok (xt_input c) \<or>
         raw_observation_check (xt_observation c) \<noteq> None, VE ''cases''),
      (\<not> distinct (map xt_case_id (tr_cases t)), VE ''trace case IDs must be unique''),
      (MAX_TRACE_OBSERVATION_BYTES < sum_list (map (byte_size \<circ> xt_observation) (tr_cases t)),
        VE ''trace exceeds the aggregate observation byte bound'')]"

definition xdp_trace_json :: "xdp_trace \<Rightarrow> json" where
  "xdp_trace_json t = JObj
     [(''schema_version'', JStr ''bpe.xdp-trace.v1''), (''profile'', JStr ''xdp-bpf-prog-test-run-trace-v1''),
      (''role'', JStr (role_value (tr_role t))), (''task_id'', JStr (tr_task_id t)),
      (''task_version'', JStr (tr_task_version t)),
      (''task_bundle_sha256'', JStr (tr_task_bundle_sha256 t)),
      (''evaluation_plan_sha256'', JStr (tr_evaluation_plan_sha256 t)),
      (''grader_id'', JStr (tr_grader_id t)), (''environment_id'', JStr (tr_environment_id t)),
      (''environment_sha256'', JStr (tr_environment_sha256 t)),
      (''harness_commit'', JStr (tr_harness_commit t)),
      (''program'', content_identity_json (tr_program t)), (''cases'', jarr case_trace_json (tr_cases t))]"

section \<open>Normalised observations\<close>

datatype change_kind = INSERTED | UPDATED | DELETED

fun change_value :: "change_kind \<Rightarrow> string" where
  "change_value INSERTED = ''inserted''"
| "change_value UPDATED = ''updated''"
| "change_value DELETED = ''deleted''"

record map_change =
  mc_kind :: change_kind
  mc_key :: string
  mc_before :: "string option"
  mc_after :: "string option"

definition map_change_check :: "map_change \<Rightarrow> exn option" where
  "map_change_check c = raises
     [(\<not> NonEmptyHexBytes (mc_key c), VE ''key''),
      (\<not> opt_ok NonEmptyHexBytes (mc_before c), VE ''before''),
      (\<not> opt_ok NonEmptyHexBytes (mc_after c), VE ''after''),
      (mc_kind c = INSERTED \<and> (mc_before c \<noteq> None \<or> mc_after c = None),
        VE ''inserted map changes require only an after value''),
      (mc_kind c = DELETED \<and> (mc_before c = None \<or> mc_after c \<noteq> None),
        VE ''deleted map changes require only a before value''),
      (mc_kind c = UPDATED \<and> (mc_before c = None \<or> mc_after c = None \<or> mc_before c = mc_after c),
        VE ''updated map changes require two different values'')]"

definition map_change_json :: "map_change \<Rightarrow> json" where
  "map_change_json c = JObj
     [(''kind'', JStr (change_value (mc_kind c))), (''key'', JStr (mc_key c)),
      (''before'', jopt JStr (mc_before c)), (''after'', jopt JStr (mc_after c))]"

datatype obs_value =
    RetvalObs int
  | PacketBytesObs string
  | ContextBytesObs string
  | MapSnapshotObs string "map_entry list"
  | MapDeltaObs string "map_change list"
  | OrderedEventsObs string "string list"
  | CounterObs string counter_mode int

fun obs_kind :: "obs_value \<Rightarrow> string" where
  "obs_kind (RetvalObs i) = ''retval''"
| "obs_kind (PacketBytesObs s) = ''packet_bytes''"
| "obs_kind (ContextBytesObs s) = ''context_bytes''"
| "obs_kind (MapSnapshotObs m es) = ''map_snapshot''"
| "obs_kind (MapDeltaObs m cs) = ''map_delta''"
| "obs_kind (OrderedEventsObs s rs) = ''ordered_events''"
| "obs_kind (CounterObs c m i) = ''counter''"

fun obs_value_check :: "obs_value \<Rightarrow> exn option" where
  "obs_value_check (RetvalObs i) = raises [(\<not> Unsigned32 i, VE ''value'')]"
| "obs_value_check (PacketBytesObs s) = raises [(\<not> HexBytes s, VE ''value'')]"
| "obs_value_check (ContextBytesObs s) = raises [(\<not> HexBytes s, VE ''value'')]"
| "obs_value_check (MapSnapshotObs m es) = raises
     [(\<not> stable_id m, VE ''map_id''),
      (MAX_COLLECTION_ITEMS < length es \<or> \<not> list_all map_entry_ok es, VE ''entries''),
      (\<not> sorted (map me_key es) \<or> \<not> distinct (map me_key es),
        VE ''normalized map entries must be sorted and unique'')]"
| "obs_value_check (MapDeltaObs m cs) = raises
     [(\<not> stable_id m, VE ''map_id''),
      (MAX_COLLECTION_ITEMS < length cs \<or> (\<exists>c \<in> set cs. map_change_check c \<noteq> None), VE ''changes''),
      (\<not> sorted (map mc_key cs) \<or> \<not> distinct (map mc_key cs),
        VE ''map changes must be sorted and unique by key'')]"
| "obs_value_check (OrderedEventsObs s rs) = raises
     [(\<not> stable_id s, VE ''stream_id''),
      (MAX_COLLECTION_ITEMS < length rs \<or> \<not> list_all NonEmptyHexBytes rs, VE ''records'')]"
| "obs_value_check (CounterObs c m i) = raises
     [(\<not> stable_id c, VE ''counter_id''), (\<not> CounterDelta i, VE ''value'')]"

fun obs_fields :: "obs_value \<Rightarrow> (string \<times> json) list" where
  "obs_fields (RetvalObs i) = [(''value'', JInt i)]"
| "obs_fields (PacketBytesObs s) = [(''value'', JStr s)]"
| "obs_fields (ContextBytesObs s) = [(''value'', JStr s)]"
| "obs_fields (MapSnapshotObs m es) = [(''map_id'', JStr m), (''entries'', jarr map_entry_json es)]"
| "obs_fields (MapDeltaObs m cs) = [(''map_id'', JStr m), (''changes'', jarr map_change_json cs)]"
| "obs_fields (OrderedEventsObs s rs) = [(''stream_id'', JStr s), (''records'', jarr JStr rs)]"
| "obs_fields (CounterObs c m i) =
     [(''counter_id'', JStr c), (''mode'', JStr (mode_value m)), (''value'', JInt i)]"

record observation =
  ob_assertion_id :: string
  ob_value :: obs_value

definition observation_check :: "observation \<Rightarrow> exn option" where
  "observation_check o1 = orelse (raises [(\<not> stable_id (ob_assertion_id o1), VE ''assertion_id'')])
     (obs_value_check (ob_value o1))"

definition observation_json :: "observation \<Rightarrow> json" where
  "observation_json o1 = JObj
     ([(''kind'', JStr (obs_kind (ob_value o1))), (''assertion_id'', JStr (ob_assertion_id o1))] @
      obs_fields (ob_value o1))"

record normalized_observation =
  no_case_id :: string
  no_input :: case_input
  no_assertions :: "observation list"
  no_normalizations_applied :: "string list"

definition normalized_check :: "normalized_observation \<Rightarrow> exn option" where
  "normalized_check n = raises
     [(\<not> stable_id (no_case_id n), VE ''case_id''),
      (\<not> case_input_ok (no_input n), VE ''input''),
      (no_assertions n = [] \<or> MAX_ASSERTIONS_PER_CASE < length (no_assertions n), VE ''assertions''),
      (\<exists>a \<in> set (no_assertions n). observation_check a \<noteq> None, VE ''assertions''),
      (MAX_NORMALIZATIONS_PER_CASE < length (no_normalizations_applied n) \<or>
         \<not> list_all stable_id (no_normalizations_applied n), VE ''normalizations_applied''),
      (\<not> distinct (map ob_assertion_id (no_assertions n)),
        VE ''normalized assertion observations must be unique''),
      (\<not> distinct (no_normalizations_applied n), VE ''applied normalization IDs must be unique''),
      (\<not> sorted (no_normalizations_applied n), VE ''applied normalization IDs must be sorted'')]"

definition normalized_json :: "normalized_observation \<Rightarrow> json" where
  "normalized_json n = JObj
     [(''case_id'', JStr (no_case_id n)), (''input'', case_input_json (no_input n)),
      (''assertions'', jarr observation_json (no_assertions n)),
      (''normalizations_applied'', jarr JStr (no_normalizations_applied n))]"

section \<open>The report\<close>

record comparison =
  ac_assertion_id :: string
  ac_kind :: string
  ac_required :: bool
  ac_weight :: rat
  ac_matched :: bool
  ac_expected_sha256 :: string
  ac_actual_sha256 :: string

definition comparison_ok :: "comparison \<Rightarrow> bool" where
  "comparison_ok c \<longleftrightarrow> stable_id (ac_assertion_id c) \<and>
     ac_kind c \<in> {''retval'', ''packet_bytes'', ''context_bytes'', ''map_snapshot'', ''map_delta'',
       ''ordered_events'', ''counter''} \<and>
     weight_ok (ac_weight c) \<and> sha256_ok (ac_expected_sha256 c) \<and> sha256_ok (ac_actual_sha256 c)"

record case_result =
  cr_case_id :: string
  cr_input :: case_input
  cr_candidate_observation_sha256 :: string
  cr_reference_observation_sha256 :: string
  cr_assertions :: "comparison list"
  cr_passed :: bool

definition all_required_matched :: "comparison list \<Rightarrow> bool" where
  "all_required_matched cs \<longleftrightarrow> list_all ac_matched (filter ac_required cs)"

definition case_result_check :: "case_result \<Rightarrow> exn option" where
  "case_result_check r = raises
     [(\<not> stable_id (cr_case_id r), VE ''case_id''),
      (\<not> case_input_ok (cr_input r), VE ''input''),
      (\<not> sha256_ok (cr_candidate_observation_sha256 r), VE ''candidate_observation_sha256''),
      (\<not> sha256_ok (cr_reference_observation_sha256 r), VE ''reference_observation_sha256''),
      (cr_assertions r = [] \<or> MAX_ASSERTIONS_PER_CASE < length (cr_assertions r) \<or>
         \<not> list_all comparison_ok (cr_assertions r), VE ''assertions''),
      (cr_passed r \<noteq> all_required_matched (cr_assertions r),
        VE ''case pass flag does not match required assertion results'')]"

record first_divergence =
  fd_case_index :: nat
  fd_assertion_index :: nat
  fd_case_id :: string
  fd_assertion_id :: string
  fd_kind :: string
  fd_expected_sha256 :: string
  fd_actual_sha256 :: string

definition first_divergence_ok :: "first_divergence \<Rightarrow> bool" where
  "first_divergence_ok d \<longleftrightarrow> fd_case_index d < MAX_ORACLE_CASES \<and>
     fd_assertion_index d < MAX_ASSERTIONS_PER_CASE \<and> stable_id (fd_case_id d) \<and>
     stable_id (fd_assertion_id d) \<and>
     fd_kind d \<in> {''retval'', ''packet_bytes'', ''context_bytes'', ''map_snapshot'', ''map_delta'',
       ''ordered_events'', ''counter''} \<and>
     sha256_ok (fd_expected_sha256 d) \<and> sha256_ok (fd_actual_sha256 d)"

text \<open>
  The loops that look for a divergence, in case order and then assertion order; the first one found is
  kept.  Both \<open>derive_oracle_report\<close> and the validator of \<open>OracleReport\<close> run them.
\<close>

definition divergences :: "case_result list \<Rightarrow> first_divergence list" where
  "divergences results =
     concat (map (\<lambda>(i, r).
       map (\<lambda>(j, c). \<lparr> fd_case_index = i, fd_assertion_index = j, fd_case_id = cr_case_id r,
                        fd_assertion_id = ac_assertion_id c, fd_kind = ac_kind c,
                        fd_expected_sha256 = ac_expected_sha256 c, fd_actual_sha256 = ac_actual_sha256 c \<rparr>)
         (filter (\<lambda>(j, c). ac_required c \<and> \<not> ac_matched c) (enumerate 0 (cr_assertions r))))
       (enumerate 0 results))"

definition first_divergence_of :: "case_result list \<Rightarrow> first_divergence option" where
  "first_divergence_of results = (case divergences results of [] \<Rightarrow> None | d # ds \<Rightarrow> Some d)"

record report =
  or_contract_sha256 :: string
  or_candidate_trace_sha256 :: string
  or_reference_trace_sha256 :: string
  or_task_id :: string
  or_task_version :: string
  or_task_bundle_sha256 :: string
  or_evaluation_plan_sha256 :: string
  or_grader_id :: string
  or_environment_id :: string
  or_environment_sha256 :: string
  or_harness_commit :: string
  or_normalizer_version :: string
  or_normalizer_sha256 :: string
  or_candidate_program :: content_identity
  or_reference_program :: content_identity
  or_candidate_observations :: "normalized_observation list"
  or_reference_observations :: "normalized_observation list"
  or_cases :: "case_result list"
  or_strict_success :: bool
  or_first_divergence :: "first_divergence option"

definition compare_guards :: "hasher \<Rightarrow> observation \<times> observation \<times> comparison \<Rightarrow> (bool \<times> exn) list" where
  "compare_guards h = (\<lambda>(actual, expected, c).
     [(\<not> (ob_assertion_id actual = ob_assertion_id expected \<and> ob_assertion_id expected = ac_assertion_id c \<and>
          obs_kind (ob_value actual) = obs_kind (ob_value expected) \<and> obs_kind (ob_value expected) = ac_kind c),
        VE ''oracle report assertion identities or kinds differ''),
      (ac_actual_sha256 c \<noteq> sha256_json h (observation_json actual) \<or>
         ac_expected_sha256 c \<noteq> sha256_json h (observation_json expected) \<or>
         ac_matched c \<noteq> (actual = expected),
        VE ''oracle assertion comparison is inconsistent'')])"

definition case_guards ::
  "hasher \<Rightarrow> normalized_observation \<times> normalized_observation \<times> case_result \<Rightarrow> (bool \<times> exn) list" where
  "case_guards h = (\<lambda>(candidate, reference, result).
     [(\<not> (no_case_id candidate = no_case_id reference \<and> no_case_id reference = cr_case_id result \<and>
          no_input candidate = no_input reference \<and> no_input reference = cr_input result),
        VE ''oracle report case identities or inputs differ''),
      (cr_candidate_observation_sha256 result \<noteq> sha256_json h (normalized_json candidate),
        VE ''candidate observation digest is inconsistent''),
      (cr_reference_observation_sha256 result \<noteq> sha256_json h (normalized_json reference),
        VE ''reference observation digest is inconsistent''),
      (\<not> (length (no_assertions candidate) = length (no_assertions reference) \<and>
          length (no_assertions reference) = length (cr_assertions result)),
        VE ''oracle report assertion collections differ in length'')] @
     concat (map (compare_guards h)
       (zip (no_assertions candidate) (zip (no_assertions reference) (cr_assertions result)))))"

definition report_check :: "hasher \<Rightarrow> report \<Rightarrow> exn option" where
  "report_check h r = raises
     ([(\<not> sha256_ok (or_contract_sha256 r), VE ''contract_sha256''),
       (\<not> sha256_ok (or_candidate_trace_sha256 r), VE ''candidate_trace_sha256''),
       (\<not> sha256_ok (or_reference_trace_sha256 r), VE ''reference_trace_sha256''),
       (\<not> stable_id (or_task_id r), VE ''task_id''),
       (\<not> stable_id (or_task_version r), VE ''task_version''),
       (\<not> sha256_ok (or_task_bundle_sha256 r), VE ''task_bundle_sha256''),
       (\<not> sha256_ok (or_evaluation_plan_sha256 r), VE ''evaluation_plan_sha256''),
       (\<not> sha256_ok (or_grader_id r), VE ''grader_id''),
       (\<not> stable_id (or_environment_id r), VE ''environment_id''),
       (\<not> sha256_ok (or_environment_sha256 r), VE ''environment_sha256''),
       (\<not> hex40_ok (or_harness_commit r), VE ''harness_commit''),
       (\<not> stable_id (or_normalizer_version r), VE ''normalizer_version''),
       (\<not> sha256_ok (or_normalizer_sha256 r), VE ''normalizer_sha256''),
       (\<not> content_identity_ok (or_candidate_program r), VE ''candidate_program''),
       (\<not> content_identity_ok (or_reference_program r), VE ''reference_program''),
       (or_candidate_observations r = [] \<or> MAX_ORACLE_CASES < length (or_candidate_observations r) \<or>
          (\<exists>n \<in> set (or_candidate_observations r). normalized_check n \<noteq> None), VE ''candidate_observations''),
       (or_reference_observations r = [] \<or> MAX_ORACLE_CASES < length (or_reference_observations r) \<or>
          (\<exists>n \<in> set (or_reference_observations r). normalized_check n \<noteq> None), VE ''reference_observations''),
       (or_cases r = [] \<or> MAX_ORACLE_CASES < length (or_cases r) \<or>
          (\<exists>c \<in> set (or_cases r). case_result_check c \<noteq> None), VE ''cases''),
       (\<not> opt_ok first_divergence_ok (or_first_divergence r), VE ''first_divergence''),
       (\<not> (length (or_candidate_observations r) = length (or_reference_observations r) \<and>
           length (or_reference_observations r) = length (or_cases r)),
         VE ''oracle report case collections differ in length'')] @
      concat (map (case_guards h)
        (zip (or_candidate_observations r) (zip (or_reference_observations r) (or_cases r)))) @
      [(or_strict_success r \<noteq> list_all cr_passed (or_cases r),
         VE ''strict-success flag does not match required assertions''),
       (or_first_divergence r \<noteq> first_divergence_of (or_cases r),
         VE ''first divergence is not the first required mismatch'')])"

section \<open>Normalisation\<close>

text \<open>\<open>_mask_bytes\<close>: the inner loop over the ranges of one rule, then the rules in order.\<close>

definition zero_range :: "byte list \<Rightarrow> byte_range \<Rightarrow> byte list" where
  "zero_range data r = take (br_offset r) data @ replicate (br_length r) 0 @ drop (br_offset r + br_length r) data"

fun mask_ranges :: "string \<Rightarrow> byte_range list \<Rightarrow> byte list \<Rightarrow> byte list result" where
  "mask_ranges name [] data = Inr data"
| "mask_ranges name (r # rs) data =
     (if br_offset r + br_length r > length data
      then Inl (OCE (''normalization '' @ name @ '' exceeds observed bytes''))
      else mask_ranges name rs (zero_range data r))"

fun mask_rules :: "mask_rule list \<Rightarrow> byte list \<Rightarrow> byte list result" where
  "mask_rules [] data = Inr data"
| "mask_rules (r # rs) data = rbind (mask_ranges (mr_normalization_id r) (mr_ranges r) data) (mask_rules rs)"

definition mask_bytes :: "string \<Rightarrow> mask_rule list \<Rightarrow> string result" where
  "mask_bytes value rules = rbind (fromhex value) (\<lambda>data. rbind (mask_rules rules data) (\<lambda>d. Inr (tohex d)))"

definition rules_for :: "oracle_case \<Rightarrow> string \<Rightarrow> component \<Rightarrow> mask_rule list" where
  "rules_for c assertion_id part =
     filter (\<lambda>r. mr_assertion_id r = assertion_id \<and> mr_component r = part) (cs_normalizations c)"

definition normalized_entry :: "mask_rule list \<Rightarrow> mask_rule list \<Rightarrow> map_entry \<Rightarrow> map_entry result" where
  "normalized_entry key_rules value_rules e =
     rbind (mask_bytes (me_key e) key_rules) (\<lambda>k. rbind (mask_bytes (me_value e) value_rules) (\<lambda>v.
       check (raises [(\<not> map_entry_ok \<lparr> me_key = k, me_value = v \<rparr>, VE ''MapEntry'')])
         (Inr \<lparr> me_key = k, me_value = v \<rparr>)))"

definition normalized_entries ::
  "map_entry list \<Rightarrow> mask_rule list \<Rightarrow> mask_rule list \<Rightarrow> map_entry list result" where
  "normalized_entries entries key_rules value_rules =
     rbind (traverse (normalized_entry key_rules value_rules) entries) (\<lambda>normalized.
       let ordered = sort_key me_key normalized in
       if distinct (map me_key ordered) then Inr ordered
       else Inl (OCE ''normalization collapses distinct map keys''))"

text \<open>\<open>{entry.key: entry.value for entry in entries}\<close>: a later entry overrides an earlier one.\<close>

definition by_key :: "map_entry list \<Rightarrow> string \<rightharpoonup> string" where
  "by_key entries = map_of (rev (map (\<lambda>e. (me_key e, me_value e)) entries))"

definition key_change :: "string option \<Rightarrow> string option \<Rightarrow> string \<Rightarrow> map_change list" where
  "key_change old new key =
     (if old = None then [\<lparr> mc_kind = INSERTED, mc_key = key, mc_before = None, mc_after = new \<rparr>]
      else if new = None then [\<lparr> mc_kind = DELETED, mc_key = key, mc_before = old, mc_after = None \<rparr>]
      else if old \<noteq> new then [\<lparr> mc_kind = UPDATED, mc_key = key, mc_before = old, mc_after = new \<rparr>]
      else [])"

definition map_delta :: "map_entry list \<Rightarrow> map_entry list \<Rightarrow> map_change list" where
  "map_delta before after =
     concat (map (\<lambda>key. key_change (by_key before key) (by_key after key) key)
       (sort (remdups (map me_key before @ map me_key after))))"

fun map_id_of :: "target \<Rightarrow> string option" where
  "map_id_of (MapSnapshot m) = Some m"
| "map_id_of (MapDelta m) = Some m"
| "map_id_of _ = None"

fun stream_id_of :: "target \<Rightarrow> string option" where
  "stream_id_of (OrderedEvents s) = Some s"
| "stream_id_of _ = None"

fun counter_id_of :: "target \<Rightarrow> string option" where
  "counter_id_of (Counter c m) = Some c"
| "counter_id_of _ = None"

definition expected_named :: "(target \<Rightarrow> string option) \<Rightarrow> oracle_case \<Rightarrow> string set" where
  "expected_named name c = set (List.map_filter (name \<circ> as_target) (cs_assertions c))"

definition shape_guards :: "oracle_case \<Rightarrow> case_trace \<Rightarrow> (bool \<times> exn) list" where
  "shape_guards c t = (let o1 = xt_observation t; targets = map as_target (cs_assertions c) in
     [((ro_packet_bytes o1 \<noteq> None) \<noteq> (PacketBytes \<in> set targets),
        OCE ''packet observation presence does not match the contract''),
      ((ro_context_bytes o1 \<noteq> None) \<noteq> (ContextBytes \<in> set targets),
        OCE ''context observation presence does not match the contract''),
      (set (map ms_map_id (ro_maps o1)) \<noteq> expected_named map_id_of c,
        OCE ''map observations do not exactly match declared assertions''),
      (set (map es_stream_id (ro_events o1)) \<noteq> expected_named stream_id_of c,
        OCE ''event observations do not exactly match declared assertions''),
      (set (map ct_counter_id (ro_counters o1)) \<noteq> expected_named counter_id_of c,
        OCE ''counter observations do not exactly match declared assertions'')])"

definition validate_observation_shape :: "oracle_case \<Rightarrow> case_trace \<Rightarrow> exn option" where
  "validate_observation_shape c t = raises (shape_guards c t)"

text \<open>
  The dictionaries \<open>maps\<close>, \<open>events\<close> and \<open>counters\<close> of \<open>_normalize_case\<close> are keyed by identifiers that
  validation makes unique, so a lookup is a search.
\<close>

definition find_by :: "('a \<Rightarrow> string) \<Rightarrow> 'a list \<Rightarrow> string \<Rightarrow> 'a result" where
  "find_by key xs k = (case find (\<lambda>x. key x = k) xs of None \<Rightarrow> Inl (Exn ''KeyError'' k) | Some x \<Rightarrow> Inr x)"

definition observe_value :: "oracle_case \<Rightarrow> raw_observation \<Rightarrow> assertion \<Rightarrow> obs_value result" where
  "observe_value c raw a = (let i = as_assertion_id a in
     case as_target a of
       Retval \<Rightarrow> Inr (RetvalObs (ro_retval raw))
     | PacketBytes \<Rightarrow> (case ro_packet_bytes raw of
           None \<Rightarrow> Inl (OCE ''packet bytes are missing'')
         | Some s \<Rightarrow> rbind (mask_bytes s (rules_for c i C_BYTES)) (\<lambda>v. Inr (PacketBytesObs v)))
     | ContextBytes \<Rightarrow> (case ro_context_bytes raw of
           None \<Rightarrow> Inl (OCE ''context bytes are missing'')
         | Some s \<Rightarrow> rbind (mask_bytes s (rules_for c i C_BYTES)) (\<lambda>v. Inr (ContextBytesObs v)))
     | MapSnapshot m \<Rightarrow>
         rbind (find_by ms_map_id (ro_maps raw) m) (\<lambda>st.
         rbind (normalized_entries (ms_before st) (rules_for c i C_KEY) (rules_for c i C_VALUE)) (\<lambda>before.
         rbind (normalized_entries (ms_after st) (rules_for c i C_KEY) (rules_for c i C_VALUE)) (\<lambda>after.
           Inr (MapSnapshotObs m after))))
     | MapDelta m \<Rightarrow>
         rbind (find_by ms_map_id (ro_maps raw) m) (\<lambda>st.
         rbind (normalized_entries (ms_before st) (rules_for c i C_KEY) (rules_for c i C_VALUE)) (\<lambda>before.
         rbind (normalized_entries (ms_after st) (rules_for c i C_KEY) (rules_for c i C_VALUE)) (\<lambda>after.
           Inr (MapDeltaObs m (map_delta before after)))))
     | OrderedEvents s \<Rightarrow>
         rbind (find_by es_stream_id (ro_events raw) s) (\<lambda>st.
         rbind (traverse (\<lambda>r. mask_bytes r (rules_for c i C_RECORD)) (es_records st)) (\<lambda>rs.
           Inr (OrderedEventsObs s rs)))
     | Counter n mode \<Rightarrow>
         rbind (find_by ct_counter_id (ro_counters raw) n) (\<lambda>ct.
           Inr (CounterObs n mode
             (if mode = MODE_FINAL then ct_after ct else ct_after ct - ct_before ct))))"

definition observe :: "oracle_case \<Rightarrow> raw_observation \<Rightarrow> assertion \<Rightarrow> observation result" where
  "observe c raw a = rbind (observe_value c raw a) (\<lambda>v.
     let o1 = \<lparr> ob_assertion_id = as_assertion_id a, ob_value = v \<rparr> in check (observation_check o1) (Inr o1))"

definition normalize_case :: "oracle_case \<Rightarrow> case_trace \<Rightarrow> normalized_observation result" where
  "normalize_case c t =
     check (validate_observation_shape c t)
       (rbind (traverse (observe c (xt_observation t)) (cs_assertions c)) (\<lambda>obs.
         let n = \<lparr> no_case_id = cs_case_id c, no_input = cs_input c, no_assertions = obs,
                   no_normalizations_applied = map mr_normalization_id (cs_normalizations c) \<rparr>
         in check (normalized_check n) (Inr n)))"

section \<open>Deriving and verifying reports\<close>

definition contract_identity :: "oracle_contract \<Rightarrow> string list" where
  "contract_identity c =
     [oc_task_id c, oc_task_version c, oc_task_bundle_sha256 c, oc_evaluation_plan_sha256 c,
      oc_grader_id c, oc_environment_id c, oc_environment_sha256 c, oc_harness_commit c]"

definition trace_identity :: "xdp_trace \<Rightarrow> string list" where
  "trace_identity t =
     [tr_task_id t, tr_task_version t, tr_task_bundle_sha256 t, tr_evaluation_plan_sha256 t,
      tr_grader_id t, tr_environment_id t, tr_environment_sha256 t, tr_harness_commit t]"

definition validate_trace :: "oracle_contract \<Rightarrow> xdp_trace \<Rightarrow> role \<Rightarrow> exn option" where
  "validate_trace c t role = raises
     ([(tr_role t \<noteq> role, OCE (''expected a '' @ role_value role @ '' trace'')),
       (trace_identity t \<noteq> contract_identity c,
         OCE (role_value role @ '' trace identity does not match the oracle contract'')),
       (role = REFERENCE \<and> tr_program t \<noteq> oc_reference_program c,
         OCE ''reference trace does not use the contracted reference program''),
       (length (tr_cases t) \<noteq> length (oc_cases c),
         OCE (role_value role @ '' trace has missing or extra cases''))] @
      concat (map (\<lambda>(expected, observed).
        [(xt_case_id observed \<noteq> cs_case_id expected,
           OCE (role_value role @ '' trace case order or identity differs'')),
         (xt_input observed \<noteq> cs_input expected, OCE (role_value role @ '' trace input identity differs''))] @
        shape_guards expected observed) (zip (oc_cases c) (tr_cases t))))"

definition compare_assertion :: "hasher \<Rightarrow> assertion \<times> observation \<times> observation \<Rightarrow> comparison" where
  "compare_assertion h = (\<lambda>(declaration, actual, expected).
     \<lparr> ac_assertion_id = as_assertion_id declaration, ac_kind = kind_value (as_target declaration),
       ac_required = as_required declaration, ac_weight = as_weight declaration,
       ac_matched = (actual = expected),
       ac_expected_sha256 = sha256_json h (observation_json expected),
       ac_actual_sha256 = sha256_json h (observation_json actual) \<rparr>)"

definition compare_case ::
  "hasher \<Rightarrow> oracle_case \<times> normalized_observation \<times> normalized_observation \<Rightarrow> case_result" where
  "compare_case h = (\<lambda>(c, actual, expected).
     let comparisons = map (compare_assertion h)
           (zip (cs_assertions c) (zip (no_assertions actual) (no_assertions expected)))
     in \<lparr> cr_case_id = cs_case_id c, cr_input = cs_input c,
          cr_candidate_observation_sha256 = sha256_json h (normalized_json actual),
          cr_reference_observation_sha256 = sha256_json h (normalized_json expected),
          cr_assertions = comparisons, cr_passed = all_required_matched comparisons \<rparr>)"

definition report_of ::
  "hasher \<Rightarrow> oracle_contract \<Rightarrow> xdp_trace \<Rightarrow> xdp_trace \<Rightarrow> normalized_observation list \<Rightarrow>
   normalized_observation list \<Rightarrow> report" where
  "report_of h c cand ref cobs robs =
     (let results = map (compare_case h) (zip (oc_cases c) (zip cobs robs)) in
      \<lparr> or_contract_sha256 = sha256_json h (oracle_contract_json c),
        or_candidate_trace_sha256 = sha256_json h (xdp_trace_json cand),
        or_reference_trace_sha256 = sha256_json h (xdp_trace_json ref),
        or_task_id = oc_task_id c, or_task_version = oc_task_version c,
        or_task_bundle_sha256 = oc_task_bundle_sha256 c,
        or_evaluation_plan_sha256 = oc_evaluation_plan_sha256 c, or_grader_id = oc_grader_id c,
        or_environment_id = oc_environment_id c, or_environment_sha256 = oc_environment_sha256 c,
        or_harness_commit = oc_harness_commit c, or_normalizer_version = oc_normalizer_version c,
        or_normalizer_sha256 = oc_normalizer_sha256 c, or_candidate_program = tr_program cand,
        or_reference_program = tr_program ref, or_candidate_observations = cobs,
        or_reference_observations = robs, or_cases = results,
        or_strict_success = list_all cr_passed results,
        or_first_divergence = first_divergence_of results \<rparr>)"

definition normalize_trace :: "oracle_contract \<Rightarrow> xdp_trace \<Rightarrow> normalized_observation list result" where
  "normalize_trace c t = traverse (\<lambda>(x, y). normalize_case x y) (zip (oc_cases c) (tr_cases t))"

definition derive_oracle_report :: "hasher \<Rightarrow> oracle_contract \<Rightarrow> xdp_trace \<Rightarrow> xdp_trace \<Rightarrow> report result" where
  "derive_oracle_report h c cand ref =
     check (oracle_contract_check c) (check (xdp_trace_check cand) (check (xdp_trace_check ref)
     (check (validate_trace c cand CANDIDATE) (check (validate_trace c ref REFERENCE)
     (rbind (normalize_trace c cand) (\<lambda>cobs.
      rbind (normalize_trace c ref) (\<lambda>robs.
        let r = report_of h c cand ref cobs robs in check (report_check h r) (Inr r))))))))"

definition verify_oracle_report ::
  "hasher \<Rightarrow> oracle_contract \<Rightarrow> xdp_trace \<Rightarrow> xdp_trace \<Rightarrow> report \<Rightarrow> report result" where
  "verify_oracle_report h c cand ref r =
     check (report_check h r) (rbind (derive_oracle_report h c cand ref) (\<lambda>derived.
       if r \<noteq> derived then Inl (OCE ''oracle report is not the deterministic derivation'') else Inr r))"

end
