(* ===== verification/Oracle_Correct.thy ===== *)
theory Oracle_Correct
  imports Oracle Samples
begin

text \<open>
  Correctness of the differential oracle: what masking keeps and hides, that a map delta is the exact
  difference of two snapshots, that derived reports are well formed and their verdict is the required
  conjunction, and that verification accepts exactly the derivation.
\<close>

section \<open>What the oracle promises\<close>

definition masked :: "mask_rule list \<Rightarrow> nat \<Rightarrow> bool" where
  "masked rules i \<longleftrightarrow>
     (\<exists>r \<in> set rules. \<exists>b \<in> set (mr_ranges r). br_offset b \<le> i \<and> i < br_offset b + br_length b)"

definition rules_fit :: "mask_rule list \<Rightarrow> nat \<Rightarrow> bool" where
  "rules_fit rules n \<longleftrightarrow> (\<forall>r \<in> set rules. \<forall>b \<in> set (mr_ranges r). br_offset b + br_length b \<le> n)"

definition masked_bytes :: "mask_rule list \<Rightarrow> byte list \<Rightarrow> byte list" where
  "masked_bytes rules d = map (\<lambda>i. if masked rules i then 0 else d ! i) [0..<length d]"

definition apply_change :: "(string \<rightharpoonup> string) \<Rightarrow> map_change \<Rightarrow> (string \<rightharpoonup> string)" where
  "apply_change m c = m(mc_key c := mc_after c)"

definition apply_delta :: "(string \<rightharpoonup> string) \<Rightarrow> map_change list \<Rightarrow> (string \<rightharpoonup> string)" where
  "apply_delta m cs = foldl apply_change m cs"

text \<open>Position \<open>(i, j)\<close> of a report: assertion \<open>j\<close> of case \<open>i\<close> is required and the two sides differ on it.\<close>

definition diverges :: "oracle_contract \<Rightarrow> xdp_trace \<Rightarrow> xdp_trace \<Rightarrow> nat \<Rightarrow> nat \<Rightarrow> bool" where
  "diverges c cand ref i j \<longleftrightarrow>
     i < length (oc_cases c) \<and> j < length (cs_assertions (oc_cases c ! i)) \<and>
     (let x = oc_cases c ! i; a = cs_assertions x ! j in
      as_required a \<and>
      observe x (xt_observation (tr_cases cand ! i)) a \<noteq> observe x (xt_observation (tr_cases ref ! i)) a)"

definition divergence_at :: "case_result list \<Rightarrow> nat \<Rightarrow> nat \<Rightarrow> first_divergence" where
  "divergence_at rs i j = (let r = rs ! i; c = cr_assertions r ! j in
     \<lparr> fd_case_index = i, fd_assertion_index = j, fd_case_id = cr_case_id r,
       fd_assertion_id = ac_assertion_id c, fd_kind = ac_kind c,
       fd_expected_sha256 = ac_expected_sha256 c, fd_actual_sha256 = ac_actual_sha256 c \<rparr>)"

definition bad_at :: "case_result list \<Rightarrow> nat \<Rightarrow> nat \<Rightarrow> bool" where
  "bad_at rs i j \<longleftrightarrow> i < length rs \<and> j < length (cr_assertions (rs ! i)) \<and>
     ac_required (cr_assertions (rs ! i) ! j) \<and> \<not> ac_matched (cr_assertions (rs ! i) ! j)"

text \<open>The cases of a report, by index.\<close>

definition results_of :: "hasher \<Rightarrow> oracle_contract \<Rightarrow> normalized_observation list \<Rightarrow> normalized_observation list
    \<Rightarrow> case_result list" where
  "results_of h c cobs robs = map (compare_case h) (zip (oc_cases c) (zip cobs robs))"

section \<open>Masking\<close>

lemma zero_range_nth:
  assumes "br_offset r + br_length r \<le> length d" "i < length d"
  shows "zero_range d r ! i = (if br_offset r \<le> i \<and> i < br_offset r + br_length r then 0 else d ! i)"
  using assms by (auto simp: zero_range_def nth_append min_def)

lemma length_zero_range: "br_offset r + br_length r \<le> length d \<Longrightarrow> length (zero_range d r) = length d"
  by (simp add: zero_range_def)

lemma mask_ranges_Inr:
  "mask_ranges name bs d = Inr d' \<longleftrightarrow>
     (\<forall>b \<in> set bs. br_offset b + br_length b \<le> length d) \<and>
     d' = map (\<lambda>i. if \<exists>b \<in> set bs. br_offset b \<le> i \<and> i < br_offset b + br_length b then 0 else d ! i) [0..<length d]"
proof (induction bs arbitrary: d)
  case (Cons b bs)
  show ?case
  proof (cases "br_offset b + br_length b \<le> length d")
    case True
    then show ?thesis
      by (auto simp: Cons length_zero_range zero_range_nth intro!: map_cong)
  next
    case False
    then show ?thesis by simp
  qed
qed (auto simp: map_nth)

lemma mask_rules_Inr: "mask_rules rules d = Inr d' \<longleftrightarrow> rules_fit rules (length d) \<and> d' = masked_bytes rules d"
proof (induction rules arbitrary: d)
  case (Cons r rules)
  then show ?case
    by (auto simp: rbind_Inr_iff mask_ranges_Inr rules_fit_def masked_bytes_def masked_def intro!: map_cong)
qed (auto simp: rules_fit_def masked_bytes_def masked_def map_nth)

lemma length_masked_bytes [simp]: "length (masked_bytes rules d) = length d"
  by (simp add: masked_bytes_def)

lemma mask_bytes_Inr:
  "mask_bytes (tohex d) rules = Inr s \<longleftrightarrow> rules_fit rules (length d) \<and> s = tohex (masked_bytes rules d)"
  by (auto simp: mask_bytes_def rbind_Inr_iff fromhex_tohex mask_rules_Inr)

lemma mask_rules_Inl: "mask_rules rules d = Inl e \<Longrightarrow> exn_class e = ''OracleContractError''"
proof (induction rules arbitrary: d)
  case (Cons r rules)
  have "mask_ranges name bs d = Inl e \<Longrightarrow> exn_class e = ''OracleContractError''" for name bs d
    by (induction bs arbitrary: d) (auto split: if_splits)
  then show ?case using Cons by (auto simp: rbind_Inl_iff)
qed simp

lemma masked_bytes_eq_iff:
  "masked_bytes rules a = masked_bytes rules b \<longleftrightarrow>
     length a = length b \<and> (\<forall>i < length a. \<not> masked rules i \<longrightarrow> a ! i = b ! i)"
proof -
  have "masked_bytes rules d ! i = (if masked rules i then 0 else d ! i)" if "i < length d" for d i
    using that by (simp add: masked_bytes_def)
  then show ?thesis by (auto simp: list_eq_iff_nth_eq[of "masked_bytes rules a"])
qed

section \<open>Map deltas\<close>

lemma by_key_eq: "distinct (map me_key es) \<Longrightarrow> e \<in> set es \<Longrightarrow> by_key es (me_key e) = Some (me_value e)"
  using map_of_distinct_Some[of me_key "rev es" e me_value] by (simp add: by_key_def rev_map flip: rev_map)

lemma by_key_dom: "by_key es k = None \<longleftrightarrow> k \<notin> set (map me_key es)"
  by (auto simp: by_key_def map_of_eq_None_iff image_image)

lemma by_key_mem: "by_key es k = Some v \<Longrightarrow> \<exists>e \<in> set es. me_key e = k \<and> me_value e = v"
  unfolding by_key_def by (drule map_of_SomeD) auto

lemma key_change_key: "c \<in> set (key_change old new k) \<Longrightarrow> mc_key c = k \<and> mc_before c = old \<and> mc_after c = new"
  by (auto simp: key_change_def split: if_splits)

lemma key_change_diff: "k \<in> dom b \<union> dom a \<Longrightarrow> key_change (b k) (a k) k \<noteq> [] \<longleftrightarrow> b k \<noteq> a k"
  by (auto simp: key_change_def)

lemma map_key_change: "map mc_key (key_change old new k) = (if key_change old new k = [] then [] else [k])"
  by (simp add: key_change_def)

lemma concat_key_change:
  "map mc_key (concat (map (\<lambda>k. key_change (b k) (a k) k) ks)) = filter (\<lambda>k. key_change (b k) (a k) k \<noteq> []) ks"
  by (induction ks) (auto simp: map_key_change)

lemma delta_keys:
  "map mc_key (map_delta before after) =
     filter (\<lambda>k. key_change (by_key before k) (by_key after k) k \<noteq> [])
       (sort (remdups (map me_key before @ map me_key after)))"
  unfolding map_delta_def by (rule concat_key_change)

lemma map_delta_mem:
  "c \<in> set (map_delta before after) \<Longrightarrow>
     mc_before c = by_key before (mc_key c) \<and> mc_after c = by_key after (mc_key c) \<and>
     by_key before (mc_key c) \<noteq> by_key after (mc_key c)"
proof -
  assume "c \<in> set (map_delta before after)"
  then obtain k where k: "k \<in> dom (by_key before) \<union> dom (by_key after)"
    "c \<in> set (key_change (by_key before k) (by_key after k) k)"
    using by_key_dom[of before] by_key_dom[of after]
    by (auto simp: map_delta_def domIff simp del: not_None_eq)
  have "by_key before k \<noteq> by_key after k"
    using key_change_diff[OF k(1)] k(2) by auto
  then show ?thesis using key_change_key[OF k(2)] by simp
qed

lemma map_delta_key: "k \<in> set (map mc_key (map_delta before after)) \<longleftrightarrow> by_key before k \<noteq> by_key after k"
proof -
  have k: "k \<in> set (map me_key before @ map me_key after) \<longleftrightarrow> k \<in> dom (by_key before) \<union> dom (by_key after)"
    using by_key_dom[of before k] by_key_dom[of after k] by (auto simp: domIff)
  show ?thesis
    unfolding delta_keys using key_change_diff[of k "by_key before" "by_key after"] k
    by (auto simp: domIff)
qed

lemma apply_delta_notin: "k \<notin> set (map mc_key cs) \<Longrightarrow> apply_delta m cs k = m k"
  by (induction cs arbitrary: m) (auto simp: apply_delta_def apply_change_def)

lemma apply_delta_mem:
  "distinct (map mc_key cs) \<Longrightarrow> c \<in> set cs \<Longrightarrow> apply_delta m cs (mc_key c) = mc_after c"
proof (induction cs arbitrary: m)
  case (Cons d cs)
  show ?case
  proof (cases "c = d")
    case True
    then show ?thesis
      using Cons.prems apply_delta_notin[of "mc_key d" cs "apply_change m d"]
      by (simp add: apply_delta_def apply_change_def)
  next
    case False
    then show ?thesis using Cons by (simp add: apply_delta_def)
  qed
qed simp

lemma map_delta_sorted: "sorted (map mc_key (map_delta before after)) \<and> distinct (map mc_key (map_delta before after))"
  unfolding delta_keys by (simp add: sorted_filter[of id, simplified])

lemma apply_map_delta: "apply_delta (by_key before) (map_delta before after) = by_key after"
proof
  fix k
  show "apply_delta (by_key before) (map_delta before after) k = by_key after k"
  proof (cases "k \<in> set (map mc_key (map_delta before after))")
    case True
    then obtain c where "c \<in> set (map_delta before after)" "mc_key c = k" by auto
    then show ?thesis using apply_delta_mem[of _ c] map_delta_mem[of c] map_delta_sorted by metis
  next
    case False
    then show ?thesis using apply_delta_notin[of k] map_delta_key[of k] by simp
  qed
qed

section \<open>Normalised cases\<close>

lemma observeD:
  assumes "observe c raw a = Inr o1"
  shows "ob_assertion_id o1 = as_assertion_id a" "observation_check o1 = None"
    and "obs_kind (ob_value o1) = kind_value (as_target a)" "observe_value c raw a = Inr (ob_value o1)"
  using assms
  by (auto simp: observe_def observe_value_def Let_def result_simps split: target.splits option.splits)

lemma normalize_caseD:
  assumes "normalize_case c t = Inr n"
  shows "no_case_id n = cs_case_id c" "no_input n = cs_input c" "normalized_check n = None"
    and "length (no_assertions n) = length (cs_assertions c)"
    and "\<And>j. j < length (cs_assertions c) \<Longrightarrow>
           observe c (xt_observation t) (cs_assertions c ! j) = Inr (no_assertions n ! j)"
proof -
  have "traverse (observe c (xt_observation t)) (cs_assertions c) = Inr (no_assertions n)"
    using assms by (auto simp: normalize_case_def Let_def result_simps)
  then show "length (no_assertions n) = length (cs_assertions c)"
    and "\<And>j. j < length (cs_assertions c) \<Longrightarrow>
           observe c (xt_observation t) (cs_assertions c ! j) = Inr (no_assertions n ! j)"
    by (simp_all add: traverse_length traverse_nth)
  show "no_case_id n = cs_case_id c" "no_input n = cs_input c" "normalized_check n = None"
    using assms by (auto simp: normalize_case_def Let_def check_Inr_iff rbind_Inr_iff)
qed

lemma normalize_traceD:
  assumes "normalize_trace c t = Inr ns" "length (tr_cases t) = length (oc_cases c)"
  shows "length ns = length (oc_cases c)"
    and "\<And>i. i < length (oc_cases c) \<Longrightarrow> normalize_case (oc_cases c ! i) (tr_cases t ! i) = Inr (ns ! i)"
  using assms traverse_length[OF assms(1)[unfolded normalize_trace_def]]
    traverse_nth[OF assms(1)[unfolded normalize_trace_def]] by auto

section \<open>Divergences\<close>

lemma concat_enumerate_head:
  "concat (map f (enumerate n xs)) = d # ds \<Longrightarrow>
     \<exists>i ds'. i < length xs \<and> f (n + i, xs ! i) = d # ds' \<and> (\<forall>i' < i. f (n + i', xs ! i') = [])"
proof (induction xs arbitrary: n)
  case (Cons x xs)
  show ?case
  proof (cases "f (n, x)")
    case Nil
    then obtain i ds' where "i < length xs" "f (Suc n + i, xs ! i) = d # ds'" "\<forall>i' < i. f (Suc n + i', xs ! i') = []"
      using Cons.IH[of "Suc n"] Cons.prems by auto
    then show ?thesis using Nil by (intro exI[of _ "Suc i"] exI[of _ ds']) (auto simp: less_Suc_eq_0_disj)
  next
    case (Cons y ys)
    then show ?thesis using Cons.prems by (intro exI[of _ 0]) auto
  qed
qed simp

lemma filter_enumerate_head:
  assumes "filter P (enumerate n xs) = (j, x) # ys"
  shows "\<exists>i < length xs. j = n + i \<and> x = xs ! i \<and> P (j, x) \<and> (\<forall>i' < i. \<not> P (n + i', xs ! i'))"
proof -
  have "concat (map (\<lambda>p. if P p then [p] else []) ps) = filter P ps" for ps
    by (induction ps) auto
  then show ?thesis
    using concat_enumerate_head[of "\<lambda>p. if P p then [p] else []" n xs "(j, x)" ys] assms
    by (auto split: if_splits)
qed

lemma first_divergence_Some:
  assumes "first_divergence_of rs = Some d"
  shows "\<exists>i j. d = divergence_at rs i j \<and> bad_at rs i j \<and>
    (\<forall>i' j'. bad_at rs i' j' \<longrightarrow> i < i' \<or> (i = i' \<and> j \<le> j'))"
proof -
  let ?bad = "\<lambda>(j, c). ac_required c \<and> \<not> ac_matched c"
  let ?f = "\<lambda>(i, r). map (\<lambda>(j, c). \<lparr> fd_case_index = i, fd_assertion_index = j, fd_case_id = cr_case_id r,
      fd_assertion_id = ac_assertion_id c, fd_kind = ac_kind c, fd_expected_sha256 = ac_expected_sha256 c,
      fd_actual_sha256 = ac_actual_sha256 c \<rparr>) (filter ?bad (enumerate 0 (cr_assertions r)))"
  obtain ds where "concat (map ?f (enumerate 0 rs)) = d # ds"
    using assms by (auto simp: first_divergence_of_def divergences_def split: list.splits)
  then obtain i ds' where i: "i < length rs" "?f (i, rs ! i) = d # ds'" "\<forall>i' < i. ?f (i', rs ! i') = []"
    using concat_enumerate_head[of ?f 0 rs d ds] by auto
  then obtain j c ys where jc: "filter ?bad (enumerate 0 (cr_assertions (rs ! i))) = (j, c) # ys"
    by (auto simp: map_eq_Cons_conv)
  then have j: "j < length (cr_assertions (rs ! i))" "c = cr_assertions (rs ! i) ! j" "?bad (j, c)"
    "\<forall>j' < j. \<not> ?bad (j', cr_assertions (rs ! i) ! j')"
    using filter_enumerate_head[OF jc] by auto
  have "d = divergence_at rs i j" using i(2) jc j(2) by (simp add: divergence_at_def Let_def)
  moreover have "bad_at rs i j" using i(1) j by (simp add: bad_at_def)
  moreover have "i < i' \<or> (i = i' \<and> j \<le> j')" if b: "bad_at rs i' j'" for i' j'
  proof -
    have "(j', cr_assertions (rs ! i') ! j') \<in> set (filter ?bad (enumerate 0 (cr_assertions (rs ! i'))))"
      using b by (simp add: bad_at_def in_set_enumerate_eq)
    then have "\<not> i' < i" using i(3) by (metis (no_types, lifting) case_prod_conv empty_iff list.map_disc_iff set_empty)
    moreover have "\<not> j' < j" if "i = i'" using b that j(4) by (auto simp: bad_at_def)
    ultimately show ?thesis by linarith
  qed
  ultimately show ?thesis by blast
qed

lemma bad_at_divergences:
  assumes "bad_at rs i j"
  shows "divergences rs \<noteq> []"
proof -
  have "(j, cr_assertions (rs ! i) ! j) \<in>
      set (filter (\<lambda>(j, c). ac_required c \<and> \<not> ac_matched c) (enumerate 0 (cr_assertions (rs ! i))))"
    using assms by (simp add: bad_at_def in_set_enumerate_eq)
  moreover have "(i, rs ! i) \<in> set (enumerate 0 rs)"
    using assms by (simp add: bad_at_def in_set_enumerate_eq)
  ultimately show ?thesis unfolding divergences_def concat_eq_Nil_conv
    by (metis (no_types, lifting) case_prod_conv empty_iff image_eqI list.map_disc_iff list.set_map set_empty)
qed

lemma first_divergence_None: "first_divergence_of rs = None \<longleftrightarrow> (\<forall>i j. \<not> bad_at rs i j)"
proof
  assume "first_divergence_of rs = None"
  then have "divergences rs = []" by (simp add: first_divergence_of_def split: list.splits)
  then show "\<forall>i j. \<not> bad_at rs i j" using bad_at_divergences by force
next
  assume "\<forall>i j. \<not> bad_at rs i j"
  then show "first_divergence_of rs = None" using first_divergence_Some by (cases "first_divergence_of rs") blast+
qed

lemma all_passed_iff:
  assumes "\<forall>r \<in> set rs. cr_passed r = all_required_matched (cr_assertions r)"
  shows "list_all cr_passed rs \<longleftrightarrow> (\<forall>i j. \<not> bad_at rs i j)"
  using assms by (auto simp: list_all_iff all_required_matched_def bad_at_def) (metis in_set_conv_nth)+

section \<open>Derived reports are well formed\<close>

lemma oracle_case_checkD:
  assumes "oracle_case_check c = None"
  shows "stable_id (cs_case_id c)" "case_input_ok (cs_input c)" "cs_assertions c \<noteq> []"
    and "length (cs_assertions c) \<le> MAX_ASSERTIONS_PER_CASE" "list_all assertion_ok (cs_assertions c)"
  using assms by (auto simp: oracle_case_check_def not_less)

lemma kind_value_known: "kind_value t \<in> {''retval'', ''packet_bytes'', ''context_bytes'', ''map_snapshot'',
    ''map_delta'', ''ordered_events'', ''counter''}"
  by (cases t) simp_all

lemma compare_assertion_ok:
  "hexdigest_ok h \<Longrightarrow> assertion_ok a \<Longrightarrow> comparison_ok (compare_assertion h (a, x, y))"
  using kind_value_known[of "as_target a"]
  by (simp add: comparison_ok_def compare_assertion_def assertion_ok_def sha256_json_ok)

lemma compare_case_sel:
  "cr_case_id (compare_case h (c, x, y)) = cs_case_id c" "cr_input (compare_case h (c, x, y)) = cs_input c"
  "cr_candidate_observation_sha256 (compare_case h (c, x, y)) = sha256_json h (normalized_json x)"
  "cr_reference_observation_sha256 (compare_case h (c, x, y)) = sha256_json h (normalized_json y)"
  "cr_assertions (compare_case h (c, x, y)) =
     map (compare_assertion h) (zip (cs_assertions c) (zip (no_assertions x) (no_assertions y)))"
  "cr_passed (compare_case h (c, x, y)) = all_required_matched (cr_assertions (compare_case h (c, x, y)))"
  by (simp_all add: compare_case_def Let_def)

lemma compare_case_valid:
  assumes "hexdigest_ok h" "oracle_case_check c = None"
    and "length (no_assertions x) = length (cs_assertions c)" "length (no_assertions y) = length (cs_assertions c)"
  shows "case_result_check (compare_case h (c, x, y)) = None"
proof -
  note cd = oracle_case_checkD[OF assms(2)]
  have "list_all comparison_ok (cr_assertions (compare_case h (c, x, y)))"
    using cd(5) compare_assertion_ok[OF assms(1)]
    by (auto simp: compare_case_sel list_all_iff dest!: set_zip_leftD)
  moreover have "length (cr_assertions (compare_case h (c, x, y))) = length (cs_assertions c)"
    using assms(3,4) by (simp add: compare_case_sel)
  ultimately show ?thesis
    using cd assms(1) by (auto simp: case_result_check_def sha256_json_ok compare_case_sel(1-4,6))
qed

lemma compare_guards_hold:
  assumes "ob_assertion_id x = as_assertion_id a" "obs_kind (ob_value x) = kind_value (as_target a)"
    and "ob_assertion_id y = as_assertion_id a" "obs_kind (ob_value y) = kind_value (as_target a)"
  shows "raises (compare_guards h (x, y, compare_assertion h (a, x, y))) = None"
  using assms by (simp add: compare_guards_def compare_assertion_def)

lemma raises_concat_None: "raises (concat (map f xs)) = None \<longleftrightarrow> (\<forall>x \<in> set xs. raises (f x) = None)"
  by (induction xs) auto

lemma case_guards_hold:
  assumes "normalize_case c t = Inr x" "normalize_case c t' = Inr y"
  shows "raises (case_guards h (x, y, compare_case h (c, x, y))) = None"
proof -
  note xd = normalize_caseD[OF assms(1)] and yd = normalize_caseD[OF assms(2)]
  have "raises (compare_guards h (no_assertions x ! j, no_assertions y ! j,
      compare_assertion h (cs_assertions c ! j, no_assertions x ! j, no_assertions y ! j))) = None"
    if "j < length (cs_assertions c)" for j
    using observeD[OF xd(5)[OF that]] observeD[OF yd(5)[OF that]] by (intro compare_guards_hold)
  then have "raises (concat (map (compare_guards h)
      (zip (no_assertions x) (zip (no_assertions y) (cr_assertions (compare_case h (c, x, y))))))) = None"
    using xd(4) yd(4) by (auto simp: raises_concat_None set_zip compare_case_sel)
  then show ?thesis
    using xd(1,2,4) yd(1,2,4) by (simp add: case_guards_def compare_case_sel)
qed

lemma divergence_at_ok:
  assumes "bad_at rs i j" "length rs \<le> MAX_ORACLE_CASES" "\<forall>r \<in> set rs. case_result_check r = None"
  shows "first_divergence_ok (divergence_at rs i j)"
proof -
  have r: "case_result_check (rs ! i) = None" and i: "i < length rs" and j: "j < length (cr_assertions (rs ! i))"
    using assms by (auto simp: bad_at_def)
  then have "list_all comparison_ok (cr_assertions (rs ! i))" "stable_id (cr_case_id (rs ! i))"
    "length (cr_assertions (rs ! i)) \<le> MAX_ASSERTIONS_PER_CASE"
    by (auto simp: case_result_check_def not_less)
  moreover from this(1) have "comparison_ok (cr_assertions (rs ! i) ! j)" using j by (simp add: list_all_length)
  ultimately have "comparison_ok (cr_assertions (rs ! i) ! j)" "stable_id (cr_case_id (rs ! i))"
    "length (cr_assertions (rs ! i)) \<le> MAX_ASSERTIONS_PER_CASE" by simp_all
  then show ?thesis
    using i j assms(2) by (simp add: first_divergence_ok_def divergence_at_def Let_def comparison_ok_def)
qed

lemma first_divergence_of_ok:
  assumes "length rs \<le> MAX_ORACLE_CASES" "\<forall>r \<in> set rs. case_result_check r = None"
  shows "opt_ok first_divergence_ok (first_divergence_of rs)"
  using first_divergence_Some[of rs] divergence_at_ok[OF _ assms] by (auto simp: opt_ok_def split: option.split)

lemma report_of_sel:
  "or_cases (report_of h c cand ref cobs robs) = results_of h c cobs robs"
  "or_candidate_observations (report_of h c cand ref cobs robs) = cobs"
  "or_reference_observations (report_of h c cand ref cobs robs) = robs"
  "or_strict_success (report_of h c cand ref cobs robs) = list_all cr_passed (results_of h c cobs robs)"
  "or_first_divergence (report_of h c cand ref cobs robs) = first_divergence_of (results_of h c cobs robs)"
  by (simp_all add: report_of_def results_of_def Let_def)

lemma results_of_nth:
  assumes "length cobs = length (oc_cases c)" "length robs = length (oc_cases c)" "i < length (oc_cases c)"
  shows "results_of h c cobs robs ! i = compare_case h (oc_cases c ! i, cobs ! i, robs ! i)"
  using assms by (simp add: results_of_def)

lemma report_of_valid:
  assumes hex: "hexdigest_ok h" and c: "oracle_contract_check c = None"
    and t: "xdp_trace_check cand = None" "xdp_trace_check ref = None"
    and len: "length (tr_cases cand) = length (oc_cases c)" "length (tr_cases ref) = length (oc_cases c)"
    and n: "normalize_trace c cand = Inr cobs" "normalize_trace c ref = Inr robs"
  shows "report_check h (report_of h c cand ref cobs robs) = None"
proof -
  note cd = normalize_traceD[OF n(1) len(1)] and rd = normalize_traceD[OF n(2) len(2)]
  have cases: "oc_cases c \<noteq> []" "length (oc_cases c) \<le> MAX_ORACLE_CASES"
    "\<And>x. x \<in> set (oc_cases c) \<Longrightarrow> oracle_case_check x = None"
    using c by (auto simp: oracle_contract_check_def not_less)
  have res: "\<forall>r \<in> set (results_of h c cobs robs). case_result_check r = None"
    using normalize_caseD(4)[OF cd(2)] normalize_caseD(4)[OF rd(2)] cases(3) cd(1) rd(1) compare_case_valid[OF hex]
    by (auto simp: results_of_def set_zip)
  have obs: "\<forall>x \<in> set cobs. normalized_check x = None" "\<forall>x \<in> set robs. normalized_check x = None"
    using normalize_caseD(3)[OF cd(2)] normalize_caseD(3)[OF rd(2)] cd(1) rd(1) by (auto simp: in_set_conv_nth)
  have len': "length (results_of h c cobs robs) = length (oc_cases c)"
    using cd(1) rd(1) by (simp add: results_of_def)
  have guards: "raises (concat (map (case_guards h) (zip cobs (zip robs (results_of h c cobs robs))))) = None"
    using case_guards_hold[OF cd(2) rd(2)] cd(1) rd(1)
    by (auto simp: raises_concat_None set_zip results_of_def)
  have fd: "opt_ok first_divergence_ok (first_divergence_of (results_of h c cobs robs))"
    using len' cases(2) res by (intro first_divergence_of_ok) auto
  have progs: "content_identity_ok (tr_program cand)" "content_identity_ok (tr_program ref)"
    using t by (auto simp: xdp_trace_check_def)
  have ids: "stable_id (oc_task_id c)" "stable_id (oc_task_version c)" "sha256_ok (oc_task_bundle_sha256 c)"
    "sha256_ok (oc_evaluation_plan_sha256 c)" "sha256_ok (oc_grader_id c)" "stable_id (oc_environment_id c)"
    "sha256_ok (oc_environment_sha256 c)" "hex40_ok (oc_harness_commit c)" "stable_id (oc_normalizer_version c)"
    "sha256_ok (oc_normalizer_sha256 c)"
    using c by (auto simp: oracle_contract_check_def)
  have ne: "cobs \<noteq> []" "robs \<noteq> []" "results_of h c cobs robs \<noteq> []"
    using cases(1) cd(1) rd(1) len' by auto
  show ?thesis
    unfolding report_check_def report_of_sel raises_append_None
    using cases(2) cd(1) rd(1) len' res obs guards fd progs ids ne hex
    by (simp add: report_of_def Let_def sha256_json_ok)
qed

section \<open>Verdicts\<close>

lemma derive_oracle_reportD:
  assumes "derive_oracle_report h c cand ref = Inr r"
  obtains cobs robs where "normalize_trace c cand = Inr cobs" "normalize_trace c ref = Inr robs"
    "r = report_of h c cand ref cobs robs" "report_check h r = None"
    "length (tr_cases cand) = length (oc_cases c)" "length (tr_cases ref) = length (oc_cases c)"
proof -
  have "validate_trace c t role = None \<Longrightarrow> length (tr_cases t) = length (oc_cases c)" for t role
    by (simp add: validate_trace_def)
  then show thesis using assms that by (auto simp: derive_oracle_report_def Let_def result_simps)
qed

lemma bad_at_diverges:
  assumes "normalize_trace c cand = Inr cobs" "normalize_trace c ref = Inr robs"
    and "length (tr_cases cand) = length (oc_cases c)" "length (tr_cases ref) = length (oc_cases c)"
  shows "bad_at (results_of h c cobs robs) i j \<longleftrightarrow> diverges c cand ref i j"
proof (cases "i < length (oc_cases c)")
  case True
  note cd = normalize_traceD[OF assms(1,3)] and rd = normalize_traceD[OF assms(2,4)]
  note x = normalize_caseD[OF cd(2)[OF True]] and y = normalize_caseD[OF rd(2)[OF True]]
  have r: "results_of h c cobs robs ! i = compare_case h (oc_cases c ! i, cobs ! i, robs ! i)"
    using results_of_nth cd(1) rd(1) True by blast
  have l: "length (results_of h c cobs robs) = length (oc_cases c)"
    using cd(1) rd(1) by (simp add: results_of_def)
  show ?thesis
    unfolding bad_at_def diverges_def r compare_case_sel l
    using x(4) y(4) x(5) y(5) True by (auto simp: compare_assertion_def Let_def)
next
  case False
  then show ?thesis
    using normalize_traceD(1)[OF assms(1,3)] normalize_traceD(1)[OF assms(2,4)]
    by (simp add: bad_at_def diverges_def results_of_def)
qed

lemma report_success_iff:
  assumes "derive_oracle_report h c cand ref = Inr r"
  shows "or_strict_success r \<longleftrightarrow> (\<forall>i j. \<not> diverges c cand ref i j)"
  using assms
proof (cases rule: derive_oracle_reportD)
  case (1 cobs robs)
  have "\<forall>r \<in> set (results_of h c cobs robs). cr_passed r = all_required_matched (cr_assertions r)"
    by (auto simp: results_of_def compare_case_sel(6))
  then show ?thesis
    using all_passed_iff bad_at_diverges[OF 1(1,2,5,6)] by (simp add: 1(3) report_of_sel)
qed

text \<open>
  C7. The oracle's verdict is the required conjunction: a derived report claims strict success exactly
  when, in every case, every required assertion observes the same normalised value on the candidate
  and on the reference.
\<close>

theorem oracle_strict_success_iff:
  assumes "derive_oracle_report h c cand ref = Inr r"
  shows "or_strict_success r \<longleftrightarrow>
    (\<forall>i < length (oc_cases c). \<forall>a \<in> set (cs_assertions (oc_cases c ! i)). as_required a \<longrightarrow>
       observe (oc_cases c ! i) (xt_observation (tr_cases cand ! i)) a =
       observe (oc_cases c ! i) (xt_observation (tr_cases ref ! i)) a)"
  unfolding report_success_iff[OF assms] diverges_def Let_def by (metis in_set_conv_nth)

text \<open>
  C8. The reported first divergence is the first one: it is absent exactly on strict success, and
  otherwise its indices point at a required assertion on which the traces differ, with no earlier one
  in case order and assertion order.
\<close>

theorem first_divergence_is_first:
  assumes "derive_oracle_report h c cand ref = Inr r"
  shows "(or_first_divergence r = None \<longleftrightarrow> or_strict_success r) \<and>
    (\<forall>d. or_first_divergence r = Some d \<longrightarrow>
       diverges c cand ref (fd_case_index d) (fd_assertion_index d) \<and>
       fd_case_id d = cs_case_id (oc_cases c ! fd_case_index d) \<and>
       (\<forall>i j. diverges c cand ref i j \<longrightarrow>
          fd_case_index d < i \<or> (fd_case_index d = i \<and> fd_assertion_index d \<le> j)))"
proof -
  have succ: "or_strict_success r \<longleftrightarrow> (\<forall>i j. \<not> diverges c cand ref i j)"
    using assms by (rule report_success_iff)
  show ?thesis using assms
  proof (cases rule: derive_oracle_reportD)
    case (1 cobs robs)
    note bad = bad_at_diverges[OF 1(1,2,5,6), of h]
    have len: "length cobs = length (oc_cases c)" "length robs = length (oc_cases c)"
      using normalize_traceD(1) 1(1,2,5,6) by blast+
    have first: "or_first_divergence r = first_divergence_of (results_of h c cobs robs)"
      by (simp add: 1(3) report_of_sel)
    have "fd_case_id (divergence_at (results_of h c cobs robs) i j) = cs_case_id (oc_cases c ! i)"
      if "bad_at (results_of h c cobs robs) i j" for i j
      using that results_of_nth[OF len] len
      by (simp add: divergence_at_def Let_def bad_at_def compare_case_sel results_of_def)
    then show ?thesis
      using first_divergence_None[of "results_of h c cobs robs"] first_divergence_Some[of "results_of h c cobs robs"]
      unfolding first succ bad by (auto simp: divergence_at_def Let_def) blast+
  qed
qed


lemma derive_total:
  assumes "hexdigest_ok h" "oracle_contract_check c = None"
    and "xdp_trace_check cand = None" "xdp_trace_check ref = None"
    and "validate_trace c cand CANDIDATE = None" "validate_trace c ref REFERENCE = None"
    and "normalize_trace c cand = Inr cobs" "normalize_trace c ref = Inr robs"
  shows "derive_oracle_report h c cand ref = Inr (report_of h c cand ref cobs robs)"
proof -
  have "length (tr_cases cand) = length (oc_cases c)" "length (tr_cases ref) = length (oc_cases c)"
    using assms(5,6) by (simp_all add: validate_trace_def)
  then have "report_check h (report_of h c cand ref cobs robs) = None"
    using assms by (intro report_of_valid)
  then show ?thesis using assms by (simp add: derive_oracle_report_def Let_def)
qed

text \<open>
  C10. Deriving a report never fails after normalisation: for a valid contract and valid traces that
  match it, once every case normalises on both sides the assembled report passes the validation of
  \<open>OracleReport\<close> and is returned.
\<close>

theorem derive_oracle_report_total:
  assumes "hexdigest_ok h" "oracle_contract_check c = None"
    and "xdp_trace_check cand = None" "xdp_trace_check ref = None"
    and "validate_trace c cand CANDIDATE = None" "validate_trace c ref REFERENCE = None"
    and "normalize_trace c cand = Inr cobs" "normalize_trace c ref = Inr robs"
  shows "derive_oracle_report h c cand ref = Inr (report_of h c cand ref cobs robs)"
  using assms by (rule derive_total)

text \<open>
  C11. Masking is exact: it succeeds precisely when every range lies inside the observed bytes, and then
  it replaces the bytes of the declared ranges by zero and keeps all others.
\<close>

theorem mask_bytes_exact:
  "mask_bytes (tohex d) rules = Inr s \<longleftrightarrow>
     rules_fit rules (length d) \<and> s = tohex (map (\<lambda>i. if masked rules i then 0 else d ! i) [0..<length d])"
  using mask_bytes_Inr[of d rules s] by (simp add: masked_bytes_def)

text \<open>
  C12. A map delta is the exact difference of two snapshots: applied to the first it gives the second,
  it changes each key at most once and in key order, and it lists no key whose value is unchanged.
\<close>

theorem map_delta_exact:
  "apply_delta (by_key before) (map_delta before after) = by_key after \<and>
   sorted (map mc_key (map_delta before after)) \<and> distinct (map mc_key (map_delta before after)) \<and>
   set (map mc_key (map_delta before after)) = {k. by_key before k \<noteq> by_key after k}"
proof -
  have "set (map mc_key (map_delta before after)) = {k. by_key before k \<noteq> by_key after k}"
    using map_delta_key[of _ before after] by blast
  then show ?thesis using apply_map_delta map_delta_sorted by blast
qed

lemma derived_observations:
  assumes "derive_oracle_report h c cand ref = Inr r" "i < length (oc_cases c)"
    and "a \<in> set (cs_assertions (oc_cases c ! i))"
  obtains x y where "observe (oc_cases c ! i) (xt_observation (tr_cases cand ! i)) a = Inr x"
    "observe (oc_cases c ! i) (xt_observation (tr_cases ref ! i)) a = Inr y"
  using assms(1)
proof (cases rule: derive_oracle_reportD)
  case (1 cobs robs)
  obtain j where "j < length (cs_assertions (oc_cases c ! i))" "a = cs_assertions (oc_cases c ! i) ! j"
    using assms(3) by (auto simp: in_set_conv_nth)
  then show thesis
    using that normalize_caseD(5) normalize_traceD(2)[OF 1(1,5) assms(2)] normalize_traceD(2)[OF 1(2,6) assms(2)]
    by metis
qed

lemma observe_packet:
  assumes "observe c raw a = Inr x" "as_target a = PacketBytes" "ro_packet_bytes raw = Some (tohex p)"
  shows "ob_value x = PacketBytesObs (tohex (masked_bytes (rules_for c (as_assertion_id a) C_BYTES) p))"
  using observeD(4)[OF assms(1)] assms(2,3) by (simp add: observe_value_def Let_def rbind_Inr_iff mask_bytes_Inr)

text \<open>
  Strict success means what it says on the wire: when a report succeeds and a case requires the
  packet, the candidate's and the reference's packets have the same length and agree on every byte
  that no mask of that assertion covers.
\<close>

theorem strict_success_packets_agree:
  assumes r: "derive_oracle_report h c cand ref = Inr r" "or_strict_success r"
    and a: "i < length (oc_cases c)" "a \<in> set (cs_assertions (oc_cases c ! i))" "as_required a"
      "as_target a = PacketBytes"
    and p: "ro_packet_bytes (xt_observation (tr_cases cand ! i)) = Some (tohex p)"
    and q: "ro_packet_bytes (xt_observation (tr_cases ref ! i)) = Some (tohex q)"
  shows "length p = length q \<and>
    (\<forall>k < length p. \<not> masked (rules_for (oc_cases c ! i) (as_assertion_id a) C_BYTES) k \<longrightarrow> p ! k = q ! k)"
proof -
  obtain x y where xy: "observe (oc_cases c ! i) (xt_observation (tr_cases cand ! i)) a = Inr x"
    "observe (oc_cases c ! i) (xt_observation (tr_cases ref ! i)) a = Inr y"
    using derived_observations[OF r(1) a(1,2)] .
  obtain j where j: "j < length (cs_assertions (oc_cases c ! i))" "a = cs_assertions (oc_cases c ! i) ! j"
    using a(2) by (auto simp: in_set_conv_nth)
  have "\<not> diverges c cand ref i j" using r(2) report_success_iff[OF r(1)] by blast
  then have "x = y" using xy j a(1,3) by (simp add: diverges_def Let_def)
  then show ?thesis
    using observe_packet[OF xy(1) a(4) p] observe_packet[OF xy(2) a(4) q] masked_bytes_eq_iff by auto
qed

section \<open>Errors of normalisation\<close>

text \<open>Masking keeps observations well formed and raises nothing but the oracle's own error.\<close>

lemma mask_bytes_length: "mask_bytes s rules = Inr v \<Longrightarrow> length v = length s \<and> hex_bytes_ok v"
proof -
  assume a: "mask_bytes s rules = Inr v"
  then obtain d where d: "fromhex s = Inr d" by (auto simp: mask_bytes_def rbind_Inr_iff)
  then have "s = tohex d" using tohex_fromhex by blast
  then show ?thesis using a mask_bytes_Inr[of d rules v] by simp
qed

lemma mask_bytes_kept:
  assumes "mask_bytes s rules = Inr v"
  shows "HexBytes s \<Longrightarrow> HexBytes v" "NonEmptyHexBytes s \<Longrightarrow> NonEmptyHexBytes v"
  using mask_bytes_length[OF assms] by (auto simp: HexBytes_def NonEmptyHexBytes_def)

lemma mask_bytes_Inl: "hex_bytes_ok s \<Longrightarrow> mask_bytes s rules = Inl e \<Longrightarrow> exn_class e = ''OracleContractError''"
  by (erule hex_bytes_okE) (auto simp: mask_bytes_def rbind_Inl_iff dest: mask_rules_Inl)

lemma normalized_entry_kept:
  assumes "map_entry_ok x"
  shows "normalized_entry ks vs x = Inr y \<Longrightarrow> map_entry_ok y"
    and "normalized_entry ks vs x = Inl e \<Longrightarrow> exn_class e = ''OracleContractError''"
  using assms mask_bytes_kept(2) mask_bytes_Inl
  by (auto simp: normalized_entry_def result_simps rbind_Inl_iff map_entry_ok_def NonEmptyHexBytes_def
      check_def raises.simps split: if_splits)

lemma normalized_entries_kept:
  assumes ok: "list_all map_entry_ok es"
  shows "normalized_entries es ks vs = Inr ns \<Longrightarrow>
      list_all map_entry_ok ns \<and> sorted (map me_key ns) \<and> distinct (map me_key ns) \<and> length ns = length es"
    and "normalized_entries es ks vs = Inl e \<Longrightarrow> exn_class e = ''OracleContractError''"
proof -
  assume "normalized_entries es ks vs = Inr ns"
  then obtain xs where xs: "traverse (normalized_entry ks vs) es = Inr xs" "ns = sort_key me_key xs"
    "distinct (map me_key ns)"
    by (auto simp: normalized_entries_def rbind_Inr_iff Let_def split: if_splits)
  have "\<forall>x \<in> set xs. map_entry_ok x"
    using xs(1) ok normalized_entry_kept(1) traverse_length[OF xs(1)] traverse_nth[OF xs(1)]
    by (metis in_set_conv_nth list_all_iff nth_mem)
  then show "list_all map_entry_ok ns \<and> sorted (map me_key ns) \<and> distinct (map me_key ns) \<and> length ns = length es"
    using xs traverse_length[OF xs(1)] by (simp add: list_all_iff)
next
  assume "normalized_entries es ks vs = Inl e"
  then show "exn_class e = ''OracleContractError''"
    using ok normalized_entry_kept(2) traverse_Inl_member[of "normalized_entry ks vs" es]
    by (auto simp: normalized_entries_def rbind_Inl_iff Let_def list_all_iff split: if_splits)
qed

lemma by_key_ok: "list_all map_entry_ok es \<Longrightarrow> opt_ok NonEmptyHexBytes (by_key es k)"
  using by_key_mem[of es k] by (auto simp: opt_ok_def list_all_iff map_entry_ok_def split: option.split)

lemma key_change_ok:
  assumes "NonEmptyHexBytes k" "opt_ok NonEmptyHexBytes old" "opt_ok NonEmptyHexBytes new" "old \<noteq> None \<or> new \<noteq> None"
    and "c \<in> set (key_change old new k)"
  shows "map_change_check c = None"
  using assms by (auto simp: key_change_def map_change_check_def split: if_splits)

lemma map_delta_ok:
  assumes "list_all map_entry_ok before" "list_all map_entry_ok after"
  shows "\<forall>c \<in> set (map_delta before after). map_change_check c = None"
proof
  fix c assume "c \<in> set (map_delta before after)"
  then obtain k where k: "k \<in> set (map me_key before @ map me_key after)"
    "c \<in> set (key_change (by_key before k) (by_key after k) k)" by (auto simp: map_delta_def)
  have "NonEmptyHexBytes k" using k(1) assms by (auto simp: list_all_iff map_entry_ok_def)
  moreover have "by_key before k \<noteq> None \<or> by_key after k \<noteq> None" using k(1) by_key_dom by auto
  ultimately show "map_change_check c = None"
    using key_change_ok[OF _ by_key_ok[OF assms(1)] by_key_ok[OF assms(2)] _ k(2)] by blast
qed

lemma find_by_ok:
  assumes "k \<in> set (map key xs)"
  obtains x where "find_by key xs k = Inr x" "x \<in> set xs" "key x = k"
  using assms find_Some_mem[of "\<lambda>x. key x = k" xs]
  by (cases "find (\<lambda>x. key x = k) xs") (auto simp: find_by_def find_None_all)

lemma map_state_checkD:
  assumes "map_state_check s = None"
  shows "list_all map_entry_ok (ms_before s)" "list_all map_entry_ok (ms_after s)"
    and "length (ms_after s) \<le> MAX_COLLECTION_ITEMS"
  using assms by (auto simp: map_state_check_def not_less)

lemma raw_observation_checkD:
  assumes "raw_observation_check raw = None"
  shows "Unsigned32 (ro_retval raw)" "opt_ok HexBytes (ro_packet_bytes raw)" "opt_ok HexBytes (ro_context_bytes raw)"
    and "\<And>m. m \<in> set (ro_maps raw) \<Longrightarrow> map_state_check m = None"
    and "\<And>e. e \<in> set (ro_events raw) \<Longrightarrow> event_stream_ok e"
    and "\<And>x. x \<in> set (ro_counters raw) \<Longrightarrow> counter_trace_ok x"
  using assms by (auto simp: raw_observation_check_def list_all_iff)

text \<open>The size of the delta an assertion asks for, the only bound normalisation can exceed.\<close>

definition oversized_delta :: "oracle_case \<Rightarrow> raw_observation \<Rightarrow> assertion \<Rightarrow> bool" where
  "oversized_delta c raw a \<longleftrightarrow>
     (\<exists>m cs. observe_value c raw a = Inr (MapDeltaObs m cs) \<and> MAX_COLLECTION_ITEMS < length cs)"

lemma observe_value_ok:
  assumes raw: "raw_observation_check raw = None" and t: "target_ok (as_target a)"
    and v: "observe_value c raw a = Inr v" and small: "\<not> oversized_delta c raw a"
  shows "obs_value_check v = None"
proof (cases "as_target a")
  case Retval
  then show ?thesis using v raw_observation_checkD(1)[OF raw] by (auto simp: observe_value_def Let_def)
next
  case PacketBytes
  then show ?thesis using v raw_observation_checkD(2)[OF raw] mask_bytes_kept(1)
    by (auto simp: observe_value_def Let_def rbind_Inr_iff opt_ok_def split: option.splits)
next
  case ContextBytes
  then show ?thesis using v raw_observation_checkD(3)[OF raw] mask_bytes_kept(1)
    by (auto simp: observe_value_def Let_def rbind_Inr_iff opt_ok_def split: option.splits)
next
  case (MapSnapshot m)
  then obtain st where "st \<in> set (ro_maps raw)" "\<exists>ks vs ns. v = MapSnapshotObs m ns \<and>
      normalized_entries (ms_after st) ks vs = Inr ns"
    using v by (auto simp: observe_value_def Let_def rbind_Inr_iff find_by_def dest!: find_Some_mem split: option.splits)
  then show ?thesis
    using map_state_checkD[OF raw_observation_checkD(4)[OF raw]] normalized_entries_kept(1) t MapSnapshot by fastforce
next
  case (MapDelta m)
  then obtain st ks vs b f where "st \<in> set (ro_maps raw)" "v = MapDeltaObs m (map_delta b f)"
      "normalized_entries (ms_before st) ks vs = Inr b" "normalized_entries (ms_after st) ks vs = Inr f"
    using v by (auto simp: observe_value_def Let_def rbind_Inr_iff find_by_def dest!: find_Some_mem split: option.splits)
  moreover from this have "list_all map_entry_ok b" "list_all map_entry_ok f"
    using map_state_checkD[OF raw_observation_checkD(4)[OF raw]] normalized_entries_kept(1) by blast+
  moreover have "\<not> MAX_COLLECTION_ITEMS < length (map_delta b f)"
    using small v calculation(2) by (auto simp: oversized_delta_def)
  ultimately show ?thesis using map_delta_ok[of b f] map_delta_sorted t MapDelta by auto
next
  case (OrderedEvents s)
  then obtain e rules rs where e: "e \<in> set (ro_events raw)" "v = OrderedEventsObs s rs"
      "traverse (\<lambda>r. mask_bytes r rules) (es_records e) = Inr rs"
    using v by (auto simp: observe_value_def Let_def rbind_Inr_iff find_by_def dest!: find_Some_mem split: option.splits)
  have ok: "event_stream_ok e" using raw_observation_checkD(5)[OF raw] e(1) .
  then have "\<forall>x \<in> set rs. NonEmptyHexBytes x"
    using mask_bytes_kept(2) traverse_length[OF e(3)] traverse_nth[OF e(3)]
    by (metis event_stream_ok_def in_set_conv_nth list_all_iff nth_mem)
  then show ?thesis
    using ok e(2) t OrderedEvents traverse_length[OF e(3)] by (auto simp: event_stream_ok_def list_all_iff)
next
  case (Counter n m)
  then obtain x where x: "x \<in> set (ro_counters raw)" "v = CounterObs n m
      (if m = MODE_FINAL then ct_after x else ct_after x - ct_before x)"
    using v by (auto simp: observe_value_def Let_def rbind_Inr_iff find_by_def dest!: find_Some_mem split: option.splits)
  then have "counter_trace_ok x" using raw_observation_checkD(6)[OF raw] by blast
  then show ?thesis using x t Counter by (auto simp: counter_trace_ok_def Unsigned64_def CounterDelta_def)
qed

lemma expected_named_mem:
  "a \<in> set (cs_assertions c) \<Longrightarrow> name (as_target a) = Some k \<Longrightarrow> k \<in> expected_named name c"
  by (force simp: expected_named_def List.map_filter_def)

lemma shapeD:
  assumes "validate_observation_shape c t = None"
  shows "(ro_packet_bytes (xt_observation t) \<noteq> None) = (PacketBytes \<in> as_target ` set (cs_assertions c))"
    and "(ro_context_bytes (xt_observation t) \<noteq> None) = (ContextBytes \<in> as_target ` set (cs_assertions c))"
    and "set (map ms_map_id (ro_maps (xt_observation t))) = expected_named map_id_of c"
    and "set (map es_stream_id (ro_events (xt_observation t))) = expected_named stream_id_of c"
    and "set (map ct_counter_id (ro_counters (xt_observation t))) = expected_named counter_id_of c"
  using assms by (auto simp: validate_observation_shape_def shape_guards_def Let_def)

lemma observe_value_Inl:
  assumes raw: "raw_observation_check (xt_observation t) = None" and a: "a \<in> set (cs_assertions c)"
    and shape: "validate_observation_shape c t = None"
    and v: "observe_value c (xt_observation t) a = Inl e"
  shows "exn_class e = ''OracleContractError''"
proof (cases "as_target a")
  case Retval
  then show ?thesis using v by (simp add: observe_value_def)
next
  case PacketBytes
  then show ?thesis using v raw_observation_checkD(2)[OF raw] mask_bytes_Inl
    by (auto simp: observe_value_def Let_def rbind_Inl_iff opt_ok_def HexBytes_def split: option.splits)
next
  case ContextBytes
  then show ?thesis using v raw_observation_checkD(3)[OF raw] mask_bytes_Inl
    by (auto simp: observe_value_def Let_def rbind_Inl_iff opt_ok_def HexBytes_def split: option.splits)
next
  case (MapSnapshot m)
  then obtain st where st: "find_by ms_map_id (ro_maps (xt_observation t)) m = Inr st"
      "st \<in> set (ro_maps (xt_observation t))"
    using find_by_ok[of m ms_map_id "ro_maps (xt_observation t)"] shapeD(3)[OF shape]
      expected_named_mem[OF a, of map_id_of] by auto
  note ok = map_state_checkD(1,2)[OF raw_observation_checkD(4)[OF raw st(2)]]
  show ?thesis
    using v MapSnapshot st(1) normalized_entries_kept(2)[OF ok(1)] normalized_entries_kept(2)[OF ok(2)]
    by (auto simp: observe_value_def Let_def rbind_Inl_iff)
next
  case (MapDelta m)
  then obtain st where st: "find_by ms_map_id (ro_maps (xt_observation t)) m = Inr st"
      "st \<in> set (ro_maps (xt_observation t))"
    using find_by_ok[of m ms_map_id "ro_maps (xt_observation t)"] shapeD(3)[OF shape]
      expected_named_mem[OF a, of map_id_of] by auto
  note ok = map_state_checkD(1,2)[OF raw_observation_checkD(4)[OF raw st(2)]]
  show ?thesis
    using v MapDelta st(1) normalized_entries_kept(2)[OF ok(1)] normalized_entries_kept(2)[OF ok(2)]
    by (auto simp: observe_value_def Let_def rbind_Inl_iff)
next
  case (OrderedEvents s)
  then obtain st where st: "find_by es_stream_id (ro_events (xt_observation t)) s = Inr st"
      "st \<in> set (ro_events (xt_observation t))"
    using find_by_ok[of s es_stream_id "ro_events (xt_observation t)"] shapeD(4)[OF shape] expected_named_mem[OF a, of stream_id_of] by auto
  have "event_stream_ok st" using raw_observation_checkD(5)[OF raw] st(2) .
  then show ?thesis
    using v OrderedEvents st(1) mask_bytes_Inl
    by (auto simp: observe_value_def Let_def rbind_Inl_iff event_stream_ok_def list_all_iff NonEmptyHexBytes_def
        dest!: traverse_Inl_member)
next
  case (Counter n m)
  then obtain ct where "find_by ct_counter_id (ro_counters (xt_observation t)) n = Inr ct"
    using find_by_ok[of n ct_counter_id "ro_counters (xt_observation t)"] shapeD(5)[OF shape] expected_named_mem[OF a, of counter_id_of] by auto
  then show ?thesis using v Counter by (simp add: observe_value_def Let_def)
qed

lemma observe_Inl:
  assumes "raw_observation_check (xt_observation t) = None" "a \<in> set (cs_assertions c)" "assertion_ok a"
    and "validate_observation_shape c t = None" "observe c (xt_observation t) a = Inl e"
  shows "exn_class e = ''OracleContractError'' \<or> oversized_delta c (xt_observation t) a"
proof (cases "observe_value c (xt_observation t) a")
  case (Inl e')
  then show ?thesis using observe_value_Inl[OF assms(1,2,4) Inl] assms(5) by (simp add: observe_def)
next
  case (Inr v)
  show ?thesis
  proof (rule disjCI)
    assume "\<not> oversized_delta c (xt_observation t) a"
    then have "obs_value_check v = None"
      using observe_value_ok[OF assms(1) _ Inr] assms(3) by (simp add: assertion_ok_def)
    then show "exn_class e = ''OracleContractError''"
      using assms(3,5) Inr by (simp add: observe_def Let_def observation_check_def assertion_ok_def orelse_def)
  qed
qed

lemma normalized_case_valid:
  assumes c: "oracle_case_check c = None" and obs: "traverse (observe c raw) (cs_assertions c) = Inr os"
  shows "normalized_check \<lparr> no_case_id = cs_case_id c, no_input = cs_input c, no_assertions = os,
    no_normalizations_applied = map mr_normalization_id (cs_normalizations c) \<rparr> = None"
proof -
  have "map ob_assertion_id os = map as_assertion_id (cs_assertions c)"
    using traverse_length[OF obs] observeD(1)[OF traverse_nth[OF obs]] by (auto intro: nth_equalityI)
  moreover have "\<forall>x \<in> set os. observation_check x = None"
    using traverse_length[OF obs] observeD(2)[OF traverse_nth[OF obs]] by (auto simp: in_set_conv_nth)
  moreover have "cs_assertions c \<noteq> []" "length (cs_assertions c) \<le> MAX_ASSERTIONS_PER_CASE"
    "distinct (map as_assertion_id (cs_assertions c))"
    "length (cs_normalizations c) \<le> MAX_NORMALIZATIONS_PER_CASE"
    "distinct (map mr_normalization_id (cs_normalizations c))" "sorted (map mr_normalization_id (cs_normalizations c))"
    "\<And>r. r \<in> set (cs_normalizations c) \<Longrightarrow> stable_id (mr_normalization_id r)"
    using c by (auto simp: oracle_case_check_def not_less mask_rule_check_def)
  ultimately show ?thesis
    using traverse_length[OF obs] oracle_case_checkD(1,2)[OF c] by (auto simp: normalized_check_def list_all_iff)
qed

lemma shape_guards_class: "(True, e) \<in> set (shape_guards c t) \<Longrightarrow> exn_class e = ''OracleContractError''"
  by (auto simp: shape_guards_def Let_def)

text \<open>
  C13. On validated inputs normalisation raises nothing but \<open>OracleContractError\<close>, except when a map
  delta lists more changes than \<open>MapDeltaObservation\<close> admits: two snapshots within the trace's bounds
  may differ in more keys than that.
\<close>

theorem normalize_case_errors:
  assumes "oracle_case_check c = None" "raw_observation_check (xt_observation t) = None"
    and "normalize_case c t = Inl e"
  shows "exn_class e = ''OracleContractError'' \<or>
    (\<exists>a \<in> set (cs_assertions c). oversized_delta c (xt_observation t) a)"
proof (cases "validate_observation_shape c t")
  case (Some e')
  then have "(True, e') \<in> set (shape_guards c t)"
    using raises_Some_member by (auto simp: validate_observation_shape_def)
  then show ?thesis using shape_guards_class Some assms(3) by (simp add: normalize_case_def)
next
  case None
  then consider "traverse (observe c (xt_observation t)) (cs_assertions c) = Inl e"
    | os where "traverse (observe c (xt_observation t)) (cs_assertions c) = Inr os"
    using assms(3) by (auto simp: normalize_case_def rbind_Inl_iff)
  then show ?thesis
  proof cases
    case 1
    then obtain a where "a \<in> set (cs_assertions c)" "observe c (xt_observation t) a = Inl e"
      using traverse_Inl_member by metis
    then show ?thesis
      using observe_Inl[OF assms(2) _ _ None] oracle_case_checkD(5)[OF assms(1)] by (auto simp: list_all_iff)
  next
    case 2
    then show ?thesis using normalized_case_valid[OF assms(1) 2] assms(3) None by (simp add: normalize_case_def Let_def)
  qed
qed

section \<open>A concrete comparison\<close>

text \<open>
  One case with a return value, a packet whose second byte is masked and a map delta; the candidate's
  packet differs from the reference's in the masked byte only.
\<close>

definition sample_identity :: content_identity where
  "sample_identity = \<lparr> ci_sha256 = digest_a, ci_size_bytes = 4, ci_media_type = ''application/octet-stream'' \<rparr>"

definition sample_assertion :: "string \<Rightarrow> target \<Rightarrow> assertion" where
  "sample_assertion i t = \<lparr> as_assertion_id = i, as_required = True, as_weight = 1, as_target = t \<rparr>"

definition sample_mask :: mask_rule where
  "sample_mask = \<lparr> mr_normalization_id = ''n'', mr_assertion_id = ''pkt'', mr_component = C_BYTES,
     mr_ranges = [\<lparr> br_offset = 1, br_length = 1 \<rparr>] \<rparr>"

definition sample_case :: oracle_case where
  "sample_case = \<lparr> cs_case_id = ''c0'', cs_input = \<lparr> xi_fixture = sample_identity \<rparr>,
     cs_assertions = [sample_assertion ''ret'' Retval, sample_assertion ''pkt'' PacketBytes,
       sample_assertion ''dlt'' (MapDelta ''m'')],
     cs_normalizations = [sample_mask] \<rparr>"

definition sample_oracle_contract :: oracle_contract where
  "sample_oracle_contract =
     \<lparr> oc_task_id = ''t'', oc_task_version = ''v1'', oc_task_bundle_sha256 = digest_a,
       oc_evaluation_plan_sha256 = digest_a, oc_grader_id = digest_a, oc_environment_id = ''env'',
       oc_environment_sha256 = digest_a, oc_harness_commit = commit_b, oc_normalizer_version = ''n1'',
       oc_normalizer_sha256 = digest_a, oc_reference_program = sample_identity, oc_cases = [sample_case] \<rparr>"

definition sample_raw :: "int \<Rightarrow> string \<Rightarrow> raw_observation" where
  "sample_raw retval packet =
     \<lparr> ro_retval = retval, ro_packet_bytes = Some packet, ro_context_bytes = None,
       ro_maps = [\<lparr> ms_map_id = ''m'', ms_before = [\<lparr> me_key = ''00'', me_value = ''01'' \<rparr>],
                    ms_after = [\<lparr> me_key = ''00'', me_value = ''02'' \<rparr>, \<lparr> me_key = ''01'', me_value = ''07'' \<rparr>] \<rparr>],
       ro_events = [], ro_counters = [] \<rparr>"

definition sample_trace :: "role \<Rightarrow> int \<Rightarrow> string \<Rightarrow> xdp_trace" where
  "sample_trace role retval packet =
     \<lparr> tr_role = role, tr_task_id = ''t'', tr_task_version = ''v1'', tr_task_bundle_sha256 = digest_a,
       tr_evaluation_plan_sha256 = digest_a, tr_grader_id = digest_a, tr_environment_id = ''env'',
       tr_environment_sha256 = digest_a, tr_harness_commit = commit_b, tr_program = sample_identity,
       tr_cases = [\<lparr> xt_case_id = ''c0'', xt_input = \<lparr> xi_fixture = sample_identity \<rparr>,
                     xt_observation = sample_raw retval packet \<rparr>] \<rparr>"

definition sample_normalized :: "int \<Rightarrow> normalized_observation" where
  "sample_normalized retval =
     \<lparr> no_case_id = ''c0'', no_input = \<lparr> xi_fixture = sample_identity \<rparr>,
       no_assertions =
         [\<lparr> ob_assertion_id = ''ret'', ob_value = RetvalObs retval \<rparr>,
          \<lparr> ob_assertion_id = ''pkt'', ob_value = PacketBytesObs ''aa00cc'' \<rparr>,
          \<lparr> ob_assertion_id = ''dlt'', ob_value = MapDeltaObs ''m''
             [\<lparr> mc_kind = UPDATED, mc_key = ''00'', mc_before = Some ''01'', mc_after = Some ''02'' \<rparr>,
              \<lparr> mc_kind = INSERTED, mc_key = ''01'', mc_before = None, mc_after = Some ''07'' \<rparr>] \<rparr>],
       no_normalizations_applied = [''n''] \<rparr>"

lemmas sample_oracle_defs = sample_oracle_contract_def sample_case_def sample_assertion_def sample_mask_def
  sample_identity_def sample_trace_def sample_raw_def sample_normalized_def

lemmas field_simps_oracle = content_identity_ok_def case_input_ok_def assertion_ok_def byte_range_ok_def
  position_def overlapping_def weight_ok_def is_f64_def max_defs id_simps fl64_one HexBytes_def
  NonEmptyHexBytes_def map_entry_ok_def event_stream_ok_def counter_trace_ok_def Unsigned32_def
  Unsigned64_def CounterDelta_def hex_bytes_ok_def is_hex_def is_digit_def opt_ok_def

lemma sample_case_valid: "oracle_case_check sample_case = None"
  by (simp add: oracle_case_check_def sample_oracle_defs field_simps_oracle mask_rule_check_def
      assertion_by_id_def slot_def)

lemma sample_contract_valid: "oracle_contract_check sample_oracle_contract = None"
  using sample_case_valid
  by (simp add: oracle_contract_check_def sample_oracle_contract_def sample_identity_def field_simps_oracle)

lemma sample_traces_valid:
  "xdp_trace_check (sample_trace role 2 ''aa11cc'') = None"
  "xdp_trace_check (sample_trace role 1 ''aa11cc'') = None"
  "xdp_trace_check (sample_trace role 2 ''aa22cc'') = None"
  by (simp_all add: xdp_trace_check_def sample_oracle_defs field_simps_oracle raw_observation_check_def
      map_state_check_def byte_size_def)

lemma sample_traces_match:
  "validate_trace sample_oracle_contract (sample_trace role rv pkt) role = None"
  by (simp add: validate_trace_def sample_oracle_defs trace_identity_def contract_identity_def
      shape_guards_def expected_named_def map_filter_simps Let_def)

lemma sample_shape: "validate_observation_shape sample_case \<lparr> xt_case_id = i, xt_input = n,
    xt_observation = sample_raw rv pkt \<rparr> = None"
  by (simp add: validate_observation_shape_def sample_oracle_defs shape_guards_def expected_named_def
      map_filter_simps Let_def)

lemma sample_normalized_valid: "rv \<in> {1, 2} \<Longrightarrow> normalized_check (sample_normalized rv) = None"
  by (auto simp: normalized_check_def sample_normalized_def sample_identity_def field_simps_oracle
      observation_check_def map_change_check_def orelse_None_iff)

lemma sample_mask_evals:
  "mask_bytes ''aa11cc'' [sample_mask] = Inr ''aa00cc''" "mask_bytes ''aa22cc'' [sample_mask] = Inr ''aa00cc''"
  by code_simp+

lemma mask_bytes_Nil: "hex_bytes_ok s \<Longrightarrow> mask_bytes s [] = Inr s"
  by (erule hex_bytes_okE) (simp add: mask_bytes_def)

lemma sample_entries:
  "normalized_entries [\<lparr> me_key = ''00'', me_value = ''01'' \<rparr>] [] [] = Inr [\<lparr> me_key = ''00'', me_value = ''01'' \<rparr>]"
  "normalized_entries [\<lparr> me_key = ''00'', me_value = ''02'' \<rparr>, \<lparr> me_key = ''01'', me_value = ''07'' \<rparr>] [] [] =
     Inr [\<lparr> me_key = ''00'', me_value = ''02'' \<rparr>, \<lparr> me_key = ''01'', me_value = ''07'' \<rparr>]"
  by (simp_all add: normalized_entries_def normalized_entry_def mask_bytes_Nil field_simps_oracle Let_def)

lemma sample_delta:
  "map_delta [\<lparr> me_key = ''00'', me_value = ''01'' \<rparr>]
     [\<lparr> me_key = ''00'', me_value = ''02'' \<rparr>, \<lparr> me_key = ''01'', me_value = ''07'' \<rparr>] =
   [\<lparr> mc_kind = UPDATED, mc_key = ''00'', mc_before = Some ''01'', mc_after = Some ''02'' \<rparr>,
    \<lparr> mc_kind = INSERTED, mc_key = ''01'', mc_before = None, mc_after = Some ''07'' \<rparr>]"
  by code_simp

lemma sample_case_normalize:
  assumes "rv \<in> {1, 2}" "mask_bytes pkt [sample_mask] = Inr ''aa00cc''"
  shows "normalize_case sample_case \<lparr> xt_case_id = i, xt_input = n, xt_observation = sample_raw rv pkt \<rparr> =
     Inr (sample_normalized rv)"
proof -
  have "traverse (observe sample_case (sample_raw rv pkt)) (cs_assertions sample_case) =
      Inr (no_assertions (sample_normalized rv))"
    using assms
    by (auto simp: sample_case_def sample_normalized_def sample_assertion_def sample_raw_def observe_def
        observe_value_def rules_for_def Let_def find_by_def sample_entries sample_delta observation_check_def
        map_change_check_def field_simps_oracle orelse_def sample_mask_def)
  then show ?thesis
    using sample_normalized_valid[OF assms(1)]
    by (simp add: normalize_case_def sample_shape Let_def) (simp add: sample_normalized_def sample_case_def sample_mask_def)
qed

lemma sample_report:
  assumes "rv \<in> {1, 2}"
  shows "derive_oracle_report sample_hasher sample_oracle_contract (sample_trace CANDIDATE rv ''aa11cc'')
      (sample_trace REFERENCE 2 ''aa22cc'') =
    Inr (report_of sample_hasher sample_oracle_contract (sample_trace CANDIDATE rv ''aa11cc'')
      (sample_trace REFERENCE 2 ''aa22cc'') [sample_normalized rv] [sample_normalized 2])"
proof (rule derive_total)
  show "xdp_trace_check (sample_trace CANDIDATE rv ''aa11cc'') = None"
    using assms sample_traces_valid by auto
  show "normalize_trace sample_oracle_contract (sample_trace CANDIDATE rv ''aa11cc'') = Inr [sample_normalized rv]"
    using sample_case_normalize[OF assms sample_mask_evals(1)]
    by (simp add: normalize_trace_def sample_oracle_contract_def sample_trace_def)
  show "normalize_trace sample_oracle_contract (sample_trace REFERENCE 2 ''aa22cc'') = Inr [sample_normalized 2]"
    using sample_case_normalize[OF _ sample_mask_evals(2), of 2]
    by (simp add: normalize_trace_def sample_oracle_contract_def sample_trace_def)
qed (simp_all add: sample_contract_valid sample_traces_valid sample_traces_match)

theorem oracle_strict_success_iff_witness:
  "\<exists>r. derive_oracle_report sample_hasher sample_oracle_contract (sample_trace CANDIDATE 2 ''aa11cc'')
       (sample_trace REFERENCE 2 ''aa22cc'') = Inr r \<and> or_strict_success r"
proof -
  note r = sample_report[of 2, simplified]
  have "or_strict_success (report_of sample_hasher sample_oracle_contract (sample_trace CANDIDATE 2 ''aa11cc'')
      (sample_trace REFERENCE 2 ''aa22cc'') [sample_normalized 2] [sample_normalized 2])"
    unfolding oracle_strict_success_iff[OF r]
    by (simp add: sample_oracle_contract_def sample_case_def sample_assertion_def sample_trace_def observe_def
        observe_value_def sample_raw_def rules_for_def sample_mask_evals Let_def)
      (simp add: sample_mask_def sample_mask_evals[unfolded sample_mask_def])
  then show ?thesis using r by blast
qed

lemma sample_success:
  "or_strict_success (report_of sample_hasher sample_oracle_contract (sample_trace CANDIDATE 2 ''aa11cc'')
      (sample_trace REFERENCE 2 ''aa22cc'') [sample_normalized 2] [sample_normalized 2])"
  by (simp add: report_of_sel results_of_def sample_oracle_contract_def sample_case_def sample_normalized_def
      compare_case_def compare_assertion_def sample_assertion_def all_required_matched_def Let_def)

theorem strict_success_packets_agree_witness:
  "or_strict_success (report_of sample_hasher sample_oracle_contract (sample_trace CANDIDATE 2 ''aa11cc'')
      (sample_trace REFERENCE 2 ''aa22cc'') [sample_normalized 2] [sample_normalized 2]) \<and>
   length [0xaa, 0x11, 0xcc :: byte] = length [0xaa, 0x22, 0xcc :: byte] \<and>
   [0xaa, 0x11, 0xcc :: byte] ! 0 = [0xaa, 0x22, 0xcc] ! 0 \<and>
   [0xaa, 0x11, 0xcc :: byte] ! 2 = [0xaa, 0x22, 0xcc] ! 2"
proof -
  have hex: "''aa11cc'' = tohex [0xaa, 0x11, 0xcc]" "''aa22cc'' = tohex [0xaa, 0x22, 0xcc]"
    by code_simp+
  have id: "as_assertion_id (sample_assertion ''pkt'' PacketBytes) = ''pkt''"
    by (simp add: sample_assertion_def)
  have r: "derive_oracle_report sample_hasher sample_oracle_contract (sample_trace CANDIDATE 2 ''aa11cc'')
      (sample_trace REFERENCE 2 ''aa22cc'') =
      Inr (report_of sample_hasher sample_oracle_contract (sample_trace CANDIDATE 2 ''aa11cc'')
        (sample_trace REFERENCE 2 ''aa22cc'') [sample_normalized 2] [sample_normalized 2])"
    using sample_report[of 2] by simp
  have p: "ro_packet_bytes (xt_observation (tr_cases (sample_trace CANDIDATE 2 ''aa11cc'') ! 0)) =
      Some (tohex [0xaa, 0x11, 0xcc])"
    and q: "ro_packet_bytes (xt_observation (tr_cases (sample_trace REFERENCE 2 ''aa22cc'') ! 0)) =
      Some (tohex [0xaa, 0x22, 0xcc])"
    using hex by (simp_all add: sample_trace_def sample_raw_def del: tohex_simps)
  have "length [0xaa, 0x11, 0xcc :: byte] = length [0xaa, 0x22, 0xcc :: byte] \<and>
   (\<forall>k < length [0xaa, 0x11, 0xcc :: byte].
      \<not> masked (rules_for (oc_cases sample_oracle_contract ! 0) ''pkt'' C_BYTES) k \<longrightarrow>
      [0xaa, 0x11, 0xcc :: byte] ! k = [0xaa, 0x22, 0xcc] ! k)"
    by (rule strict_success_packets_agree[OF r sample_success _ _ _ _ p q,
          of "sample_assertion ''pkt'' PacketBytes", unfolded id])
      (simp_all add: sample_oracle_contract_def sample_case_def sample_assertion_def)
  moreover have "\<not> masked (rules_for (oc_cases sample_oracle_contract ! 0) ''pkt'' C_BYTES) 0"
    "\<not> masked (rules_for (oc_cases sample_oracle_contract ! 0) ''pkt'' C_BYTES) 2"
    by (simp_all add: sample_oracle_contract_def sample_case_def rules_for_def sample_mask_def masked_def)
  ultimately show ?thesis using sample_success by simp
qed

theorem first_divergence_is_first_witness:
  "\<exists>r d. derive_oracle_report sample_hasher sample_oracle_contract (sample_trace CANDIDATE 1 ''aa11cc'')
       (sample_trace REFERENCE 2 ''aa22cc'') = Inr r \<and> or_first_divergence r = Some d \<and>
     diverges sample_oracle_contract (sample_trace CANDIDATE 1 ''aa11cc'') (sample_trace REFERENCE 2 ''aa22cc'')
       (fd_case_index d) (fd_assertion_index d)"
proof -
  let ?r = "report_of sample_hasher sample_oracle_contract (sample_trace CANDIDATE 1 ''aa11cc'')
      (sample_trace REFERENCE 2 ''aa22cc'') [sample_normalized 1] [sample_normalized 2]"
  have r: "derive_oracle_report sample_hasher sample_oracle_contract (sample_trace CANDIDATE 1 ''aa11cc'')
      (sample_trace REFERENCE 2 ''aa22cc'') = Inr ?r"
    using sample_report[of 1] by simp
  have "\<not> or_strict_success ?r"
    by (simp add: report_of_sel results_of_def sample_oracle_contract_def sample_case_def sample_normalized_def
        compare_case_def compare_assertion_def sample_assertion_def all_required_matched_def Let_def)
  then obtain d where "or_first_divergence ?r = Some d"
    using first_divergence_is_first[OF r] by auto
  then show ?thesis using r first_divergence_is_first[OF r] by blast
qed

theorem derive_oracle_report_total_witness:
  "\<exists>r. derive_oracle_report sample_hasher sample_oracle_contract (sample_trace CANDIDATE 2 ''aa11cc'')
       (sample_trace REFERENCE 2 ''aa22cc'') = Inr r"
proof -
  have "normalize_trace sample_oracle_contract (sample_trace CANDIDATE 2 ''aa11cc'') = Inr [sample_normalized 2]"
    "normalize_trace sample_oracle_contract (sample_trace REFERENCE 2 ''aa22cc'') = Inr [sample_normalized 2]"
    using sample_case_normalize[OF _ sample_mask_evals(1), of 2] sample_case_normalize[OF _ sample_mask_evals(2), of 2]
    by (simp_all add: normalize_trace_def sample_oracle_contract_def sample_trace_def)
  then show ?thesis
    using derive_oracle_report_total[OF sample_hexdigest_ok sample_contract_valid sample_traces_valid(1,3)
        sample_traces_match sample_traces_match] by blast
qed

theorem normalize_case_errors_witness:
  "\<exists>e. normalize_case sample_case \<lparr> xt_case_id = ''c0'', xt_input = \<lparr> xi_fixture = sample_identity \<rparr>,
       xt_observation = sample_raw 2 ''aa'' \<rparr> = Inl e \<and>
     (exn_class e = ''OracleContractError'' \<or>
      (\<exists>a \<in> set (cs_assertions sample_case). oversized_delta sample_case (sample_raw 2 ''aa'') a))"
proof -
  let ?t = "\<lparr> xt_case_id = ''c0'', xt_input = \<lparr> xi_fixture = sample_identity \<rparr>, xt_observation = sample_raw 2 ''aa'' \<rparr>"
  have m: "mask_bytes ''aa'' [sample_mask] = Inl (OCE ''normalization n exceeds observed bytes'')" by code_simp
  have "normalize_case sample_case ?t = Inl (OCE ''normalization n exceeds observed bytes'')"
    using m sample_shape[of "''c0''" _ 2 "''aa''"]
    by (simp add: normalize_case_def)
      (simp add: sample_case_def sample_assertion_def sample_raw_def observe_def observe_value_def rules_for_def
        Let_def sample_mask_def observation_check_def field_simps_oracle orelse_def)
  moreover have "raw_observation_check (sample_raw 2 ''aa'') = None"
    by (simp add: sample_raw_def field_simps_oracle raw_observation_check_def map_state_check_def byte_size_def)
  ultimately show ?thesis using normalize_case_errors[OF sample_case_valid, of ?t] by simp
qed

end
