(* ===== verification/Native_Protocol.thy ===== *)
theory Native_Protocol
  imports Bytes
begin

text \<open>
  The one-way native transcript.  \<open>wire.h\<close> encodes the launcher's 64-byte frames,
  \<open>inert_native_protocol.py\<close> decodes them and accepts a transcript only if it is one of the runs the
  launcher can emit: the five success frames in order, or a proper prefix of them followed by one error
  frame whose reason, stage, achieved-result mask and errno fit that prefix.  Frame fields keep their
  wire widths (\<open>64 word\<close>, \<open>32 word\<close>); the dynamic type tests of the parser are the types of the model.
\<close>

unbundle bit_operations_syntax

abbreviation PV :: "string \<Rightarrow> exn" where
  "PV m \<equiv> Exn ''InertNativeProtocolViolation'' m"

section \<open>Enumerations\<close>

datatype frame_type =
    F_HELLO
  | F_CHILD_READY
  | F_CHILD_SIGNALED
  | F_CHILD_OBSERVED
  | F_FINAL
  | F_ERROR

fun frame_type_value :: "frame_type \<Rightarrow> nat" where
  "frame_type_value F_HELLO = 1"
| "frame_type_value F_CHILD_READY = 2"
| "frame_type_value F_CHILD_SIGNALED = 3"
| "frame_type_value F_CHILD_OBSERVED = 4"
| "frame_type_value F_FINAL = 5"
| "frame_type_value F_ERROR = 6"

definition frame_type_all :: "frame_type list" where
  "frame_type_all =
     [F_HELLO, F_CHILD_READY, F_CHILD_SIGNALED, F_CHILD_OBSERVED, F_FINAL, F_ERROR]"

datatype status =
    STATUS_OK
  | STATUS_FAILED

fun status_value :: "status \<Rightarrow> nat" where
  "status_value STATUS_OK = 0"
| "status_value STATUS_FAILED = 1"

definition status_all :: "status list" where
  "status_all =
     [STATUS_OK, STATUS_FAILED]"

datatype native_stage =
    S_STARTUP
  | S_DESCRIPTOR_VALIDATION
  | S_CGROUP_VALIDATION
  | S_FIXTURE_SETUP
  | S_CLONE3
  | S_CHILD_READY
  | S_PIDFD_SIGNAL
  | S_CGROUP_KILL
  | S_CHILD_OBSERVATION
  | S_CHILD_REAP
  | S_CLEANUP
  | S_PROTOCOL

fun native_stage_value :: "native_stage \<Rightarrow> nat" where
  "native_stage_value S_STARTUP = 1"
| "native_stage_value S_DESCRIPTOR_VALIDATION = 2"
| "native_stage_value S_CGROUP_VALIDATION = 3"
| "native_stage_value S_FIXTURE_SETUP = 4"
| "native_stage_value S_CLONE3 = 5"
| "native_stage_value S_CHILD_READY = 6"
| "native_stage_value S_PIDFD_SIGNAL = 7"
| "native_stage_value S_CGROUP_KILL = 8"
| "native_stage_value S_CHILD_OBSERVATION = 9"
| "native_stage_value S_CHILD_REAP = 10"
| "native_stage_value S_CLEANUP = 11"
| "native_stage_value S_PROTOCOL = 12"

definition native_stage_all :: "native_stage list" where
  "native_stage_all =
     [S_STARTUP, S_DESCRIPTOR_VALIDATION, S_CGROUP_VALIDATION, S_FIXTURE_SETUP, S_CLONE3, S_CHILD_READY,
      S_PIDFD_SIGNAL, S_CGROUP_KILL, S_CHILD_OBSERVATION, S_CHILD_REAP, S_CLEANUP, S_PROTOCOL]"

datatype reason =
    R_NONE
  | R_BAD_ARGC
  | R_BAD_ARGV
  | R_NONEMPTY_ENVIRONMENT
  | R_BAD_DESCRIPTOR_LAYOUT
  | R_BAD_STDIO
  | R_BAD_CONTROL_SOCKET
  | R_BAD_CGROUP_DESCRIPTOR
  | R_CGROUP_NOT_EMPTY
  | R_PROTOCOL_INPUT
  | R_PEER_CLOSED
  | R_RESOURCE_EXHAUSTED
  | R_CLONE3_UNAVAILABLE
  | R_CLONE3_REJECTED
  | R_PIDFD_UNAVAILABLE
  | R_CHILD_SETUP_FAILED
  | R_PIDFD_SIGNAL_FAILED
  | R_CGROUP_KILL_FAILED
  | R_CHILD_OBSERVATION_FAILED
  | R_CHILD_REAP_FAILED
  | R_TIMEOUT
  | R_CLEANUP_INCOMPLETE
  | R_IO_FAILURE
  | R_INTERNAL

fun reason_value :: "reason \<Rightarrow> nat" where
  "reason_value R_NONE = 0"
| "reason_value R_BAD_ARGC = 1"
| "reason_value R_BAD_ARGV = 2"
| "reason_value R_NONEMPTY_ENVIRONMENT = 3"
| "reason_value R_BAD_DESCRIPTOR_LAYOUT = 4"
| "reason_value R_BAD_STDIO = 5"
| "reason_value R_BAD_CONTROL_SOCKET = 6"
| "reason_value R_BAD_CGROUP_DESCRIPTOR = 7"
| "reason_value R_CGROUP_NOT_EMPTY = 8"
| "reason_value R_PROTOCOL_INPUT = 9"
| "reason_value R_PEER_CLOSED = 10"
| "reason_value R_RESOURCE_EXHAUSTED = 11"
| "reason_value R_CLONE3_UNAVAILABLE = 12"
| "reason_value R_CLONE3_REJECTED = 13"
| "reason_value R_PIDFD_UNAVAILABLE = 14"
| "reason_value R_CHILD_SETUP_FAILED = 15"
| "reason_value R_PIDFD_SIGNAL_FAILED = 16"
| "reason_value R_CGROUP_KILL_FAILED = 17"
| "reason_value R_CHILD_OBSERVATION_FAILED = 18"
| "reason_value R_CHILD_REAP_FAILED = 19"
| "reason_value R_TIMEOUT = 20"
| "reason_value R_CLEANUP_INCOMPLETE = 21"
| "reason_value R_IO_FAILURE = 22"
| "reason_value R_INTERNAL = 23"

definition reason_all :: "reason list" where
  "reason_all =
     [R_NONE, R_BAD_ARGC, R_BAD_ARGV, R_NONEMPTY_ENVIRONMENT, R_BAD_DESCRIPTOR_LAYOUT, R_BAD_STDIO,
      R_BAD_CONTROL_SOCKET, R_BAD_CGROUP_DESCRIPTOR, R_CGROUP_NOT_EMPTY, R_PROTOCOL_INPUT, R_PEER_CLOSED,
      R_RESOURCE_EXHAUSTED, R_CLONE3_UNAVAILABLE, R_CLONE3_REJECTED, R_PIDFD_UNAVAILABLE,
      R_CHILD_SETUP_FAILED, R_PIDFD_SIGNAL_FAILED, R_CGROUP_KILL_FAILED, R_CHILD_OBSERVATION_FAILED,
      R_CHILD_REAP_FAILED, R_TIMEOUT, R_CLEANUP_INCOMPLETE, R_IO_FAILURE, R_INTERNAL]"

datatype exit_code = EXIT_OK | EXIT_STARTUP | EXIT_PROTOCOL | EXIT_KERNEL | EXIT_TIMEOUT | EXIT_CLEANUP | EXIT_INTERNAL

fun exit_code_value :: "exit_code \<Rightarrow> int" where
  "exit_code_value EXIT_OK = 0"
| "exit_code_value EXIT_STARTUP = 64"
| "exit_code_value EXIT_PROTOCOL = 65"
| "exit_code_value EXIT_KERNEL = 66"
| "exit_code_value EXIT_TIMEOUT = 67"
| "exit_code_value EXIT_CLEANUP = 68"
| "exit_code_value EXIT_INTERNAL = 69"

definition of_value :: "('a \<Rightarrow> nat) \<Rightarrow> 'a list \<Rightarrow> nat \<Rightarrow> 'a option" where
  "of_value value all n = find (\<lambda>x. value x = n) all"

section \<open>Constants\<close>

definition PROTOCOL_MAGIC :: "byte list" where
  "PROTOCOL_MAGIC = [0x42, 0x50, 0x45, 0x49, 0x46, 0x58, 0x31, 0x00]"

definition PROTOCOL_VERSION :: nat where "PROTOCOL_VERSION = 1"
definition PROTOCOL_FRAME_SIZE :: nat where "PROTOCOL_FRAME_SIZE = 64"
definition PROTOCOL_PAYLOAD_SIZE :: nat where "PROTOCOL_PAYLOAD_SIZE = 40"
definition PROTOCOL_MAX_FRAMES :: nat where "PROTOCOL_MAX_FRAMES = 8"
definition PROTOCOL_MAX_ERRNO :: "32 word" where "PROTOCOL_MAX_ERRNO = 4095"
definition LINUX_MAX_PID :: int where "LINUX_MAX_PID = 2 ^ 22 - 1"
definition REQUIRED_CLONE_FLAGS :: "64 word" where "REQUIRED_CLONE_FLAGS = 0x00001000 OR 0x200000000"
definition CLD_KILLED :: "64 word" where "CLD_KILLED = 2"
definition CLD_STOPPED :: "64 word" where "CLD_STOPPED = 5"
definition SIGKILL :: "64 word" where "SIGKILL = 9"
definition SIGSTOP :: "64 word" where "SIGSTOP = 19"

definition CLONE3_INTO_CGROUP :: "64 word" where "CLONE3_INTO_CGROUP = 0x001"
definition PIDFD_CREATED :: "64 word" where "PIDFD_CREATED = 0x002"
definition PIDFD_STOP_SENT :: "64 word" where "PIDFD_STOP_SENT = 0x004"
definition PIDFD_STOP_OBSERVED :: "64 word" where "PIDFD_STOP_OBSERVED = 0x008"
definition LIVE_CGROUP_KILL :: "64 word" where "LIVE_CGROUP_KILL = 0x010"
definition PIDFD_EXIT_OBSERVED :: "64 word" where "PIDFD_EXIT_OBSERVED = 0x020"
definition CHILD_REAPED :: "64 word" where "CHILD_REAPED = 0x040"
definition CGROUP_EMPTY :: "64 word" where "CGROUP_EMPTY = 0x080"
definition BUILTIN_NOEXEC :: "64 word" where "BUILTIN_NOEXEC = 0x100"

definition ACHIEVED_RESULT_MASK :: "64 word" where
  "ACHIEVED_RESULT_MASK = CLONE3_INTO_CGROUP OR PIDFD_CREATED OR PIDFD_STOP_SENT OR PIDFD_STOP_OBSERVED OR
     LIVE_CGROUP_KILL OR PIDFD_EXIT_OBSERVED OR CHILD_REAPED OR CGROUP_EMPTY OR BUILTIN_NOEXEC"

section \<open>Records\<close>

record socket_record =
  sr_payload :: "byte list"
  sr_message_truncated :: bool
  sr_control_truncated :: bool
  sr_ancillary_present :: bool

record frame =
  nf_frame_type :: frame_type
  nf_sequence :: "64 word"
  nf_status :: status
  nf_stage :: native_stage
  nf_reason :: reason
  nf_system_errno :: "32 word"
  nf_value0 :: "64 word"
  nf_value1 :: "64 word"

record transcript =
  nt_succeeded :: bool
  nt_frames :: "frame list"
  nt_launcher_exit_code :: exit_code
  nt_launcher_pid :: int
  nt_child_pid :: "int option"
  nt_achieved_result_mask :: "64 word"
  nt_elapsed_ns :: "64 word option"
  nt_failure_stage :: "native_stage option"
  nt_failure_reason :: "reason option"
  nt_failure_errno :: "32 word option"

section \<open>The launcher's encoder (wire.h)\<close>

definition put_be16 :: "16 word \<Rightarrow> byte list" where
  "put_be16 v = [ucast (drop_bit 8 v), ucast v]"

definition put_be32 :: "32 word \<Rightarrow> byte list" where
  "put_be32 v = [ucast (drop_bit 24 v), ucast (drop_bit 16 v), ucast (drop_bit 8 v), ucast v]"

definition put_be64 :: "64 word \<Rightarrow> byte list" where
  "put_be64 v = [ucast (drop_bit 56 v), ucast (drop_bit 48 v), ucast (drop_bit 40 v), ucast (drop_bit 32 v),
     ucast (drop_bit 24 v), ucast (drop_bit 16 v), ucast (drop_bit 8 v), ucast v]"

definition write_at :: "nat \<Rightarrow> byte list \<Rightarrow> byte list \<Rightarrow> byte list" where
  "write_at offset bs output = take offset output @ bs @ drop (offset + length bs) output"

definition encode_frame ::
  "16 word \<Rightarrow> 64 word \<Rightarrow> 32 word \<Rightarrow> 32 word \<Rightarrow> 32 word \<Rightarrow> 32 word \<Rightarrow> 64 word \<Rightarrow> 64 word \<Rightarrow> byte list" where
  "encode_frame type sequence status stage reason error_number value0 value1 =
     (write_at 48 (put_be64 value1) \<circ> write_at 40 (put_be64 value0) \<circ> write_at 36 (put_be32 error_number) \<circ>
      write_at 32 (put_be32 reason) \<circ> write_at 28 (put_be32 stage) \<circ> write_at 24 (put_be32 status) \<circ>
      write_at 16 (put_be64 sequence) \<circ> write_at 12 (put_be32 (of_nat PROTOCOL_PAYLOAD_SIZE)) \<circ>
      write_at 10 (put_be16 type) \<circ> write_at 8 (put_be16 (of_nat PROTOCOL_VERSION)) \<circ>
      write_at 0 PROTOCOL_MAGIC) (replicate PROTOCOL_FRAME_SIZE 0)"

section \<open>The parser\<close>

definition field :: "nat \<Rightarrow> nat \<Rightarrow> byte list \<Rightarrow> nat" where
  "field offset n payload = be_val (take n (drop offset payload))"

definition decode_record :: "socket_record \<Rightarrow> frame result" where
  "decode_record r = (let p = sr_payload r in
     check (raises
       [(sr_message_truncated r \<or> sr_control_truncated r, PV ''native record was truncated''),
        (sr_ancillary_present r, PV ''native record carried ancillary data''),
        (length p \<noteq> PROTOCOL_FRAME_SIZE, PV ''native record has an invalid size''),
        (take 8 p \<noteq> PROTOCOL_MAGIC, PV ''native record has invalid magic''),
        (field 8 2 p \<noteq> PROTOCOL_VERSION, PV ''native record has an invalid version''),
        (field 12 4 p \<noteq> PROTOCOL_PAYLOAD_SIZE, PV ''native record has an invalid payload size''),
        (drop 56 p \<noteq> replicate 8 0, PV ''native record has nonzero reserved bytes''),
        (of_nat (field 36 4 p) > PROTOCOL_MAX_ERRNO, PV ''native record errno exceeds the fixed bound'')])
     (case (of_value frame_type_value frame_type_all (field 10 2 p), of_value status_value status_all (field 24 4 p),
            of_value native_stage_value native_stage_all (field 28 4 p),
            of_value reason_value reason_all (field 32 4 p)) of
        (Some frame_type, Some status, Some stage, Some reason) \<Rightarrow>
          Inr \<lparr> nf_frame_type = frame_type, nf_sequence = of_nat (field 16 8 p), nf_status = status,
                nf_stage = stage, nf_reason = reason, nf_system_errno = of_nat (field 36 4 p),
                nf_value0 = of_nat (field 40 8 p), nf_value1 = of_nat (field 48 8 p) \<rparr>
      | _ \<Rightarrow> Inl (PV ''native record contains an unknown enum'')))"

definition success_types :: "frame_type list" where
  "success_types = [F_HELLO, F_CHILD_READY, F_CHILD_SIGNALED, F_CHILD_OBSERVED, F_FINAL]"

definition success_stages :: "native_stage list" where
  "success_stages = [S_STARTUP, S_CHILD_READY, S_PIDFD_SIGNAL, S_CHILD_OBSERVATION, S_CLEANUP]"

definition error_grammar :: "((nat \<times> reason \<times> native_stage) \<times> 64 word list) list" where
  "error_grammar =
     [((0, R_BAD_DESCRIPTOR_LAYOUT, S_DESCRIPTOR_VALIDATION), [0x0]),
      ((0, R_BAD_CGROUP_DESCRIPTOR, S_DESCRIPTOR_VALIDATION), [0x0]),
      ((0, R_BAD_CGROUP_DESCRIPTOR, S_CGROUP_VALIDATION), [0x0]),
      ((0, R_CGROUP_NOT_EMPTY, S_CGROUP_VALIDATION), [0x0]),
      ((0, R_INTERNAL, S_STARTUP), [0x0]),
      ((0, R_IO_FAILURE, S_PROTOCOL), [0x0]),
      ((0, R_CLEANUP_INCOMPLETE, S_CLEANUP), [0x0]),
      ((1, R_INTERNAL, S_FIXTURE_SETUP), [0x0]),
      ((1, R_RESOURCE_EXHAUSTED, S_FIXTURE_SETUP), [0x0]),
      ((1, R_RESOURCE_EXHAUSTED, S_CLONE3), [0x0]),
      ((1, R_CLONE3_UNAVAILABLE, S_CLONE3), [0x0]),
      ((1, R_CLONE3_REJECTED, S_CLONE3), [0x0]),
      ((1, R_PIDFD_UNAVAILABLE, S_CLONE3), [0xc1]),
      ((1, R_CHILD_SETUP_FAILED, S_CHILD_READY), [0xc3]),
      ((1, R_CHILD_OBSERVATION_FAILED, S_CHILD_READY), [0xc3]),
      ((1, R_TIMEOUT, S_CHILD_READY), [0xc3]),
      ((1, R_PROTOCOL_INPUT, S_PROTOCOL), [0x0, 0xc3, 0x1c3]),
      ((1, R_IO_FAILURE, S_FIXTURE_SETUP), [0x0, 0xc3]),
      ((1, R_IO_FAILURE, S_CHILD_READY), [0xc3, 0x1c3]),
      ((1, R_IO_FAILURE, S_PROTOCOL), [0x1c3]),
      ((1, R_CLEANUP_INCOMPLETE, S_CLEANUP), [0x0, 0x1, 0x41, 0x81, 0xc1, 0x3, 0x43, 0x83, 0xc3, 0x103, 0x143, 0x183, 0x1c3]),
      ((2, R_PIDFD_SIGNAL_FAILED, S_PIDFD_SIGNAL), [0x1c3]),
      ((2, R_CHILD_OBSERVATION_FAILED, S_PIDFD_SIGNAL), [0x1c7, 0x1cf]),
      ((2, R_TIMEOUT, S_PIDFD_SIGNAL), [0x1c7]),
      ((2, R_PROTOCOL_INPUT, S_PROTOCOL), [0x1c7, 0x1cf]),
      ((2, R_IO_FAILURE, S_PIDFD_SIGNAL), [0x1c7, 0x1cf]),
      ((2, R_IO_FAILURE, S_PROTOCOL), [0x1cf]),
      ((2, R_CLEANUP_INCOMPLETE, S_CLEANUP), [0x103, 0x143, 0x183, 0x1c3, 0x107, 0x147, 0x187, 0x1c7, 0x10f, 0x14f, 0x18f, 0x1cf]),
      ((3, R_CGROUP_KILL_FAILED, S_CGROUP_KILL), [0x1cf]),
      ((3, R_CHILD_OBSERVATION_FAILED, S_CHILD_OBSERVATION), [0x1df]),
      ((3, R_TIMEOUT, S_CHILD_OBSERVATION), [0x1df]),
      ((3, R_PROTOCOL_INPUT, S_PROTOCOL), [0x1cf, 0x1df, 0x1ff]),
      ((3, R_IO_FAILURE, S_CGROUP_KILL), [0x1cf]),
      ((3, R_IO_FAILURE, S_CHILD_OBSERVATION), [0x1df, 0x1ff]),
      ((3, R_IO_FAILURE, S_PROTOCOL), [0x1ff]),
      ((3, R_CLEANUP_INCOMPLETE, S_CLEANUP), [0x10f, 0x14f, 0x18f, 0x1cf, 0x11f, 0x15f, 0x19f, 0x1df, 0x1bf, 0x1ff]),
      ((4, R_CHILD_REAP_FAILED, S_CHILD_REAP), [0x1ff]),
      ((4, R_INTERNAL, S_CLEANUP), [0x1ff]),
      ((4, R_PROTOCOL_INPUT, S_PROTOCOL), [0x1ff]),
      ((4, R_IO_FAILURE, S_CLEANUP), [0x1ff]),
      ((4, R_CLEANUP_INCOMPLETE, S_CLEANUP), [0x1bf, 0x1ff])]"

definition zero_errno_error_keys :: "(nat \<times> reason \<times> native_stage) list" where
  "zero_errno_error_keys =
     filter (\<lambda>(n, r, s). r \<in> {R_CGROUP_NOT_EMPTY, R_PROTOCOL_INPUT, R_TIMEOUT}) (map fst error_grammar) @
     [(1, R_CHILD_OBSERVATION_FAILED, S_CHILD_READY), (4, R_INTERNAL, S_CLEANUP)]"

definition zero_errno_error_states :: "(nat \<times> reason \<times> native_stage \<times> 64 word) list" where
  "zero_errno_error_states = [(2, R_CHILD_OBSERVATION_FAILED, S_PIDFD_SIGNAL, 0x1cf)]"

definition LINUX_ENOSYS :: "32 word" where "LINUX_ENOSYS = 38"

definition clone_resource_errnos :: "32 word list" where
  "clone_resource_errnos = [11, 12, 23, 24]"

definition classified_clone_errnos :: "32 word list" where
  "classified_clone_errnos = LINUX_ENOSYS # clone_resource_errnos"

definition nonzero_errno_error_states :: "(nat \<times> reason \<times> native_stage \<times> 64 word) list" where
  "nonzero_errno_error_states =
     [(0, R_IO_FAILURE, S_PROTOCOL, 0x0),
      (1, R_IO_FAILURE, S_PROTOCOL, 0x1c3),
      (2, R_IO_FAILURE, S_PROTOCOL, 0x1cf),
      (3, R_IO_FAILURE, S_PROTOCOL, 0x1ff),
      (1, R_IO_FAILURE, S_FIXTURE_SETUP, 0x0),
      (1, R_IO_FAILURE, S_FIXTURE_SETUP, 0xc3),
      (1, R_IO_FAILURE, S_CHILD_READY, 0x1c3),
      (2, R_IO_FAILURE, S_PIDFD_SIGNAL, 0x1c7),
      (3, R_IO_FAILURE, S_CGROUP_KILL, 0x1cf),
      (3, R_IO_FAILURE, S_CHILD_OBSERVATION, 0x1ff),
      (4, R_IO_FAILURE, S_CLEANUP, 0x1ff),
      (1, R_RESOURCE_EXHAUSTED, S_FIXTURE_SETUP, 0x0),
      (3, R_CGROUP_KILL_FAILED, S_CGROUP_KILL, 0x1cf),
      (0, R_CLEANUP_INCOMPLETE, S_CLEANUP, 0x0),
      (1, R_CLEANUP_INCOMPLETE, S_CLEANUP, 0x0),
      (1, R_CLEANUP_INCOMPLETE, S_CLEANUP, 0xc1),
      (1, R_CLEANUP_INCOMPLETE, S_CLEANUP, 0xc3),
      (1, R_CLEANUP_INCOMPLETE, S_CLEANUP, 0x1c3),
      (2, R_CLEANUP_INCOMPLETE, S_CLEANUP, 0x1c3),
      (2, R_CLEANUP_INCOMPLETE, S_CLEANUP, 0x1c7),
      (2, R_CLEANUP_INCOMPLETE, S_CLEANUP, 0x1cf),
      (3, R_CLEANUP_INCOMPLETE, S_CLEANUP, 0x1cf),
      (3, R_CLEANUP_INCOMPLETE, S_CLEANUP, 0x1df),
      (3, R_CLEANUP_INCOMPLETE, S_CLEANUP, 0x1ff),
      (4, R_CLEANUP_INCOMPLETE, S_CLEANUP, 0x1ff)]"

definition exit_code_for_reason :: "reason \<Rightarrow> exit_code result" where
  "exit_code_for_reason r = (let n = reason_value r in
     if reason_value R_BAD_ARGC \<le> n \<and> n \<le> reason_value R_CGROUP_NOT_EMPTY then Inr EXIT_STARTUP
     else if reason_value R_PROTOCOL_INPUT \<le> n \<and> n \<le> reason_value R_PEER_CLOSED then Inr EXIT_PROTOCOL
     else if reason_value R_RESOURCE_EXHAUSTED \<le> n \<and> n \<le> reason_value R_CHILD_REAP_FAILED then Inr EXIT_KERNEL
     else if r = R_TIMEOUT then Inr EXIT_TIMEOUT
     else if r = R_CLEANUP_INCOMPLETE then Inr EXIT_CLEANUP
     else if r = R_IO_FAILURE then Inr EXIT_KERNEL
     else if r = R_INTERNAL then Inr EXIT_INTERNAL
     else Inl (PV ''native error frame has no failure reason''))"

definition valid_pid :: "64 word \<Rightarrow> bool" where
  "valid_pid v \<longleftrightarrow> 1 \<le> uint v \<and> uint v \<le> LINUX_MAX_PID"

definition validate_success_frame :: "frame \<Rightarrow> nat \<Rightarrow> exn option" where
  "validate_success_frame f index = raises
     ([(nf_frame_type f \<noteq> success_types ! index, PV ''native success frames are out of order''),
       (nf_status f \<noteq> STATUS_OK, PV ''native success frame has failure status''),
       (nf_stage f \<noteq> success_stages ! index, PV ''native success frame has the wrong stage''),
       (nf_reason f \<noteq> R_NONE \<or> nf_system_errno f \<noteq> 0, PV ''native success frame contains failure fields'')] @
      (if index = 0 then
         [(\<not> valid_pid (nf_value0 f) \<or> nf_value1 f \<noteq> 0, PV ''native hello frame has invalid values'')]
       else if index = 1 then
         [(\<not> valid_pid (nf_value0 f), PV ''native child-ready frame has an invalid pid''),
          (nf_value1 f \<noteq> REQUIRED_CLONE_FLAGS, PV ''native child-ready frame has invalid clone3 flags'')]
       else if index = 2 then
         [(nf_value0 f \<noteq> CLD_STOPPED \<or> nf_value1 f \<noteq> SIGSTOP, PV ''native child-signaled frame is invalid'')]
       else if index = 3 then
         [(nf_value0 f \<noteq> CLD_KILLED \<or> nf_value1 f \<noteq> SIGKILL, PV ''native child-observed frame is invalid'')]
       else
         [(nf_value0 f \<noteq> ACHIEVED_RESULT_MASK \<or> nf_value1 f = 0, PV ''native final frame is invalid'')]))"

definition error_frame_check :: "frame \<Rightarrow> nat \<Rightarrow> exn option" where
  "error_frame_check f prefix_length =
     (let key = (prefix_length, nf_reason f, nf_stage f);
          state = (prefix_length, nf_reason f, nf_stage f, nf_value0 f);
          errno = nf_system_errno f in
      raises
       [(nf_status f \<noteq> STATUS_FAILED, PV ''native error frame has success status''),
        (nf_reason f = R_NONE, PV ''native error frame has no failure reason''),
        (nf_value0 f AND NOT ACHIEVED_RESULT_MASK \<noteq> 0, PV ''native error frame has unknown result flags''),
        (nf_value1 f \<noteq> 0, PV ''native error frame has a nonzero reserved value''),
        (map_of error_grammar key = None,
          PV ''native error reason and stage are impossible after its success prefix''),
        (case map_of error_grammar key of None \<Rightarrow> False | Some masks \<Rightarrow> nf_value0 f \<notin> set masks,
          PV ''native error mask is impossible for its prefix, reason, and stage''),
        (key \<in> set zero_errno_error_keys \<and> errno \<noteq> 0,
          PV ''native error errno is impossible for its prefix, reason, and stage''),
        (state \<in> set zero_errno_error_states \<and> errno \<noteq> 0,
          PV ''native error errno is impossible for its exact achieved state''),
        (nf_reason f = R_CLONE3_UNAVAILABLE \<and> errno \<noteq> LINUX_ENOSYS,
          PV ''native clone3-unavailable errno is impossible''),
        (nf_reason f = R_RESOURCE_EXHAUSTED \<and> nf_stage f = S_CLONE3 \<and> errno \<notin> set clone_resource_errnos,
          PV ''native clone3 resource errno is impossible''),
        (nf_reason f = R_CLONE3_REJECTED \<and> (errno = 0 \<or> errno \<in> set classified_clone_errnos),
          PV ''native clone3-rejected errno is impossible''),
        (nf_reason f = R_PIDFD_SIGNAL_FAILED \<and> errno = 0, PV ''native pidfd-signal errno is impossible''),
        (state \<in> set nonzero_errno_error_states \<and> errno = 0,
          PV ''native I/O failure is missing its required Linux errno'')])"

definition validate_error_frame :: "frame \<Rightarrow> nat \<Rightarrow> int \<Rightarrow> exit_code result" where
  "validate_error_frame f prefix_length returncode =
     check (error_frame_check f prefix_length)
       (rbind (exit_code_for_reason (nf_reason f)) (\<lambda>expected_exit.
         if returncode \<noteq> exit_code_value expected_exit
         then Inl (PV ''native error exit code does not match its reason'') else Inr expected_exit))"

text \<open>The first loop of \<open>parse_inert_native_transcript\<close>: decode each record and check its sequence number.\<close>

definition decode_indexed :: "nat \<times> socket_record \<Rightarrow> frame result" where
  "decode_indexed = (\<lambda>(index, r). rbind (decode_record r) (\<lambda>f.
     if unat (nf_sequence f) \<noteq> index then Inl (PV ''native frame sequence is not contiguous'') else Inr f))"

text \<open>The second loop: walk the frames from \<open>index\<close> on, carrying the child's process id.\<close>

fun walk :: "frame list \<Rightarrow> int \<Rightarrow> int \<Rightarrow> nat \<Rightarrow> int option \<Rightarrow> frame list \<Rightarrow> transcript result" where
  "walk frames returncode pid index child [] =
     (if length frames \<noteq> length success_types then Inl (PV ''native success transcript is incomplete'')
      else if returncode \<noteq> exit_code_value EXIT_OK
        then Inl (PV ''native success transcript has a nonzero exit code'')
      else Inr \<lparr> nt_succeeded = True, nt_frames = frames, nt_launcher_exit_code = EXIT_OK,
                 nt_launcher_pid = pid, nt_child_pid = child,
                 nt_achieved_result_mask = nf_value0 (last frames),
                 nt_elapsed_ns = Some (nf_value1 (last frames)), nt_failure_stage = None,
                 nt_failure_reason = None, nt_failure_errno = None \<rparr>)"
| "walk frames returncode pid index child (f # fs) =
     (if nf_frame_type f = F_ERROR then
        (if index \<ge> length success_types then Inl (PV ''native error frame followed a final frame'')
         else if index \<noteq> length frames - 1 then Inl (PV ''native error frame is not terminal'')
         else rbind (validate_error_frame f index returncode) (\<lambda>code.
           Inr \<lparr> nt_succeeded = False, nt_frames = frames, nt_launcher_exit_code = code,
                 nt_launcher_pid = pid, nt_child_pid = child, nt_achieved_result_mask = nf_value0 f,
                 nt_elapsed_ns = None, nt_failure_stage = Some (nf_stage f),
                 nt_failure_reason = Some (nf_reason f), nt_failure_errno = Some (nf_system_errno f) \<rparr>))
      else if index \<ge> length success_types then Inl (PV ''native transcript continued after success'')
      else check (validate_success_frame f index)
        (if index = 0 then
           (if uint (nf_value0 f) \<noteq> pid
            then Inl (PV ''native hello pid does not match the spawned launcher'')
            else walk frames returncode pid (Suc index) child fs)
         else if index = 1 then
           (if uint (nf_value0 f) = pid
            then Inl (PV ''native child pid must differ from the launcher pid'')
            else walk frames returncode pid (Suc index) (Some (uint (nf_value0 f))) fs)
         else walk frames returncode pid (Suc index) child fs))"

definition parse_inert_native_transcript ::
  "socket_record list \<Rightarrow> int \<Rightarrow> bool \<Rightarrow> int \<Rightarrow> transcript result" where
  "parse_inert_native_transcript records returncode eof_observed expected_launcher_pid =
     check (raises
       [(\<not> eof_observed, PV ''native transcript must include an observed socket EOF''),
        (\<not> (1 \<le> expected_launcher_pid \<and> expected_launcher_pid \<le> LINUX_MAX_PID),
          PV ''expected native launcher pid is invalid''),
        (length records = 0, PV ''native transcript is empty''),
        (length records > PROTOCOL_MAX_FRAMES, PV ''native transcript exceeds the frame bound'')])
     (rbind (traverse decode_indexed (enumerate 0 records)) (\<lambda>frames.
        walk frames returncode expected_launcher_pid 0 None frames))"

section \<open>The launcher's exit codes (launcher.c)\<close>

definition bpe_exit_for_reason :: "reason \<Rightarrow> exit_code" where
  "bpe_exit_for_reason r = (let n = reason_value r in
     if n \<ge> reason_value R_BAD_ARGC \<and> n \<le> reason_value R_CGROUP_NOT_EMPTY then EXIT_STARTUP
     else if n \<ge> reason_value R_PROTOCOL_INPUT \<and> n \<le> reason_value R_PEER_CLOSED then EXIT_PROTOCOL
     else if (n \<ge> reason_value R_RESOURCE_EXHAUSTED \<and> n \<le> reason_value R_CHILD_REAP_FAILED) \<or> r = R_IO_FAILURE
       then EXIT_KERNEL
     else if r = R_TIMEOUT then EXIT_TIMEOUT
     else if r = R_CLEANUP_INCOMPLETE then EXIT_CLEANUP
     else EXIT_INTERNAL)"

end
