(* ===== verification/Native_Correct.thy ===== *)
theory Native_Correct
  imports Native_Protocol
begin

text \<open>
  Correctness of the native transcript: the Python decoder and the C encoder are inverse to each other,
  the accepted transcripts are exactly the success run and the error runs of the grammar, and the
  grammar's masks respect the order in which the launcher works.
\<close>

section \<open>What a transcript means\<close>

definition valid_frame :: "frame \<Rightarrow> bool" where
  "valid_frame f \<longleftrightarrow> nf_system_errno f \<le> PROTOCOL_MAX_ERRNO"

text \<open>The record a receiver sees when the launcher sends a frame.\<close>

definition record_of :: "frame \<Rightarrow> socket_record" where
  "record_of f =
     \<lparr> sr_payload = encode_frame (of_nat (frame_type_value (nf_frame_type f))) (nf_sequence f)
         (of_nat (status_value (nf_status f))) (of_nat (native_stage_value (nf_stage f)))
         (of_nat (reason_value (nf_reason f))) (nf_system_errno f) (nf_value0 f) (nf_value1 f),
       sr_message_truncated = False, sr_control_truncated = False, sr_ancillary_present = False \<rparr>"

definition success_frame :: "nat \<Rightarrow> 64 word \<Rightarrow> 64 word \<Rightarrow> frame" where
  "success_frame i v0 v1 =
     \<lparr> nf_frame_type = success_types ! i, nf_sequence = of_nat i, nf_status = STATUS_OK,
       nf_stage = success_stages ! i, nf_reason = R_NONE, nf_system_errno = 0, nf_value0 = v0, nf_value1 = v1 \<rparr>"

text \<open>The five frames of a successful run: launcher and child process ids, the elapsed time.\<close>

definition success_run :: "64 word \<Rightarrow> 64 word \<Rightarrow> 64 word \<Rightarrow> frame list" where
  "success_run pid child elapsed =
     [success_frame 0 pid 0, success_frame 1 child REQUIRED_CLONE_FLAGS, success_frame 2 CLD_STOPPED SIGSTOP,
      success_frame 3 CLD_KILLED SIGKILL, success_frame 4 ACHIEVED_RESULT_MASK elapsed]"

definition error_frame :: "nat \<Rightarrow> reason \<Rightarrow> native_stage \<Rightarrow> 32 word \<Rightarrow> 64 word \<Rightarrow> frame" where
  "error_frame i r s errno achieved =
     \<lparr> nf_frame_type = F_ERROR, nf_sequence = of_nat i, nf_status = STATUS_FAILED, nf_stage = s,
       nf_reason = r, nf_system_errno = errno, nf_value0 = achieved, nf_value1 = 0 \<rparr>"

definition success_transcript :: "frame list \<Rightarrow> int \<Rightarrow> transcript" where
  "success_transcript frames pid =
     \<lparr> nt_succeeded = True, nt_frames = frames, nt_launcher_exit_code = EXIT_OK, nt_launcher_pid = pid,
       nt_child_pid = Some (uint (nf_value0 (frames ! 1))), nt_achieved_result_mask = nf_value0 (last frames),
       nt_elapsed_ns = Some (nf_value1 (last frames)), nt_failure_stage = None,
       nt_failure_reason = None, nt_failure_errno = None \<rparr>"

definition child_of :: "frame list \<Rightarrow> nat \<Rightarrow> int option" where
  "child_of frames n = (if 1 < n then Some (uint (nf_value0 (frames ! 1))) else None)"

definition error_transcript :: "frame list \<Rightarrow> int \<Rightarrow> exit_code \<Rightarrow> transcript" where
  "error_transcript frames pid code = (let e = last frames in
     \<lparr> nt_succeeded = False, nt_frames = frames, nt_launcher_exit_code = code, nt_launcher_pid = pid,
       nt_child_pid = child_of frames (length frames - 1), nt_achieved_result_mask = nf_value0 e,
       nt_elapsed_ns = None, nt_failure_stage = Some (nf_stage e), nt_failure_reason = Some (nf_reason e),
       nt_failure_errno = Some (nf_system_errno e) \<rparr>)"

text \<open>The first \<open>n\<close> frames are the first \<open>n\<close> success frames of a run of launcher \<open>pid\<close>.\<close>

definition prefix_ok :: "int \<Rightarrow> frame list \<Rightarrow> nat \<Rightarrow> bool" where
  "prefix_ok pid frames n \<longleftrightarrow> (\<forall>k < n. nf_frame_type (frames ! k) \<noteq> F_ERROR \<and>
     validate_success_frame (frames ! k) k = None \<and>
     (k = 0 \<longrightarrow> uint (nf_value0 (frames ! k)) = pid) \<and> (k = 1 \<longrightarrow> uint (nf_value0 (frames ! k)) \<noteq> pid))"

definition values_ok :: "nat \<Rightarrow> 64 word \<Rightarrow> 64 word \<Rightarrow> bool" where
  "values_ok k v0 v1 \<longleftrightarrow>
     (if k = 0 then valid_pid v0 \<and> v1 = 0
      else if k = 1 then valid_pid v0 \<and> v1 = REQUIRED_CLONE_FLAGS
      else if k = 2 then v0 = CLD_STOPPED \<and> v1 = SIGSTOP
      else if k = 3 then v0 = CLD_KILLED \<and> v1 = SIGKILL
      else v0 = ACHIEVED_RESULT_MASK \<and> v1 \<noteq> 0)"

definition accepted :: "frame list \<Rightarrow> int \<Rightarrow> int \<Rightarrow> transcript \<Rightarrow> bool" where
  "accepted frames rc pid t \<longleftrightarrow>
     (length frames = 5 \<and> prefix_ok pid frames 5 \<and> rc = 0 \<and> t = success_transcript frames pid) \<or>
     (\<exists>n code. n < 5 \<and> length frames = Suc n \<and> prefix_ok pid frames n \<and>
        nf_frame_type (frames ! n) = F_ERROR \<and> validate_error_frame (frames ! n) n rc = Inr code \<and>
        t = error_transcript frames pid code)"

text \<open>Bits of an achieved-result mask.\<close>

definition has :: "64 word \<Rightarrow> 64 word \<Rightarrow> bool" where
  "has m flag \<longleftrightarrow> m AND flag \<noteq> 0"

text \<open>
  The launcher works in a fixed order, so every later achievement implies the earlier ones.  An error
  that is not about cleanup leaves no process behind: a created child was reaped and its control group
  emptied.
\<close>

definition causal :: "64 word \<Rightarrow> bool" where
  "causal m \<longleftrightarrow>
     (has m PIDFD_CREATED \<longrightarrow> has m CLONE3_INTO_CGROUP) \<and> (has m BUILTIN_NOEXEC \<longrightarrow> has m PIDFD_CREATED) \<and>
     (has m PIDFD_STOP_SENT \<longrightarrow> has m BUILTIN_NOEXEC) \<and> (has m PIDFD_STOP_OBSERVED \<longrightarrow> has m PIDFD_STOP_SENT) \<and>
     (has m LIVE_CGROUP_KILL \<longrightarrow> has m PIDFD_STOP_OBSERVED) \<and>
     (has m PIDFD_EXIT_OBSERVED \<longrightarrow> has m LIVE_CGROUP_KILL \<and> has m CGROUP_EMPTY) \<and>
     (has m CHILD_REAPED \<longrightarrow> has m CLONE3_INTO_CGROUP) \<and> (has m CGROUP_EMPTY \<longrightarrow> has m CLONE3_INTO_CGROUP)"

definition cleaned_up :: "64 word \<Rightarrow> bool" where
  "cleaned_up m \<longleftrightarrow> (has m CLONE3_INTO_CGROUP \<longrightarrow> has m CHILD_REAPED \<and> has m CGROUP_EMPTY)"

definition prefix_mask :: "nat \<Rightarrow> 64 word \<Rightarrow> bool" where
  "prefix_mask n m \<longleftrightarrow> (2 \<le> n \<longrightarrow> has m BUILTIN_NOEXEC) \<and> (3 \<le> n \<longrightarrow> has m PIDFD_STOP_OBSERVED) \<and>
     (4 \<le> n \<longrightarrow> has m PIDFD_EXIT_OBSERVED)"

text \<open>An accepted failure: a proper prefix of a success run, then one error frame the grammar admits.\<close>

definition failure_run :: "int \<Rightarrow> int \<Rightarrow> frame list \<Rightarrow> transcript \<Rightarrow> bool" where
  "failure_run rc pid frames t \<longleftrightarrow>
     (\<exists>n p c r s errno m. n < 5 \<and> pid = uint p \<and> valid_pid p \<and> (1 < n \<longrightarrow> valid_pid c \<and> c \<noteq> p) \<and>
        errno \<le> PROTOCOL_MAX_ERRNO \<and> error_frame_check (error_frame n r s errno m) n = None \<and>
        rc = exit_code_value (bpe_exit_for_reason r) \<and>
        frames = take n (success_run p c 1) @ [error_frame n r s errno m] \<and>
        t = error_transcript frames pid (bpe_exit_for_reason r))"

section \<open>The codec\<close>

lemma ucast_drop_bit: "(ucast (drop_bit k (v :: 'a::len word)) :: byte) = of_nat (unat v div 2 ^ k)"
proof -
  have "(ucast w :: byte) = of_nat (unat w)" for w :: "'a word" by simp
  moreover have "unat (drop_bit k v) = unat v div 2 ^ k"
    by (subst unat_drop_bit_eq) (rule drop_bit_eq_div)
  ultimately show ?thesis by metis
qed

lemma be_bytes_0: "be_bytes 0 v = []"
  by (simp add: be_bytes_def)

lemma be_bytes_2: "be_bytes 2 v = [of_nat (v div 2 ^ 8), of_nat v]"
  using be_bytes_Suc[of 1 v] be_bytes_Suc[of 0 v] by (simp add: be_bytes_0 flip: numeral_2_eq_2)

lemma be_bytes_4: "be_bytes 4 v = [of_nat (v div 2 ^ 24), of_nat (v div 2 ^ 16), of_nat (v div 2 ^ 8), of_nat v]"
  using be_bytes_Suc[of 3 v] be_bytes_Suc[of 2 v] by (simp add: be_bytes_2)

lemma be_bytes_8: "be_bytes 8 v = [of_nat (v div 2 ^ 56), of_nat (v div 2 ^ 48), of_nat (v div 2 ^ 40),
    of_nat (v div 2 ^ 32), of_nat (v div 2 ^ 24), of_nat (v div 2 ^ 16), of_nat (v div 2 ^ 8), of_nat v]"
  using be_bytes_Suc[of 7 v] be_bytes_Suc[of 6 v] be_bytes_Suc[of 5 v] be_bytes_Suc[of 4 v]
  by (simp add: be_bytes_4)

lemma put_be16_bytes: "put_be16 v = be_bytes 2 (unat v)"
  unfolding put_be16_def be_bytes_2 ucast_drop_bit by simp

lemma put_be32_bytes: "put_be32 v = be_bytes 4 (unat v)"
  unfolding put_be32_def be_bytes_4 ucast_drop_bit by simp

lemma put_be64_bytes: "put_be64 v = be_bytes 8 (unat v)"
  unfolding put_be64_def be_bytes_8 ucast_drop_bit by simp

lemmas put_bytes = put_be16_bytes put_be32_bytes put_be64_bytes

lemma write_at_next:
  "length pre = offset \<Longrightarrow> write_at offset bs (pre @ replicate n 0) = (pre @ bs) @ replicate (n - length bs) 0"
  by (simp add: write_at_def drop_replicate)

lemma encode_frame_bytes:
  "encode_frame type sequence st sg r e v0 v1 =
     PROTOCOL_MAGIC @ be_bytes 2 1 @ be_bytes 2 (unat type) @ be_bytes 4 40 @ be_bytes 8 (unat sequence) @
     be_bytes 4 (unat st) @ be_bytes 4 (unat sg) @ be_bytes 4 (unat r) @ be_bytes 4 (unat e) @
     be_bytes 8 (unat v0) @ be_bytes 8 (unat v1) @ replicate 8 0"
proof -
  have "write_at 0 PROTOCOL_MAGIC (replicate 64 0) = PROTOCOL_MAGIC @ replicate 56 0"
    by (simp add: write_at_def PROTOCOL_MAGIC_def drop_replicate)
  moreover have "length PROTOCOL_MAGIC = 8" by (simp add: PROTOCOL_MAGIC_def)
  ultimately show ?thesis
    by (simp add: encode_frame_def put_bytes write_at_next PROTOCOL_FRAME_SIZE_def PROTOCOL_VERSION_def
        PROTOCOL_PAYLOAD_SIZE_def del: append_assoc)
qed

lemma unat_of_nat_small: "n < 2 ^ LENGTH('a) \<Longrightarrow> unat (of_nat n :: 'a::len word) = n"
  by (simp add: unat_of_nat)

lemma enum_values:
  "frame_type_value t < 2 ^ 16" "status_value s < 2 ^ 32" "native_stage_value g < 2 ^ 32" "reason_value r < 2 ^ 32"
     apply (cases t; simp)
    apply (cases s; simp)
   apply (cases g; simp)
  apply (cases r; simp)
  done

lemma unat_bounds: "unat (h :: 16 word) < 256 ^ 2" "unat (w :: 32 word) < 256 ^ 4" "unat (q :: 64 word) < 256 ^ 8"
  using unsigned_less[of h] unsigned_less[of w] unsigned_less[of q] by simp_all

lemma magic_length: "length PROTOCOL_MAGIC = 8"
  by (simp add: PROTOCOL_MAGIC_def)

lemma encode_frame_fields:
  assumes p_def: "p = encode_frame type sequence st sg r e v0 v1"
  shows "length p = 64" "take 8 p = PROTOCOL_MAGIC" "field 8 2 p = 1" "field 10 2 p = unat type"
    "field 12 4 p = 40" "field 16 8 p = unat sequence" "field 24 4 p = unat st" "field 28 4 p = unat sg"
    "field 32 4 p = unat r" "field 36 4 p = unat e" "field 40 8 p = unat v0" "field 48 8 p = unat v1"
    "drop 56 p = replicate 8 0"
  by (simp_all add: p_def encode_frame_bytes field_def magic_length be_val_be_bytes unat_bounds[simplified])

lemma of_value_all:
  "of_value frame_type_value frame_type_all (frame_type_value t) = Some t"
  "of_value status_value status_all (status_value s) = Some s"
  "of_value native_stage_value native_stage_all (native_stage_value g) = Some g"
  "of_value reason_value reason_all (reason_value r) = Some r"
     apply (cases t; simp add: of_value_def frame_type_all_def)
    apply (cases s; simp add: of_value_def status_all_def)
   apply (cases g; simp add: of_value_def native_stage_all_def)
  apply (cases r; simp add: of_value_def reason_all_def)
  done

lemma of_value_sound: "of_value value all n = Some x \<Longrightarrow> value x = n"
  by (auto simp: of_value_def dest: find_Some_mem)

lemma decode_record_of:
  assumes "valid_frame f"
  shows "decode_record (record_of f) = Inr f"
proof -
  have "\<not> PROTOCOL_MAX_ERRNO < nf_system_errno f" using assms by (simp add: valid_frame_def not_less)
  then show ?thesis
    by (simp add: decode_record_def record_of_def encode_frame_fields[OF refl] unat_of_nat_small
        enum_values[simplified] of_value_all PROTOCOL_FRAME_SIZE_def PROTOCOL_VERSION_def
        PROTOCOL_PAYLOAD_SIZE_def Let_def)
qed

lemma length_slice: "length p = 64 \<Longrightarrow> off + n \<le> 64 \<Longrightarrow> length (take n (drop off p)) = n"
  by simp

lemma field_bytes: "length p = 64 \<Longrightarrow> off + n \<le> 64 \<Longrightarrow> be_bytes n (field off n p) = take n (drop off p)"
  using be_bytes_be_val[of "take n (drop off p)"] length_slice[of p off n] by (simp only: field_def)

lemma field_less: "length p = 64 \<Longrightarrow> off + n \<le> 64 \<Longrightarrow> field off n p < 256 ^ n"
  using be_val_less[of "take n (drop off p)"] length_slice[of p off n] by (simp only: field_def)

lemma slices:
  assumes "length p = 64"
  shows "take 8 p @ take 2 (drop 8 p) @ take 2 (drop 10 p) @ take 4 (drop 12 p) @ take 8 (drop 16 p) @
    take 4 (drop 24 p) @ take 4 (drop 28 p) @ take 4 (drop 32 p) @ take 4 (drop 36 p) @ take 8 (drop 40 p) @
    take 8 (drop 48 p) @ drop 56 p = p"
proof -
  have cut: "take n (drop k p) @ drop (k + n) p = drop k p" for n k
    using append_take_drop_id[of n "drop k p"] by (simp add: add.commute)
  show ?thesis
    using cut[where k = 48 and n = 8] cut[where k = 40 and n = 8] cut[where k = 36 and n = 4]
      cut[where k = 32 and n = 4] cut[where k = 28 and n = 4] cut[where k = 24 and n = 4]
      cut[where k = 16 and n = 8] cut[where k = 12 and n = 4] cut[where k = 10 and n = 2]
      cut[where k = 8 and n = 2] cut[where k = 0 and n = 8]
    by simp
qed

lemma decode_recordD:
  assumes "decode_record r = Inr f"
  shows "valid_frame f \<and> record_of f = r"
proof -
  let ?p = "sr_payload r"
  have len: "length ?p = 64" and hd: "take 8 ?p = PROTOCOL_MAGIC" "field 8 2 ?p = 1" "field 12 4 ?p = 40"
      "drop 56 ?p = replicate 8 0"
    and flags: "\<not> sr_message_truncated r" "\<not> sr_control_truncated r" "\<not> sr_ancillary_present r"
    and errno: "\<not> PROTOCOL_MAX_ERRNO < of_nat (field 36 4 ?p)"
    using assms by (auto simp: decode_record_def Let_def check_Inr_iff PROTOCOL_FRAME_SIZE_def
        PROTOCOL_VERSION_def PROTOCOL_PAYLOAD_SIZE_def)
  have f: "frame_type_value (nf_frame_type f) = field 10 2 ?p" "status_value (nf_status f) = field 24 4 ?p"
    "native_stage_value (nf_stage f) = field 28 4 ?p" "reason_value (nf_reason f) = field 32 4 ?p"
    "nf_sequence f = of_nat (field 16 8 ?p)" "nf_system_errno f = of_nat (field 36 4 ?p)"
    "nf_value0 f = of_nat (field 40 8 ?p)" "nf_value1 f = of_nat (field 48 8 ?p)"
    using assms by (auto simp: decode_record_def Let_def check_Inr_iff dest: of_value_sound split: option.splits)
  have u: "unat (of_nat (field 10 2 ?p) :: 16 word) = field 10 2 ?p"
    "unat (of_nat (field 24 4 ?p) :: 32 word) = field 24 4 ?p" "unat (of_nat (field 28 4 ?p) :: 32 word) = field 28 4 ?p"
    "unat (of_nat (field 32 4 ?p) :: 32 word) = field 32 4 ?p" "unat (of_nat (field 36 4 ?p) :: 32 word) = field 36 4 ?p"
    "unat (of_nat (field 16 8 ?p) :: 64 word) = field 16 8 ?p" "unat (of_nat (field 40 8 ?p) :: 64 word) = field 40 8 ?p"
    "unat (of_nat (field 48 8 ?p) :: 64 word) = field 48 8 ?p"
    using field_less[OF len, of 10 2] field_less[OF len, of 24 4] field_less[OF len, of 28 4]
      field_less[OF len, of 32 4] field_less[OF len, of 36 4] field_less[OF len, of 16 8]
      field_less[OF len, of 40 8] field_less[OF len, of 48 8]
    by (simp_all add: unat_of_nat_small)
  have b: "be_bytes 2 1 = take 2 (drop 8 ?p)" "be_bytes 4 40 = take 4 (drop 12 ?p)"
    using field_bytes[OF len, of 8 2] field_bytes[OF len, of 12 4] hd by simp_all
  have "encode_frame (of_nat (frame_type_value (nf_frame_type f))) (nf_sequence f)
      (of_nat (status_value (nf_status f))) (of_nat (native_stage_value (nf_stage f)))
      (of_nat (reason_value (nf_reason f))) (nf_system_errno f) (nf_value0 f) (nf_value1 f) = ?p"
    unfolding encode_frame_bytes f u b field_bytes[OF len] hd(1)[symmetric] hd(4)[symmetric]
    using slices[OF len] field_bytes[OF len] by simp
  then have "record_of f = r" using flags by (simp add: record_of_def)
  moreover have "valid_frame f" using errno f(6) by (simp add: valid_frame_def not_less)
  ultimately show ?thesis by simp
qed

interpretation native: codec record_of decode_record valid_frame
  by unfold_locales (use decode_record_of decode_recordD in auto)

text \<open>
  C14. The Python decoder and the C encoder agree bit for bit: a received record decodes to a frame
  exactly when it is untruncated, carries no ancillary data and its 64 bytes are what
  \<open>bpe_inert_encode_frame\<close> writes for that frame, with an errno within the bound.
\<close>

theorem decode_iff_encoded:
  "decode_record r = Inr f \<longleftrightarrow> valid_frame f \<and> r = record_of f"
  by (rule native.dec_iff)

section \<open>Walking the frames\<close>

lemma success_length: "length success_types = 5"
  by (simp add: success_types_def)

lemma prefix_ok_Suc: "prefix_ok pid frames (Suc n) \<longleftrightarrow> prefix_ok pid frames n \<and>
    nf_frame_type (frames ! n) \<noteq> F_ERROR \<and> validate_success_frame (frames ! n) n = None \<and>
    (n = 0 \<longrightarrow> uint (nf_value0 (frames ! n)) = pid) \<and> (n = 1 \<longrightarrow> uint (nf_value0 (frames ! n)) \<noteq> pid)"
  by (auto simp: prefix_ok_def less_Suc_eq)

lemma prefix_ok_mono: "prefix_ok pid frames n \<Longrightarrow> m \<le> n \<Longrightarrow> prefix_ok pid frames m"
  unfolding prefix_ok_def by (intro allI impI, drule spec, erule mp, erule (1) less_le_trans)

lemma prefix_ok_no_error: "prefix_ok pid frames n \<Longrightarrow> m < n \<Longrightarrow> nf_frame_type (frames ! m) \<noteq> F_ERROR"
  by (simp add: prefix_ok_def)

lemma accepted_longer:
  assumes "accepted frames rc pid t" "i < length frames" "nf_frame_type (frames ! i) \<noteq> F_ERROR"
  shows "i < 5 \<and> prefix_ok pid frames (Suc i)"
  using assms prefix_ok_mono[of pid frames _ "Suc i"]
  by (auto simp: accepted_def less_Suc_eq Suc_le_eq)

lemma walk_error:
  assumes "i < length frames" "nf_frame_type (frames ! i) = F_ERROR" "prefix_ok pid frames i"
  shows "walk frames rc pid i (child_of frames i) (drop i frames) = Inr t \<longleftrightarrow> accepted frames rc pid t"
proof -
  have d: "drop i frames = frames ! i # drop (Suc i) frames" using assms(1) by (simp add: Cons_nth_drop_Suc)
  have succ: "\<not> prefix_ok pid frames 5" if "length frames = 5"
    using assms(1,2) prefix_ok_no_error[of pid frames 5 i] that by auto
  have n: "n = i" if "prefix_ok pid frames n" "length frames = Suc n" for n
    using that assms(1,2) prefix_ok_no_error[of pid frames n i] by fastforce
  have acc: "accepted frames rc pid t \<longleftrightarrow> i < 5 \<and> length frames = Suc i \<and>
      (\<exists>code. validate_error_frame (frames ! i) i rc = Inr code \<and> t = error_transcript frames pid code)"
  proof
    assume "accepted frames rc pid t"
    then obtain n code where "n < 5" "length frames = Suc n" "prefix_ok pid frames n"
      "validate_error_frame (frames ! n) n rc = Inr code" "t = error_transcript frames pid code"
      using succ unfolding accepted_def by blast
    then show "i < 5 \<and> length frames = Suc i \<and>
        (\<exists>code. validate_error_frame (frames ! i) i rc = Inr code \<and> t = error_transcript frames pid code)"
      using n[of n] by blast
  next
    assume "i < 5 \<and> length frames = Suc i \<and>
        (\<exists>code. validate_error_frame (frames ! i) i rc = Inr code \<and> t = error_transcript frames pid code)"
    then show "accepted frames rc pid t" unfolding accepted_def using assms(2,3) by blast
  qed
  show ?thesis
  proof (cases "i < 5 \<and> length frames = Suc i")
    case True
    then have "last frames = frames ! i" by (subst last_conv_nth) auto
    then show ?thesis unfolding acc d using True assms(2)
      by (auto simp: success_length rbind_Inr_iff error_transcript_def Let_def)
  next
    case False
    then show ?thesis unfolding acc d using assms(1,2) by (auto simp: success_length)
  qed
qed

lemma walk_iff:
  assumes "i \<le> length frames" "prefix_ok pid frames i" "i \<le> 5"
  shows "walk frames rc pid i (child_of frames i) (drop i frames) = Inr t \<longleftrightarrow> accepted frames rc pid t"
  using assms
proof (induction "length frames - i" arbitrary: i)
  case 0
  then have "length frames = i" by simp
  then have "accepted frames rc pid t \<longleftrightarrow> i = 5 \<and> rc = 0 \<and> t = success_transcript frames pid"
    using 0 prefix_ok_no_error[of pid frames i] by (auto simp: accepted_def)
  then show ?case using \<open>length frames = i\<close>
    by (auto simp: success_length success_transcript_def child_of_def)
next
  case (Suc n)
  then have i: "i < length frames" by simp
  show ?case
  proof (cases "nf_frame_type (frames ! i) = F_ERROR")
    case True
    then show ?thesis using walk_error[OF i True Suc.prems(2)] by simp
  next
    case False
    have d: "drop i frames = frames ! i # drop (Suc i) frames" using i by (simp add: Cons_nth_drop_Suc)
    have acc: "accepted frames rc pid t \<Longrightarrow> i < 5 \<and> prefix_ok pid frames (Suc i)"
      using accepted_longer i False by blast
    show ?thesis
    proof (cases "i < 5 \<and> prefix_ok pid frames (Suc i)")
      case True
      then have "walk frames rc pid (Suc i) (child_of frames (Suc i)) (drop (Suc i) frames) = Inr t \<longleftrightarrow>
          accepted frames rc pid t"
        using Suc by simp
      then show ?thesis using True False i
        by (auto simp: d success_length prefix_ok_Suc child_of_def split: if_splits)
    next
      case c: False
      then have "\<not> accepted frames rc pid t" using acc by blast
      moreover have "walk frames rc pid i (child_of frames i) (drop i frames) \<noteq> Inr t"
        using c False Suc.prems by (auto simp: d success_length prefix_ok_Suc check_Inr_iff split: if_splits)
      ultimately show ?thesis by blast
    qed
  qed
qed

lemma decode_indexed_iff:
  "decode_indexed (i, r) = Inr f \<longleftrightarrow> valid_frame f \<and> r = record_of f \<and> unat (nf_sequence f) = i"
  by (auto simp: decode_indexed_def rbind_Inr_iff native.dec_iff)

lemma decode_all_iff:
  "traverse decode_indexed (enumerate k records) = Inr frames \<longleftrightarrow>
     records = map record_of frames \<and> list_all valid_frame frames \<and>
     (\<forall>i < length frames. unat (nf_sequence (frames ! i)) = k + i)"
proof (induction records arbitrary: k frames)
  case (Cons r rs)
  show ?case
  proof (cases frames)
    case (Cons f fs)
    then show ?thesis
      by (auto simp: rbind_Inr_iff decode_indexed_iff Cons.IH All_less_Suc2 nth_Cons')
  qed (auto simp: rbind_Inr_iff)
qed auto

lemma parse_iff:
  "parse_inert_native_transcript records rc eof pid = Inr t \<longleftrightarrow>
     eof \<and> 1 \<le> pid \<and> pid \<le> LINUX_MAX_PID \<and>
     (\<exists>frames. records = map record_of frames \<and> list_all valid_frame frames \<and>
        (\<forall>i < length frames. unat (nf_sequence (frames ! i)) = i) \<and> accepted frames rc pid t)"
proof -
  have walk: "walk frames rc pid 0 None frames = Inr t \<longleftrightarrow> accepted frames rc pid t" for frames
    using walk_iff[of 0 frames pid rc t] by (simp add: prefix_ok_def child_of_def)
  have "accepted frames rc pid t \<Longrightarrow> frames \<noteq> [] \<and> \<not> 8 < length frames" for frames
    by (auto simp: accepted_def)
  then show ?thesis
    unfolding parse_inert_native_transcript_def check_Inr_iff rbind_Inr_iff decode_all_iff walk
    by (auto simp: PROTOCOL_MAX_FRAMES_def)
qed

section \<open>The accepted transcripts\<close>

lemma word_of_unat: "unat w = k \<Longrightarrow> w = of_nat k"
  by auto

lemma success_frame_iff:
  assumes "k < 5" "unat (nf_sequence f) = k"
  shows "nf_frame_type f \<noteq> F_ERROR \<and> validate_success_frame f k = None \<longleftrightarrow>
    f = success_frame k (nf_value0 f) (nf_value1 f) \<and> values_ok k (nf_value0 f) (nf_value1 f)"
proof -
  have "success_types ! k \<noteq> F_ERROR"
    using assms(1) by (auto simp: success_types_def less_Suc_eq numeral_eq_Suc)
  moreover have "validate_success_frame f k = None \<longleftrightarrow>
      nf_frame_type f = success_types ! k \<and> nf_status f = STATUS_OK \<and> nf_stage f = success_stages ! k \<and>
      nf_reason f = R_NONE \<and> nf_system_errno f = 0 \<and> values_ok k (nf_value0 f) (nf_value1 f)"
    by (auto simp: validate_success_frame_def values_ok_def)
  moreover have "f = success_frame k (nf_value0 f) (nf_value1 f) \<longleftrightarrow>
      nf_frame_type f = success_types ! k \<and> nf_status f = STATUS_OK \<and> nf_stage f = success_stages ! k \<and>
      nf_reason f = R_NONE \<and> nf_system_errno f = 0"
    using word_of_unat[OF assms(2)] by (cases f) (auto simp: success_frame_def)
  ultimately show ?thesis by auto
qed

lemma success_run_nth: "k < 5 \<Longrightarrow> success_run p c e ! k =
    success_frame k (if k = 0 then p else if k = 1 then c else if k = 2 then CLD_STOPPED
      else if k = 3 then CLD_KILLED else ACHIEVED_RESULT_MASK)
     (if k = 0 then 0 else if k = 1 then REQUIRED_CLONE_FLAGS else if k = 2 then SIGSTOP
      else if k = 3 then SIGKILL else e)"
  by (auto simp: success_run_def less_Suc_eq numeral_eq_Suc)

lemma length_success_run: "length (success_run p c e) = 5"
  by (simp add: success_run_def)

lemma uint_pid: "0 \<le> pid \<Longrightarrow> pid \<le> LINUX_MAX_PID \<Longrightarrow> uint (word_of_int pid :: 64 word) = pid"
  by (simp add: LINUX_MAX_PID_def uint_word_of_int)

lemma prefix_ok_run:
  assumes n: "n \<le> 5" "n \<le> length frames" and sq: "\<forall>i < n. unat (nf_sequence (frames ! i)) = i"
    and pid: "1 \<le> pid" "pid \<le> LINUX_MAX_PID" and ok: "prefix_ok pid frames n"
  shows "\<exists>p c e. uint p = pid \<and> (1 < n \<longrightarrow> valid_pid c \<and> c \<noteq> p) \<and> (4 < n \<longrightarrow> e \<noteq> 0) \<and>
    take n frames = take n (success_run p c e)"
proof (intro exI conjI impI)
  let ?p = "word_of_int pid :: 64 word" and ?c = "nf_value0 (frames ! 1)" and ?e = "nf_value1 (frames ! 4)"
  show p: "uint ?p = pid" using uint_pid pid by simp
  have f: "frames ! k = success_frame k (nf_value0 (frames ! k)) (nf_value1 (frames ! k))"
      "values_ok k (nf_value0 (frames ! k)) (nf_value1 (frames ! k))" if "k < n" for k
    using success_frame_iff[of k "frames ! k"] that n(1) sq ok by (auto simp: prefix_ok_def)
  show "valid_pid ?c" if "1 < n" using f(2)[OF that] by (simp add: values_ok_def)
  show "?c \<noteq> ?p" if "1 < n" using ok that p by (auto simp: prefix_ok_def)
  show "?e \<noteq> 0" if "4 < n" using f(2)[OF that] by (simp add: values_ok_def)
  have v0: "nf_value0 (frames ! 0) = ?p" if "0 < n"
    using ok that p by (auto simp: prefix_ok_def word_uint_eq_iff)
  show "take n frames = take n (success_run ?p ?c ?e)"
  proof (rule nth_equalityI)
    fix k assume "k < length (take n frames)"
    then have k: "k < n" "k < 5" using n by auto
    then consider "k = 0" | "k = 1" | "k = 2" | "k = 3" | "k = 4" by linarith
    then have "frames ! k = success_run ?p ?c ?e ! k"
      by cases (use f[OF k(1)] v0 k in \<open>auto simp: success_run_nth values_ok_def\<close>)
    then show "take n frames ! k = take n (success_run ?p ?c ?e) ! k" using k by simp
  qed (use n in \<open>simp add: length_success_run\<close>)
qed

lemma run_prefix_ok:
  assumes n: "n \<le> 5" "valid_pid p" "1 < n \<longrightarrow> valid_pid c \<and> c \<noteq> p" "4 < n \<longrightarrow> e \<noteq> 0"
    and t: "take n frames = take n (success_run p c e)" "n \<le> length frames"
  shows "prefix_ok (uint p) frames n"
  unfolding prefix_ok_def
proof (intro allI impI)
  fix k assume k: "k < n"
  then have f: "frames ! k = success_run p c e ! k" using t by (metis nth_take)
  have v: "values_ok k (nf_value0 (success_run p c e ! k)) (nf_value1 (success_run p c e ! k))"
    using k n by (auto simp: success_run_nth values_ok_def success_frame_def)
  have sq: "unat (nf_sequence (success_run p c e ! k)) = k"
    using k n(1) by (simp add: success_run_nth success_frame_def unat_of_nat)
  have "nf_frame_type (success_run p c e ! k) \<noteq> F_ERROR \<and> validate_success_frame (success_run p c e ! k) k = None"
    using success_frame_iff[OF _ sq] k n(1) v by (simp add: success_run_nth success_frame_def)
  moreover have "k = 0 \<longrightarrow> uint (nf_value0 (frames ! k)) = uint p" "k = 1 \<longrightarrow> uint (nf_value0 (frames ! k)) \<noteq> uint p"
    unfolding f using k n(1,3) by (auto simp: success_run_nth success_frame_def word_uint_eq_iff)
  ultimately show "nf_frame_type (frames ! k) \<noteq> F_ERROR \<and> validate_success_frame (frames ! k) k = None \<and>
      (k = 0 \<longrightarrow> uint (nf_value0 (frames ! k)) = uint p) \<and> (k = 1 \<longrightarrow> uint (nf_value0 (frames ! k)) \<noteq> uint p)"
    by (simp add: f)
qed

lemma success_run_valid: "list_all valid_frame (success_run p c e)"
  by (simp add: success_run_def valid_frame_def success_frame_def)

lemma success_run_sequence: "i < 5 \<Longrightarrow> unat (nf_sequence (success_run p c e ! i)) = i"
  by (simp add: success_run_nth success_frame_def unat_of_nat)

lemma accepted_cases: "accepted frames rc pid t \<Longrightarrow> nt_succeeded t \<longleftrightarrow> length frames = 5 \<and> prefix_ok pid frames 5"
  by (auto simp: accepted_def success_transcript_def error_transcript_def Let_def prefix_ok_def)

text \<open>
  C15. A transcript is accepted as a success exactly when the socket was drained, the launcher exited
  with 0 and the records are the encodings of the five success frames in order, for the launcher that
  was spawned, a different valid child and a nonzero elapsed time; the parsed transcript reports
  these values.
\<close>

theorem success_transcripts:
  "parse_inert_native_transcript records rc eof pid = Inr t \<and> nt_succeeded t \<longleftrightarrow>
     (\<exists>p c e. eof \<and> rc = 0 \<and> pid = uint p \<and> valid_pid p \<and> valid_pid c \<and> c \<noteq> p \<and> e \<noteq> 0 \<and>
        records = map record_of (success_run p c e) \<and> t = success_transcript (success_run p c e) pid)"
proof (intro iffI conjI)
  assume "parse_inert_native_transcript records rc eof pid = Inr t \<and> nt_succeeded t"
  then obtain frames where fr: "eof" "1 \<le> pid" "pid \<le> LINUX_MAX_PID" "records = map record_of frames"
      "\<forall>i < length frames. unat (nf_sequence (frames ! i)) = i" "accepted frames rc pid t" "nt_succeeded t"
    using parse_iff by blast
  then have a: "length frames = 5" "prefix_ok pid frames 5" "rc = 0" "t = success_transcript frames pid"
    by (auto simp: accepted_def error_transcript_def Let_def)
  obtain p c e where "uint p = pid" "valid_pid c \<and> c \<noteq> p" "e \<noteq> 0" "take 5 frames = take 5 (success_run p c e)"
    using prefix_ok_run[of 5 frames pid] a(1,2) fr(2,3,5) by auto
  then show "\<exists>p c e. eof \<and> rc = 0 \<and> pid = uint p \<and> valid_pid p \<and> valid_pid c \<and> c \<noteq> p \<and> e \<noteq> 0 \<and>
      records = map record_of (success_run p c e) \<and> t = success_transcript (success_run p c e) pid"
    using fr a by (auto simp: valid_pid_def length_success_run)
next
  assume "\<exists>p c e. eof \<and> rc = 0 \<and> pid = uint p \<and> valid_pid p \<and> valid_pid c \<and> c \<noteq> p \<and> e \<noteq> 0 \<and>
      records = map record_of (success_run p c e) \<and> t = success_transcript (success_run p c e) pid"
  then obtain p c e where r: "eof" "rc = 0" "pid = uint p" "valid_pid p" "valid_pid c" "c \<noteq> p" "e \<noteq> 0"
      "records = map record_of (success_run p c e)" "t = success_transcript (success_run p c e) pid" by blast
  have "prefix_ok (uint p) (success_run p c e) 5"
    using r by (intro run_prefix_ok[of 5 p c e]) (simp_all add: length_success_run)
  then have "accepted (success_run p c e) rc pid t"
    using r by (auto simp: accepted_def length_success_run)
  then show "parse_inert_native_transcript records rc eof pid = Inr t"
    unfolding parse_iff using r success_run_valid success_run_sequence
    by (auto simp: length_success_run valid_pid_def)
  show "nt_succeeded t" by (simp add: r success_transcript_def)
qed

lemma validate_error_frameD:
  "validate_error_frame f n rc = Inr code \<longleftrightarrow>
     error_frame_check f n = None \<and> exit_code_for_reason (nf_reason f) = Inr code \<and> rc = exit_code_value code"
  by (auto simp: validate_error_frame_def result_simps split: if_splits)

lemma exit_codes_agree: "r \<noteq> R_NONE \<Longrightarrow> exit_code_for_reason r = Inr (bpe_exit_for_reason r)"
  by (cases r) (simp_all add: exit_code_for_reason_def bpe_exit_for_reason_def)

lemma error_frame_checkD:
  assumes "error_frame_check f n = None"
  shows "nf_status f = STATUS_FAILED" "nf_reason f \<noteq> R_NONE" "nf_value1 f = 0"
    and "\<exists>masks. map_of error_grammar (n, nf_reason f, nf_stage f) = Some masks \<and> nf_value0 f \<in> set masks"
  using assms by (auto simp: error_frame_check_def Let_def)

lemma error_frame_eq:
  "nf_frame_type f = F_ERROR \<Longrightarrow> error_frame_check f n = None \<Longrightarrow> unat (nf_sequence f) = n \<Longrightarrow>
     f = error_frame n (nf_reason f) (nf_stage f) (nf_system_errno f) (nf_value0 f)"
  using error_frame_checkD[of f n] word_of_unat[of "nf_sequence f" n] by (cases f) (auto simp: error_frame_def)

lemma accepted_failure_run:
  assumes pid: "1 \<le> pid" "pid \<le> LINUX_MAX_PID" and ok: "list_all valid_frame frames"
    and sq: "\<forall>i < length frames. unat (nf_sequence (frames ! i)) = i"
    and acc: "accepted frames rc pid t" "\<not> nt_succeeded t"
  shows "failure_run rc pid frames t"
proof -
  obtain n code where a: "n < 5" "length frames = Suc n" "prefix_ok pid frames n"
      "nf_frame_type (frames ! n) = F_ERROR" "validate_error_frame (frames ! n) n rc = Inr code"
      "t = error_transcript frames pid code"
    using acc by (auto simp: accepted_def success_transcript_def)
  note v = a(5)[unfolded validate_error_frameD]
  obtain p c e where p: "uint p = pid" "1 < n \<longrightarrow> valid_pid c \<and> c \<noteq> p" "take n frames = take n (success_run p c e)"
    using prefix_ok_run[of n frames pid] a(1,2,3) pid sq by auto
  have run: "take n (success_run p c e) = take n (success_run p c 1)"
    using a(1) by (intro nth_equalityI) (auto simp: length_success_run success_run_nth)
  have e: "frames ! n = error_frame n (nf_reason (frames ! n)) (nf_stage (frames ! n))
      (nf_system_errno (frames ! n)) (nf_value0 (frames ! n))"
    using error_frame_eq[of "frames ! n" n] a(2,4) v sq by simp
  have frames: "frames = take n (success_run p c 1) @ [frames ! n]"
    using a(2) p(3) run by (metis lessI take_Suc_conv_app_nth take_all order_refl)
  have errno: "nf_system_errno (frames ! n) \<le> PROTOCOL_MAX_ERRNO"
    using ok a(2) by (auto simp: list_all_length valid_frame_def)
  have code: "code = bpe_exit_for_reason (nf_reason (frames ! n))"
    using v error_frame_checkD(2) exit_codes_agree by fastforce
  show ?thesis
    unfolding failure_run_def using pid a(1,6) p(1,2) v e frames errno code
    by (intro exI[of _ n] exI[of _ p] exI[of _ c] exI[of _ "nf_reason (frames ! n)"] exI[of _ "nf_stage (frames ! n)"]
        exI[of _ "nf_system_errno (frames ! n)"] exI[of _ "nf_value0 (frames ! n)"])
      (auto simp: valid_pid_def)
qed

lemma failure_run_accepted:
  assumes "failure_run rc pid frames t"
  shows "1 \<le> pid" "pid \<le> LINUX_MAX_PID" "list_all valid_frame frames"
    "\<forall>i < length frames. unat (nf_sequence (frames ! i)) = i" "accepted frames rc pid t" "\<not> nt_succeeded t"
proof -
  obtain n p c r s errno m where r: "n < 5" "pid = uint p" "valid_pid p"
      "1 < n \<longrightarrow> valid_pid c \<and> c \<noteq> p" "errno \<le> PROTOCOL_MAX_ERRNO"
      "error_frame_check (error_frame n r s errno m) n = None" "rc = exit_code_value (bpe_exit_for_reason r)"
      and fs: "frames = take n (success_run p c 1) @ [error_frame n r s errno m]"
      and t: "t = error_transcript frames pid (bpe_exit_for_reason r)"
    using assms unfolding failure_run_def by blast
  have len: "length frames = Suc n" using r(1) by (simp add: fs length_success_run)
  have "prefix_ok (uint p) frames n"
    using r(1,3,4) by (intro run_prefix_ok[of n p c 1]) (simp_all add: fs length_success_run)
  moreover have "frames ! n = error_frame n r s errno m" using r(1) by (simp add: fs nth_append length_success_run)
  moreover have "r \<noteq> R_NONE" using error_frame_checkD(2)[OF r(6)] by (simp add: error_frame_def)
  ultimately show "accepted frames rc pid t"
    using r t len exit_codes_agree[of r] by (auto simp: accepted_def validate_error_frameD error_frame_def)
  show "1 \<le> pid" "pid \<le> LINUX_MAX_PID" using r(2,3) by (simp_all add: valid_pid_def)
  show "list_all valid_frame frames"
    using success_run_valid[of p c 1] r(5)
    by (auto simp: fs list_all_iff valid_frame_def error_frame_def dest: in_set_takeD)
  show "\<forall>i < length frames. unat (nf_sequence (frames ! i)) = i"
    using r(1) success_run_sequence[of _ p c 1]
    by (auto simp: fs nth_append length_success_run error_frame_def unat_of_nat less_Suc_eq)
  show "\<not> nt_succeeded t" by (simp add: t error_transcript_def Let_def)
qed

lemma error_run_of:
  assumes "parse_inert_native_transcript records rc eof pid = Inr t" "\<not> nt_succeeded t"
  shows "\<exists>frames. records = map record_of frames \<and> failure_run rc pid frames t"
  using assms(2) accepted_failure_run assms(1)[unfolded parse_iff] by blast

lemma failure_run_mask:
  assumes "failure_run rc pid frames t"
  obtains n r s m where "length frames = Suc n" "nt_achieved_result_mask t = m" "nt_failure_reason t = Some r"
    "rc = exit_code_value (bpe_exit_for_reason r)" "nt_launcher_exit_code t = bpe_exit_for_reason r"
    "\<exists>masks. map_of error_grammar (n, r, s) = Some masks \<and> m \<in> set masks"
proof -
  obtain n p c r s errno m where "n < 5" "error_frame_check (error_frame n r s errno m) n = None"
      "frames = take n (success_run p c 1) @ [error_frame n r s errno m]"
      "rc = exit_code_value (bpe_exit_for_reason r)" "t = error_transcript frames pid (bpe_exit_for_reason r)"
    using assms unfolding failure_run_def by blast
  then show thesis
    using that[of n m r s] error_frame_checkD(4)[of "error_frame n r s errno m" n]
    by (auto simp: error_transcript_def error_frame_def Let_def length_success_run)
qed

text \<open>
  C16. A transcript is accepted as a failure exactly when it is a proper prefix of a success run
  followed by one error frame that fits the error grammar after that prefix, and the launcher exited
  with the code that its own \<open>bpe_exit_for_reason\<close> assigns to the reason.
\<close>

theorem error_transcripts:
  "parse_inert_native_transcript records rc eof pid = Inr t \<and> \<not> nt_succeeded t \<longleftrightarrow>
     eof \<and> (\<exists>frames. records = map record_of frames \<and> failure_run rc pid frames t)"
proof (intro iffI conjI)
  assume a: "parse_inert_native_transcript records rc eof pid = Inr t \<and> \<not> nt_succeeded t"
  then show "eof" using parse_iff[of records rc eof pid t] by simp
  show "\<exists>frames. records = map record_of frames \<and> failure_run rc pid frames t"
    using a error_run_of by blast
next
  assume "eof \<and> (\<exists>frames. records = map record_of frames \<and> failure_run rc pid frames t)"
  then obtain frames where f: "eof" "records = map record_of frames" "failure_run rc pid frames t" by blast
  note a = failure_run_accepted[OF f(3)]
  show "parse_inert_native_transcript records rc eof pid = Inr t"
    unfolding parse_iff using f(1,2) a(1-5) by blast
  show "\<not> nt_succeeded t" by (rule a(6))
qed

section \<open>The error grammar\<close>

lemmas flag_defs = CLONE3_INTO_CGROUP_def PIDFD_CREATED_def PIDFD_STOP_SENT_def PIDFD_STOP_OBSERVED_def
  LIVE_CGROUP_KILL_def PIDFD_EXIT_OBSERVED_def CHILD_REAPED_def CGROUP_EMPTY_def BUILTIN_NOEXEC_def

lemma grammar_causal:
  "list_all (\<lambda>((n, r, s), masks). list_all (\<lambda>m. causal m \<and> prefix_mask n m \<and>
     (r \<noteq> R_CLEANUP_INCOMPLETE \<longrightarrow> cleaned_up m)) masks) error_grammar"
  by (simp add: error_grammar_def causal_def cleaned_up_def prefix_mask_def has_def flag_defs)

lemma grammar_causal_mem:
  assumes "((n, r, s), masks) \<in> set error_grammar" "m \<in> set masks"
  shows "causal m \<and> prefix_mask n m \<and> (r \<noteq> R_CLEANUP_INCOMPLETE \<longrightarrow> cleaned_up m)"
  using bspec[OF grammar_causal[unfolded list_all_iff] assms(1)] assms(2) by (simp add: list_all_iff)

lemma full_mask_causal: "causal ACHIEVED_RESULT_MASK \<and> cleaned_up ACHIEVED_RESULT_MASK \<and> prefix_mask n ACHIEVED_RESULT_MASK"
proof -
  have "causal ACHIEVED_RESULT_MASK \<and> cleaned_up ACHIEVED_RESULT_MASK \<and> has ACHIEVED_RESULT_MASK BUILTIN_NOEXEC \<and>
     has ACHIEVED_RESULT_MASK PIDFD_STOP_OBSERVED \<and> has ACHIEVED_RESULT_MASK PIDFD_EXIT_OBSERVED"
    by (simp add: ACHIEVED_RESULT_MASK_def causal_def cleaned_up_def has_def flag_defs)
  then show ?thesis by (simp add: prefix_mask_def)
qed

text \<open>
  C17. Whatever transcript is accepted, its achieved-result mask respects the order of the launcher's
  work and covers the emitted success frames; and unless the failure reports incomplete cleanup, a
  child that was created has been reaped and its control group is empty.
\<close>

theorem accepted_mask_causal:
  assumes "parse_inert_native_transcript records rc eof pid = Inr t"
  shows "causal (nt_achieved_result_mask t) \<and>
    prefix_mask (if nt_succeeded t then 5 else length records - 1) (nt_achieved_result_mask t) \<and>
    (nt_failure_reason t \<noteq> Some R_CLEANUP_INCOMPLETE \<longrightarrow> cleaned_up (nt_achieved_result_mask t))"
proof (cases "nt_succeeded t")
  case True
  then obtain frames where "length frames = 5" "prefix_ok pid frames 5" "t = success_transcript frames pid"
    using assms[unfolded parse_iff] by (auto simp: accepted_def error_transcript_def Let_def)
  moreover from this(1,2) have "validate_success_frame (frames ! 4) 4 = None" "last frames = frames ! 4"
    by (simp add: prefix_ok_def) (subst last_conv_nth, use \<open>length frames = 5\<close> in auto)
  ultimately have "nt_achieved_result_mask t = ACHIEVED_RESULT_MASK"
    by (simp add: success_transcript_def validate_success_frame_def)
  then show ?thesis using full_mask_causal True by simp
next
  case False
  then obtain frames where rec: "records = map record_of frames" and run: "failure_run rc pid frames t"
    using assms error_run_of by blast
  from run obtain n r s m where m: "length frames = Suc n" "nt_achieved_result_mask t = m" "nt_failure_reason t = Some r"
      "\<exists>masks. map_of error_grammar (n, r, s) = Some masks \<and> m \<in> set masks"
    by (rule failure_run_mask)
  then obtain masks where "((n, r, s), masks) \<in> set error_grammar" "m \<in> set masks"
    by (blast dest: map_of_SomeD)
  then show ?thesis using grammar_causal_mem m(1-3) rec False by simp
qed

text \<open>
  The reported exit code is the process's own, and an accepted transcript succeeded exactly when
  the launcher exited with 0.
\<close>

theorem accepted_exit_code:
  assumes "parse_inert_native_transcript records rc eof pid = Inr t"
  shows "exit_code_value (nt_launcher_exit_code t) = rc \<and> (nt_succeeded t \<longleftrightarrow> rc = 0)"
proof (cases "nt_succeeded t")
  case True
  then show ?thesis
    using assms[unfolded parse_iff] by (auto simp: accepted_def success_transcript_def error_transcript_def Let_def)
next
  case False
  then obtain frames where "failure_run rc pid frames t" using error_run_of[OF assms] by blast
  then obtain r where r: "rc = exit_code_value (bpe_exit_for_reason r)" "nt_launcher_exit_code t = bpe_exit_for_reason r"
    by (rule failure_run_mask)
  have "bpe_exit_for_reason r \<noteq> EXIT_OK" by (cases r) (simp_all add: bpe_exit_for_reason_def)
  then have "rc \<noteq> 0" using r(1) by (cases "bpe_exit_for_reason r") simp_all
  then show ?thesis using r False by simp
qed

section \<open>Concrete transcripts\<close>

definition sample_failure :: "frame list" where
  "sample_failure = take 1 (success_run 100 101 1) @ [error_frame 1 R_TIMEOUT S_CHILD_READY 0 0xc3]"

lemma sample_error_check: "error_frame_check (error_frame 1 R_TIMEOUT S_CHILD_READY 0 0xc3) 1 = None"
  by (simp add: error_frame_check_def error_frame_def error_grammar_def zero_errno_error_keys_def
      zero_errno_error_states_def nonzero_errno_error_states_def ACHIEVED_RESULT_MASK_def flag_defs Let_def)

lemma sample_failure_parsed:
  "parse_inert_native_transcript (map record_of sample_failure) 67 True 100 =
     Inr (error_transcript sample_failure 100 EXIT_TIMEOUT)"
proof -
  have run: "failure_run 67 100 sample_failure (error_transcript sample_failure 100 EXIT_TIMEOUT)"
    unfolding failure_run_def sample_failure_def
    using sample_error_check
    by (intro exI[of _ 1] exI[of _ 100] exI[of _ 101] exI[of _ R_TIMEOUT] exI[of _ S_CHILD_READY] exI[of _ 0]
        exI[of _ "0xc3"]) (simp add: bpe_exit_for_reason_def valid_pid_def LINUX_MAX_PID_def PROTOCOL_MAX_ERRNO_def)
  show ?thesis unfolding parse_iff using failure_run_accepted[OF run] by blast
qed

theorem accepted_mask_causal_witness:
  "causal (nt_achieved_result_mask (error_transcript sample_failure 100 EXIT_TIMEOUT)) \<and>
   cleaned_up (nt_achieved_result_mask (error_transcript sample_failure 100 EXIT_TIMEOUT))"
proof -
  have "nt_failure_reason (error_transcript sample_failure 100 EXIT_TIMEOUT) = Some R_TIMEOUT"
    by (simp add: error_transcript_def sample_failure_def error_frame_def Let_def)
  then show ?thesis using accepted_mask_causal[OF sample_failure_parsed] by simp
qed

theorem accepted_exit_code_witness:
  "exit_code_value (nt_launcher_exit_code (error_transcript sample_failure 100 EXIT_TIMEOUT)) = 67 \<and>
   \<not> nt_succeeded (error_transcript sample_failure 100 EXIT_TIMEOUT)"
  using accepted_exit_code[OF sample_failure_parsed] by simp

end
