(* ===== verification/Base64url.thy ===== *)
theory Base64url
  imports Bytes
begin

text \<open>
  Unpadded base64url as \<open>dispatch.py\<close> and \<open>inert_fixture.py\<close> use it for public keys and signatures.
  \<open>b64_encode\<close> is \<open>base64.urlsafe_b64encode(...).rstrip(b"=")\<close>, \<open>b64_decode\<close> is
  \<open>base64.b64decode(value + padding, altchars=b"-_", validate=True)\<close> with the padding the caller
  computes: a group of two or three characters ends the text, a single one is an error, and the bits of
  the last character that no byte uses are ignored.  Those ignored bits are why the code re-encodes; the
  checked decoder interprets the contract \<open>codec\<close>.
\<close>

definition b64_char :: "nat \<Rightarrow> char" where
  "b64_char n = (if n < 26 then char_of (65 + n) else if n < 52 then char_of (71 + n)
     else if n < 62 then char_of (n - 4) else if n = 62 then CHR ''-'' else CHR ''_'')"

definition b64_val :: "char \<Rightarrow> nat option" where
  "b64_val c = (if is_upper c then Some (of_char c - 65) else if is_lower c then Some (of_char c - 71)
     else if is_digit c then Some (of_char c + 4)
     else if c = CHR ''-'' then Some 62 else if c = CHR ''_'' then Some 63 else None)"

definition b64_alphabet :: "char \<Rightarrow> bool" where
  "b64_alphabet c \<longleftrightarrow> b64_val c \<noteq> None"

fun b64_encode :: "byte list \<Rightarrow> string" where
  "b64_encode [] = []"
| "b64_encode [a] = (let n = unat a in [b64_char (n div 4), b64_char (16 * (n mod 4))])"
| "b64_encode [a, b] = (let n = 256 * unat a + unat b in
     [b64_char (n div 1024), b64_char (n div 16 mod 64), b64_char (4 * (n mod 16))])"
| "b64_encode (a # b # c # bs) = (let n = 65536 * unat a + 256 * unat b + unat c in
     [b64_char (n div 262144), b64_char (n div 4096 mod 64), b64_char (n div 64 mod 64), b64_char (n mod 64)]
     @ b64_encode bs)"

definition b64_error :: exn where
  "b64_error = Exn ''binascii.Error'' ''Invalid base64-encoded string''"

fun b64_decode :: "string \<Rightarrow> byte list result" where
  "b64_decode [] = Inr []"
| "b64_decode [x] = Inl b64_error"
| "b64_decode [x, y] = (case (b64_val x, b64_val y) of
     (Some i, Some j) \<Rightarrow> Inr [word_of_nat ((64 * i + j) div 16)] | _ \<Rightarrow> Inl b64_error)"
| "b64_decode [x, y, z] = (case (b64_val x, b64_val y, b64_val z) of
     (Some i, Some j, Some k) \<Rightarrow> let n = (4096 * i + 64 * j + k) div 4 in
        Inr [word_of_nat (n div 256), word_of_nat (n mod 256)] | _ \<Rightarrow> Inl b64_error)"
| "b64_decode (x # y # z # w # cs) = (case (b64_val x, b64_val y, b64_val z, b64_val w) of
     (Some i, Some j, Some k, Some l) \<Rightarrow> let n = 262144 * i + 4096 * j + 64 * k + l in
        rbind (b64_decode cs) (\<lambda>bs.
          Inr (word_of_nat (n div 65536) # word_of_nat (n div 256 mod 256) # word_of_nat (n mod 256) # bs))
   | _ \<Rightarrow> Inl b64_error)"

text \<open>\<open>_decode_base64url\<close>.\<close>

definition decode_base64url :: "nat \<Rightarrow> string \<Rightarrow> string \<Rightarrow> byte list result" where
  "decode_base64url expected_bytes label v =
     (if v = [] \<or> \<not> list_all b64_alphabet v \<or> CHR ''='' \<in> set v
        then Inl (Exn ''ValueError'' (label @ '' must be unpadded base64url''))
      else case b64_decode v of
        Inl e \<Rightarrow> Inl (Exn ''ValueError'' (label @ '' must be unpadded base64url''))
      | Inr decoded \<Rightarrow>
          if length decoded \<noteq> expected_bytes
            then Inl (Exn ''ValueError'' (label @ '' has the wrong decoded length''))
          else if b64_encode decoded \<noteq> v
            then Inl (Exn ''ValueError'' (label @ '' is not canonical base64url''))
          else Inr decoded)"

section \<open>Round trips\<close>

lemma b64_val_char: "n < 64 \<Longrightarrow> b64_val (b64_char n) = Some n"
proof -
  assume "n < 64"
  then consider "n < 26" | "26 \<le> n" "n < 52" | "52 \<le> n" "n < 62" | "n = 62" | "n = 63" by linarith
  then show ?thesis
    by cases (auto simp: b64_val_def b64_char_def is_upper_def is_lower_def is_digit_def less_eq_char_def)
qed

lemma b64_char_val: "b64_val c = Some n \<Longrightarrow> n < 64 \<and> b64_char n = c"
  by (auto simp: b64_val_def b64_char_def is_upper_def is_lower_def is_digit_def less_eq_char_def split: if_splits)

lemma b64_char_inj: "m < 64 \<Longrightarrow> n < 64 \<Longrightarrow> b64_char m = b64_char n \<longleftrightarrow> m = n"
  using b64_val_char by (metis option.inject)

lemma byte_of_nat: "n < 256 \<Longrightarrow> unat (word_of_nat n :: byte) = n"
  by (simp add: unat_of_nat)

lemma digits64: "64 * (n div 64 mod 64) + n mod 64 = n mod (4096 :: nat)"
  using mod_mult2_eq[of n 64 64] by simp

lemma byte_of_unat [simp]: "(word_of_nat (unat b) :: byte) = b"
  by simp

lemma bytes3:
  fixes a b c :: nat
  assumes "b < 256" "c < 256"
  shows "(65536 * a + 256 * b + c) div 65536 = a" "(65536 * a + 256 * b + c) div 256 mod 256 = b"
    "(65536 * a + 256 * b + c) mod 256 = c"
proof -
  have q: "(65536 * a + 256 * b + c) div 256 = 256 * a + b"
    using assms(2) div_mult_self4[of 256 c "256 * a + b"] by (simp add: algebra_simps)
  show "(65536 * a + 256 * b + c) div 256 mod 256 = b" using assms(1) by (simp add: q)
  show "(65536 * a + 256 * b + c) div 65536 = a"
    using assms(1) div_mult2_eq[of "65536 * a + 256 * b + c" 256 256] by (simp add: q)
  have "(c + 256 * (256 * a + b)) mod 256 = c" using assms(2) by (simp only: mod_mult_self2) simp
  then show "(65536 * a + 256 * b + c) mod 256 = c" by (simp add: algebra_simps)
qed

lemma b64_split3:
  fixes n :: nat
  shows "262144 * (n div 262144) + 4096 * (n div 4096 mod 64) + 64 * (n div 64 mod 64) + n mod 64 = n"
proof -
  have "n div 262144 = n div 4096 div 64" by (simp add: div_mult2_eq[symmetric])
  then have "64 * (n div 262144) + n div 4096 mod 64 = n div 4096" by simp
  then show ?thesis using digits64[of n] mult_div_mod_eq[of 4096 n] by linarith
qed

lemma bytes_split: "65536 * (n div 65536) + 256 * (n div 256 mod 256) + n mod 256 = (n :: nat)"
proof -
  have "n div 65536 = n div 256 div 256" by (simp add: div_mult2_eq[symmetric])
  then have "256 * (n div 65536) + n div 256 mod 256 = n div 256" by simp
  then show ?thesis using mult_div_mod_eq[of 256 n] by linarith
qed

lemma b64_split2:
  fixes n :: nat
  shows "(4096 * (n div 1024) + 64 * (n div 16 mod 64) + 4 * (n mod 16)) div 4 = n"
proof -
  have "n div 1024 = n div 16 div 64" by (simp add: div_mult2_eq[symmetric])
  then have "64 * (n div 1024) + n div 16 mod 64 = n div 16" by simp
  moreover have "16 * (n div 16) + n mod 16 = n" by simp
  ultimately have "4096 * (n div 1024) + 64 * (n div 16 mod 64) + 4 * (n mod 16) = 4 * n" by linarith
  then show ?thesis by simp
qed

lemma b64_split1: "(64 * (n div 4) + 16 * (n mod 4)) div 16 = (n :: nat)"
proof -
  have "64 * (n div 4) + 16 * (n mod 4) = 16 * n" using mult_div_mod_eq[of 4 n] by linarith
  then show ?thesis by simp
qed

lemma b64_decode_encode: "b64_decode (b64_encode bs) = Inr bs"
proof (induction bs rule: b64_encode.induct)
  case (2 a)
  have "unat a < 256" by (rule unat_byte_less)
  then show ?case by (simp add: Let_def b64_val_char b64_split1)
next
  case (3 a b)
  let ?n = "256 * unat a + unat b"
  have "?n < 65536" using unat_byte_less[of a] unat_byte_less[of b] by linarith
  then have v: "b64_val (b64_char (?n div 1024)) = Some (?n div 1024)"
    "b64_val (b64_char (?n div 16 mod 64)) = Some (?n div 16 mod 64)"
    "b64_val (b64_char (4 * (?n mod 16))) = Some (4 * (?n mod 16))"
    by (intro b64_val_char; simp)+
  have "?n div 256 = unat a" "?n mod 256 = unat b" using bytes3[of 0 "unat b" 0] unat_byte_less[of b] by simp_all
  then show ?case
    by (simp only: b64_encode.simps Let_def b64_decode.simps v option.case prod.case b64_split2 byte_of_unat)
next
  case (4 a b c bs)
  let ?n = "65536 * unat a + 256 * unat b + unat c"
  have "?n < 16777216" using unat_byte_less[of a] unat_byte_less[of b] unat_byte_less[of c] by linarith
  then have v: "b64_val (b64_char (?n div 262144)) = Some (?n div 262144)"
    "b64_val (b64_char (?n div 4096 mod 64)) = Some (?n div 4096 mod 64)"
    "b64_val (b64_char (?n div 64 mod 64)) = Some (?n div 64 mod 64)"
    "b64_val (b64_char (?n mod 64)) = Some (?n mod 64)"
    by (intro b64_val_char; simp)+
  show ?case
    by (simp only: b64_encode.simps Let_def append_Cons append_Nil b64_decode.simps v option.case prod.case
        b64_split3 4 rbind.simps bytes3[OF unat_byte_less unat_byte_less] byte_of_unat)
qed simp

text \<open>The converse needs the ignored bits of the last group to be zero.\<close>

fun tail_canonical :: "string \<Rightarrow> bool" where
  "tail_canonical [] = True"
| "tail_canonical [x] = False"
| "tail_canonical [x, y] = (case b64_val y of Some j \<Rightarrow> j mod 16 = 0 | None \<Rightarrow> False)"
| "tail_canonical [x, y, z] = (case b64_val z of Some k \<Rightarrow> k mod 4 = 0 | None \<Rightarrow> False)"
| "tail_canonical (x # y # z # w # cs) = tail_canonical cs"

lemma b64_group3:
  fixes i j k l :: nat
  assumes "i < 64" "j < 64" "k < 64" "l < 64"
  defines "n \<equiv> 262144 * i + 4096 * j + 64 * k + l"
  shows "n div 262144 = i" "n div 4096 mod 64 = j" "n div 64 mod 64 = k" "n mod 64 = l" "n < 16777216"
proof -
  have l: "n mod 64 = l" and k: "n div 64 = 4096 * i + 64 * j + k"
    using assms(4) div_mult_self4[of 64 l "4096 * i + 64 * j + k"] mod_mult_self4[of 64 "4096 * i + 64 * j + k" l]
    by (simp_all add: n_def algebra_simps)
  have j: "n div 4096 = 64 * i + j"
    using assms(3) div_mult2_eq[of n 64 64] div_mult_self4[of 64 k "64 * i + j"] by (simp add: k algebra_simps)
  have i: "n div 262144 = i"
    using assms(2) div_mult2_eq[of n 4096 64] by (simp add: j)
  have "(4096 * i + 64 * j + k) mod 64 = k"
    using assms(3) mod_mult_self4[of 64 "64 * i + j" k] by (simp add: algebra_simps)
  then show "n div 262144 = i" "n div 4096 mod 64 = j" "n div 64 mod 64 = k" "n mod 64 = l" "n < 16777216"
    using l k j i assms by simp_all
qed

lemma b64_val_alphabet: "b64_alphabet c \<longleftrightarrow> (\<exists>n < 64. c = b64_char n)"
  using b64_char_val b64_val_char by (auto simp: b64_alphabet_def)

lemma canonical_is_encoding: "list_all b64_alphabet s \<Longrightarrow> tail_canonical s \<Longrightarrow> \<exists>bs. s = b64_encode bs"
proof (induction s rule: tail_canonical.induct)
  case 1
  show ?case by (rule exI[of _ "[]"]) simp
next
  case (3 x y)
  then obtain i j where ij: "i < 64" "x = b64_char i" "j < 64" "y = b64_char j" "j mod 16 = 0"
    by (auto simp: b64_val_alphabet b64_val_char)
  then obtain m where m: "j = 16 * m" by auto
  then have "b64_encode [word_of_nat (4 * i + m)] = [x, y]"
    using ij by (auto simp: Let_def byte_of_nat simp del: of_nat_add of_nat_mult)
  then show ?case by metis
next
  case (4 x y z)
  then obtain i j k where ijk: "i < 64" "x = b64_char i" "j < 64" "y = b64_char j" "k < 64" "z = b64_char k" "k mod 4 = 0"
    by (auto simp: b64_val_alphabet b64_val_char)
  then obtain m where m: "k = 4 * m" by auto
  let ?n = "1024 * i + 16 * j + m"
  have n: "?n < 65536" "?n div 1024 = i" "?n div 16 mod 64 = j" "?n mod 16 = m"
  proof -
    show "?n < 65536" using ijk m by simp
    have q: "?n div 16 = 64 * i + j" using m ijk div_mult_self4[of 16 m "64 * i + j"] by (simp add: algebra_simps)
    show "?n div 16 mod 64 = j" using ijk by (simp add: q)
    show "?n div 1024 = i" using ijk div_mult2_eq[of ?n 16 64] by (simp add: q)
    show "?n mod 16 = m" using m ijk mod_mult_self4[of 16 "64 * i + j" m] by (simp add: algebra_simps)
  qed
  have u: "unat (word_of_nat (?n div 256) :: byte) = ?n div 256" "unat (word_of_nat (?n mod 256) :: byte) = ?n mod 256"
    using n(1) by (intro byte_of_nat; simp)+
  have "b64_encode [word_of_nat (?n div 256), word_of_nat (?n mod 256)] = [x, y, z]"
    by (simp only: b64_encode.simps Let_def u mult_div_mod_eq n) (simp add: ijk m)
  then show ?case by metis
next
  case (5 x y z w cs)
  then obtain i j k l where v: "i < 64" "x = b64_char i" "j < 64" "y = b64_char j" "k < 64" "z = b64_char k"
      "l < 64" "w = b64_char l"
    by (auto simp: b64_val_alphabet)
  obtain bs where bs: "cs = b64_encode bs" using 5 by auto
  let ?n = "262144 * i + 4096 * j + 64 * k + l"
  note g = b64_group3[OF v(1,3,5,7)]
  have u: "unat (word_of_nat (?n div 65536) :: byte) = ?n div 65536"
    "unat (word_of_nat (?n div 256 mod 256) :: byte) = ?n div 256 mod 256"
    "unat (word_of_nat (?n mod 256) :: byte) = ?n mod 256"
    using g(5) by (intro byte_of_nat; simp)+
  have "b64_encode (word_of_nat (?n div 65536) # word_of_nat (?n div 256 mod 256) # word_of_nat (?n mod 256) # bs)
      = x # y # z # w # cs"
    by (simp only: b64_encode.simps Let_def u bytes_split g bs v append_Cons append_Nil)
  then show ?case by metis
qed simp

lemma b64_encode_alphabet: "list_all b64_alphabet (b64_encode bs) \<and> tail_canonical (b64_encode bs)"
proof (induction bs rule: b64_encode.induct)
  case (2 a)
  then show ?case using unat_byte_less[of a] by (auto simp: Let_def b64_alphabet_def b64_val_char)
next
  case (3 a b)
  have "256 * unat a + unat b < 65536" using unat_byte_less[of a] unat_byte_less[of b] by linarith
  then have "(256 * unat a + unat b) div 1024 < 64" by simp
  then show ?case by (simp add: Let_def b64_alphabet_def b64_val_char)
next
  case (4 a b c bs)
  have "65536 * unat a + 256 * unat b + unat c < 16777216"
    using unat_byte_less[of a] unat_byte_less[of b] unat_byte_less[of c] by linarith
  then have "(65536 * unat a + 256 * unat b + unat c) div 262144 < 64" by simp
  then show ?case using 4 by (simp add: Let_def b64_alphabet_def b64_val_char)
qed simp

lemma b64_encode_length: "length (b64_encode bs) = (4 * length bs + 2) div 3"
  by (induction bs rule: b64_encode.induct) (auto simp: Let_def)

lemma b64_encode_Nil [simp]: "b64_encode bs = [] \<longleftrightarrow> bs = []"
  by (cases bs rule: b64_encode.cases) (simp_all add: Let_def)

lemma b64_encode_no_padding: "CHR ''='' \<notin> set (b64_encode bs)"
proof -
  have "\<not> b64_alphabet (CHR ''='')"
    by (simp add: b64_alphabet_def b64_val_def is_upper_def is_lower_def is_digit_def)
  then show ?thesis using b64_encode_alphabet[of bs] unfolding list_all_iff by blast
qed

lemma decode_base64url_Inr:
  "decode_base64url n label v = Inr bs \<longleftrightarrow> (length bs = n \<and> bs \<noteq> []) \<and> v = b64_encode bs"
proof
  assume "decode_base64url n label v = Inr bs"
  then have "v \<noteq> []" "b64_decode v = Inr bs" "length bs = n" "b64_encode bs = v"
    by (auto simp: decode_base64url_def split: if_splits sum.splits)
  then show "(length bs = n \<and> bs \<noteq> []) \<and> v = b64_encode bs" by auto
next
  assume "(length bs = n \<and> bs \<noteq> []) \<and> v = b64_encode bs"
  then show "decode_base64url n label v = Inr bs"
    using b64_encode_alphabet[of bs] b64_encode_no_padding[of bs]
    by (simp add: decode_base64url_def b64_decode_encode)
qed

interpretation b64: codec b64_encode "decode_base64url n label" "\<lambda>bs. length bs = n \<and> bs \<noteq> []" for n label
  by unfold_locales (auto simp: decode_base64url_Inr)

section \<open>The field patterns\<close>

text \<open>
  \<open>_PUBLIC_KEY_BASE64URL_PATTERN\<close> and \<open>_SIGNATURE_BASE64URL_PATTERN\<close>, with the lengths of their fields:
  the alphabet, and a last character whose unused bits are zero.
\<close>

definition public_key_pattern :: "string \<Rightarrow> bool" where
  "public_key_pattern s \<longleftrightarrow> length s = 43 \<and> list_all b64_alphabet (butlast s) \<and> last s \<in> set ''AEIMQUYcgkosw048''"

definition signature_pattern :: "string \<Rightarrow> bool" where
  "signature_pattern s \<longleftrightarrow> length s = 86 \<and> list_all b64_alphabet (butlast s) \<and> last s \<in> set ''AQgw''"

lemma pattern_alphabet: "set ''AEIMQUYcgkosw048'' \<subseteq> Collect b64_alphabet" "set ''AQgw'' \<subseteq> Collect b64_alphabet"
  by (simp_all add: b64_alphabet_def b64_val_def is_upper_def is_lower_def is_digit_def)

lemma b64_val_inj: "b64_val c = Some n \<Longrightarrow> b64_val d = Some n \<Longrightarrow> c = d"
  using b64_char_val by metis

lemma pattern_values:
  "map b64_val ''AEIMQUYcgkosw048'' = map (\<lambda>m. Some (4 * m)) [0..<16]"
  "map b64_val ''AQgw'' = map (\<lambda>m. Some (16 * m)) [0..<4]"
  by (simp_all add: b64_val_def is_upper_def is_lower_def is_digit_def upt_rec)

lemma last_values:
  assumes "b64_alphabet c"
  shows "c \<in> set ''AEIMQUYcgkosw048'' \<longleftrightarrow> the (b64_val c) mod 4 = 0"
    and "c \<in> set ''AQgw'' \<longleftrightarrow> the (b64_val c) mod 16 = 0"
proof -
  obtain n where n: "b64_val c = Some n" "n < 64" using assms b64_char_val by (auto simp: b64_alphabet_def)
  have key: "c \<in> set cs \<longleftrightarrow> n mod q = 0"
    if "map b64_val cs = map (\<lambda>m. Some (q * m)) [0..<r]" "q * r = 64" for cs :: string and q r :: nat
  proof -
    have im: "b64_val ` set cs = (\<lambda>m. Some (q * m)) ` {0..<r}" using arg_cong[OF that(1), of set] by simp
    have "c \<in> set cs \<longleftrightarrow> Some n \<in> b64_val ` set cs"
      using n(1) b64_val_inj by (metis imageE imageI)
    also have "\<dots> \<longleftrightarrow> (\<exists>m < r. n = q * m)" by (auto simp: im)
    also have "\<dots> \<longleftrightarrow> n mod q = 0"
    proof
      assume "n mod q = 0"
      then obtain m where "n = q * m" by auto
      moreover have "m < r" using n(2) that(2) \<open>n = q * m\<close> by (metis mult_less_cancel1)
      ultimately show "\<exists>m < r. n = q * m" by blast
    qed auto
    finally show ?thesis .
  qed
  show "c \<in> set ''AEIMQUYcgkosw048'' \<longleftrightarrow> the (b64_val c) mod 4 = 0"
    "c \<in> set ''AQgw'' \<longleftrightarrow> the (b64_val c) mod 16 = 0"
    unfolding n(1) option.sel by (rule key[OF pattern_values(1)], simp) (rule key[OF pattern_values(2)], simp)
qed

lemma tail_canonical_last:
  "list_all b64_alphabet s \<Longrightarrow> length s mod 4 \<in> {2, 3} \<Longrightarrow>
   tail_canonical s \<longleftrightarrow> the (b64_val (last s)) mod (if length s mod 4 = 2 then 16 else 4) = 0"
proof (induction s rule: tail_canonical.induct)
  case (5 x y z w cs)
  have "length (x # y # z # w # cs) mod 4 = length cs mod 4" by simp
  moreover have "cs \<noteq> []" using 5(3) by auto
  ultimately show ?case using 5 by simp
qed (auto simp: b64_alphabet_def)

text \<open>The patterns admit exactly the canonical encodings of 32 and of 64 bytes.\<close>

lemma encoded_length_less: "a < b \<Longrightarrow> (4 * a + 2) div 3 < (4 * b + 2) div (3 :: nat)"
  using div_le_mono[of "4 * a + 2 + 3" "4 * b + 2" 3] by simp

lemma encoded_length_inj: "(4 * a + 2) div 3 = (4 * b + 2) div (3 :: nat) \<Longrightarrow> a = b"
  using encoded_length_less[of a b] encoded_length_less[of b a] by (cases a b rule: linorder_cases) auto

lemma pattern_exact:
  assumes "n \<noteq> 0" "length s = (4 * n + 2) div 3" and "length s mod 4 = 2 \<and> cs = ''AQgw'' \<or> length s mod 4 = 3 \<and> cs = ''AEIMQUYcgkosw048''"
  shows "list_all b64_alphabet (butlast s) \<and> last s \<in> set cs \<longleftrightarrow> (\<exists>bs. length bs = n \<and> s = b64_encode bs)"
proof -
  have ne: "s \<noteq> []" using assms(1,2) by auto
  then have split: "list_all b64_alphabet s \<longleftrightarrow> list_all b64_alphabet (butlast s) \<and> b64_alphabet (last s)"
    by (cases s rule: rev_cases) auto
  have al: "last s \<in> set cs \<Longrightarrow> b64_alphabet (last s)" using assms(3) pattern_alphabet by blast
  have "last s \<in> set cs \<longleftrightarrow> tail_canonical s" if "list_all b64_alphabet s"
    using assms(3)
  proof
    assume "length s mod 4 = 2 \<and> cs = ''AQgw''"
    then show ?thesis using tail_canonical_last[OF that] last_values(2)[of "last s"] that split by simp
  next
    assume "length s mod 4 = 3 \<and> cs = ''AEIMQUYcgkosw048''"
    then show ?thesis using tail_canonical_last[OF that] last_values(1)[of "last s"] that split by simp
  qed
  then have "list_all b64_alphabet (butlast s) \<and> last s \<in> set cs \<longleftrightarrow> list_all b64_alphabet s \<and> tail_canonical s"
    using al split by blast
  also have "\<dots> \<longleftrightarrow> (\<exists>bs. s = b64_encode bs)" using canonical_is_encoding b64_encode_alphabet by blast
  also have "\<dots> \<longleftrightarrow> (\<exists>bs. length bs = n \<and> s = b64_encode bs)"
  proof -
    have "length bs = n" if "s = b64_encode bs" for bs
      using b64_encode_length[of bs] assms(2) that by (metis encoded_length_inj)
    then show ?thesis by blast
  qed
  finally show ?thesis .
qed

lemma signature_pattern_iff: "signature_pattern s \<longleftrightarrow> (\<exists>bs. length bs = 64 \<and> s = b64_encode bs)"
  using pattern_exact[of 64 s "''AQgw''"] by (auto simp: signature_pattern_def b64_encode_length)

lemma public_key_pattern_iff: "public_key_pattern s \<longleftrightarrow> (\<exists>bs. length bs = 32 \<and> s = b64_encode bs)"
  using pattern_exact[of 32 s "''AEIMQUYcgkosw048''"] by (auto simp: public_key_pattern_def b64_encode_length)

end
