(* ===== verification/Dispatch.thy ===== *)
theory Dispatch
  imports Models Base64url
begin

text \<open>
  \<open>dispatch.py\<close>: signed, one-shot dispatch admission.  The first part has the data contracts
  (execution profile, authorization payload, signed envelope, trust store, receipt), the second the
  verification of an authorization, the third the durable claim ledger.

  \<^item> Ed25519 (\<open>cryptography\<close>) is the parameter \<open>ed25519 key signature message\<close>: whether the key is
    accepted and the signature verifies.
  \<^item> The wall clock and the claim nonce are arguments of the operations that read them.
  \<^item> The SQLite database is the record \<open>ledger\<close>: the rows of \<open>dispatch_claims\<close> and the high-water
    mark of \<open>dispatch_state\<close>.  \<open>claims_insert\<close> is the table's declaration: primary key, unique
    columns, foreign key and checks.  A statement may fail with \<open>sqlite3.Error\<close>: the argument
    \<open>fault\<close> says which kinds do; an uncommitted transaction leaves no trace.
\<close>

abbreviation DAE :: "string \<Rightarrow> exn" where
  "DAE m \<equiv> Exn ''DispatchAuthorizationError'' m"

abbreviation DLE :: "string \<Rightarrow> exn" where
  "DLE m \<equiv> Exn ''DispatchLedgerError'' m"

definition MAX_AUTHORIZATION_LIFETIME_SECONDS :: int where
  "MAX_AUTHORIZATION_LIFETIME_SECONDS = 15 * 60"

definition DISPATCH_SIGNING_DOMAIN :: "byte list" where
  "DISPATCH_SIGNING_DOMAIN = utf8 ''BPE'' @ [0] @ utf8 ''dispatch-authorization'' @ [0] @ utf8 ''v1'' @ [0]"

definition zero_digest :: string where
  "zero_digest = replicate 64 CHR ''0''"

section \<open>Execution profiles\<close>

record resource_profile =
  er_profile_id :: string
  er_wall_timeout_ms :: int
  er_cpu_time_seconds :: int
  er_memory_bytes :: int
  er_pids_max :: int
  er_open_files_max :: int
  er_file_size_bytes :: int
  er_stack_bytes :: int
  er_stdout_bytes :: int
  er_stderr_bytes :: int
  er_tmpfs_bytes :: int
  er_tmpfs_inodes :: int

definition int_in :: "int \<Rightarrow> int \<Rightarrow> int \<Rightarrow> bool" where
  "int_in lo hi x \<longleftrightarrow> lo \<le> x \<and> x \<le> hi"

definition resource_profile_check :: "resource_profile \<Rightarrow> exn option" where
  "resource_profile_check p = raises
     [(\<not> stable_id (er_profile_id p), VE ''profile_id''),
      (\<not> int_in 100 600000 (er_wall_timeout_ms p), VE ''wall_timeout_ms''),
      (\<not> int_in 1 600 (er_cpu_time_seconds p), VE ''cpu_time_seconds''),
      (\<not> int_in (64 * 1024 * 1024) (64 * 1024 ^ 3) (er_memory_bytes p), VE ''memory_bytes''),
      (\<not> int_in 1 4096 (er_pids_max p), VE ''pids_max''),
      (\<not> int_in 8 65536 (er_open_files_max p), VE ''open_files_max''),
      (\<not> int_in 1024 (1024 ^ 3) (er_file_size_bytes p), VE ''file_size_bytes''),
      (\<not> int_in (64 * 1024) (64 * 1024 ^ 2) (er_stack_bytes p), VE ''stack_bytes''),
      (\<not> int_in 0 (16 * 1024 ^ 2) (er_stdout_bytes p), VE ''stdout_bytes''),
      (\<not> int_in 0 (16 * 1024 ^ 2) (er_stderr_bytes p), VE ''stderr_bytes''),
      (\<not> int_in (1024 ^ 2) (16 * 1024 ^ 3) (er_tmpfs_bytes p), VE ''tmpfs_bytes''),
      (\<not> int_in 16 1000000 (er_tmpfs_inodes p), VE ''tmpfs_inodes''),
      (er_cpu_time_seconds p * 1000 > er_wall_timeout_ms p,
        VE ''CPU time cannot exceed the whole wall-clock limit''),
      (er_stack_bytes p > er_memory_bytes p, VE ''stack limit cannot exceed the memory limit''),
      (er_file_size_bytes p > er_tmpfs_bytes p, VE ''one file cannot exceed the entire tmpfs limit'')]"

definition resource_profile_json :: "resource_profile \<Rightarrow> json" where
  "resource_profile_json p = JObj
     [(''schema_version'', JStr ''bpe.execution-resource-profile.v1''),
      (''profile_id'', JStr (er_profile_id p)),
      (''wall_timeout_ms'', JInt (er_wall_timeout_ms p)),
      (''cpu_time_seconds'', JInt (er_cpu_time_seconds p)),
      (''memory_bytes'', JInt (er_memory_bytes p)), (''swap_bytes'', JInt 0),
      (''pids_max'', JInt (er_pids_max p)), (''open_files_max'', JInt (er_open_files_max p)),
      (''file_size_bytes'', JInt (er_file_size_bytes p)), (''stack_bytes'', JInt (er_stack_bytes p)),
      (''stdout_bytes'', JInt (er_stdout_bytes p)), (''stderr_bytes'', JInt (er_stderr_bytes p)),
      (''tmpfs_bytes'', JInt (er_tmpfs_bytes p)), (''tmpfs_inodes'', JInt (er_tmpfs_inodes p)),
      (''network_enabled'', JBool False), (''core_dumps_enabled'', JBool False)]"

record snapshot_components =
  sn_vm_state_sha256 :: string
  sn_memory_sha256 :: string
  sn_kernel_image_sha256 :: string
  sn_kernel_config_sha256 :: string
  sn_kernel_btf_sha256 :: string
  sn_rootfs_sha256 :: string
  sn_block_device_config_sha256 :: string
  sn_vsock_config_sha256 :: string

definition snapshot_components_ok :: "snapshot_components \<Rightarrow> bool" where
  "snapshot_components_ok s \<longleftrightarrow>
     sha256_ok (sn_vm_state_sha256 s) \<and> sha256_ok (sn_memory_sha256 s) \<and>
     sha256_ok (sn_kernel_image_sha256 s) \<and> sha256_ok (sn_kernel_config_sha256 s) \<and>
     sha256_ok (sn_kernel_btf_sha256 s) \<and> sha256_ok (sn_rootfs_sha256 s) \<and>
     sha256_ok (sn_block_device_config_sha256 s) \<and> sha256_ok (sn_vsock_config_sha256 s)"

definition snapshot_components_json :: "snapshot_components \<Rightarrow> json" where
  "snapshot_components_json s = JObj
     [(''vm_state_sha256'', JStr (sn_vm_state_sha256 s)), (''memory_sha256'', JStr (sn_memory_sha256 s)),
      (''kernel_image_sha256'', JStr (sn_kernel_image_sha256 s)),
      (''kernel_config_sha256'', JStr (sn_kernel_config_sha256 s)),
      (''kernel_btf_sha256'', JStr (sn_kernel_btf_sha256 s)),
      (''rootfs_sha256'', JStr (sn_rootfs_sha256 s)),
      (''block_device_config_sha256'', JStr (sn_block_device_config_sha256 s)),
      (''vsock_config_sha256'', JStr (sn_vsock_config_sha256 s))]"

record execution_profile =
  ep_profile_id :: string
  ep_worker_pool_audience :: string
  ep_environment :: environment
  ep_environment_sha256 :: string
  ep_resources :: resource_profile
  ep_resource_profile_sha256 :: string
  ep_firecracker_version :: string
  ep_firecracker_sha256 :: string
  ep_jailer_sha256 :: string
  ep_guest_agent_sha256 :: string
  ep_seccomp_policy_sha256 :: string
  ep_jailer_config_sha256 :: string
  ep_snapshot :: snapshot_components
  ep_snapshot_components_sha256 :: string
  ep_host_kernel_release :: string
  ep_host_kernel_sha256 :: string
  ep_host_architecture :: string
  ep_cpu_vendor :: string
  ep_cpu_model :: string
  ep_cpu_template :: "string option"
  ep_cpu_features :: "string list"
  ep_snapshot_compatibility_profile :: string

definition execution_profile_check :: "hasher \<Rightarrow> execution_profile \<Rightarrow> exn option" where
  "execution_profile_check h p = raises
     [(\<not> stable_id (ep_profile_id p), VE ''profile_id''),
      (\<not> stable_id (ep_worker_pool_audience p), VE ''worker_pool_audience''),
      (environment_check (ep_environment p) \<noteq> None, VE ''environment''),
      (\<not> sha256_ok (ep_environment_sha256 p), VE ''environment_sha256''),
      (resource_profile_check (ep_resources p) \<noteq> None, VE ''resources''),
      (\<not> sha256_ok (ep_resource_profile_sha256 p), VE ''resource_profile_sha256''),
      (\<not> text_ok 1 128 (ep_firecracker_version p), VE ''firecracker_version''),
      (\<not> sha256_ok (ep_firecracker_sha256 p), VE ''firecracker_sha256''),
      (\<not> sha256_ok (ep_jailer_sha256 p), VE ''jailer_sha256''),
      (\<not> sha256_ok (ep_guest_agent_sha256 p), VE ''guest_agent_sha256''),
      (\<not> sha256_ok (ep_seccomp_policy_sha256 p), VE ''seccomp_policy_sha256''),
      (\<not> sha256_ok (ep_jailer_config_sha256 p), VE ''jailer_config_sha256''),
      (\<not> snapshot_components_ok (ep_snapshot p), VE ''snapshot''),
      (\<not> sha256_ok (ep_snapshot_components_sha256 p), VE ''snapshot_components_sha256''),
      (\<not> text_ok 1 256 (ep_host_kernel_release p), VE ''host_kernel_release''),
      (\<not> sha256_ok (ep_host_kernel_sha256 p), VE ''host_kernel_sha256''),
      (\<not> stable_id (ep_host_architecture p), VE ''host_architecture''),
      (\<not> stable_id (ep_cpu_vendor p), VE ''cpu_vendor''),
      (\<not> text_ok 1 256 (ep_cpu_model p), VE ''cpu_model''),
      (\<not> opt_ok stable_id (ep_cpu_template p), VE ''cpu_template''),
      (ep_cpu_features p = [] \<or> 256 < length (ep_cpu_features p) \<or> \<not> list_all stable_id (ep_cpu_features p),
        VE ''cpu_features''),
      (\<not> stable_id (ep_snapshot_compatibility_profile p), VE ''snapshot_compatibility_profile''),
      (en_isolation (ep_environment p) \<noteq> I_MICROVM,
        VE ''execution profile v1 requires a microVM environment''),
      (en_snapshot_sha256 (ep_environment p) = None,
        VE ''execution profile environment lacks a snapshot identity''),
      (ep_environment_sha256 p \<noteq> sha256_json h (environment_json (ep_environment p)),
        VE ''execution profile environment digest is inconsistent''),
      (ep_resource_profile_sha256 p \<noteq> sha256_json h (resource_profile_json (ep_resources p)),
        VE ''execution profile resource digest is inconsistent''),
      (en_resource_limits_sha256 (ep_environment p) \<noteq> ep_resource_profile_sha256 p,
        VE ''environment does not bind the typed resource profile''),
      (ep_snapshot_components_sha256 p \<noteq> sha256_json h (snapshot_components_json (ep_snapshot p)),
        VE ''execution profile snapshot-component digest is inconsistent''),
      (en_snapshot_sha256 (ep_environment p) \<noteq> Some (ep_snapshot_components_sha256 p),
        VE ''environment snapshot digest does not bind its components''),
      (sn_kernel_image_sha256 (ep_snapshot p) \<noteq> en_kernel_image_sha256 (ep_environment p) \<or>
         sn_kernel_config_sha256 (ep_snapshot p) \<noteq> en_kernel_config_sha256 (ep_environment p) \<or>
         sn_kernel_btf_sha256 (ep_snapshot p) \<noteq> en_kernel_btf_sha256 (ep_environment p) \<or>
         sn_rootfs_sha256 (ep_snapshot p) \<noteq> en_rootfs_sha256 (ep_environment p),
        VE ''execution profile snapshot differs from its environment''),
      (ep_host_architecture p \<noteq> en_architecture (ep_environment p),
        VE ''execution profile host architecture differs from environment''),
      (sort (remdups (ep_cpu_features p)) \<noteq> ep_cpu_features p, VE ''CPU features must be unique and sorted'')]"

definition execution_profile_json :: "execution_profile \<Rightarrow> json" where
  "execution_profile_json p = JObj
     [(''schema_version'', JStr ''bpe.execution-profile.v1''),
      (''profile_id'', JStr (ep_profile_id p)),
      (''worker_pool_audience'', JStr (ep_worker_pool_audience p)),
      (''environment'', environment_json (ep_environment p)),
      (''environment_sha256'', JStr (ep_environment_sha256 p)),
      (''resources'', resource_profile_json (ep_resources p)),
      (''resource_profile_sha256'', JStr (ep_resource_profile_sha256 p)),
      (''firecracker_version'', JStr (ep_firecracker_version p)),
      (''firecracker_sha256'', JStr (ep_firecracker_sha256 p)),
      (''jailer_sha256'', JStr (ep_jailer_sha256 p)),
      (''guest_agent_sha256'', JStr (ep_guest_agent_sha256 p)),
      (''seccomp_policy_sha256'', JStr (ep_seccomp_policy_sha256 p)),
      (''jailer_config_sha256'', JStr (ep_jailer_config_sha256 p)),
      (''snapshot'', snapshot_components_json (ep_snapshot p)),
      (''snapshot_components_sha256'', JStr (ep_snapshot_components_sha256 p)),
      (''host_kernel_release'', JStr (ep_host_kernel_release p)),
      (''host_kernel_sha256'', JStr (ep_host_kernel_sha256 p)),
      (''host_architecture'', JStr (ep_host_architecture p)),
      (''vcpu_count'', JInt 1), (''smt_enabled'', JBool False),
      (''cpu_vendor'', JStr (ep_cpu_vendor p)), (''cpu_model'', JStr (ep_cpu_model p)),
      (''cpu_template'', jopt JStr (ep_cpu_template p)),
      (''cpu_features'', jarr JStr (ep_cpu_features p)),
      (''snapshot_compatibility_profile'', JStr (ep_snapshot_compatibility_profile p)),
      (''execution_implemented'', JBool False), (''authoritative_ready'', JBool False)]"

section \<open>Authorizations, trust stores and receipts\<close>

datatype dispatch_purpose = P_TRAINING | P_DEVELOPMENT | P_CALIBRATION | P_VALIDATION | P_SEALED_EVAL | P_BENCHMARK

fun purpose_value :: "dispatch_purpose \<Rightarrow> string" where
  "purpose_value P_TRAINING = ''training''"
| "purpose_value P_DEVELOPMENT = ''development''"
| "purpose_value P_CALIBRATION = ''calibration''"
| "purpose_value P_VALIDATION = ''validation''"
| "purpose_value P_SEALED_EVAL = ''sealed_eval''"
| "purpose_value P_BENCHMARK = ''benchmark''"

record payload =
  pl_authorization_id :: string
  pl_dispatch_nonce :: string
  pl_job_manifest_sha256 :: string
  pl_request_sha256 :: string
  pl_experiment_sha256 :: string
  pl_environment_sha256 :: string
  pl_execution_profile_sha256 :: string
  pl_resource_profile_sha256 :: string
  pl_purpose :: dispatch_purpose
  pl_worker_pool_audience :: string
  pl_policy_id :: string
  pl_policy_sha256 :: string
  pl_issued_at_unix :: int
  pl_not_before_unix :: int
  pl_expires_at_unix :: int
  pl_retry_index :: int
  pl_retry_of_authorization_id :: "string option"
  pl_retry_of_claim_sha256 :: "string option"

text \<open>Both parents are absent on a first attempt and present on a retry.\<close>

definition retry_lineage_broken :: "int \<Rightarrow> string option \<Rightarrow> string option \<Rightarrow> bool" where
  "retry_lineage_broken index parent claim \<longleftrightarrow>
     (index = 0 \<and> (parent \<noteq> None \<or> claim \<noteq> None)) \<or> (index > 0 \<and> (parent = None \<or> claim = None))"

definition payload_check :: "payload \<Rightarrow> exn option" where
  "payload_check p = raises
     [(\<not> stable_id (pl_authorization_id p), VE ''authorization_id''),
      (\<not> sha256_ok (pl_dispatch_nonce p), VE ''dispatch_nonce''),
      (\<not> sha256_ok (pl_job_manifest_sha256 p), VE ''job_manifest_sha256''),
      (\<not> sha256_ok (pl_request_sha256 p), VE ''request_sha256''),
      (\<not> sha256_ok (pl_experiment_sha256 p), VE ''experiment_sha256''),
      (\<not> sha256_ok (pl_environment_sha256 p), VE ''environment_sha256''),
      (\<not> sha256_ok (pl_execution_profile_sha256 p), VE ''execution_profile_sha256''),
      (\<not> sha256_ok (pl_resource_profile_sha256 p), VE ''resource_profile_sha256''),
      (\<not> stable_id (pl_worker_pool_audience p), VE ''worker_pool_audience''),
      (\<not> stable_id (pl_policy_id p), VE ''policy_id''),
      (\<not> sha256_ok (pl_policy_sha256 p), VE ''policy_sha256''),
      (\<not> 0 \<le> pl_issued_at_unix p, VE ''issued_at_unix''),
      (\<not> 0 \<le> pl_not_before_unix p, VE ''not_before_unix''),
      (\<not> 0 \<le> pl_expires_at_unix p, VE ''expires_at_unix''),
      (\<not> int_in 0 16 (pl_retry_index p), VE ''retry_index''),
      (\<not> opt_ok stable_id (pl_retry_of_authorization_id p), VE ''retry_of_authorization_id''),
      (\<not> opt_ok sha256_ok (pl_retry_of_claim_sha256 p), VE ''retry_of_claim_sha256''),
      (\<not> (pl_issued_at_unix p \<le> pl_not_before_unix p \<and> pl_not_before_unix p < pl_expires_at_unix p),
        VE ''authorization times must be ordered''),
      (pl_expires_at_unix p - pl_issued_at_unix p > MAX_AUTHORIZATION_LIFETIME_SECONDS,
        VE ''authorization validity exceeds the fixed lifetime''),
      (pl_dispatch_nonce p = zero_digest, VE ''dispatch nonce cannot use the all-zero placeholder''),
      (retry_lineage_broken (pl_retry_index p) (pl_retry_of_authorization_id p) (pl_retry_of_claim_sha256 p),
        VE ''retry index, parent authorization, and parent claim must agree''),
      (pl_retry_of_authorization_id p = Some (pl_authorization_id p),
        VE ''an authorization cannot name itself as its retry parent''),
      (pl_retry_of_claim_sha256 p = Some zero_digest,
        VE ''retry parent claim cannot use the all-zero placeholder'')]"

definition payload_json :: "payload \<Rightarrow> json" where
  "payload_json p = JObj
     [(''schema_version'', JStr ''bpe.dispatch-authorization-payload.v1''),
      (''authorization_id'', JStr (pl_authorization_id p)),
      (''dispatch_nonce'', JStr (pl_dispatch_nonce p)),
      (''job_manifest_sha256'', JStr (pl_job_manifest_sha256 p)),
      (''request_sha256'', JStr (pl_request_sha256 p)),
      (''experiment_sha256'', JStr (pl_experiment_sha256 p)),
      (''environment_sha256'', JStr (pl_environment_sha256 p)),
      (''execution_profile_sha256'', JStr (pl_execution_profile_sha256 p)),
      (''resource_profile_sha256'', JStr (pl_resource_profile_sha256 p)),
      (''purpose'', JStr (purpose_value (pl_purpose p))),
      (''worker_pool_audience'', JStr (pl_worker_pool_audience p)),
      (''policy_id'', JStr (pl_policy_id p)), (''policy_sha256'', JStr (pl_policy_sha256 p)),
      (''issued_at_unix'', JInt (pl_issued_at_unix p)),
      (''not_before_unix'', JInt (pl_not_before_unix p)),
      (''expires_at_unix'', JInt (pl_expires_at_unix p)),
      (''retry_index'', JInt (pl_retry_index p)),
      (''retry_of_authorization_id'', jopt JStr (pl_retry_of_authorization_id p)),
      (''retry_of_claim_sha256'', jopt JStr (pl_retry_of_claim_sha256 p))]"

definition is_error :: "'a result \<Rightarrow> bool" where
  "is_error r = (case r of Inl _ \<Rightarrow> True | Inr _ \<Rightarrow> False)"

record signed_authorization =
  sa_key_id :: string
  sa_payload :: payload
  sa_payload_sha256 :: string
  sa_signature_base64url :: string

definition signed_authorization_check :: "hasher \<Rightarrow> signed_authorization \<Rightarrow> exn option" where
  "signed_authorization_check h a = raises
     [(\<not> stable_id (sa_key_id a), VE ''key_id''),
      (payload_check (sa_payload a) \<noteq> None, VE ''payload''),
      (\<not> sha256_ok (sa_payload_sha256 a), VE ''payload_sha256''),
      (\<not> signature_pattern (sa_signature_base64url a), VE ''signature_base64url''),
      (is_error (decode_base64url 64 ''signature'' (sa_signature_base64url a)), VE ''signature_base64url''),
      (sa_payload_sha256 a \<noteq> sha256_json h (payload_json (sa_payload a)),
        VE ''signed authorization payload digest is inconsistent'')]"

definition signed_authorization_json :: "signed_authorization \<Rightarrow> json" where
  "signed_authorization_json a = JObj
     [(''schema_version'', JStr ''bpe.signed-dispatch-authorization.v1''), (''algorithm'', JStr ''Ed25519''),
      (''key_id'', JStr (sa_key_id a)), (''payload'', payload_json (sa_payload a)),
      (''payload_sha256'', JStr (sa_payload_sha256 a)),
      (''signature_base64url'', JStr (sa_signature_base64url a))]"

record trust_key =
  tk_key_id :: string
  tk_public_key_base64url :: string
  tk_valid_from_unix :: int
  tk_valid_until_unix :: int
  tk_revoked :: bool

definition trust_key_check :: "trust_key \<Rightarrow> exn option" where
  "trust_key_check k = raises
     [(\<not> stable_id (tk_key_id k), VE ''key_id''),
      (\<not> public_key_pattern (tk_public_key_base64url k), VE ''public_key_base64url''),
      (is_error (decode_base64url 32 ''public key'' (tk_public_key_base64url k)), VE ''public_key_base64url''),
      (\<not> 0 \<le> tk_valid_from_unix k, VE ''valid_from_unix''),
      (\<not> 0 \<le> tk_valid_until_unix k, VE ''valid_until_unix''),
      (tk_valid_from_unix k \<ge> tk_valid_until_unix k, VE ''dispatch trust-key validity interval is empty'')]"

definition trust_key_json :: "trust_key \<Rightarrow> json" where
  "trust_key_json k = JObj
     [(''key_id'', JStr (tk_key_id k)), (''algorithm'', JStr ''Ed25519''),
      (''public_key_base64url'', JStr (tk_public_key_base64url k)),
      (''valid_from_unix'', JInt (tk_valid_from_unix k)), (''valid_until_unix'', JInt (tk_valid_until_unix k)),
      (''revoked'', JBool (tk_revoked k))]"

record trust_store =
  ts_trust_store_id :: string
  ts_keys :: "trust_key list"

definition trust_store_check :: "trust_store \<Rightarrow> exn option" where
  "trust_store_check t = raises
     [(\<not> stable_id (ts_trust_store_id t), VE ''trust_store_id''),
      (ts_keys t = [] \<or> 64 < length (ts_keys t), VE ''keys''),
      (\<exists>k \<in> set (ts_keys t). trust_key_check k \<noteq> None, VE ''keys''),
      (\<not> distinct (map tk_key_id (ts_keys t)), VE ''dispatch trust-store key IDs must be unique''),
      (\<not> distinct (map tk_public_key_base64url (ts_keys t)),
        VE ''dispatch trust-store public keys must be unique'')]"

definition trust_store_json :: "trust_store \<Rightarrow> json" where
  "trust_store_json t = JObj
     [(''schema_version'', JStr ''bpe.dispatch-trust-store.v1''),
      (''trust_store_id'', JStr (ts_trust_store_id t)), (''keys'', jarr trust_key_json (ts_keys t))]"

record expectation =
  xp_job_manifest_sha256 :: string
  xp_request_sha256 :: string
  xp_experiment_sha256 :: string
  xp_environment_sha256 :: string
  xp_execution_profile_sha256 :: string
  xp_resource_profile_sha256 :: string
  xp_purpose :: dispatch_purpose
  xp_worker_pool_audience :: string
  xp_policy_id :: string
  xp_policy_sha256 :: string

record verified_authorization =
  va_authorization :: signed_authorization
  va_authorization_sha256 :: string
  va_payload_sha256 :: string
  va_trust_store_id :: string
  va_trust_store_sha256 :: string
  va_verified_at_unix :: int

record receipt =
  rc_authorization_id :: string
  rc_authorization_sha256 :: string
  rc_authorization_payload_sha256 :: string
  rc_signature_key_id :: string
  rc_trust_store_id :: string
  rc_trust_store_sha256 :: string
  rc_claim_id :: string
  rc_claim_nonce :: string
  rc_claimed_at_unix :: int
  rc_dispatch_nonce :: string
  rc_job_manifest_sha256 :: string
  rc_request_sha256 :: string
  rc_experiment_sha256 :: string
  rc_environment_sha256 :: string
  rc_execution_profile_sha256 :: string
  rc_resource_profile_sha256 :: string
  rc_purpose :: dispatch_purpose
  rc_worker_pool_audience :: string
  rc_policy_id :: string
  rc_policy_sha256 :: string
  rc_retry_index :: int
  rc_retry_of_authorization_id :: "string option"
  rc_retry_of_claim_sha256 :: "string option"

definition receipt_check :: "receipt \<Rightarrow> exn option" where
  "receipt_check r = raises
     [(\<not> stable_id (rc_authorization_id r), VE ''authorization_id''),
      (\<not> sha256_ok (rc_authorization_sha256 r), VE ''authorization_sha256''),
      (\<not> sha256_ok (rc_authorization_payload_sha256 r), VE ''authorization_payload_sha256''),
      (\<not> stable_id (rc_signature_key_id r), VE ''signature_key_id''),
      (\<not> stable_id (rc_trust_store_id r), VE ''trust_store_id''),
      (\<not> sha256_ok (rc_trust_store_sha256 r), VE ''trust_store_sha256''),
      (\<not> sha256_ok (rc_claim_id r), VE ''claim_id''),
      (\<not> sha256_ok (rc_claim_nonce r), VE ''claim_nonce''),
      (\<not> 0 \<le> rc_claimed_at_unix r, VE ''claimed_at_unix''),
      (\<not> sha256_ok (rc_dispatch_nonce r), VE ''dispatch_nonce''),
      (\<not> sha256_ok (rc_job_manifest_sha256 r), VE ''job_manifest_sha256''),
      (\<not> sha256_ok (rc_request_sha256 r), VE ''request_sha256''),
      (\<not> sha256_ok (rc_experiment_sha256 r), VE ''experiment_sha256''),
      (\<not> sha256_ok (rc_environment_sha256 r), VE ''environment_sha256''),
      (\<not> sha256_ok (rc_execution_profile_sha256 r), VE ''execution_profile_sha256''),
      (\<not> sha256_ok (rc_resource_profile_sha256 r), VE ''resource_profile_sha256''),
      (\<not> stable_id (rc_worker_pool_audience r), VE ''worker_pool_audience''),
      (\<not> stable_id (rc_policy_id r), VE ''policy_id''),
      (\<not> sha256_ok (rc_policy_sha256 r), VE ''policy_sha256''),
      (\<not> int_in 0 16 (rc_retry_index r), VE ''retry_index''),
      (\<not> opt_ok stable_id (rc_retry_of_authorization_id r), VE ''retry_of_authorization_id''),
      (\<not> opt_ok sha256_ok (rc_retry_of_claim_sha256 r), VE ''retry_of_claim_sha256''),
      (rc_claim_id r = zero_digest \<or> rc_claim_nonce r = zero_digest \<or> rc_dispatch_nonce r = zero_digest,
        VE ''dispatch claim identities cannot use all-zero placeholders''),
      (retry_lineage_broken (rc_retry_index r) (rc_retry_of_authorization_id r) (rc_retry_of_claim_sha256 r),
        VE ''dispatch receipt retry lineage is inconsistent'')]"

definition receipt_json :: "receipt \<Rightarrow> json" where
  "receipt_json r = JObj
     [(''schema_version'', JStr ''bpe.dispatch-admission-receipt.v1''),
      (''status'', JStr ''claimed_not_executed''),
      (''authorization_id'', JStr (rc_authorization_id r)),
      (''authorization_sha256'', JStr (rc_authorization_sha256 r)),
      (''authorization_payload_sha256'', JStr (rc_authorization_payload_sha256 r)),
      (''signature_key_id'', JStr (rc_signature_key_id r)),
      (''trust_store_id'', JStr (rc_trust_store_id r)),
      (''trust_store_sha256'', JStr (rc_trust_store_sha256 r)),
      (''claim_id'', JStr (rc_claim_id r)), (''claim_nonce'', JStr (rc_claim_nonce r)),
      (''claimed_at_unix'', JInt (rc_claimed_at_unix r)),
      (''dispatch_nonce'', JStr (rc_dispatch_nonce r)),
      (''job_manifest_sha256'', JStr (rc_job_manifest_sha256 r)),
      (''request_sha256'', JStr (rc_request_sha256 r)),
      (''experiment_sha256'', JStr (rc_experiment_sha256 r)),
      (''environment_sha256'', JStr (rc_environment_sha256 r)),
      (''execution_profile_sha256'', JStr (rc_execution_profile_sha256 r)),
      (''resource_profile_sha256'', JStr (rc_resource_profile_sha256 r)),
      (''purpose'', JStr (purpose_value (rc_purpose r))),
      (''worker_pool_audience'', JStr (rc_worker_pool_audience r)),
      (''policy_id'', JStr (rc_policy_id r)), (''policy_sha256'', JStr (rc_policy_sha256 r)),
      (''retry_index'', JInt (rc_retry_index r)),
      (''retry_of_authorization_id'', jopt JStr (rc_retry_of_authorization_id r)),
      (''retry_of_claim_sha256'', jopt JStr (rc_retry_of_claim_sha256 r)),
      (''signature_verified'', JBool True), (''execution_started'', JBool False),
      (''authoritative'', JBool False)]"

section \<open>Verification\<close>

text \<open>The fields every authorization of one retry lineage preserves, and their digest.\<close>

definition dispatch_binding_json ::
    "string \<Rightarrow> string \<Rightarrow> string \<Rightarrow> string \<Rightarrow> string \<Rightarrow> string \<Rightarrow> dispatch_purpose \<Rightarrow> string \<Rightarrow> string \<Rightarrow> string \<Rightarrow> json" where
  "dispatch_binding_json job request experiment environment execution_profile resource_profile purpose
     audience policy_id policy_sha256 = JObj
     [(''schema_version'', JStr ''bpe.dispatch-binding.v1''),
      (''job_manifest_sha256'', JStr job), (''request_sha256'', JStr request),
      (''experiment_sha256'', JStr experiment), (''environment_sha256'', JStr environment),
      (''execution_profile_sha256'', JStr execution_profile),
      (''resource_profile_sha256'', JStr resource_profile),
      (''purpose'', JStr (purpose_value purpose)), (''worker_pool_audience'', JStr audience),
      (''policy_id'', JStr policy_id), (''policy_sha256'', JStr policy_sha256)]"

definition dispatch_binding_sha256 :: "hasher \<Rightarrow> payload \<Rightarrow> string" where
  "dispatch_binding_sha256 h p = sha256_json h (dispatch_binding_json
     (pl_job_manifest_sha256 p) (pl_request_sha256 p) (pl_experiment_sha256 p) (pl_environment_sha256 p)
     (pl_execution_profile_sha256 p) (pl_resource_profile_sha256 p) (pl_purpose p)
     (pl_worker_pool_audience p) (pl_policy_id p) (pl_policy_sha256 p))"

definition dispatch_authorization_signing_bytes :: "hasher \<Rightarrow> payload \<Rightarrow> byte list result" where
  "dispatch_authorization_signing_bytes h p =
     check (payload_check p) (Inr (DISPATCH_SIGNING_DOMAIN @ canonical_json_bytes h (payload_json p)))"

definition expectation_probe :: "expectation \<Rightarrow> payload" where
  "expectation_probe e =
     \<lparr> pl_authorization_id = ''expectation-probe'', pl_dispatch_nonce = replicate 64 CHR ''1'',
       pl_job_manifest_sha256 = xp_job_manifest_sha256 e, pl_request_sha256 = xp_request_sha256 e,
       pl_experiment_sha256 = xp_experiment_sha256 e, pl_environment_sha256 = xp_environment_sha256 e,
       pl_execution_profile_sha256 = xp_execution_profile_sha256 e,
       pl_resource_profile_sha256 = xp_resource_profile_sha256 e, pl_purpose = xp_purpose e,
       pl_worker_pool_audience = xp_worker_pool_audience e, pl_policy_id = xp_policy_id e,
       pl_policy_sha256 = xp_policy_sha256 e, pl_issued_at_unix = 0, pl_not_before_unix = 0,
       pl_expires_at_unix = 1, pl_retry_index = 0, pl_retry_of_authorization_id = None,
       pl_retry_of_claim_sha256 = None \<rparr>"

definition validate_expectation :: "expectation \<Rightarrow> exn option" where
  "validate_expectation e = payload_check (expectation_probe e)"

definition payload_bindings :: "payload \<Rightarrow> expectation" where
  "payload_bindings p =
     \<lparr> xp_job_manifest_sha256 = pl_job_manifest_sha256 p, xp_request_sha256 = pl_request_sha256 p,
       xp_experiment_sha256 = pl_experiment_sha256 p, xp_environment_sha256 = pl_environment_sha256 p,
       xp_execution_profile_sha256 = pl_execution_profile_sha256 p,
       xp_resource_profile_sha256 = pl_resource_profile_sha256 p, xp_purpose = pl_purpose p,
       xp_worker_pool_audience = pl_worker_pool_audience p, xp_policy_id = pl_policy_id p,
       xp_policy_sha256 = pl_policy_sha256 p \<rparr>"

type_synonym ed25519_verify = "byte list \<Rightarrow> byte list \<Rightarrow> byte list \<Rightarrow> bool"

text \<open>The \<open>try\<close> block around \<open>Ed25519PublicKey.verify\<close>.\<close>

definition signature_valid :: "hasher \<Rightarrow> ed25519_verify \<Rightarrow> trust_key \<Rightarrow> signed_authorization \<Rightarrow> bool" where
  "signature_valid h ed25519 k a =
     (case decode_base64url 32 ''public key'' (tk_public_key_base64url k) of
        Inl _ \<Rightarrow> False
      | Inr public_key \<Rightarrow>
         (case decode_base64url 64 ''signature'' (sa_signature_base64url a) of
            Inl _ \<Rightarrow> False
          | Inr signature \<Rightarrow>
             (case dispatch_authorization_signing_bytes h (sa_payload a) of
                Inl _ \<Rightarrow> False
              | Inr message \<Rightarrow> ed25519 public_key signature message)))"

definition verify_authorization ::
    "hasher \<Rightarrow> ed25519_verify \<Rightarrow> bool \<Rightarrow> int \<Rightarrow> signed_authorization \<Rightarrow> trust_store \<Rightarrow> expectation
     \<Rightarrow> verified_authorization result" where
  "verify_authorization h ed25519 enforce_validity now a store e =
     (let payload = sa_payload a in
      if now < 0 then Inl (DAE ''verification time must be a nonnegative integer'')
      else if signed_authorization_check h a \<noteq> None \<or> trust_store_check store \<noteq> None \<or> validate_expectation e \<noteq> None
        then Inl (DAE ''dispatch authorization inputs are invalid'')
      else if payload_bindings payload \<noteq> e then Inl (DAE ''dispatch authorization bindings differ'')
      else if enforce_validity \<and> \<not> (pl_not_before_unix payload \<le> now \<and> now < pl_expires_at_unix payload)
        then Inl (DAE ''dispatch authorization is outside its validity window'')
      else case filter (\<lambda>k. tk_key_id k = sa_key_id a) (ts_keys store) of
        [key] \<Rightarrow>
          if tk_revoked key then Inl (DAE ''dispatch signing key is revoked'')
          else if \<not> (tk_valid_from_unix key \<le> pl_issued_at_unix payload \<and>
                     pl_expires_at_unix payload \<le> tk_valid_until_unix key)
            then Inl (DAE ''dispatch authorization is outside the signing key validity window'')
          else if \<not> signature_valid h ed25519 key a
            then Inl (DAE ''dispatch authorization signature is invalid'')
          else Inr \<lparr> va_authorization = a,
                     va_authorization_sha256 = sha256_json h (signed_authorization_json a),
                     va_payload_sha256 = sha256_json h (payload_json payload),
                     va_trust_store_id = ts_trust_store_id store,
                     va_trust_store_sha256 = sha256_json h (trust_store_json store),
                     va_verified_at_unix = now \<rparr>
      | _ \<Rightarrow> Inl (DAE ''dispatch signing key is not trusted''))"

definition verify_dispatch_authorization ::
    "hasher \<Rightarrow> ed25519_verify \<Rightarrow> int \<Rightarrow> signed_authorization \<Rightarrow> trust_store \<Rightarrow> expectation
     \<Rightarrow> verified_authorization result" where
  "verify_dispatch_authorization h ed25519 now a store e = verify_authorization h ed25519 True now a store e"

section \<open>The claim ledger\<close>

record claim_row =
  cr_authorization_id :: string
  cr_authorization_sha256 :: string
  cr_payload_sha256 :: string
  cr_signature_key_id :: string
  cr_trust_store_id :: string
  cr_trust_store_sha256 :: string
  cr_dispatch_nonce :: string
  cr_claim_id :: string
  cr_claim_nonce :: string
  cr_claimed_at_unix :: int
  cr_receipt_sha256 :: string
  cr_job_manifest_sha256 :: string
  cr_binding_sha256 :: string
  cr_policy_id :: string
  cr_policy_sha256 :: string
  cr_retry_index :: int
  cr_retry_of_authorization_id :: "string option"
  cr_retry_of_claim_sha256 :: "string option"

record ledger =
  lg_claims :: "claim_row list"
  lg_clock :: "int option"

definition empty_ledger :: ledger where
  "empty_ledger = \<lparr> lg_claims = [], lg_clock = Some 0 \<rparr>"

text \<open>The \<open>CHECK\<close> constraints of \<open>dispatch_claims\<close>.\<close>

definition row_checks :: "claim_row \<Rightarrow> bool" where
  "row_checks r \<longleftrightarrow>
     length (cr_authorization_sha256 r) = 64 \<and> length (cr_payload_sha256 r) = 64 \<and>
     length (cr_trust_store_sha256 r) = 64 \<and> length (cr_dispatch_nonce r) = 64 \<and>
     length (cr_claim_id r) = 64 \<and> length (cr_claim_nonce r) = 64 \<and> length (cr_receipt_sha256 r) = 64 \<and>
     length (cr_job_manifest_sha256 r) = 64 \<and> length (cr_binding_sha256 r) = 64 \<and>
     length (cr_policy_sha256 r) = 64 \<and> cr_claimed_at_unix r \<ge> 0 \<and> cr_retry_index r \<ge> 0 \<and>
     opt_ok (\<lambda>d. length d = 64) (cr_retry_of_claim_sha256 r) \<and>
     (cr_retry_index r = 0 \<and> cr_retry_of_authorization_id r = None \<and> cr_retry_of_claim_sha256 r = None \<or>
      cr_retry_index r > 0 \<and> cr_retry_of_authorization_id r \<noteq> None \<and> cr_retry_of_claim_sha256 r \<noteq> None)"

text \<open>Two rows collide on the primary key or on a \<open>UNIQUE\<close> column; \<open>NULL\<close> equals nothing.\<close>

definition opt_clash :: "'a option \<Rightarrow> 'a option \<Rightarrow> bool" where
  "opt_clash x y \<longleftrightarrow> x \<noteq> None \<and> x = y"

definition rows_clash :: "claim_row \<Rightarrow> claim_row \<Rightarrow> bool" where
  "rows_clash r s \<longleftrightarrow>
     cr_authorization_id r = cr_authorization_id s \<or> cr_authorization_sha256 r = cr_authorization_sha256 s \<or>
     cr_dispatch_nonce r = cr_dispatch_nonce s \<or> cr_claim_id r = cr_claim_id s \<or>
     cr_claim_nonce r = cr_claim_nonce s \<or> cr_receipt_sha256 r = cr_receipt_sha256 s \<or>
     opt_clash (cr_retry_of_authorization_id r) (cr_retry_of_authorization_id s) \<or>
     opt_clash (cr_retry_of_claim_sha256 r) (cr_retry_of_claim_sha256 s)"

definition foreign_key_ok :: "claim_row list \<Rightarrow> claim_row \<Rightarrow> bool" where
  "foreign_key_ok rows r =
     (case (cr_retry_of_authorization_id r, cr_retry_of_claim_sha256 r) of
        (Some a, Some c) \<Rightarrow> (\<exists>s \<in> set rows. cr_authorization_id s = a \<and> cr_receipt_sha256 s = c)
      | _ \<Rightarrow> True)"

text \<open>\<open>INSERT INTO dispatch_claims\<close>; \<open>None\<close> is \<open>sqlite3.IntegrityError\<close>.\<close>

definition claims_insert :: "claim_row list \<Rightarrow> claim_row \<Rightarrow> claim_row list option" where
  "claims_insert rows r =
     (if row_checks r \<and> (\<forall>s \<in> set rows. \<not> rows_clash r s) \<and> foreign_key_ok (rows @ [r]) r
      then Some (rows @ [r]) else None)"

datatype sql_stmt = CONNECT | BEGIN_IMMEDIATE | SELECT_CLOCK | UPDATE_CLOCK | SELECT_CONFLICT
  | SELECT_PARENT | INSERT_CLAIM | COMMIT | ROLLBACK | SELECT_CLAIM | SELECT_COUNT | SCHEMA

type_synonym faults = "sql_stmt \<Rightarrow> bool"

text \<open>
  How a transaction ends: a failed statement inside it is followed by \<open>ROLLBACK\<close> and the handler's
  error; if the roll-back itself fails the \<open>sqlite3.Error\<close> propagates.  Nothing is durable but a
  successful \<open>COMMIT\<close>.
\<close>

definition sql_failed :: "faults \<Rightarrow> string \<Rightarrow> ledger \<Rightarrow> 'a result \<times> ledger" where
  "sql_failed fault msg lg =
     (if fault ROLLBACK then (Inl (Exn ''sqlite3.Error'' ''ROLLBACK''), lg) else (Inl (DLE msg), lg))"

definition commit :: "faults \<Rightarrow> string \<Rightarrow> ledger \<Rightarrow> ledger \<Rightarrow> 'a result \<Rightarrow> 'a result \<times> ledger" where
  "commit fault msg lg lg' r = (if fault COMMIT then sql_failed fault msg lg else (r, lg'))"

definition rollback :: "faults \<Rightarrow> string \<Rightarrow> ledger \<Rightarrow> 'a result \<Rightarrow> 'a result \<times> ledger" where
  "rollback fault msg lg r = (if fault ROLLBACK then sql_failed fault msg lg else (r, lg))"

definition clock_behind :: "ledger \<Rightarrow> int \<Rightarrow> bool" where
  "clock_behind lg t = (case lg_clock lg of None \<Rightarrow> True | Some mark \<Rightarrow> t < mark)"

text \<open>\<open>DispatchClaimLedger._advance_clock\<close>.\<close>

definition advance_clock :: "faults \<Rightarrow> int \<Rightarrow> ledger \<Rightarrow> unit result \<times> ledger" where
  "advance_clock fault observed lg =
     (let failed = ''cannot update dispatch clock high-water mark'' in
      if observed < 0 then (Inl (DLE ''worker clock returned an invalid Unix time''), lg)
      else if fault CONNECT then (Inl (DLE ''cannot open dispatch claim ledger''), lg)
      else if fault BEGIN_IMMEDIATE then (Inl (DLE failed), lg)
      else if fault SELECT_CLOCK then sql_failed fault failed lg
      else if clock_behind lg observed
        then rollback fault failed lg (Inl (DLE ''worker clock moved behind its durable high-water mark''))
      else if fault UPDATE_CLOCK then sql_failed fault failed lg
      else commit fault failed lg (lg\<lparr> lg_clock := Some observed \<rparr>) (Inr ()))"

definition receipt_of :: "verified_authorization \<Rightarrow> string \<Rightarrow> string \<Rightarrow> int \<Rightarrow> receipt" where
  "receipt_of v claim_id claim_nonce claimed_at =
     (let payload = sa_payload (va_authorization v) in
      \<lparr> rc_authorization_id = pl_authorization_id payload,
        rc_authorization_sha256 = va_authorization_sha256 v,
        rc_authorization_payload_sha256 = va_payload_sha256 v,
        rc_signature_key_id = sa_key_id (va_authorization v),
        rc_trust_store_id = va_trust_store_id v, rc_trust_store_sha256 = va_trust_store_sha256 v,
        rc_claim_id = claim_id, rc_claim_nonce = claim_nonce, rc_claimed_at_unix = claimed_at,
        rc_dispatch_nonce = pl_dispatch_nonce payload,
        rc_job_manifest_sha256 = pl_job_manifest_sha256 payload,
        rc_request_sha256 = pl_request_sha256 payload,
        rc_experiment_sha256 = pl_experiment_sha256 payload,
        rc_environment_sha256 = pl_environment_sha256 payload,
        rc_execution_profile_sha256 = pl_execution_profile_sha256 payload,
        rc_resource_profile_sha256 = pl_resource_profile_sha256 payload,
        rc_purpose = pl_purpose payload, rc_worker_pool_audience = pl_worker_pool_audience payload,
        rc_policy_id = pl_policy_id payload, rc_policy_sha256 = pl_policy_sha256 payload,
        rc_retry_index = pl_retry_index payload,
        rc_retry_of_authorization_id = pl_retry_of_authorization_id payload,
        rc_retry_of_claim_sha256 = pl_retry_of_claim_sha256 payload \<rparr>)"

definition receipt_binding_sha256 :: "hasher \<Rightarrow> receipt \<Rightarrow> string" where
  "receipt_binding_sha256 h r = sha256_json h (dispatch_binding_json
     (rc_job_manifest_sha256 r) (rc_request_sha256 r) (rc_experiment_sha256 r) (rc_environment_sha256 r)
     (rc_execution_profile_sha256 r) (rc_resource_profile_sha256 r) (rc_purpose r)
     (rc_worker_pool_audience r) (rc_policy_id r) (rc_policy_sha256 r))"

definition row_of :: "hasher \<Rightarrow> string \<Rightarrow> receipt \<Rightarrow> claim_row" where
  "row_of h binding r =
     \<lparr> cr_authorization_id = rc_authorization_id r, cr_authorization_sha256 = rc_authorization_sha256 r,
       cr_payload_sha256 = rc_authorization_payload_sha256 r,
       cr_signature_key_id = rc_signature_key_id r, cr_trust_store_id = rc_trust_store_id r,
       cr_trust_store_sha256 = rc_trust_store_sha256 r, cr_dispatch_nonce = rc_dispatch_nonce r,
       cr_claim_id = rc_claim_id r, cr_claim_nonce = rc_claim_nonce r,
       cr_claimed_at_unix = rc_claimed_at_unix r, cr_receipt_sha256 = sha256_json h (receipt_json r),
       cr_job_manifest_sha256 = rc_job_manifest_sha256 r, cr_binding_sha256 = binding,
       cr_policy_id = rc_policy_id r, cr_policy_sha256 = rc_policy_sha256 r,
       cr_retry_index = rc_retry_index r,
       cr_retry_of_authorization_id = rc_retry_of_authorization_id r,
       cr_retry_of_claim_sha256 = rc_retry_of_claim_sha256 r \<rparr>"

text \<open>The conflict query of \<open>claim_authorization\<close>.\<close>

definition claim_conflict :: "receipt \<Rightarrow> string \<Rightarrow> claim_row \<Rightarrow> bool" where
  "claim_conflict r receipt_sha256 s \<longleftrightarrow>
     cr_authorization_id s = rc_authorization_id r \<or> cr_authorization_sha256 s = rc_authorization_sha256 r \<or>
     cr_dispatch_nonce s = rc_dispatch_nonce r \<or> cr_claim_id s = rc_claim_id r \<or>
     cr_claim_nonce s = rc_claim_nonce r \<or> cr_receipt_sha256 s = receipt_sha256 \<or>
     (rc_retry_of_authorization_id r \<noteq> None \<and> cr_retry_of_authorization_id s = rc_retry_of_authorization_id r) \<or>
     (rc_retry_of_claim_sha256 r \<noteq> None \<and> cr_retry_of_claim_sha256 s = rc_retry_of_claim_sha256 r)"

text \<open>The parent lookup of a retry.\<close>

definition retry_parent_bad :: "claim_row list \<Rightarrow> payload \<Rightarrow> receipt \<Rightarrow> string \<Rightarrow> string \<Rightarrow> bool" where
  "retry_parent_bad rows payload r parent_id binding =
     (case find (\<lambda>s. cr_authorization_id s = parent_id) rows of
        None \<Rightarrow> True
      | Some parent \<Rightarrow>
          cr_retry_index parent \<noteq> rc_retry_index r - 1 \<or> cr_binding_sha256 parent \<noteq> binding \<or>
          pl_issued_at_unix payload < cr_claimed_at_unix parent \<or>
          pl_retry_of_claim_sha256 payload \<noteq> Some (cr_receipt_sha256 parent))"

text \<open>The transaction of \<open>claim_authorization\<close>.\<close>

definition claim_txn ::
    "hasher \<Rightarrow> faults \<Rightarrow> verified_authorization \<Rightarrow> string \<Rightarrow> int \<Rightarrow> string \<Rightarrow> ledger \<Rightarrow> receipt result \<times> ledger" where
  "claim_txn h fault v claim_id claimed_at claim_nonce lg =
     (let payload = sa_payload (va_authorization v);
          binding = dispatch_binding_sha256 h payload;
          failed = ''cannot commit dispatch authorization claim'';
          clocked = lg\<lparr> lg_clock := Some claimed_at \<rparr>;
          r = receipt_of v claim_id claim_nonce claimed_at;
          row = row_of h binding r in
      if fault CONNECT then (Inl (DLE ''cannot open dispatch claim ledger''), lg)
      else if fault BEGIN_IMMEDIATE then (Inl (DLE failed), lg)
      else if claimed_at < 0
        then rollback fault failed lg (Inl (DLE ''worker clock returned an invalid Unix time''))
      else if fault SELECT_CLOCK then sql_failed fault failed lg
      else if clock_behind lg claimed_at
        then rollback fault failed lg (Inl (DLE ''worker clock moved behind its durable high-water mark''))
      else if fault UPDATE_CLOCK then sql_failed fault failed lg
      else if \<not> (pl_not_before_unix payload \<le> claimed_at \<and> claimed_at < pl_expires_at_unix payload)
        then commit fault failed lg clocked
          (Inl (DLE ''authorization is outside its validity window at durable claim''))
      else if receipt_check r \<noteq> None
        then commit fault failed lg clocked (Inl (DLE ''dispatch claim identity is invalid''))
      else if fault SELECT_CONFLICT then sql_failed fault failed lg
      else if \<exists>s \<in> set (lg_claims lg). claim_conflict r (sha256_json h (receipt_json r)) s
        then commit fault failed lg clocked (Inl (Exn ''DispatchAlreadyClaimed''
          ''dispatch authorization, nonce, claim, or retry parent was already consumed''))
      else if rc_retry_of_authorization_id r \<noteq> None \<and> fault SELECT_PARENT
        then sql_failed fault failed lg
      else if (case rc_retry_of_authorization_id r of None \<Rightarrow> False
               | Some parent_id \<Rightarrow> retry_parent_bad (lg_claims lg) payload r parent_id binding)
        then commit fault failed lg clocked
          (Inl (DLE ''dispatch retry parent or claim receipt is missing, misbound, predates its claim, or has the wrong index''))
      else if fault INSERT_CLAIM then sql_failed fault failed lg
      else case claims_insert (lg_claims lg) row of
        None \<Rightarrow> (if fault ROLLBACK then (Inl (Exn ''sqlite3.Error'' ''ROLLBACK''), lg)
                  else (Inl (DLE ''dispatch claim violated ledger integrity''), lg))
      | Some rows \<Rightarrow> commit fault failed lg (clocked\<lparr> lg_claims := rows \<rparr>) (Inr r))"

text \<open>\<open>DispatchClaimLedger.claim_authorization\<close>: the clock is read twice, once per transaction.\<close>

definition claim_authorization ::
    "hasher \<Rightarrow> ed25519_verify \<Rightarrow> faults \<Rightarrow> faults \<Rightarrow> int \<Rightarrow> int \<Rightarrow> string \<Rightarrow> signed_authorization \<Rightarrow> trust_store
     \<Rightarrow> expectation \<Rightarrow> string \<Rightarrow> ledger \<Rightarrow> receipt result \<times> ledger" where
  "claim_authorization h ed25519 fault1 fault2 verification_time claimed_at claim_nonce a store e claim_id lg =
     (case advance_clock fault1 verification_time lg of
        (Inl x, lg1) \<Rightarrow> (Inl x, lg1)
      | (Inr _, lg1) \<Rightarrow>
         (case verify_dispatch_authorization h ed25519 verification_time a store e of
            Inl x \<Rightarrow> (Inl x, lg1)
          | Inr v \<Rightarrow> claim_txn h fault2 v claim_id claimed_at claim_nonce lg1))"

section \<open>The schema check\<close>

text \<open>
  What SQLite reports about a database file, as \<open>_validate_schema\<close> queries it.  A schema object is
  \<open>(type, name, tbl_name, sql)\<close>, a column \<open>(cid, name, type, notnull, default, pk)\<close>, an index
  \<open>(name, unique, origin)\<close>, a foreign-key row \<open>(id, seq, table, from, to)\<close>.
\<close>

record schema_view =
  sv_integrity_check :: "string list"
  sv_foreign_key_check :: "string list"
  sv_application_id :: "int option"
  sv_user_version :: "int option"
  sv_objects :: "(string \<times> string \<times> string \<times> string option) list"
  sv_columns :: "(int \<times> string \<times> string \<times> int \<times> string option \<times> int) list"
  sv_state_columns :: "(int \<times> string \<times> string \<times> int \<times> string option \<times> int) list"
  sv_state_rows :: "(int \<times> int) list"
  sv_index_rows :: "(string \<times> int \<times> string) list"
  sv_state_index_rows :: "(string \<times> int \<times> string) list"
  sv_index_info :: "string \<Rightarrow> string list"
  sv_foreign_keys :: "(int \<times> int \<times> string \<times> string \<times> string) list"

definition is_space :: "char \<Rightarrow> bool" where
  "is_space c \<longleftrightarrow> (let n = of_char c :: nat in 9 \<le> n \<and> n \<le> 13 \<or> 28 \<le> n \<and> n \<le> 32 \<or> n = 133 \<or> n = 160)"

text \<open>\<open>str.split()\<close> and \<open>" ".join\<close>.\<close>

function split_ws :: "string \<Rightarrow> string list" where
  "split_ws [] = []"
| "split_ws (c # cs) = (if is_space c then split_ws cs
     else (c # takeWhile (\<lambda>d. \<not> is_space d) cs) # split_ws (dropWhile (\<lambda>d. \<not> is_space d) cs))"
  by pat_completeness auto

termination
  by (relation "measure length") (auto simp: length_dropWhile_le less_Suc_eq_le)

fun unwords :: "string list \<Rightarrow> string" where
  "unwords [] = []"
| "unwords [w] = w"
| "unwords (w # v # ws) = w @ '' '' @ unwords (v # ws)"

text \<open>The words of \<open>_CREATE_LEDGER_TABLE\<close> and \<open>_CREATE_LEDGER_STATE\<close>; only their normal form is compared.\<close>

definition CREATE_LEDGER_TABLE :: "string list" where
  "CREATE_LEDGER_TABLE =
    [''CREATE'', ''TABLE'', ''dispatch_claims'', ''('', ''authorization_id'', ''TEXT'', ''PRIMARY'', ''KEY,'',
     ''authorization_sha256'', ''TEXT'', ''NOT'', ''NULL'', ''UNIQUE,'', ''payload_sha256'', ''TEXT'', ''NOT'',
     ''NULL,'', ''signature_key_id'', ''TEXT'', ''NOT'', ''NULL,'', ''trust_store_id'', ''TEXT'', ''NOT'',
     ''NULL,'', ''trust_store_sha256'', ''TEXT'', ''NOT'', ''NULL,'', ''dispatch_nonce'', ''TEXT'', ''NOT'',
     ''NULL'', ''UNIQUE,'', ''claim_id'', ''TEXT'', ''NOT'', ''NULL'', ''UNIQUE,'', ''claim_nonce'', ''TEXT'',
     ''NOT'', ''NULL'', ''UNIQUE,'', ''claimed_at_unix'', ''INTEGER'', ''NOT'', ''NULL,'', ''receipt_sha256'',
     ''TEXT'', ''NOT'', ''NULL'', ''UNIQUE,'', ''job_manifest_sha256'', ''TEXT'', ''NOT'', ''NULL,'',
     ''binding_sha256'', ''TEXT'', ''NOT'', ''NULL,'', ''policy_id'', ''TEXT'', ''NOT'', ''NULL,'',
     ''policy_sha256'', ''TEXT'', ''NOT'', ''NULL,'', ''retry_index'', ''INTEGER'', ''NOT'', ''NULL,'',
     ''retry_of_authorization_id'', ''TEXT'', ''UNIQUE,'', ''retry_of_claim_sha256'', ''TEXT'', ''UNIQUE,'',
     ''UNIQUE(authorization_id,'', ''receipt_sha256),'', ''FOREIGN'', ''KEY(retry_of_authorization_id,'',
     ''retry_of_claim_sha256)'', ''REFERENCES'', ''dispatch_claims(authorization_id,'', ''receipt_sha256),'',
     ''CHECK(length(authorization_sha256)'', ''='', ''64),'', ''CHECK(length(payload_sha256)'', ''='',
     ''64),'', ''CHECK(length(trust_store_sha256)'', ''='', ''64),'', ''CHECK(length(dispatch_nonce)'', ''='',
     ''64),'', ''CHECK(length(claim_id)'', ''='', ''64),'', ''CHECK(length(claim_nonce)'', ''='', ''64),'',
     ''CHECK(length(receipt_sha256)'', ''='', ''64),'', ''CHECK(length(job_manifest_sha256)'', ''='', ''64),'',
     ''CHECK(length(binding_sha256)'', ''='', ''64),'', ''CHECK(length(policy_sha256)'', ''='', ''64),'',
     ''CHECK(claimed_at_unix'', ''>='', ''0),'', ''CHECK(retry_index'', ''>='', ''0),'',
     ''CHECK(retry_of_claim_sha256'', ''IS'', ''NULL'', ''OR'', ''length(retry_of_claim_sha256)'', ''='',
     ''64),'', ''CHECK('', ''(retry_index'', ''='', ''0'', ''AND'', ''retry_of_authorization_id'', ''IS'',
     ''NULL'', ''AND'', ''retry_of_claim_sha256'', ''IS'', ''NULL)'', ''OR'', ''(retry_index'', ''>'', ''0'',
     ''AND'', ''retry_of_authorization_id'', ''IS'', ''NOT'', ''NULL'', ''AND'', ''retry_of_claim_sha256'',
     ''IS'', ''NOT'', ''NULL)'', '')'', '')'', ''WITHOUT'', ''ROWID'']"

definition CREATE_LEDGER_STATE :: "string list" where
  "CREATE_LEDGER_STATE =
    [''CREATE'', ''TABLE'', ''dispatch_state'', ''('', ''singleton'', ''INTEGER'', ''PRIMARY'', ''KEY,'',
     ''clock_high_water_unix'', ''INTEGER'', ''NOT'', ''NULL,'', ''CHECK(singleton'', ''='', ''1),'',
     ''CHECK(clock_high_water_unix'', ''>='', ''0)'', '')'', ''WITHOUT'', ''ROWID'']"

definition expected_columns :: "(int \<times> string \<times> string \<times> int \<times> string option \<times> int) list" where
  "expected_columns =
     [(0, ''authorization_id'', ''TEXT'', 1, None, 1), (1, ''authorization_sha256'', ''TEXT'', 1, None, 0),
      (2, ''payload_sha256'', ''TEXT'', 1, None, 0), (3, ''signature_key_id'', ''TEXT'', 1, None, 0),
      (4, ''trust_store_id'', ''TEXT'', 1, None, 0), (5, ''trust_store_sha256'', ''TEXT'', 1, None, 0),
      (6, ''dispatch_nonce'', ''TEXT'', 1, None, 0), (7, ''claim_id'', ''TEXT'', 1, None, 0),
      (8, ''claim_nonce'', ''TEXT'', 1, None, 0), (9, ''claimed_at_unix'', ''INTEGER'', 1, None, 0),
      (10, ''receipt_sha256'', ''TEXT'', 1, None, 0), (11, ''job_manifest_sha256'', ''TEXT'', 1, None, 0),
      (12, ''binding_sha256'', ''TEXT'', 1, None, 0), (13, ''policy_id'', ''TEXT'', 1, None, 0),
      (14, ''policy_sha256'', ''TEXT'', 1, None, 0), (15, ''retry_index'', ''INTEGER'', 1, None, 0),
      (16, ''retry_of_authorization_id'', ''TEXT'', 0, None, 0),
      (17, ''retry_of_claim_sha256'', ''TEXT'', 0, None, 0)]"

definition expected_unique_columns :: "string list set" where
  "expected_unique_columns =
     {[''authorization_id''], [''authorization_id'', ''receipt_sha256''], [''authorization_sha256''],
      [''dispatch_nonce''], [''claim_id''], [''claim_nonce''], [''receipt_sha256''],
      [''retry_of_authorization_id''], [''retry_of_claim_sha256'']}"

definition table_sql :: "schema_view \<Rightarrow> string \<Rightarrow> string list option" where
  "table_sql v name = (case find (\<lambda>(ty, nm, _, _). ty = ''table'' \<and> nm = name) (sv_objects v) of
     Some (_, _, _, Some sql) \<Rightarrow> Some (split_ws sql) | _ \<Rightarrow> None)"

definition table_objects :: "schema_view \<Rightarrow> string \<rightharpoonup> string list" where
  "table_objects v = map_of (rev (concat (map (\<lambda>(ty, nm, _, sql).
     case sql of Some text \<Rightarrow> if ty = ''table'' then [(nm, split_ws text)] else [] | None \<Rightarrow> []) (sv_objects v))))"

definition valid_foreign_key :: "schema_view \<Rightarrow> bool" where
  "valid_foreign_key v \<longleftrightarrow>
     length (sv_foreign_keys v) = 2 \<and>
     card ((\<lambda>(i, _, _, _, _). i) ` set (sv_foreign_keys v)) = 1 \<and>
     (\<lambda>(_, sq, _, _, _). sq) ` set (sv_foreign_keys v) = {0, 1} \<and>
     (\<forall>(_, _, tbl, _, _) \<in> set (sv_foreign_keys v). tbl = ''dispatch_claims'') \<and>
     (\<lambda>(_, _, _, fr, to). (fr, to)) ` set (sv_foreign_keys v) =
       {(''retry_of_authorization_id'', ''authorization_id''), (''retry_of_claim_sha256'', ''receipt_sha256'')}"

definition autoindexes_are_exact :: "schema_view \<Rightarrow> bool" where
  "autoindexes_are_exact v \<longleftrightarrow>
     (\<forall>(ty, nm, tbl, sql) \<in> set (sv_objects v). ty \<noteq> ''table'' \<longrightarrow>
        ty = ''index'' \<and> tbl \<in> {''dispatch_claims'', ''dispatch_state''} \<and>
        startswith nm (''sqlite_autoindex_'' @ tbl @ ''_'') \<and> sql = None)"

definition unique_indexed :: "schema_view \<Rightarrow> (string \<times> int \<times> string) list \<Rightarrow> string list set" where
  "unique_indexed v rows = set (map (\<lambda>(nm, _, _). sv_index_info v nm) (filter (\<lambda>(_, uniq, _). uniq = 1) rows))"

definition schema_trusted :: "schema_view \<Rightarrow> bool" where
  "schema_trusted v \<longleftrightarrow>
     sv_integrity_check v = [''ok''] \<and> sv_foreign_key_check v = [] \<and>
     sv_application_id v = Some 0x42504531 \<and> sv_user_version v = Some 1 \<and>
     table_objects v = [''dispatch_claims'' \<mapsto> CREATE_LEDGER_TABLE, ''dispatch_state'' \<mapsto> CREATE_LEDGER_STATE] \<and>
     autoindexes_are_exact v \<and>
     set (map (\<lambda>(_, nm, _, _). nm) (filter (\<lambda>(ty, _, _, _). ty = ''index'') (sv_objects v))) =
       set (map fst (filter (\<lambda>(_, _, origin). origin = ''u'') (sv_index_rows v @ sv_state_index_rows v))) \<and>
     table_sql v ''dispatch_claims'' = Some CREATE_LEDGER_TABLE \<and>
     table_sql v ''dispatch_state'' = Some CREATE_LEDGER_STATE \<and>
     sv_columns v = expected_columns \<and>
     sv_state_columns v = [(0, ''singleton'', ''INTEGER'', 1, None, 1), (1, ''clock_high_water_unix'', ''INTEGER'', 1, None, 0)] \<and>
     (case sv_state_rows v of [(one, mark)] \<Rightarrow> one = 1 \<and> mark \<ge> 0 | _ \<Rightarrow> False) \<and>
     unique_indexed v (sv_index_rows v) = expected_unique_columns \<and>
     length (sv_index_rows v) = card expected_unique_columns \<and>
     unique_indexed v (sv_state_index_rows v) = {[''singleton'']} \<and> length (sv_state_index_rows v) = 1 \<and>
     valid_foreign_key v"

section \<open>Opening, verifying and admitting\<close>

text \<open>
  \<open>DispatchClaimLedger.__init__\<close> after the path checks: a database without objects (\<open>None\<close>) gets the
  two tables; \<open>view\<close> is what SQLite then reports.
\<close>

definition open_ledger :: "faults \<Rightarrow> schema_view \<Rightarrow> ledger option \<Rightarrow> ledger result \<times> ledger option" where
  "open_ledger fault view db =
     (let opened = (case db of None \<Rightarrow> empty_ledger | Some lg \<Rightarrow> lg) in
      if fault CONNECT then (Inl (DLE ''cannot open dispatch claim ledger''), db)
      else if fault BEGIN_IMMEDIATE \<or> fault COMMIT then (Inl (DLE ''cannot initialize dispatch claim ledger''), db)
      else if fault SCHEMA \<or> \<not> schema_trusted view
        then (Inl (DLE ''dispatch claim ledger schema is not trusted''), Some opened)
      else (Inr opened, Some opened))"

definition verify_committed_receipt :: "hasher \<Rightarrow> faults \<Rightarrow> schema_view \<Rightarrow> receipt \<Rightarrow> ledger \<Rightarrow> string result" where
  "verify_committed_receipt h fault view r lg =
     (if receipt_check r \<noteq> None then Inl (DLE ''dispatch admission receipt is invalid'')
      else if fault CONNECT then Inl (DLE ''cannot verify committed dispatch receipt'')
      else if fault SCHEMA \<or> \<not> schema_trusted view then Inl (DLE ''dispatch claim ledger schema is not trusted'')
      else if fault SELECT_CLAIM then Inl (DLE ''cannot verify committed dispatch receipt'')
      else if find (\<lambda>s. cr_authorization_id s = rc_authorization_id r) (lg_claims lg) \<noteq>
                Some (row_of h (receipt_binding_sha256 h r) r)
        then Inl (DLE ''dispatch admission receipt is not committed in this ledger'')
      else Inr (sha256_json h (receipt_json r)))"

definition claim_count :: "faults \<Rightarrow> ledger \<Rightarrow> nat result" where
  "claim_count fault lg =
     (if fault CONNECT then Inl (DLE ''cannot open dispatch claim ledger'')
      else if fault SELECT_COUNT then Inl (DLE ''cannot inspect dispatch claim ledger'')
      else Inr (length (lg_claims lg)))"

text \<open>The environment of one \<open>admit_dispatch\<close>: three clock readings, the nonce and the database faults.\<close>

record admission_env =
  ae_verification_time :: int
  ae_claim_verification_time :: int
  ae_claimed_at :: int
  ae_claim_nonce :: string
  ae_open_faults :: faults
  ae_advance_faults :: faults
  ae_claim_clock_faults :: faults
  ae_claim_faults :: faults
  ae_view :: schema_view

definition admit_dispatch ::
    "hasher \<Rightarrow> ed25519_verify \<Rightarrow> admission_env \<Rightarrow> signed_authorization \<Rightarrow> trust_store \<Rightarrow> expectation \<Rightarrow> string
     \<Rightarrow> ledger option \<Rightarrow> receipt result \<times> ledger option" where
  "admit_dispatch h ed25519 env a store e claim_id db =
     (case verify_authorization h ed25519 False (ae_verification_time env) a store e of
        Inl x \<Rightarrow> (Inl x, db)
      | Inr _ \<Rightarrow>
         (case open_ledger (ae_open_faults env) (ae_view env) db of
            (Inl x, db1) \<Rightarrow> (Inl x, db1)
          | (Inr lg, _) \<Rightarrow>
              (case advance_clock (ae_advance_faults env) (ae_verification_time env) lg of
                 (Inl x, lg1) \<Rightarrow> (Inl x, Some lg1)
               | (Inr _, lg1) \<Rightarrow>
                   map_prod id Some (claim_authorization h ed25519 (ae_claim_clock_faults env)
                     (ae_claim_faults env) (ae_claim_verification_time env) (ae_claimed_at env)
                     (ae_claim_nonce env) a store e claim_id lg1))))"

end
