(* ===== verification/One_Shot.thy ===== *)
theory One_Shot
  imports Prelude
begin

text \<open>
  The contract of a durable one-shot ledger: an operation either commits one row, which it returns, or
  commits none; the invariant is kept; a committed receipt is valid; no two committed rows collide; the clock never goes back.  What
  a client may conclude about a whole run of operations is proved here once; the claim ledger of
  \<open>dispatch.py\<close> interprets the contract.
\<close>

fun run_ops :: "('op \<Rightarrow> 's \<Rightarrow> 'r option \<times> 's) \<Rightarrow> 'op list \<Rightarrow> 's \<Rightarrow> 'r list \<times> 's" where
  "run_ops step [] s = ([], s)"
| "run_ops step (op # ops) s =
     (let (r, s1) = step op s; (rs, s2) = run_ops step ops s1
      in (case r of None \<Rightarrow> rs | Some x \<Rightarrow> x # rs, s2))"

lemma no_clash_distinct:
  assumes "sorted_wrt (\<lambda>x y. \<not> clash y x) xs" "\<And>x y. f x = f y \<Longrightarrow> clash y x"
  shows "distinct (map f xs)"
  using assms(1)
proof (induction xs)
  case (Cons x xs)
  then have "f x \<notin> f ` set xs" using assms(2)[of x] by auto
  then show ?case using Cons by simp
qed simp

locale one_shot =
  fixes step :: "'op \<Rightarrow> 's \<Rightarrow> 'r option \<times> 's"
    and inv :: "'s \<Rightarrow> bool"
    and rows :: "'s \<Rightarrow> 'row list"
    and row :: "'r \<Rightarrow> 'row"
    and clash :: "'row \<Rightarrow> 'row \<Rightarrow> bool"
    and clock :: "'s \<Rightarrow> int"
    and valid :: "'r \<Rightarrow> bool"
  assumes step_inv: "inv s \<Longrightarrow> inv (snd (step op s))"
    and step_rows: "inv s \<Longrightarrow>
      rows (snd (step op s)) = rows s @ (case fst (step op s) of None \<Rightarrow> [] | Some r \<Rightarrow> [row r])"
    and inv_rows: "inv s \<Longrightarrow> sorted_wrt (\<lambda>x y. \<not> clash y x) (rows s)"
    and step_clock: "inv s \<Longrightarrow> clock s \<le> clock (snd (step op s))"
    and step_valid: "inv s \<Longrightarrow> fst (step op s) = Some r \<Longrightarrow> valid r"
begin

lemma run_inv: "inv s \<Longrightarrow> inv (snd (run_ops step ops s))"
  by (induction ops arbitrary: s) (auto simp: Let_def split_beta step_inv)

lemma run_clock: "inv s \<Longrightarrow> clock s \<le> clock (snd (run_ops step ops s))"
  by (induction ops arbitrary: s) (auto simp: Let_def split_beta intro: order_trans step_clock step_inv)

lemma run_rows: "inv s \<Longrightarrow> rows (snd (run_ops step ops s)) = rows s @ map row (fst (run_ops step ops s))"
  by (induction ops arbitrary: s) (simp_all add: Let_def split_beta step_inv step_rows split: option.split)

lemma run_valid: "inv s \<Longrightarrow> r \<in> set (fst (run_ops step ops s)) \<Longrightarrow> valid r"
proof (induction ops arbitrary: s)
  case (Cons op ops)
  then show ?case
    using step_inv[of s op] step_valid[of s op] by (auto simp: Let_def split_beta split: option.splits)
qed simp

lemma run_append:
  "run_ops step (ops @ ops') s =
     (fst (run_ops step ops s) @ fst (run_ops step ops' (snd (run_ops step ops s))),
      snd (run_ops step ops' (snd (run_ops step ops s))))"
  by (induction ops arbitrary: s) (simp_all add: Let_def split_beta split: option.split)

lemma run_no_clash:
  assumes "inv s"
  shows "sorted_wrt (\<lambda>x y. \<not> clash (row y) (row x)) (fst (run_ops step ops s))"
    and "x \<in> set (rows s) \<Longrightarrow> r \<in> set (fst (run_ops step ops s)) \<Longrightarrow> \<not> clash (row r) x"
proof -
  have "sorted_wrt (\<lambda>x y. \<not> clash y x) (rows s @ map row (fst (run_ops step ops s)))"
    using inv_rows[OF run_inv[OF assms]] run_rows[OF assms] by metis
  then show "sorted_wrt (\<lambda>x y. \<not> clash (row y) (row x)) (fst (run_ops step ops s))"
    and "x \<in> set (rows s) \<Longrightarrow> r \<in> set (fst (run_ops step ops s)) \<Longrightarrow> \<not> clash (row r) x"
    by (auto simp: sorted_wrt_append sorted_wrt_map)
qed

lemma run_durable:
  "inv s \<Longrightarrow> r \<in> set (fst (run_ops step ops s)) \<Longrightarrow> row r \<in> set (rows (snd (run_ops step (ops @ ops') s)))"
  by (simp add: run_append run_rows run_inv)

end

end
