(* ===== verification/Dispatch_Ledger.thy ===== *)
theory Dispatch_Ledger
  imports Dispatch One_Shot
begin

text \<open>
  The facts about dispatch admission that its properties rest on: what a verified authorization
  guarantees, when a claim succeeds, the invariant of the ledger and that every operation keeps it,
  database faults included, and the retry lineages.  The ledger interprets the contract of \<open>One_Shot\<close>.
\<close>

section \<open>Verification\<close>

text \<open>What an admitted authorization has to satisfy, stated without the order of the checks.\<close>

definition authorized ::
    "hasher \<Rightarrow> ed25519_verify \<Rightarrow> signed_authorization \<Rightarrow> trust_store \<Rightarrow> expectation \<Rightarrow> bool" where
  "authorized h ed25519 a store e \<longleftrightarrow>
     signed_authorization_check h a = None \<and> trust_store_check store = None \<and>
     payload_bindings (sa_payload a) = e \<and>
     (\<exists>k \<in> set (ts_keys store). \<exists>pk sg.
        tk_key_id k = sa_key_id a \<and> \<not> tk_revoked k \<and>
        tk_valid_from_unix k \<le> pl_issued_at_unix (sa_payload a) \<and>
        pl_expires_at_unix (sa_payload a) \<le> tk_valid_until_unix k \<and>
        length pk = 32 \<and> tk_public_key_base64url k = b64_encode pk \<and>
        length sg = 64 \<and> sa_signature_base64url a = b64_encode sg \<and>
        ed25519 pk sg (DISPATCH_SIGNING_DOMAIN @ canonical_json_bytes h (payload_json (sa_payload a))))"

definition in_window :: "payload \<Rightarrow> int \<Rightarrow> bool" where
  "in_window p t \<longleftrightarrow> pl_not_before_unix p \<le> t \<and> t < pl_expires_at_unix p"

definition verified_of :: "hasher \<Rightarrow> signed_authorization \<Rightarrow> trust_store \<Rightarrow> int \<Rightarrow> verified_authorization" where
  "verified_of h a store now =
     \<lparr> va_authorization = a, va_authorization_sha256 = sha256_json h (signed_authorization_json a),
       va_payload_sha256 = sha256_json h (payload_json (sa_payload a)),
       va_trust_store_id = ts_trust_store_id store,
       va_trust_store_sha256 = sha256_json h (trust_store_json store), va_verified_at_unix = now \<rparr>"

lemma payload_checkD:
  assumes "payload_check p = None"
  shows "stable_id (pl_authorization_id p)" "sha256_ok (pl_dispatch_nonce p)" "sha256_ok (pl_job_manifest_sha256 p)"
    "sha256_ok (pl_request_sha256 p)" "sha256_ok (pl_experiment_sha256 p)" "sha256_ok (pl_environment_sha256 p)"
    "sha256_ok (pl_execution_profile_sha256 p)" "sha256_ok (pl_resource_profile_sha256 p)"
    "stable_id (pl_worker_pool_audience p)" "stable_id (pl_policy_id p)" "sha256_ok (pl_policy_sha256 p)"
    "0 \<le> pl_issued_at_unix p" "pl_issued_at_unix p \<le> pl_not_before_unix p"
    "pl_not_before_unix p < pl_expires_at_unix p"
    "pl_expires_at_unix p - pl_issued_at_unix p \<le> MAX_AUTHORIZATION_LIFETIME_SECONDS"
    "0 \<le> pl_retry_index p" "pl_retry_index p \<le> 16" "pl_dispatch_nonce p \<noteq> zero_digest"
    "opt_ok stable_id (pl_retry_of_authorization_id p)" "opt_ok sha256_ok (pl_retry_of_claim_sha256 p)"
    "\<not> retry_lineage_broken (pl_retry_index p) (pl_retry_of_authorization_id p) (pl_retry_of_claim_sha256 p)"
    "pl_retry_of_authorization_id p \<noteq> Some (pl_authorization_id p)"
  using assms by (auto simp: payload_check_def int_in_def)

lemma signed_authorization_checkD:
  assumes "signed_authorization_check h a = None"
  shows "payload_check (sa_payload a) = None" "stable_id (sa_key_id a)"
  using assms by (auto simp: signed_authorization_check_def)

text \<open>An expectation equal to the bindings of a valid payload is itself valid.\<close>

lemma digest_ones_ok: "sha256_ok (replicate 64 CHR ''1'')" "replicate 64 CHR ''1'' \<noteq> zero_digest"
  by (simp_all add: sha256_ok_def is_hex_def is_digit_def zero_digest_def numeral_eq_Suc)

lemma expectation_of_payload:
  assumes "payload_check p = None"
  shows "validate_expectation (payload_bindings p) = None"
  using payload_checkD[OF assms] digest_ones_ok
  by (simp add: validate_expectation_def expectation_probe_def payload_bindings_def payload_check_def int_in_def
      opt_ok_def retry_lineage_broken_def MAX_AUTHORIZATION_LIFETIME_SECONDS_def)
    (simp add: stable_id_def id_start_def id_char_def is_lower_def is_upper_def is_digit_def)

lemma trust_store_checkD:
  assumes "trust_store_check t = None"
  shows "stable_id (ts_trust_store_id t)" "distinct (map tk_key_id (ts_keys t))"
    "k \<in> set (ts_keys t) \<Longrightarrow> trust_key_check k = None"
  using assms by (auto simp: trust_store_check_def)

lemma trusted_key_unique:
  assumes "distinct (map tk_key_id ks)" "k \<in> set ks"
  shows "filter (\<lambda>k'. tk_key_id k' = tk_key_id k) ks = [k]"
  using assms
proof (induction ks)
  case (Cons x ks)
  then show ?case
    by (cases "x = k") (auto simp: filter_empty_conv image_iff)
qed simp

lemma filter_single: "filter P xs = [x] \<Longrightarrow> x \<in> set xs \<and> P x"
  by (metis filter_set list.set_intros(1) mem_Collect_eq set_filter)

lemma decode_base64url_cases:
  assumes "0 < n"
  obtains (rejected) e where "decode_base64url n l v = Inl e" "\<nexists>bs. length bs = n \<and> v = b64_encode bs"
  | (decoded) bs where "decode_base64url n l v = Inr bs" "length bs = n" "v = b64_encode bs"
proof (cases "decode_base64url n l v")
  case (Inl e)
  moreover have "decode_base64url n l v = Inr bs" if "length bs = n" "v = b64_encode bs" for bs
    unfolding decode_base64url_Inr using that assms by auto
  ultimately show ?thesis using that(1) by fastforce
next
  case (Inr bs)
  then show ?thesis using that(2) decode_base64url_Inr by blast
qed

lemma b64_encode_inj: "b64_encode bs = b64_encode bs' \<Longrightarrow> bs = bs'"
  by (metis b64_decode_encode sum.inject(2))

lemma signature_valid_iff:
  assumes "payload_check (sa_payload a) = None"
  shows "signature_valid h ed25519 k a \<longleftrightarrow>
    (\<exists>pk sg. length pk = 32 \<and> tk_public_key_base64url k = b64_encode pk \<and> length sg = 64 \<and>
       sa_signature_base64url a = b64_encode sg \<and>
       ed25519 pk sg (DISPATCH_SIGNING_DOMAIN @ canonical_json_bytes h (payload_json (sa_payload a))))"
  using zero_less_numeral
proof (cases rule: decode_base64url_cases[where n = 32 and l = "''public key''" and v = "tk_public_key_base64url k"])
  case (decoded pk)
  note key = this
  show ?thesis
    using zero_less_numeral
  proof (cases rule: decode_base64url_cases[where n = 64 and l = "''signature''" and v = "sa_signature_base64url a"])
    case (decoded sg)
    have "signature_valid h ed25519 k a =
      ed25519 pk sg (DISPATCH_SIGNING_DOMAIN @ canonical_json_bytes h (payload_json (sa_payload a)))"
      by (simp add: signature_valid_def key(1) decoded(1) dispatch_authorization_signing_bytes_def assms)
    then show ?thesis using key(2,3) decoded(2,3) b64_encode_inj by metis
  qed (use key in \<open>auto simp: signature_valid_def\<close>)
qed (auto simp: signature_valid_def)

lemma keys_case:
  "(case filter P ks of [k] \<Rightarrow> f k | _ \<Rightarrow> Inl e) = Inr v \<longleftrightarrow> (\<exists>k. filter P ks = [k] \<and> f k = Inr v)"
  by (auto split: list.splits)

lemma verify_authorization_iff:
  "verify_authorization h ed25519 enforce now a store e = Inr v \<longleftrightarrow>
     0 \<le> now \<and> authorized h ed25519 a store e \<and> (enforce \<longrightarrow> in_window (sa_payload a) now) \<and>
     v = verified_of h a store now"
  (is "?L \<longleftrightarrow> ?R")
proof
  assume L: ?L
  then have ok: "signed_authorization_check h a = None" "trust_store_check store = None"
    by (auto simp: verify_authorization_def Let_def split: if_splits)
  from L obtain k where k: "filter (\<lambda>k. tk_key_id k = sa_key_id a) (ts_keys store) = [k]" "\<not> tk_revoked k"
    "tk_valid_from_unix k \<le> pl_issued_at_unix (sa_payload a)"
    "pl_expires_at_unix (sa_payload a) \<le> tk_valid_until_unix k" "signature_valid h ed25519 k a"
    "v = verified_of h a store now"
    by (auto simp: verify_authorization_def Let_def keys_case verified_of_def split: if_splits)
  have "0 \<le> now" "payload_bindings (sa_payload a) = e" "enforce \<longrightarrow> in_window (sa_payload a) now"
    using L by (auto simp: verify_authorization_def Let_def in_window_def split: if_splits)
  moreover have "authorized h ed25519 a store e"
    unfolding authorized_def
    using ok \<open>payload_bindings (sa_payload a) = e\<close> filter_single[OF k(1)] k(2-4)
      k(5)[unfolded signature_valid_iff[OF signed_authorization_checkD(1)[OF ok(1)]]] by blast
  ultimately show ?R using k(6) by blast
next
  assume R: ?R
  then have ok: "signed_authorization_check h a = None" "trust_store_check store = None"
    "payload_bindings (sa_payload a) = e"
    by (auto simp: authorized_def)
  from R obtain k where k: "k \<in> set (ts_keys store)" "tk_key_id k = sa_key_id a" "\<not> tk_revoked k"
    "tk_valid_from_unix k \<le> pl_issued_at_unix (sa_payload a)"
    "pl_expires_at_unix (sa_payload a) \<le> tk_valid_until_unix k"
    and "signature_valid h ed25519 k a"
    unfolding authorized_def signature_valid_iff[OF signed_authorization_checkD(1)[OF ok(1)]] by blast
  moreover have "filter (\<lambda>k. tk_key_id k = sa_key_id a) (ts_keys store) = [k]"
    using trusted_key_unique[OF trust_store_checkD(2)[OF ok(2)] k(1)] k(2) by simp
  moreover have "validate_expectation e = None"
    using expectation_of_payload[OF signed_authorization_checkD(1)[OF ok(1)]] ok(3) by simp
  ultimately show ?L
    using R ok by (simp add: verify_authorization_def Let_def in_window_def verified_of_def)
qed

section \<open>When a claim succeeds\<close>

abbreviation no_faults :: faults where
  "no_faults \<equiv> \<lambda>_. False"

text \<open>
  The new row of a claim, and what the ledger requires of it: fresh identities, and for a retry the
  committed parent it names.
\<close>

definition claimed_receipt :: "hasher \<Rightarrow> signed_authorization \<Rightarrow> trust_store \<Rightarrow> string \<Rightarrow> string \<Rightarrow> int \<Rightarrow> receipt" where
  "claimed_receipt h a store claim_id claim_nonce t = receipt_of (verified_of h a store t) claim_id claim_nonce t"

definition claim_identity_ok :: "string \<Rightarrow> string \<Rightarrow> bool" where
  "claim_identity_ok claim_id claim_nonce \<longleftrightarrow>
     sha256_ok claim_id \<and> sha256_ok claim_nonce \<and> claim_id \<noteq> zero_digest \<and> claim_nonce \<noteq> zero_digest"

definition retry_admissible :: "claim_row list \<Rightarrow> claim_row \<Rightarrow> int \<Rightarrow> bool" where
  "retry_admissible rows row issued_at =
     (case cr_retry_of_authorization_id row of
        None \<Rightarrow> True
      | Some parent_id \<Rightarrow> (\<exists>s \<in> set rows. cr_authorization_id s = parent_id \<and>
          cr_retry_of_claim_sha256 row = Some (cr_receipt_sha256 s) \<and>
          cr_retry_index row = cr_retry_index s + 1 \<and> cr_binding_sha256 row = cr_binding_sha256 s \<and>
          cr_claimed_at_unix s \<le> issued_at))"

lemma receipt_of_sel [simp]:
  "rc_claim_id (receipt_of v c n t) = c" "rc_claim_nonce (receipt_of v c n t) = n"
  "rc_claimed_at_unix (receipt_of v c n t) = t"
  "rc_authorization_id (receipt_of v c n t) = pl_authorization_id (sa_payload (va_authorization v))"
  "rc_dispatch_nonce (receipt_of v c n t) = pl_dispatch_nonce (sa_payload (va_authorization v))"
  "rc_retry_index (receipt_of v c n t) = pl_retry_index (sa_payload (va_authorization v))"
  "rc_retry_of_authorization_id (receipt_of v c n t) = pl_retry_of_authorization_id (sa_payload (va_authorization v))"
  "rc_retry_of_claim_sha256 (receipt_of v c n t) = pl_retry_of_claim_sha256 (sa_payload (va_authorization v))"
  "rc_authorization_sha256 (receipt_of v c n t) = va_authorization_sha256 v"
  "rc_job_manifest_sha256 (receipt_of v c n t) = pl_job_manifest_sha256 (sa_payload (va_authorization v))"
  by (simp_all add: receipt_of_def Let_def)

lemma receipt_check_iff:
  assumes "payload_check (sa_payload a) = None" "stable_id (sa_key_id a)" "stable_id (ts_trust_store_id store)"
    and h: "hexdigest_ok h"
  shows "receipt_check (receipt_of (verified_of h a store now) c n t) = None \<longleftrightarrow> claim_identity_ok c n \<and> 0 \<le> t"
  using payload_checkD[OF assms(1)] assms(2,3) sha256_json_ok[OF h]
  by (auto simp: receipt_check_def receipt_of_def Let_def verified_of_def claim_identity_ok_def int_in_def)

lemma row_of_sel [simp]:
  "cr_authorization_id (row_of h b r) = rc_authorization_id r"
  "cr_authorization_sha256 (row_of h b r) = rc_authorization_sha256 r"
  "cr_dispatch_nonce (row_of h b r) = rc_dispatch_nonce r" "cr_claim_id (row_of h b r) = rc_claim_id r"
  "cr_claim_nonce (row_of h b r) = rc_claim_nonce r" "cr_claimed_at_unix (row_of h b r) = rc_claimed_at_unix r"
  "cr_receipt_sha256 (row_of h b r) = sha256_json h (receipt_json r)" "cr_binding_sha256 (row_of h b r) = b"
  "cr_retry_index (row_of h b r) = rc_retry_index r"
  "cr_retry_of_authorization_id (row_of h b r) = rc_retry_of_authorization_id r"
  "cr_retry_of_claim_sha256 (row_of h b r) = rc_retry_of_claim_sha256 r"
  by (simp_all add: row_of_def)

text \<open>The conflict query finds exactly the rows that the table's constraints would refuse.\<close>

lemma claim_conflict_iff: "claim_conflict r (sha256_json h (receipt_json r)) s \<longleftrightarrow> rows_clash (row_of h b r) s"
  by (auto simp: claim_conflict_def rows_clash_def opt_clash_def)

lemma binding_agrees: "receipt_binding_sha256 h (receipt_of v c n t) = dispatch_binding_sha256 h (sa_payload (va_authorization v))"
  by (simp add: receipt_binding_sha256_def dispatch_binding_sha256_def receipt_of_def Let_def)

definition txn_faultless :: "faults \<Rightarrow> payload \<Rightarrow> bool" where
  "txn_faultless fault p \<longleftrightarrow>
     \<not> fault CONNECT \<and> \<not> fault BEGIN_IMMEDIATE \<and> \<not> fault SELECT_CLOCK \<and> \<not> fault UPDATE_CLOCK \<and>
     \<not> fault SELECT_CONFLICT \<and> (pl_retry_of_authorization_id p \<noteq> None \<longrightarrow> \<not> fault SELECT_PARENT) \<and>
     \<not> fault INSERT_CLAIM \<and> \<not> fault COMMIT"

definition clock_free :: "faults \<Rightarrow> bool" where
  "clock_free fault \<longleftrightarrow> \<not> fault CONNECT \<and> \<not> fault BEGIN_IMMEDIATE \<and> \<not> fault SELECT_CLOCK \<and> \<not> fault UPDATE_CLOCK \<and> \<not> fault COMMIT"

lemmas txn_end = commit_def rollback_def sql_failed_def

lemma advance_clock_Inr:
  "advance_clock fault t lg = (Inr (), lg') \<longleftrightarrow>
     clock_free fault \<and> 0 \<le> t \<and> \<not> clock_behind lg t \<and> lg' = lg\<lparr> lg_clock := Some t \<rparr>"
  by (auto simp: advance_clock_def Let_def txn_end clock_free_def split: if_splits)

lemma advance_clock_Inl:
  "advance_clock fault t lg = (Inl e, lg') \<Longrightarrow> lg' = lg"
  by (auto simp: advance_clock_def Let_def txn_end split: if_splits)

text \<open>The row a claim would insert, and its parent condition as the code checks it.\<close>

lemma claim_txn_Inr:
  fixes v :: verified_authorization
  defines "p \<equiv> sa_payload (va_authorization v)"
  defines "r0 \<equiv> \<lambda>c n t. receipt_of v c n t"
  shows "claim_txn h fault v c t n lg = (Inr r, lg') \<longleftrightarrow>
     txn_faultless fault p \<and> 0 \<le> t \<and> \<not> clock_behind lg t \<and> in_window p t \<and>
     receipt_check (r0 c n t) = None \<and>
     (\<forall>s \<in> set (lg_claims lg). \<not> rows_clash (row_of h (dispatch_binding_sha256 h p) (r0 c n t)) s) \<and>
     (\<forall>q. pl_retry_of_authorization_id p = Some q \<longrightarrow>
        \<not> retry_parent_bad (lg_claims lg) p (r0 c n t) q (dispatch_binding_sha256 h p)) \<and>
     claims_insert (lg_claims lg) (row_of h (dispatch_binding_sha256 h p) (r0 c n t)) =
       Some (lg_claims lg @ [row_of h (dispatch_binding_sha256 h p) (r0 c n t)]) \<and>
     r = r0 c n t \<and>
     lg' = \<lparr> lg_claims = lg_claims lg @ [row_of h (dispatch_binding_sha256 h p) (r0 c n t)], lg_clock = Some t \<rparr>"
proof -
  have ins: "claims_insert rows x = Some y \<longleftrightarrow> claims_insert rows x = Some (rows @ [x]) \<and> y = rows @ [x]" for rows x y
    by (auto simp: claims_insert_def split: if_splits)
  have clash: "(\<exists>s \<in> S. claim_conflict (receipt_of v c n t) (sha256_json h (receipt_json (receipt_of v c n t))) s) \<longleftrightarrow>
      (\<exists>s \<in> S. rows_clash (row_of h (dispatch_binding_sha256 h p) (receipt_of v c n t)) s)" for S
    by (simp only: claim_conflict_iff[where b = "dispatch_binding_sha256 h p"])
  show ?thesis
    unfolding claim_txn_def Let_def p_def[symmetric] r0_def clash
    by (cases "pl_retry_of_authorization_id p"; cases "claims_insert (lg_claims lg) (row_of h (dispatch_binding_sha256 h p) (receipt_of v c n t))")
      (auto simp: txn_end txn_faultless_def in_window_def p_def split: if_splits dest: ins[THEN iffD1])
qed

text \<open>Every other outcome leaves the claims as they were, and moves the clock at most to the time read.\<close>

lemma claim_txn_Inl:
  "claim_txn h fault v c t n lg = (Inl e, lg') \<Longrightarrow>
     lg' = lg \<or> \<not> clock_behind lg t \<and> 0 \<le> t \<and> lg' = lg\<lparr> lg_clock := Some t \<rparr>"
  unfolding claim_txn_def Let_def by (auto simp: txn_end split: if_splits option.splits)

section \<open>The ledger invariant\<close>

text \<open>
  A row is sound over the rows committed before it: it satisfies the table's checks, collides with none
  of them, and if it is a retry its parent is among them, one index lower, with the same binding, not
  claimed later.
\<close>

definition entry_ok :: "claim_row list \<Rightarrow> claim_row \<Rightarrow> bool" where
  "entry_ok earlier r \<longleftrightarrow>
     row_checks r \<and> cr_retry_index r \<le> 16 \<and> (\<forall>s \<in> set earlier. \<not> rows_clash r s) \<and>
     retry_admissible earlier r (cr_claimed_at_unix r)"

definition rows_ok :: "claim_row list \<Rightarrow> bool" where
  "rows_ok rows \<longleftrightarrow> (\<forall>i < length rows. entry_ok (take i rows) (rows ! i))"

definition ledger_inv :: "ledger \<Rightarrow> bool" where
  "ledger_inv lg \<longleftrightarrow> rows_ok (lg_claims lg) \<and>
     (\<exists>t. lg_clock lg = Some t \<and> 0 \<le> t \<and> (\<forall>r \<in> set (lg_claims lg). cr_claimed_at_unix r \<le> t))"

lemma rows_ok_Nil [simp]: "rows_ok []"
  by (simp add: rows_ok_def)

lemma rows_ok_snoc [simp]: "rows_ok (rows @ [r]) \<longleftrightarrow> rows_ok rows \<and> entry_ok rows r"
  by (auto simp: rows_ok_def nth_append less_Suc_eq)

lemma empty_ledger_inv: "ledger_inv empty_ledger"
  by (simp add: ledger_inv_def empty_ledger_def)

lemma rows_ok_no_clash: "rows_ok rows \<Longrightarrow> sorted_wrt (\<lambda>x y. \<not> rows_clash y x) rows"
  by (induction rows rule: rev_induct) (auto simp: sorted_wrt_append entry_ok_def)

lemma rows_ok_unique_id:
  assumes "rows_ok rows" "r \<in> set rows" "s \<in> set rows" "cr_authorization_id r = cr_authorization_id s"
  shows "r = s"
  using assms by (induction rows rule: rev_induct) (auto simp: entry_ok_def rows_clash_def)

lemma find_by_id:
  assumes "rows_ok rows" "r \<in> set rows"
  shows "find (\<lambda>s. cr_authorization_id s = cr_authorization_id r) rows = Some r"
proof -
  have "find (\<lambda>s. cr_authorization_id s = cr_authorization_id r) rows \<noteq> None"
    using assms(2) by (auto simp: find_None_iff)
  then obtain x where x: "find (\<lambda>s. cr_authorization_id s = cr_authorization_id r) rows = Some x" by blast
  then have "x = r"
    using find_Some_mem[OF x] rows_ok_unique_id[OF assms(1) _ assms(2)] by blast
  then show ?thesis using x by simp
qed

lemma retry_parent_iff:
  assumes "rows_ok rows" "pl_retry_of_authorization_id p = Some q"
    and r: "rc_retry_of_authorization_id r = Some q" "rc_retry_of_claim_sha256 r = pl_retry_of_claim_sha256 p"
  shows "\<not> retry_parent_bad rows p r q b \<longleftrightarrow> retry_admissible rows (row_of h b r) (pl_issued_at_unix p)"
proof (cases "find (\<lambda>s. cr_authorization_id s = q) rows")
  case None
  then have "\<forall>s \<in> set rows. cr_authorization_id s \<noteq> q" by (auto simp: find_None_iff)
  with None show ?thesis using r by (auto simp: retry_parent_bad_def retry_admissible_def)
next
  case (Some s)
  then have s: "s \<in> set rows" "cr_authorization_id s = q" using find_Some_mem[OF Some] by auto
  have uniq: "s' = s" if "s' \<in> set rows" "cr_authorization_id s' = q" for s'
    using rows_ok_unique_id[OF assms(1) that(1) s(1)] that(2) s(2) by simp
  have "(\<exists>s' \<in> set rows. cr_authorization_id s' = q \<and> P s') \<longleftrightarrow> P s" for P
    using uniq s by blast
  then have "retry_admissible rows (row_of h b r) (pl_issued_at_unix p) \<longleftrightarrow>
      rc_retry_of_claim_sha256 r = Some (cr_receipt_sha256 s) \<and> rc_retry_index r = cr_retry_index s + 1 \<and>
      b = cr_binding_sha256 s \<and> cr_claimed_at_unix s \<le> pl_issued_at_unix p"
    by (simp add: retry_admissible_def r(1))
  then show ?thesis using r(2) by (auto simp: retry_parent_bad_def Some)
qed

text \<open>An admissible row satisfies the table's declaration: the insertion after the checks never fails.\<close>

lemma receipt_row_checks:
  assumes "receipt_check r = None" "hexdigest_ok h"
  shows "row_checks (row_of h (sha256_json h b) r)"
proof -
  have len: "length (sha256_json h v) = 64" for v using sha256_json_ok[OF assms(2)] by (simp add: sha256_ok_def)
  have retry: "\<not> retry_lineage_broken (rc_retry_index r) (rc_retry_of_authorization_id r) (rc_retry_of_claim_sha256 r)"
    "0 \<le> rc_retry_index r" "opt_ok sha256_ok (rc_retry_of_claim_sha256 r)"
    using assms(1) by (auto simp: receipt_check_def int_in_def)
  have "opt_ok (\<lambda>d. length d = 64) (rc_retry_of_claim_sha256 r)"
    using retry(3) by (auto simp: opt_ok_def sha256_ok_def split: option.splits)
  moreover have "rc_retry_index r = 0 \<and> rc_retry_of_authorization_id r = None \<and> rc_retry_of_claim_sha256 r = None \<or>
      rc_retry_index r > 0 \<and> rc_retry_of_authorization_id r \<noteq> None \<and> rc_retry_of_claim_sha256 r \<noteq> None"
    using retry(1,2) unfolding retry_lineage_broken_def by linarith
  ultimately show ?thesis
    using assms(1) len retry(2) by (simp add: row_checks_def row_of_def receipt_check_def sha256_ok_def)
qed

lemma insert_admissible:
  assumes "row_checks r" "\<forall>s \<in> set rows. \<not> rows_clash r s" "retry_admissible rows r t"
  shows "claims_insert rows r = Some (rows @ [r])"
proof -
  have "foreign_key_ok (rows @ [r]) r"
    using assms(3) by (cases "cr_retry_of_authorization_id r"; cases "cr_retry_of_claim_sha256 r")
      (auto simp: foreign_key_ok_def retry_admissible_def)
  then show ?thesis using assms(1,2) by (simp add: claims_insert_def)
qed

lemma retry_admissible_mono: "retry_admissible rows r t \<Longrightarrow> t \<le> t' \<Longrightarrow> retry_admissible rows r t'"
  by (fastforce simp: retry_admissible_def split: option.splits)

section \<open>Claims\<close>

definition claimed_row :: "hasher \<Rightarrow> signed_authorization \<Rightarrow> trust_store \<Rightarrow> string \<Rightarrow> string \<Rightarrow> int \<Rightarrow> claim_row" where
  "claimed_row h a store c n t = row_of h (dispatch_binding_sha256 h (sa_payload a)) (claimed_receipt h a store c n t)"

definition claim_admissible ::
    "hasher \<Rightarrow> ed25519_verify \<Rightarrow> signed_authorization \<Rightarrow> trust_store \<Rightarrow> expectation \<Rightarrow> string \<Rightarrow> string \<Rightarrow> int \<Rightarrow> int
     \<Rightarrow> ledger \<Rightarrow> bool" where
  "claim_admissible h ed25519 a store e c n t1 t2 lg \<longleftrightarrow>
     authorized h ed25519 a store e \<and> claim_identity_ok c n \<and>
     0 \<le> t1 \<and> \<not> clock_behind lg t1 \<and> t1 \<le> t2 \<and> in_window (sa_payload a) t1 \<and> in_window (sa_payload a) t2 \<and>
     (\<forall>s \<in> set (lg_claims lg). \<not> rows_clash (claimed_row h a store c n t2) s) \<and>
     retry_admissible (lg_claims lg) (claimed_row h a store c n t2) (pl_issued_at_unix (sa_payload a))"

lemma receipt_of_verified [simp]: "receipt_of (verified_of h a store t) c n t' = claimed_receipt h a store c n t'"
  by (simp add: claimed_receipt_def receipt_of_def verified_of_def Let_def)

lemma claimed_receipt_sel [simp]:
  "rc_retry_of_authorization_id (claimed_receipt h a store c n t) = pl_retry_of_authorization_id (sa_payload a)"
  "rc_retry_of_claim_sha256 (claimed_receipt h a store c n t) = pl_retry_of_claim_sha256 (sa_payload a)"
  "rc_retry_index (claimed_receipt h a store c n t) = pl_retry_index (sa_payload a)"
  "rc_claimed_at_unix (claimed_receipt h a store c n t) = t"
  "rc_authorization_id (claimed_receipt h a store c n t) = pl_authorization_id (sa_payload a)"
  "rc_dispatch_nonce (claimed_receipt h a store c n t) = pl_dispatch_nonce (sa_payload a)"
  "rc_claim_id (claimed_receipt h a store c n t) = c"
  by (simp_all add: claimed_receipt_def verified_of_def)

lemma authorizedD:
  assumes "authorized h ed25519 a store e"
  shows "payload_check (sa_payload a) = None" "stable_id (sa_key_id a)" "stable_id (ts_trust_store_id store)"
  using assms signed_authorization_checkD trust_store_checkD by (auto simp: authorized_def)

lemma claimed_receipt_check:
  assumes "authorized h ed25519 a store e" "hexdigest_ok h"
  shows "receipt_check (claimed_receipt h a store c n t) = None \<longleftrightarrow> claim_identity_ok c n \<and> 0 \<le> t"
  using receipt_check_iff[OF authorizedD[OF assms(1)] assms(2)] by simp

lemma retry_admissible_first: "cr_retry_of_authorization_id r = None \<Longrightarrow> retry_admissible rows r t"
  by (simp add: retry_admissible_def)

lemma claim_txn_iff:
  assumes "hexdigest_ok h" "rows_ok (lg_claims lg)" "authorized h ed25519 a store e"
  shows "claim_txn h fault (verified_of h a store t1) c t n lg = (Inr r, lg') \<longleftrightarrow>
     txn_faultless fault (sa_payload a) \<and> 0 \<le> t \<and> \<not> clock_behind lg t \<and> in_window (sa_payload a) t \<and>
     claim_identity_ok c n \<and> (\<forall>s \<in> set (lg_claims lg). \<not> rows_clash (claimed_row h a store c n t) s) \<and>
     retry_admissible (lg_claims lg) (claimed_row h a store c n t) (pl_issued_at_unix (sa_payload a)) \<and>
     r = claimed_receipt h a store c n t \<and>
     lg' = \<lparr> lg_claims = lg_claims lg @ [claimed_row h a store c n t], lg_clock = Some t \<rparr>"
proof -
  let ?p = "sa_payload a" and ?r = "claimed_receipt h a store c n t" and ?row = "claimed_row h a store c n t"
  have auth: "va_authorization (verified_of h a store t1) = a" by (simp add: verified_of_def)
  have parent: "(\<forall>q. pl_retry_of_authorization_id ?p = Some q \<longrightarrow>
      \<not> retry_parent_bad (lg_claims lg) ?p ?r q (dispatch_binding_sha256 h ?p)) \<longleftrightarrow>
      retry_admissible (lg_claims lg) ?row (pl_issued_at_unix ?p)"
  proof (cases "pl_retry_of_authorization_id ?p")
    case None
    then show ?thesis by (simp add: retry_admissible_first claimed_row_def)
  next
    case (Some q)
    then show ?thesis using retry_parent_iff[OF assms(2) Some, of ?r] by (simp add: claimed_row_def)
  qed
  have ins: "claims_insert (lg_claims lg) ?row = Some (lg_claims lg @ [?row])"
    if "claim_identity_ok c n" "0 \<le> t" "\<forall>s \<in> set (lg_claims lg). \<not> rows_clash ?row s"
      "retry_admissible (lg_claims lg) ?row (pl_issued_at_unix ?p)"
    using insert_admissible[OF _ that(3,4)] receipt_row_checks[OF _ assms(1), of ?r]
      claimed_receipt_check[OF assms(3,1), of c n t] that(1,2)
    by (simp add: claimed_row_def dispatch_binding_sha256_def)
  show ?thesis
    unfolding claim_txn_Inr auth receipt_of_verified claimed_row_def[symmetric] parent
      claimed_receipt_check[OF assms(3,1)]
    by (intro iffI; elim conjE; intro conjI; (assumption | rule ins; assumption))
qed

lemma clock_advanced [simp]: "clock_behind (lg\<lparr> lg_clock := Some t \<rparr>) t' \<longleftrightarrow> t' < t"
  by (simp add: clock_behind_def)

lemma claim_iff:
  assumes "hexdigest_ok h" "rows_ok (lg_claims lg)"
  shows "claim_authorization h ed25519 fault1 fault2 t1 t2 n a store e c lg = (Inr r, lg') \<longleftrightarrow>
     clock_free fault1 \<and> txn_faultless fault2 (sa_payload a) \<and> claim_admissible h ed25519 a store e c n t1 t2 lg \<and>
     r = claimed_receipt h a store c n t2 \<and>
     lg' = \<lparr> lg_claims = lg_claims lg @ [claimed_row h a store c n t2], lg_clock = Some t2 \<rparr>"
  (is "?L \<longleftrightarrow> ?R")
proof -
  have "?L \<longleftrightarrow> clock_free fault1 \<and> 0 \<le> t1 \<and> \<not> clock_behind lg t1 \<and> authorized h ed25519 a store e \<and>
      in_window (sa_payload a) t1 \<and>
      claim_txn h fault2 (verified_of h a store t1) c t2 n (lg\<lparr> lg_clock := Some t1 \<rparr>) = (Inr r, lg')"
  proof (cases "advance_clock fault1 t1 lg")
    case (Pair x lg1)
    show ?thesis
    proof (cases x)
      case (Inl y)
      then show ?thesis
        using advance_clock_Inr[of fault1 t1 lg] Pair by (auto simp: claim_authorization_def)
    next
      case (Inr y)
      then have adv: "clock_free fault1" "0 \<le> t1" "\<not> clock_behind lg t1" "lg1 = lg\<lparr> lg_clock := Some t1 \<rparr>"
        using advance_clock_Inr[of fault1 t1 lg lg1] Pair by auto
      show ?thesis
      proof (cases "verify_authorization h ed25519 True t1 a store e")
        case (Inl z)
        then show ?thesis
          using adv Pair Inr verify_authorization_iff[of h ed25519 True t1 a store e "verified_of h a store t1"]
          by (auto simp: claim_authorization_def verify_dispatch_authorization_def)
      next
        case (Inr v)
        then have "authorized h ed25519 a store e" "in_window (sa_payload a) t1" "v = verified_of h a store t1"
          using verify_authorization_iff[of h ed25519 True t1 a store e v] by simp_all
        then show ?thesis
          using adv Pair Inr \<open>x = Inr y\<close> by (simp add: claim_authorization_def verify_dispatch_authorization_def)
      qed
    qed
  qed
  also have "\<dots> \<longleftrightarrow> ?R"
    using claim_txn_iff[OF assms(1), of "lg\<lparr> lg_clock := Some t1 \<rparr>" ed25519 a store e fault2 t1 c t2 n r lg'] assms(2)
    by (auto simp: claim_admissible_def)
  finally show ?thesis .
qed

text \<open>A claim that raises changes nothing but the clock, and that only forward.\<close>

definition clock_only :: "ledger \<Rightarrow> int set \<Rightarrow> ledger \<Rightarrow> bool" where
  "clock_only lg ts lg' \<longleftrightarrow>
     lg' = lg \<or> (\<exists>t \<in> ts. 0 \<le> t \<and> \<not> clock_behind lg t \<and> lg' = lg\<lparr> lg_clock := Some t \<rparr>)"

lemma claim_failed:
  assumes "claim_authorization h ed25519 fault1 fault2 t1 t2 n a store e c lg = (Inl x, lg')"
  shows "clock_only lg {t1, t2} lg'"
proof (cases "advance_clock fault1 t1 lg")
  case (Pair r lg1)
  show ?thesis
  proof (cases r)
    case (Inl y)
    then show ?thesis
      using assms Pair advance_clock_Inl[of fault1 t1 lg y lg1] by (auto simp: claim_authorization_def clock_only_def)
  next
    case (Inr y)
    then have adv: "0 \<le> t1" "\<not> clock_behind lg t1" "lg1 = lg\<lparr> lg_clock := Some t1 \<rparr>"
      using advance_clock_Inr[of fault1 t1 lg lg1] Pair by auto
    show ?thesis
    proof (cases "verify_dispatch_authorization h ed25519 t1 a store e")
      case (Inl z)
      then show ?thesis using assms adv Pair Inr \<open>r = Inr y\<close> by (auto simp: claim_authorization_def clock_only_def)
    next
      case (Inr v)
      then have "claim_txn h fault2 v c t2 n lg1 = (Inl x, lg')"
        using assms Pair \<open>r = Inr y\<close> by (simp add: claim_authorization_def)
      then have "lg' = lg1 \<or> \<not> clock_behind lg1 t2 \<and> lg' = lg1\<lparr> lg_clock := Some t2 \<rparr>"
        using claim_txn_Inl by blast
      then show ?thesis using adv by (auto simp: clock_only_def clock_behind_def split: option.splits)
    qed
  qed
qed

text \<open>The operations on the ledger, and the receipt each commits, if any.\<close>

datatype ledger_op =
    Advance faults int
  | Claim faults faults int int string signed_authorization trust_store expectation string

fun ledger_step :: "hasher \<Rightarrow> ed25519_verify \<Rightarrow> ledger_op \<Rightarrow> ledger \<Rightarrow> receipt option \<times> ledger" where
  "ledger_step h ed25519 (Advance fault t) lg = (None, snd (advance_clock fault t lg))"
| "ledger_step h ed25519 (Claim fault1 fault2 t1 t2 n a store e c) lg =
     (case claim_authorization h ed25519 fault1 fault2 t1 t2 n a store e c lg of
        (Inl _, lg') \<Rightarrow> (None, lg') | (Inr r, lg') \<Rightarrow> (Some r, lg'))"

definition receipt_row :: "hasher \<Rightarrow> receipt \<Rightarrow> claim_row" where
  "receipt_row h r = row_of h (receipt_binding_sha256 h r) r"

lemma claimed_receipt_row: "receipt_row h (claimed_receipt h a store c n t) = claimed_row h a store c n t"
  unfolding receipt_row_def claimed_row_def claimed_receipt_def binding_agrees by (simp add: verified_of_def)

lemma clock_only_inv:
  assumes "ledger_inv lg" "clock_only lg ts lg'"
  shows "ledger_inv lg'" "lg_claims lg' = lg_claims lg" "the (lg_clock lg) \<le> the (lg_clock lg')"
  using assms by (fastforce simp: ledger_inv_def clock_only_def clock_behind_def)+

lemma advance_clock_only:
  shows "clock_only lg {t} (snd (advance_clock fault t lg))"
proof (cases "advance_clock fault t lg")
  case (Pair r lg')
  then show ?thesis
    using advance_clock_Inl[of fault t lg _ lg'] advance_clock_Inr[of fault t lg lg'] by (cases r) (auto simp: clock_only_def)
qed

lemma claimed_row_entry_ok:
  assumes "hexdigest_ok h" "claim_admissible h ed25519 a store e c n t1 t2 lg"
  shows "entry_ok (lg_claims lg) (claimed_row h a store c n t2)"
proof -
  have auth: "authorized h ed25519 a store e" and t2: "0 \<le> t2" using assms(2) by (auto simp: claim_admissible_def)
  note p = payload_checkD[OF authorizedD(1)[OF auth]]
  have "receipt_check (claimed_receipt h a store c n t2) = None"
    using claimed_receipt_check[OF auth assms(1)] assms(2) t2 by (simp add: claim_admissible_def)
  then have "row_checks (claimed_row h a store c n t2)"
    using receipt_row_checks[OF _ assms(1)] by (simp add: claimed_row_def dispatch_binding_sha256_def)
  moreover have "pl_issued_at_unix (sa_payload a) \<le> t2"
    using p(13) assms(2) by (auto simp: claim_admissible_def in_window_def)
  moreover have "cr_claimed_at_unix (claimed_row h a store c n t2) = t2"
    "cr_retry_index (claimed_row h a store c n t2) = pl_retry_index (sa_payload a)"
    by (simp_all add: claimed_row_def)
  ultimately show ?thesis
    using assms(2) p(17) retry_admissible_mono by (auto simp: entry_ok_def claim_admissible_def)
qed

lemma claim_committed:
  assumes h: "hexdigest_ok h" and inv: "ledger_inv lg"
    and ok: "claim_authorization h ed25519 fault1 fault2 t1 t2 n a store e c lg = (Inr r, lg')"
  shows "ledger_inv lg'" "lg_claims lg' = lg_claims lg @ [receipt_row h r]" "the (lg_clock lg) \<le> the (lg_clock lg')"
proof -
  have rows: "rows_ok (lg_claims lg)" using inv by (simp add: ledger_inv_def)
  note c = ok[unfolded claim_iff[OF h rows]]
  then have adm: "claim_admissible h ed25519 a store e c n t1 t2 lg" by blast
  obtain m where m: "lg_clock lg = Some m" "\<forall>r \<in> set (lg_claims lg). cr_claimed_at_unix r \<le> m" "0 \<le> m"
    using inv by (auto simp: ledger_inv_def)
  then have le: "m \<le> t2" using adm by (auto simp: claim_admissible_def clock_behind_def)
  have t: "cr_claimed_at_unix (claimed_row h a store c n t2) = t2" by (simp add: claimed_row_def)
  show "ledger_inv lg'"
    using c claimed_row_entry_ok[OF h adm] rows m le t by (fastforce simp: ledger_inv_def)
  show "lg_claims lg' = lg_claims lg @ [receipt_row h r]" using c by (simp add: claimed_receipt_row)
  show "the (lg_clock lg) \<le> the (lg_clock lg')" using c m le by simp
qed

lemma ledger_step_facts:
  assumes "hexdigest_ok h" "ledger_inv lg"
  shows "ledger_inv (snd (ledger_step h ed25519 op lg))"
    "lg_claims (snd (ledger_step h ed25519 op lg)) =
       lg_claims lg @ (case fst (ledger_step h ed25519 op lg) of None \<Rightarrow> [] | Some r \<Rightarrow> [receipt_row h r])"
    "the (lg_clock lg) \<le> the (lg_clock (snd (ledger_step h ed25519 op lg)))"
proof -
  have "ledger_inv (snd (ledger_step h ed25519 op lg)) \<and>
    lg_claims (snd (ledger_step h ed25519 op lg)) =
       lg_claims lg @ (case fst (ledger_step h ed25519 op lg) of None \<Rightarrow> [] | Some r \<Rightarrow> [receipt_row h r]) \<and>
    the (lg_clock lg) \<le> the (lg_clock (snd (ledger_step h ed25519 op lg)))"
  proof (cases op)
    case (Advance fault t)
    then show ?thesis using clock_only_inv[OF assms(2) advance_clock_only[of lg t fault]] by simp
  next
    case (Claim fault1 fault2 t1 t2 n a store e c)
    obtain x lg' where cl: "claim_authorization h ed25519 fault1 fault2 t1 t2 n a store e c lg = (x, lg')"
      by fastforce
    show ?thesis
    proof (cases x)
      case (Inl y)
      then show ?thesis
        using Claim cl clock_only_inv[OF assms(2) claim_failed] by simp
    next
      case (Inr r)
      then show ?thesis using Claim cl claim_committed[OF assms] by simp
    qed
  qed
  then show "ledger_inv (snd (ledger_step h ed25519 op lg))"
    "lg_claims (snd (ledger_step h ed25519 op lg)) =
       lg_claims lg @ (case fst (ledger_step h ed25519 op lg) of None \<Rightarrow> [] | Some r \<Rightarrow> [receipt_row h r])"
    "the (lg_clock lg) \<le> the (lg_clock (snd (ledger_step h ed25519 op lg)))"
    by blast+
qed

lemma ledger_step_receipt:
  assumes "hexdigest_ok h" "ledger_inv lg" "fst (ledger_step h ed25519 op lg) = Some r"
  shows "receipt_check r = None"
proof -
  have rows: "rows_ok (lg_claims lg)" using assms(2) by (simp add: ledger_inv_def)
  obtain fault1 fault2 t1 t2 n a store e c lg' where
    "claim_authorization h ed25519 fault1 fault2 t1 t2 n a store e c lg = (Inr r, lg')"
    using assms(3) by (cases op) (auto split: sum.splits prod.splits)
  then have "claim_admissible h ed25519 a store e c n t1 t2 lg" "r = claimed_receipt h a store c n t2"
    unfolding claim_iff[OF assms(1) rows] by blast+
  then show ?thesis
    using claimed_receipt_check[OF _ assms(1)] by (auto simp: claim_admissible_def)
qed

lemma ledger_inv_no_clash: "ledger_inv lg \<Longrightarrow> sorted_wrt (\<lambda>x y. \<not> rows_clash y x) (lg_claims lg)"
  by (simp add: ledger_inv_def rows_ok_no_clash)

interpretation claims: one_shot "ledger_step h ed25519" "\<lambda>lg. hexdigest_ok h \<and> ledger_inv lg" lg_claims
    "receipt_row h" rows_clash "\<lambda>lg. the (lg_clock lg)" "\<lambda>r. receipt_check r = None" for h ed25519
  by unfold_locales (blast intro: ledger_step_facts ledger_step_receipt ledger_inv_no_clash)+

section \<open>Retry lineages\<close>

text \<open>Following the retry parents of a claim, at most \<open>fuel\<close> times.\<close>

fun lineage :: "claim_row list \<Rightarrow> nat \<Rightarrow> claim_row \<Rightarrow> claim_row list" where
  "lineage rows 0 r = [r]"
| "lineage rows (Suc fuel) r = r #
     (case cr_retry_of_authorization_id r of
        None \<Rightarrow> []
      | Some q \<Rightarrow> (case find (\<lambda>s. cr_authorization_id s = q) rows of None \<Rightarrow> [] | Some s \<Rightarrow> lineage rows fuel s))"

lemma retry_admissible_superset:
  "retry_admissible rows r t \<Longrightarrow> set rows \<subseteq> set rows' \<Longrightarrow> retry_admissible rows' r t"
  by (fastforce simp: retry_admissible_def split: option.splits)

lemma rows_ok_entry:
  assumes "rows_ok rows" "r \<in> set rows"
  shows "row_checks r" "cr_retry_index r \<le> 16" "retry_admissible rows r (cr_claimed_at_unix r)"
proof -
  obtain i where i: "i < length rows" "r = rows ! i" using assms(2) by (auto simp: in_set_conv_nth)
  then have "entry_ok (take i rows) r" using assms(1) by (simp add: rows_ok_def)
  then show "row_checks r" "cr_retry_index r \<le> 16" "retry_admissible rows r (cr_claimed_at_unix r)"
    using retry_admissible_superset[of "take i rows" r "cr_claimed_at_unix r" rows] set_take_subset[of i rows]
    by (simp_all add: entry_ok_def)
qed

lemma retry_parent:
  assumes "rows_ok rows" "r \<in> set rows" "cr_retry_index r \<noteq> 0"
  obtains q s where "cr_retry_of_authorization_id r = Some q" "find (\<lambda>s. cr_authorization_id s = q) rows = Some s"
    "s \<in> set rows" "cr_retry_index r = cr_retry_index s + 1" "cr_binding_sha256 s = cr_binding_sha256 r"
    "cr_claimed_at_unix s \<le> cr_claimed_at_unix r" "cr_retry_of_claim_sha256 r = Some (cr_receipt_sha256 s)"
proof -
  note e = rows_ok_entry[OF assms(1,2)]
  obtain q where q: "cr_retry_of_authorization_id r = Some q" using e(1) assms(3) by (auto simp: row_checks_def)
  then obtain s where s: "s \<in> set rows" "cr_authorization_id s = q" "cr_retry_of_claim_sha256 r = Some (cr_receipt_sha256 s)"
    "cr_retry_index r = cr_retry_index s + 1" "cr_binding_sha256 r = cr_binding_sha256 s"
    "cr_claimed_at_unix s \<le> cr_claimed_at_unix r"
    using e(3) by (auto simp: retry_admissible_def)
  have "find (\<lambda>s. cr_authorization_id s = q) rows = Some s" using find_by_id[OF assms(1) s(1)] s(2) by simp
  then show thesis by (rule that[OF q _ s(1,4) s(5)[symmetric] s(6,3)])
qed

lemma lineage_complete:
  assumes "rows_ok rows"
  shows "r \<in> set rows \<Longrightarrow> nat (cr_retry_index r) = k \<Longrightarrow>
    map cr_retry_index (lineage rows k r) = map int (rev [0..<Suc k]) \<and>
    (\<forall>s \<in> set (lineage rows k r). s \<in> set rows \<and> cr_binding_sha256 s = cr_binding_sha256 r \<and>
       cr_claimed_at_unix s \<le> cr_claimed_at_unix r)"
proof (induction k arbitrary: r)
  case 0
  then have "cr_retry_index r = 0" using rows_ok_entry(1)[OF assms] by (force simp: row_checks_def)
  then show ?case using 0 by simp
next
  case (Suc k)
  then have idx: "cr_retry_index r = int (Suc k)" by linarith
  then have "cr_retry_index r \<noteq> 0" by simp
  then obtain q s where s: "cr_retry_of_authorization_id r = Some q"
    "find (\<lambda>s. cr_authorization_id s = q) rows = Some s" "s \<in> set rows" "cr_retry_index r = cr_retry_index s + 1"
    "cr_binding_sha256 s = cr_binding_sha256 r" "cr_claimed_at_unix s \<le> cr_claimed_at_unix r"
    by (rule retry_parent[OF assms Suc.prems(1)])
  have "nat (cr_retry_index s) = k" using s(4) idx by linarith
  note IH = Suc.IH[OF s(3) this]
  have l: "lineage rows (Suc k) r = r # lineage rows k s" by (simp add: s(1,2))
  have "map cr_retry_index (lineage rows (Suc k) r) = map int (rev [0..<Suc (Suc k)])"
    unfolding l using IH idx by simp
  then show ?case unfolding l using IH s(5,6) Suc.prems(1) by auto
qed

section \<open>Errors\<close>

lemma claim_txn_no_integrity_error:
  assumes h: "hexdigest_ok h" and rows: "rows_ok (lg_claims lg)" and auth: "authorized h ed25519 a store e"
  shows "fst (claim_txn h fault (verified_of h a store t1) c t n lg) \<noteq>
    Inl (DLE ''dispatch claim violated ledger integrity'')"
proof -
  let ?p = "sa_payload a" and ?r = "claimed_receipt h a store c n t"
  let ?row = "row_of h (dispatch_binding_sha256 h ?p) ?r"
  have va: "va_authorization (verified_of h a store t1) = a" by (simp add: verified_of_def)
  have ins: "claims_insert (lg_claims lg) ?row \<noteq> None"
    if "receipt_check ?r = None" "\<not> (\<exists>s \<in> set (lg_claims lg). claim_conflict ?r (sha256_json h (receipt_json ?r)) s)"
      "\<not> (case rc_retry_of_authorization_id ?r of None \<Rightarrow> False
           | Some q \<Rightarrow> retry_parent_bad (lg_claims lg) ?p ?r q (dispatch_binding_sha256 h ?p))"
  proof -
    have "retry_admissible (lg_claims lg) ?row (pl_issued_at_unix ?p)"
      using that(3) retry_parent_iff[OF rows, of ?p _ ?r "dispatch_binding_sha256 h ?p" h]
      by (cases "pl_retry_of_authorization_id ?p") (auto intro: retry_admissible_first)
    moreover have "\<forall>s \<in> set (lg_claims lg). \<not> rows_clash ?row s"
      using that(2) by (simp only: claim_conflict_iff[where b = "dispatch_binding_sha256 h ?p"]) blast
    ultimately show ?thesis
      using insert_admissible[OF receipt_row_checks[OF that(1) h]] unfolding dispatch_binding_sha256_def by simp
  qed
  show ?thesis
    unfolding claim_txn_def Let_def va receipt_of_verified
    using ins by (auto simp: txn_end split: option.split)
qed

end
