(* ===== verification/Dispatch_Correct.thy ===== *)
theory Dispatch_Correct
  imports Dispatch_Ledger Samples
begin

text \<open>
  The properties of dispatch admission, applied to a concrete signed authorization and trust store:
  verification, claims, one-shot admission over whole runs, durability of receipts, retry lineages,
  errors, and the composed operation \<open>admit_dispatch\<close>.
\<close>

section \<open>A concrete authorization\<close>

definition digest_c :: string where
  "digest_c = replicate 64 CHR ''c''"

definition sample_payload :: payload where
  "sample_payload =
     \<lparr> pl_authorization_id = ''auth'', pl_dispatch_nonce = digest_c, pl_job_manifest_sha256 = digest_a,
       pl_request_sha256 = digest_a, pl_experiment_sha256 = digest_a, pl_environment_sha256 = digest_a,
       pl_execution_profile_sha256 = digest_a, pl_resource_profile_sha256 = digest_a, pl_purpose = P_BENCHMARK,
       pl_worker_pool_audience = ''pool'', pl_policy_id = ''policy'', pl_policy_sha256 = digest_a,
       pl_issued_at_unix = 100, pl_not_before_unix = 100, pl_expires_at_unix = 200, pl_retry_index = 0,
       pl_retry_of_authorization_id = None, pl_retry_of_claim_sha256 = None \<rparr>"

definition sample_signed :: signed_authorization where
  "sample_signed = \<lparr> sa_key_id = ''key'', sa_payload = sample_payload, sa_payload_sha256 = digest_a,
     sa_signature_base64url = replicate 86 CHR ''A'' \<rparr>"

definition sample_store :: trust_store where
  "sample_store = \<lparr> ts_trust_store_id = ''store'', ts_keys =
     [\<lparr> tk_key_id = ''key'', tk_public_key_base64url = replicate 43 CHR ''A'', tk_valid_from_unix = 0,
        tk_valid_until_unix = 1000, tk_revoked = False \<rparr>] \<rparr>"

definition accept_all :: ed25519_verify where
  "accept_all pk sg m = True"

abbreviation sample_expectation :: expectation where
  "sample_expectation \<equiv> payload_bindings sample_payload"

lemma digest_c_ok: "sha256_ok digest_c" "digest_c \<noteq> zero_digest"
  by (simp_all add: digest_c_def zero_digest_def sha256_ok_def is_hex_def is_digit_def numeral_eq_Suc)

lemma sample_patterns: "public_key_pattern (replicate 43 CHR ''A'')" "signature_pattern (replicate 86 CHR ''A'')"
  by (auto simp: public_key_pattern_def signature_pattern_def list_all_iff b64_alphabet_def b64_val_def is_upper_def
      dest!: in_set_butlastD)

lemma sample_payload_ok: "payload_check sample_payload = None"
  using digest_c_ok
  by (simp add: payload_check_def sample_payload_def int_in_def MAX_AUTHORIZATION_LIFETIME_SECONDS_def
      retry_lineage_broken_def id_simps)

lemma pattern_decodes:
  "signature_pattern s \<Longrightarrow> \<not> is_error (decode_base64url 64 l s)"
  "public_key_pattern s \<Longrightarrow> \<not> is_error (decode_base64url 32 l s)"
proof -
  have "\<not> is_error (decode_base64url n l s)" if "s = b64_encode bs" "length bs = n" "0 < n" for bs n
    using that decode_base64url_Inr[of n l s bs] by (auto simp: is_error_def)
  then show "signature_pattern s \<Longrightarrow> \<not> is_error (decode_base64url 64 l s)"
    "public_key_pattern s \<Longrightarrow> \<not> is_error (decode_base64url 32 l s)"
    unfolding signature_pattern_iff public_key_pattern_iff by fastforce+
qed

lemma sample_signed_ok: "signed_authorization_check sample_hasher sample_signed = None"
  using sample_payload_ok sample_patterns(2) pattern_decodes(1)[OF sample_patterns(2)]
  by (simp add: signed_authorization_check_def sample_signed_def id_simps)

lemma sample_store_ok: "trust_store_check sample_store = None"
  using sample_patterns(1) pattern_decodes(2)[OF sample_patterns(1)]
  by (simp add: trust_store_check_def sample_store_def trust_key_check_def id_simps)

lemma sample_authorized: "authorized sample_hasher accept_all sample_signed sample_store sample_expectation"
proof -
  obtain pk sg where "length pk = 32" "replicate 43 CHR ''A'' = b64_encode pk" "length sg = 64"
    "replicate 86 CHR ''A'' = b64_encode sg"
    using sample_patterns unfolding public_key_pattern_iff signature_pattern_iff by blast
  then show ?thesis
    unfolding authorized_def using sample_signed_ok sample_store_ok
    by (auto simp: sample_signed_def sample_store_def accept_all_def sample_payload_def)
qed

lemma sample_admissible:
  "claim_admissible sample_hasher accept_all sample_signed sample_store sample_expectation digest_c digest_c 150 160 empty_ledger"
  using sample_authorized digest_c_ok
  by (simp add: claim_admissible_def claim_identity_ok_def empty_ledger_def clock_behind_def in_window_def
      sample_signed_def sample_payload_def retry_admissible_def claimed_row_def)

abbreviation sample_receipt :: receipt where
  "sample_receipt \<equiv> claimed_receipt sample_hasher sample_signed sample_store digest_c digest_c 160"

abbreviation sample_claim :: ledger_op where
  "sample_claim \<equiv> Claim no_faults no_faults 150 160 digest_c sample_signed sample_store sample_expectation digest_c"

lemma sample_claimed:
  "claim_authorization sample_hasher accept_all no_faults no_faults 150 160 digest_c sample_signed sample_store
     sample_expectation digest_c empty_ledger =
   (Inr sample_receipt, \<lparr> lg_claims = [receipt_row sample_hasher sample_receipt], lg_clock = Some 160 \<rparr>)"
proof -
  have rows: "rows_ok (lg_claims empty_ledger)" by (simp add: empty_ledger_def)
  show ?thesis
    unfolding claim_iff[OF sample_hexdigest_ok rows]
    using sample_admissible by (simp add: clock_free_def txn_faultless_def empty_ledger_def claimed_receipt_row)
qed

lemma sample_run:
  "run_ops (ledger_step sample_hasher accept_all) [sample_claim] empty_ledger =
     ([sample_receipt], \<lparr> lg_claims = [receipt_row sample_hasher sample_receipt], lg_clock = Some 160 \<rparr>)"
  by (simp add: sample_claimed)

section \<open>Properties\<close>

text \<open>
  C18. An authorization is verified exactly when the time is nonnegative, inside the validity window, and
  the authorization is authorized: envelope and trust store are valid, its ten bindings equal the
  expectation, and an unrevoked key of the store whose own validity covers the whole life of the
  authorization verifies the 64-byte signature over the domain-separated canonical payload.
\<close>

theorem verified_authorization_iff:
  "verify_dispatch_authorization h ed25519 now a store e = Inr v \<longleftrightarrow>
     0 \<le> now \<and> authorized h ed25519 a store e \<and> in_window (sa_payload a) now \<and> v = verified_of h a store now"
  unfolding verify_dispatch_authorization_def verify_authorization_iff by simp

text \<open>
  C19. A claim succeeds, and commits exactly its row and its time, if and only if no database statement it
  executes fails and it is admissible: authorized, a fresh well-formed claim identity, both clock readings
  in the validity window, in order and not behind the durable mark, no collision with a committed claim,
  and for a retry a committed parent of the previous index with the same binding whose receipt the
  authorization names and that it was not issued before.
\<close>

theorem claim_success_iff:
  assumes "hexdigest_ok h" "ledger_inv lg"
  shows "claim_authorization h ed25519 fault1 fault2 t1 t2 n a store e c lg = (Inr r, lg') \<longleftrightarrow>
     clock_free fault1 \<and> txn_faultless fault2 (sa_payload a) \<and> claim_admissible h ed25519 a store e c n t1 t2 lg \<and>
     r = claimed_receipt h a store c n t2 \<and>
     lg' = \<lparr> lg_claims = lg_claims lg @ [claimed_row h a store c n t2], lg_clock = Some t2 \<rparr>"
  using claim_iff[OF assms(1)] assms(2) by (simp add: ledger_inv_def)

theorem claim_success_iff_witness:
  "claim_authorization sample_hasher accept_all no_faults no_faults 150 160 digest_c sample_signed sample_store
     sample_expectation digest_c empty_ledger =
   (Inr sample_receipt, \<lparr> lg_claims = [claimed_row sample_hasher sample_signed sample_store digest_c digest_c 160],
      lg_clock = Some 160 \<rparr>)"
  unfolding claim_success_iff[OF sample_hexdigest_ok empty_ledger_inv]
  using sample_admissible by (simp add: clock_free_def txn_faultless_def empty_ledger_def)

text \<open>
  C20. From the empty ledger every sequence of clock advances and claims, with any times, nonces, inputs and
  database faults, keeps the ledger invariant: every row satisfies the table's checks, collides with no
  earlier row, has an admissible parent if it is a retry, and was claimed no later than the durable mark.
\<close>

theorem ledger_invariant:
  assumes "hexdigest_ok h"
  shows "ledger_inv (snd (run_ops (ledger_step h ed25519) ops empty_ledger))"
  using claims.run_inv[where h = h and s = empty_ledger] assms empty_ledger_inv by blast

theorem ledger_invariant_witness:
  "ledger_inv \<lparr> lg_claims = [receipt_row sample_hasher sample_receipt], lg_clock = Some 160 \<rparr>"
  using ledger_invariant[OF sample_hexdigest_ok, of accept_all "[sample_claim]"] unfolding sample_run by simp

text \<open>
  C21. One-shot admission.  Over any such sequence from a ledger satisfying the invariant, the table is the old
  table followed by the rows of the receipts handed out, in order, and nothing else; no two of those
  receipts share an authorization, a dispatch nonce, a claim or its nonce, and none repeats a committed one.
\<close>

theorem one_shot_admission:
  assumes "hexdigest_ok h" "ledger_inv lg" "run_ops (ledger_step h ed25519) ops lg = (rs, lg')"
  shows "lg_claims lg' = lg_claims lg @ map (receipt_row h) rs \<and>
    distinct (map cr_authorization_id (lg_claims lg')) \<and> distinct (map cr_dispatch_nonce (lg_claims lg')) \<and>
    distinct (map cr_claim_id (lg_claims lg')) \<and> distinct (map cr_claim_nonce (lg_claims lg')) \<and>
    distinct (map cr_authorization_sha256 (lg_claims lg'))"
proof -
  have inv: "hexdigest_ok h \<and> ledger_inv lg" using assms by simp
  have "sorted_wrt (\<lambda>x y. \<not> rows_clash y x) (lg_claims lg')"
    using ledger_inv_no_clash claims.run_inv[OF inv, of ed25519 ops] assms(3) by simp
  note nc = this
  have "distinct (map cr_authorization_id (lg_claims lg'))"
    "distinct (map cr_dispatch_nonce (lg_claims lg'))" "distinct (map cr_claim_id (lg_claims lg'))"
    "distinct (map cr_claim_nonce (lg_claims lg'))" "distinct (map cr_authorization_sha256 (lg_claims lg'))"
    by (rule no_clash_distinct[OF nc]; simp add: rows_clash_def)+
  then show ?thesis
    using claims.run_rows[OF inv, of ed25519 ops] assms(3) by simp
qed

theorem one_shot_admission_witness:
  "run_ops (ledger_step sample_hasher accept_all) [sample_claim] empty_ledger =
     ([sample_receipt], \<lparr> lg_claims = [receipt_row sample_hasher sample_receipt], lg_clock = Some 160 \<rparr>) \<and>
   distinct (map cr_authorization_id [receipt_row sample_hasher sample_receipt])"
  using one_shot_admission[OF sample_hexdigest_ok empty_ledger_inv sample_run] sample_run by simp



text \<open>
  C23. A claim that raises commits no row: the table is unchanged, the durable mark is the old one or one of
  the two clock readings, and never moves back.  The database never has to refuse the insertion: the checks
  before it already exclude every violation of the table's constraints.
\<close>

theorem failed_claim_commits_nothing:
  assumes "hexdigest_ok h" "ledger_inv lg"
    and "claim_authorization h ed25519 fault1 fault2 t1 t2 n a store e c lg = (Inl x, lg')"
  shows "lg_claims lg' = lg_claims lg \<and> the (lg_clock lg') \<in> {the (lg_clock lg), t1, t2} \<and>
    the (lg_clock lg) \<le> the (lg_clock lg') \<and> x \<noteq> DLE ''dispatch claim violated ledger integrity''"
proof -
  note c = claim_failed[OF assms(3)]
  have "x \<noteq> DLE ''dispatch claim violated ledger integrity''"
  proof (cases "advance_clock fault1 t1 lg")
    case (Pair r lg1)
    show ?thesis
    proof (cases r)
      case (Inl y)
      then have "fst (advance_clock fault1 t1 lg) = Inl x" using assms(3) Pair by (simp add: claim_authorization_def)
      then show ?thesis by (auto simp: advance_clock_def Let_def txn_end split: if_splits)
    next
      case (Inr u)
      note adv = this
      then have rows: "rows_ok (lg_claims lg1)"
        using clock_only_inv(2)[OF assms(2) advance_clock_only[of lg t1 fault1]] assms(2) Pair
        by (simp add: ledger_inv_def)
      show ?thesis
      proof (cases "verify_dispatch_authorization h ed25519 t1 a store e")
        case (Inl y)
        then have "verify_authorization h ed25519 True t1 a store e = Inl x"
          using assms(3) Pair adv by (simp add: claim_authorization_def verify_dispatch_authorization_def)
        then show ?thesis by (auto simp: verify_authorization_def Let_def split: if_splits list.splits)
      next
        case (Inr v)
        then have "authorized h ed25519 a store e" "v = verified_of h a store t1"
          using verify_authorization_iff[of h ed25519 True t1 a store e v] by (simp_all add: verify_dispatch_authorization_def)
        then show ?thesis
          using claim_txn_no_integrity_error[OF assms(1) rows, of ed25519 a store e fault2 t1 c t2 n] assms(3) Pair adv Inr
          by (auto simp: claim_authorization_def)
      qed
    qed
  qed
  then show ?thesis using clock_only_inv(2,3)[OF assms(2) c] c by (auto simp: clock_only_def)
qed

definition expired_ledger :: ledger where
  "expired_ledger = \<lparr> lg_claims = [], lg_clock = Some 250 \<rparr>"

theorem failed_claim_commits_nothing_witness:
  "claim_authorization sample_hasher accept_all no_faults no_faults 250 260 digest_c sample_signed sample_store
     sample_expectation digest_c empty_ledger =
   (Inl (DAE ''dispatch authorization is outside its validity window''), expired_ledger) \<and>
   lg_claims expired_ledger = lg_claims empty_ledger"
proof -
  have v: "verify_dispatch_authorization sample_hasher accept_all 250 sample_signed sample_store sample_expectation =
      Inl (DAE ''dispatch authorization is outside its validity window'')"
    using expectation_of_payload[OF sample_payload_ok] sample_signed_ok sample_store_ok
    by (simp add: verify_dispatch_authorization_def verify_authorization_def Let_def sample_signed_def)
      (simp add: sample_payload_def)
  have f: "claim_authorization sample_hasher accept_all no_faults no_faults 250 260 digest_c sample_signed sample_store
     sample_expectation digest_c empty_ledger =
   (Inl (DAE ''dispatch authorization is outside its validity window''), expired_ledger)"
    by (simp add: claim_authorization_def v advance_clock_def Let_def empty_ledger_def clock_behind_def txn_end expired_ledger_def)
  show ?thesis using f failed_claim_commits_nothing[OF sample_hexdigest_ok empty_ledger_inv f] by simp
qed

text \<open>A database SQLite reports exactly as the two declarations create it.\<close>

lemma split_ws_unwords:
  "list_all (\<lambda>w. w \<noteq> [] \<and> (\<forall>c \<in> set w. \<not> is_space c)) ws \<Longrightarrow> split_ws (unwords ws) = ws"
proof (induction ws rule: unwords.induct)
  case (2 w)
  then show ?case by (cases w) (simp_all add: takeWhile_eq_all_conv[THEN iffD2] dropWhile_eq_Nil_conv[THEN iffD2])
next
  case (3 w v ws)
  have sp: "is_space CHR '' ''" by (simp add: is_space_def)
  obtain c cs where w: "w = c # cs" using 3(2) by (cases w) auto
  have "takeWhile (\<lambda>d. \<not> is_space d) (cs @ '' '' @ unwords (v # ws)) = cs"
    "dropWhile (\<lambda>d. \<not> is_space d) (cs @ '' '' @ unwords (v # ws)) = '' '' @ unwords (v # ws)"
    using 3(2) w sp by (simp_all add: takeWhile_append dropWhile_append2)
  then show ?case using 3 w sp by simp
qed simp

definition sample_index :: "string \<Rightarrow> char \<Rightarrow> string" where
  "sample_index tbl i = ''sqlite_autoindex_'' @ tbl @ ''_'' @ [i]"

definition unique_columns :: "(char \<times> string list) list" where
  "unique_columns =
     [(CHR ''1'', [''authorization_id'']), (CHR ''2'', [''authorization_sha256'']), (CHR ''3'', [''dispatch_nonce'']),
      (CHR ''4'', [''claim_id'']), (CHR ''5'', [''claim_nonce'']), (CHR ''6'', [''receipt_sha256'']),
      (CHR ''7'', [''retry_of_authorization_id'']), (CHR ''8'', [''retry_of_claim_sha256'']),
      (CHR ''9'', [''authorization_id'', ''receipt_sha256''])]"

definition sample_view :: schema_view where
  "sample_view =
     \<lparr> sv_integrity_check = [''ok''], sv_foreign_key_check = [], sv_application_id = Some 0x42504531,
       sv_user_version = Some 1,
       sv_objects =
         map (\<lambda>i. (''index'', sample_index ''dispatch_claims'' i, ''dispatch_claims'', None)) ''23456789'' @
         [(''table'', ''dispatch_claims'', ''dispatch_claims'', Some (unwords CREATE_LEDGER_TABLE)),
          (''table'', ''dispatch_state'', ''dispatch_state'', Some (unwords CREATE_LEDGER_STATE))],
       sv_columns = expected_columns,
       sv_state_columns = [(0, ''singleton'', ''INTEGER'', 1, None, 1), (1, ''clock_high_water_unix'', ''INTEGER'', 1, None, 0)],
       sv_state_rows = [(1, 160)],
       sv_index_rows = map (\<lambda>i. (sample_index ''dispatch_claims'' i, 1, if i = CHR ''1'' then ''pk'' else ''u'')) ''123456789'',
       sv_state_index_rows = [(sample_index ''dispatch_state'' CHR ''1'', 1, ''pk'')],
       sv_index_info = (\<lambda>nm. if nm = sample_index ''dispatch_state'' CHR ''1'' then [''singleton'']
          else the (map_of unique_columns (last nm))),
       sv_foreign_keys =
         [(0, 0, ''dispatch_claims'', ''retry_of_authorization_id'', ''authorization_id''),
          (0, 1, ''dispatch_claims'', ''retry_of_claim_sha256'', ''receipt_sha256'')] \<rparr>"

lemma ledger_words:
  "list_all (\<lambda>w. w \<noteq> [] \<and> (\<forall>c \<in> set w. \<not> is_space c)) CREATE_LEDGER_TABLE"
  "list_all (\<lambda>w. w \<noteq> [] \<and> (\<forall>c \<in> set w. \<not> is_space c)) CREATE_LEDGER_STATE"
  by (simp_all add: CREATE_LEDGER_TABLE_def CREATE_LEDGER_STATE_def is_space_def Let_def)

lemma sample_index_inj [simp]: "sample_index t i = sample_index t j \<longleftrightarrow> i = j"
  by (simp add: sample_index_def)

lemma sample_view_trusted: "schema_trusted sample_view"
proof -
  note words = ledger_words[THEN split_ws_unwords]
  have ix: "sample_index ''dispatch_claims'' i \<noteq> sample_index ''dispatch_state'' j" "last (sample_index t i) = i" for i j t
    by (simp_all add: sample_index_def)
  have pre: "startswith (sample_index ''dispatch_claims'' i) ''sqlite_autoindex_dispatch_claims_''" for i
    by (simp add: sample_index_def)
  have "autoindexes_are_exact sample_view"
    by (auto simp: autoindexes_are_exact_def sample_view_def pre)
  have "valid_foreign_key sample_view"
    by (auto simp: valid_foreign_key_def sample_view_def)
  have "table_objects sample_view = [''dispatch_claims'' \<mapsto> CREATE_LEDGER_TABLE, ''dispatch_state'' \<mapsto> CREATE_LEDGER_STATE]"
    by (simp add: table_objects_def sample_view_def words fun_upd_twist)
  have "table_sql sample_view ''dispatch_claims'' = Some CREATE_LEDGER_TABLE"
    "table_sql sample_view ''dispatch_state'' = Some CREATE_LEDGER_STATE"
    by (simp_all add: table_sql_def sample_view_def words)
  have "unique_indexed sample_view (sv_index_rows sample_view) = expected_unique_columns"
    by (simp add: unique_indexed_def expected_unique_columns_def sample_view_def ix unique_columns_def insert_commute)
  have "unique_indexed sample_view (sv_state_index_rows sample_view) = {[''singleton'']}"
    by (simp add: unique_indexed_def sample_view_def)
  have "length (sv_index_rows sample_view) = card expected_unique_columns"
    by (simp add: expected_unique_columns_def sample_view_def)
  have "set (map (\<lambda>(_, nm, _, _). nm) (filter (\<lambda>(ty, _, _, _). ty = ''index'') (sv_objects sample_view))) =
      set (map fst (filter (\<lambda>(_, _, origin). origin = ''u'') (sv_index_rows sample_view @ sv_state_index_rows sample_view)))"
    by (simp add: sample_view_def)
  show ?thesis unfolding schema_trusted_def by (intro conjI; (fact | simp add: sample_view_def))
qed

text \<open>
  C24. A receipt handed out is durable: in every later state of the ledger, whatever operations and database
  faults came in between, verifying the receipt on a database with the trusted schema returns its digest.
\<close>

theorem receipt_is_durable:
  assumes "hexdigest_ok h" "ledger_inv lg" "r \<in> set (fst (run_ops (ledger_step h ed25519) ops lg))"
    and "schema_trusted view"
  shows "verify_committed_receipt h no_faults view r (snd (run_ops (ledger_step h ed25519) (ops @ later) lg)) =
    Inr (sha256_json h (receipt_json r))"
proof -
  let ?lg = "snd (run_ops (ledger_step h ed25519) (ops @ later) lg)"
  have inv: "hexdigest_ok h \<and> ledger_inv lg" using assms by simp
  have "rows_ok (lg_claims ?lg)" using claims.run_inv[OF inv] by (simp add: ledger_inv_def)
  moreover have "receipt_row h r \<in> set (lg_claims ?lg)" using claims.run_durable[OF inv assms(3)] .
  ultimately have "find (\<lambda>s. cr_authorization_id s = rc_authorization_id r) (lg_claims ?lg) = Some (receipt_row h r)"
    using find_by_id[of "lg_claims ?lg" "receipt_row h r"] by (simp add: receipt_row_def)
  moreover have "receipt_check r = None" using claims.run_valid[OF inv assms(3)] .
  ultimately show ?thesis
    using assms(4) by (simp add: verify_committed_receipt_def receipt_row_def)
qed

theorem receipt_is_durable_witness:
  "verify_committed_receipt sample_hasher no_faults sample_view sample_receipt
     \<lparr> lg_claims = [receipt_row sample_hasher sample_receipt], lg_clock = Some 160 \<rparr> = Inr digest_a"
  using receipt_is_durable[OF sample_hexdigest_ok empty_ledger_inv _ sample_view_trusted,
      of sample_receipt accept_all "[sample_claim]" "[]"]
  unfolding append_Nil2 sample_run by simp

section \<open>The composed operation\<close>

definition opened_ledger :: "ledger option \<Rightarrow> ledger" where
  "opened_ledger db = (case db of None \<Rightarrow> empty_ledger | Some lg \<Rightarrow> lg)"

definition open_free :: "faults \<Rightarrow> bool" where
  "open_free fault \<longleftrightarrow> \<not> fault CONNECT \<and> \<not> fault BEGIN_IMMEDIATE \<and> \<not> fault COMMIT \<and> \<not> fault SCHEMA"

definition admission_admissible ::
    "hasher \<Rightarrow> ed25519_verify \<Rightarrow> admission_env \<Rightarrow> signed_authorization \<Rightarrow> trust_store \<Rightarrow> expectation \<Rightarrow> string
     \<Rightarrow> ledger option \<Rightarrow> bool" where
  "admission_admissible h ed25519 env a store e c db \<longleftrightarrow>
     open_free (ae_open_faults env) \<and> schema_trusted (ae_view env) \<and> clock_free (ae_advance_faults env) \<and>
     clock_free (ae_claim_clock_faults env) \<and> txn_faultless (ae_claim_faults env) (sa_payload a) \<and>
     0 \<le> ae_verification_time env \<and> \<not> clock_behind (opened_ledger db) (ae_verification_time env) \<and>
     ae_verification_time env \<le> ae_claim_verification_time env \<and>
     claim_admissible h ed25519 a store e c (ae_claim_nonce env) (ae_claim_verification_time env) (ae_claimed_at env)
       (opened_ledger db)"

lemma open_ledger_iff:
  "open_ledger fault view db = (Inr lg, db') \<longleftrightarrow>
     open_free fault \<and> schema_trusted view \<and> lg = opened_ledger db \<and> db' = Some (opened_ledger db)"
  by (auto simp: open_ledger_def open_free_def opened_ledger_def Let_def split: if_splits)

lemma claim_admissible_clock:
  assumes "\<not> clock_behind lg t0"
  shows "claim_admissible h ed25519 a store e c n t1 t2 (lg\<lparr> lg_clock := Some t0 \<rparr>) \<longleftrightarrow>
     t0 \<le> t1 \<and> claim_admissible h ed25519 a store e c n t1 t2 lg"
proof -
  obtain m where "lg_clock lg = Some m" "m \<le> t0" using assms by (auto simp: clock_behind_def split: option.splits)
  then show ?thesis by (auto simp: claim_admissible_def clock_behind_def)
qed

lemma claim_admissible_authorized: "claim_admissible h ed25519 a store e c n t1 t2 lg \<Longrightarrow> authorized h ed25519 a store e"
  by (simp add: claim_admissible_def)

text \<open>An admission that succeeds has passed through each of its calls.\<close>

lemma admit_dispatch_steps:
  "admit_dispatch h ed25519 env a store e c db = (Inr r, db') \<longleftrightarrow>
     (\<exists>v lg lg1 lg2.
       verify_authorization h ed25519 False (ae_verification_time env) a store e = Inr v \<and>
       open_ledger (ae_open_faults env) (ae_view env) db = (Inr lg, Some lg) \<and>
       advance_clock (ae_advance_faults env) (ae_verification_time env) lg = (Inr (), lg1) \<and>
       claim_authorization h ed25519 (ae_claim_clock_faults env) (ae_claim_faults env)
         (ae_claim_verification_time env) (ae_claimed_at env) (ae_claim_nonce env) a store e c lg1 = (Inr r, lg2) \<and>
       db' = Some lg2)"
proof (cases "verify_authorization h ed25519 False (ae_verification_time env) a store e")
  case (Inl x)
  then show ?thesis by (simp add: admit_dispatch_def)
next
  case (Inr v)
  obtain y db1 where o: "open_ledger (ae_open_faults env) (ae_view env) db = (y, db1)" by fastforce
  show ?thesis
  proof (cases y)
    case (Inl x)
    then show ?thesis using Inr o by (simp add: admit_dispatch_def)
  next
    case (Inr lg)
    note y = this
    then have db1: "db1 = Some lg" using o open_ledger_iff[of "ae_open_faults env" "ae_view env" db lg db1] by simp
    obtain z lg1 where adv: "advance_clock (ae_advance_faults env) (ae_verification_time env) lg = (z, lg1)" by fastforce
    show ?thesis
      using \<open>verify_authorization h ed25519 False (ae_verification_time env) a store e = Inr v\<close> o y db1 adv
      by (cases z; cases "claim_authorization h ed25519 (ae_claim_clock_faults env) (ae_claim_faults env)
         (ae_claim_verification_time env) (ae_claimed_at env) (ae_claim_nonce env) a store e c lg1")
        (auto simp: admit_dispatch_def)
  qed
qed

text \<open>
  C25. The composed operation \<open>admit_dispatch\<close> succeeds exactly when the admission is admissible: the schema is
  trusted and no database statement fails, the three clock readings are in order and not behind the mark of
  the opened ledger, and the claim is admissible; it then commits exactly the claimed row.  An authorization
  that is not authorized is refused before the database is opened, which is then left as it was.
\<close>

theorem admit_dispatch_iff:
  assumes "hexdigest_ok h" "ledger_inv (opened_ledger db)"
  shows "(admit_dispatch h ed25519 env a store e c db = (Inr r, db') \<longleftrightarrow>
    admission_admissible h ed25519 env a store e c db \<and>
    r = claimed_receipt h a store c (ae_claim_nonce env) (ae_claimed_at env) \<and>
    db' = Some \<lparr> lg_claims = lg_claims (opened_ledger db) @ [claimed_row h a store c (ae_claim_nonce env) (ae_claimed_at env)],
                 lg_clock = Some (ae_claimed_at env) \<rparr>) \<and>
    (\<not> authorized h ed25519 a store e \<longrightarrow> snd (admit_dispatch h ed25519 env a store e c db) = db)"
  (is "(?L \<longleftrightarrow> ?R) \<and> _")
proof -
  let ?lg = "opened_ledger db" and ?t0 = "ae_verification_time env"
  have rows: "rows_ok (lg_claims (?lg\<lparr> lg_clock := Some ?t0 \<rparr>))"
    using assms(2) by (simp add: ledger_inv_def)
  have "?L \<longleftrightarrow> 0 \<le> ?t0 \<and> authorized h ed25519 a store e \<and> open_free (ae_open_faults env) \<and>
      schema_trusted (ae_view env) \<and> clock_free (ae_advance_faults env) \<and> \<not> clock_behind ?lg ?t0 \<and>
      (\<exists>lg2. claim_authorization h ed25519 (ae_claim_clock_faults env) (ae_claim_faults env)
         (ae_claim_verification_time env) (ae_claimed_at env) (ae_claim_nonce env) a store e c
         (?lg\<lparr> lg_clock := Some ?t0 \<rparr>) = (Inr r, lg2) \<and> db' = Some lg2)"
    unfolding admit_dispatch_steps verify_authorization_iff open_ledger_iff advance_clock_Inr by auto
  also have "\<dots> \<longleftrightarrow> ?R"
    unfolding claim_iff[OF assms(1) rows] admission_admissible_def
    using claim_admissible_clock[of ?lg ?t0 h ed25519 a store e c "ae_claim_nonce env" "ae_claim_verification_time env" "ae_claimed_at env"]
    by (auto dest: claim_admissible_authorized)
  finally have "?L \<longleftrightarrow> ?R" .
  moreover have "snd (admit_dispatch h ed25519 env a store e c db) = db" if "\<not> authorized h ed25519 a store e"
  proof (cases "verify_authorization h ed25519 False ?t0 a store e")
    case (Inr v)
    then show ?thesis using that verify_authorization_iff[of h ed25519 False ?t0 a store e v] by simp
  qed (simp add: admit_dispatch_def)
  ultimately show ?thesis by blast
qed

definition sample_admission_env :: admission_env where
  "sample_admission_env =
     \<lparr> ae_verification_time = 140, ae_claim_verification_time = 150, ae_claimed_at = 160, ae_claim_nonce = digest_c,
       ae_open_faults = no_faults, ae_advance_faults = no_faults, ae_claim_clock_faults = no_faults,
       ae_claim_faults = no_faults, ae_view = sample_view \<rparr>"

theorem admit_dispatch_iff_witness:
  "admit_dispatch sample_hasher accept_all sample_admission_env sample_signed sample_store sample_expectation digest_c None =
     (Inr sample_receipt, Some \<lparr> lg_claims = [claimed_row sample_hasher sample_signed sample_store digest_c digest_c 160],
        lg_clock = Some 160 \<rparr>)"
proof -
  have "admission_admissible sample_hasher accept_all sample_admission_env sample_signed sample_store sample_expectation digest_c None"
    using sample_admissible sample_view_trusted
    by (simp add: admission_admissible_def sample_admission_env_def open_free_def clock_free_def txn_faultless_def
        opened_ledger_def) (simp add: empty_ledger_def clock_behind_def)
  then show ?thesis
    using admit_dispatch_iff[OF sample_hexdigest_ok, of None] empty_ledger_inv
    by (simp add: opened_ledger_def) (simp add: sample_admission_env_def empty_ledger_def)
qed

text \<open>
  The base64url fields.  The checked decoder accepts a text exactly when it is the unpadded encoding of the
  expected number of bytes, and returns those bytes; the patterns of the signature and public-key fields
  admit exactly the texts it accepts, so that no two texts denote the same key or signature.
\<close>

theorem base64url_fields_exact:
  "(decode_base64url n label v = Inr bs \<longleftrightarrow> length bs = n \<and> bs \<noteq> [] \<and> v = b64_encode bs) \<and>
   (signature_pattern s \<longleftrightarrow> (\<exists>sg. decode_base64url 64 label s = Inr sg)) \<and>
   (public_key_pattern s \<longleftrightarrow> (\<exists>pk. decode_base64url 32 label s = Inr pk))"
proof -
  have "(\<exists>x. length x = m \<and> s = b64_encode x) \<longleftrightarrow> (\<exists>x. decode_base64url m label s = Inr x)" if "0 < m" for m
    unfolding b64.dec_iff using that by auto
  then show ?thesis unfolding signature_pattern_iff public_key_pattern_iff b64.dec_iff by auto
qed

end
