(* ===== verification/Experiments.thy ===== *)
theory Experiments
  imports Models
begin

text \<open>
  The task, suite, experiment, attempt and report classes of \<open>models.py\<close>, in the conventions of
  \<open>Models\<close>: \<open>X_check\<close> is the validation in source order, \<open>X_json\<close> the dump.
\<close>

section \<open>Files and task contracts\<close>

record file_ref =
  fr_path :: string
  fr_sha256 :: string
  fr_size_bytes :: int

text \<open>The components of a \<open>PurePosixPath\<close> and its text: empty and \<open>.\<close> components disappear.\<close>

fun split_slash :: "string \<Rightarrow> string list" where
  "split_slash [] = [[]]"
| "split_slash (c # cs) = (case split_slash cs of
     [] \<Rightarrow> [] | w # ws \<Rightarrow> if c = CHR ''/'' then [] # w # ws else (c # w) # ws)"

definition posix_parts :: "string \<Rightarrow> string list" where
  "posix_parts v = filter (\<lambda>w. w \<noteq> [] \<and> w \<noteq> ''.'') (split_slash v)"

fun join_slash :: "string list \<Rightarrow> string" where
  "join_slash [] = []"
| "join_slash [w] = w"
| "join_slash (w # v # ws) = w @ ''/'' @ join_slash (v # ws)"

definition relative_path_ok :: "string \<Rightarrow> bool" where
  "relative_path_ok v \<longleftrightarrow> \<not> startswith v ''/'' \<and> ''..'' \<notin> set (posix_parts v) \<and>
     (if posix_parts v = [] then ''.'' else join_slash (posix_parts v)) = v"

definition file_ref_ok :: "file_ref \<Rightarrow> bool" where
  "file_ref_ok f \<longleftrightarrow> text_ok 1 512 (fr_path f) \<and> sha256_ok (fr_sha256 f) \<and> 0 \<le> fr_size_bytes f \<and>
     relative_path_ok (fr_path f)"

definition file_ref_json :: "file_ref \<Rightarrow> json" where
  "file_ref_json f = JObj
     [(''path'', JStr (fr_path f)), (''sha256'', JStr (fr_sha256 f)), (''size_bytes'', JInt (fr_size_bytes f))]"

record candidate_contract =
  cc_max_response_bytes :: int
  cc_allow_markdown_fence :: bool

definition candidate_contract_ok :: "candidate_contract \<Rightarrow> bool" where
  "candidate_contract_ok c \<longleftrightarrow> 0 < cc_max_response_bytes c \<and> cc_max_response_bytes c \<le> 1024 * 1024"

definition candidate_contract_json :: "candidate_contract \<Rightarrow> json" where
  "candidate_contract_json c = JObj
     [(''format'', JStr ''single_c_source''), (''max_response_bytes'', JInt (cc_max_response_bytes c)),
      (''fixed_filename'', JStr ''candidate.c''), (''allow_markdown_fence'', JBool (cc_allow_markdown_fence c))]"

record program_contract =
  pc_program_type :: string
  pc_section :: string
  pc_entrypoint :: string
  pc_max_programs :: int

definition program_contract_ok :: "program_contract \<Rightarrow> bool" where
  "program_contract_ok p \<longleftrightarrow> stable_id (pc_program_type p) \<and> stable_id (pc_section p) \<and>
     stable_id (pc_entrypoint p) \<and> 1 \<le> pc_max_programs p \<and> pc_max_programs p \<le> 16"

definition program_contract_json :: "program_contract \<Rightarrow> json" where
  "program_contract_json p = JObj
     [(''program_type'', JStr (pc_program_type p)), (''section'', JStr (pc_section p)),
      (''entrypoint'', JStr (pc_entrypoint p)), (''max_programs'', JInt (pc_max_programs p))]"

record assertion_spec =
  av_assertion_id :: string
  av_kind :: string
  av_required :: bool
  av_weight :: rat
  av_expected :: "json option"

definition assertion_spec_ok :: "assertion_spec \<Rightarrow> bool" where
  "assertion_spec_ok a \<longleftrightarrow> stable_id (av_assertion_id a) \<and> stable_id (av_kind a) \<and> weight_ok (av_weight a)"

definition assertion_spec_json :: "assertion_spec \<Rightarrow> json" where
  "assertion_spec_json a = JObj
     [(''assertion_id'', JStr (av_assertion_id a)), (''kind'', JStr (av_kind a)), (''required'', JBool (av_required a)),
      (''weight'', JFloat (av_weight a)), (''expected'', jopt id (av_expected a))]"

record semantic_obligation =
  so_obligation_id :: string
  so_kind :: string
  so_description :: string
  so_required :: bool

definition semantic_obligation_ok :: "semantic_obligation \<Rightarrow> bool" where
  "semantic_obligation_ok s \<longleftrightarrow> stable_id (so_obligation_id s) \<and> stable_id (so_kind s) \<and> text_ok 1 1024 (so_description s)"

definition semantic_obligation_json :: "semantic_obligation \<Rightarrow> json" where
  "semantic_obligation_json s = JObj
     [(''obligation_id'', JStr (so_obligation_id s)), (''kind'', JStr (so_kind s)),
      (''description'', JStr (so_description s)), (''required'', JBool (so_required s))]"

record public_task =
  pt_task_id :: string
  pt_version :: string
  pt_family :: family
  pt_prompt :: file_ref
  pt_starter_source :: "file_ref option"
  pt_candidate_contract :: candidate_contract
  pt_program :: program_contract
  pt_public_sdk_id :: string
  pt_environment_id :: string
  pt_max_attempts :: int
  pt_whole_attempt_timeout_seconds :: int

definition public_task_check :: "public_task \<Rightarrow> exn option" where
  "public_task_check t = raises
     [(\<not> stable_id (pt_task_id t), VE ''task_id''), (\<not> stable_id (pt_version t), VE ''version''),
      (\<not> file_ref_ok (pt_prompt t), VE ''prompt''),
      (\<not> opt_ok file_ref_ok (pt_starter_source t), VE ''starter_source''),
      (\<not> candidate_contract_ok (pt_candidate_contract t), VE ''candidate_contract''),
      (\<not> program_contract_ok (pt_program t), VE ''program''),
      (\<not> stable_id (pt_public_sdk_id t), VE ''public_sdk_id''),
      (\<not> stable_id (pt_environment_id t), VE ''environment_id''),
      (\<not> (1 \<le> pt_max_attempts t \<and> pt_max_attempts t \<le> 16), VE ''max_attempts''),
      (\<not> (1 \<le> pt_whole_attempt_timeout_seconds t \<and> pt_whole_attempt_timeout_seconds t \<le> 600),
        VE ''whole_attempt_timeout_seconds''),
      (pt_family t = REPAIR \<and> pt_starter_source t = None, VE ''repair tasks require starter source''),
      (pt_family t = GENERATION \<and> pt_starter_source t \<noteq> None, VE ''generation tasks cannot expose starter source'')]"

record functional_case =
  fc_case_id :: string
  fc_driver :: string
  fc_input_ref :: file_ref
  fc_assertions :: "assertion_spec list"

definition functional_case_ok :: "functional_case \<Rightarrow> bool" where
  "functional_case_ok c \<longleftrightarrow> stable_id (fc_case_id c) \<and> stable_id (fc_driver c) \<and> file_ref_ok (fc_input_ref c) \<and>
     fc_assertions c \<noteq> [] \<and> list_all assertion_spec_ok (fc_assertions c)"

record provenance =
  pv_repository :: string
  pv_commit :: string
  pv_source_path :: string
  pv_license :: string
  pv_original_sha256 :: string

definition provenance_ok :: "provenance \<Rightarrow> bool" where
  "provenance_ok p \<longleftrightarrow> text_ok 1 512 (pv_repository p) \<and> hex40_ok (pv_commit p) \<and>
     text_ok 1 1024 (pv_source_path p) \<and> text_ok 1 128 (pv_license p) \<and> sha256_ok (pv_original_sha256 p)"

record mutation_record =
  mu_operator :: string
  mu_operator_version :: string
  mu_seed :: int
  mu_parameters :: "(string \<times> json) list"

definition mutation_record_ok :: "mutation_record \<Rightarrow> bool" where
  "mutation_record_ok m \<longleftrightarrow> stable_id (mu_operator m) \<and> stable_id (mu_operator_version m) \<and> 0 \<le> mu_seed m"

datatype control_kind = NO_OP | DELETE_OPERATION | HARDCODE | ZERO_WORK | OTHER_CONTROL

record negative_control =
  nc_control_id :: string
  nc_kind :: control_kind
  nc_source :: file_ref
  nc_expected_first_failure :: stage

definition negative_control_ok :: "negative_control \<Rightarrow> bool" where
  "negative_control_ok c \<longleftrightarrow> stable_id (nc_control_id c) \<and> file_ref_ok (nc_source c)"

datatype split_kind = TRAIN | DEVELOPMENT | CALIBRATION | VALIDATION | SEALED_EVAL

record private_grader =
  pg_task_id :: string
  pg_task_version :: string
  pg_split :: split_kind
  pg_root_cause :: "string option"
  pg_contamination_group :: string
  pg_provenance :: provenance
  pg_mutation :: "mutation_record option"
  pg_reference_source :: file_ref
  pg_valid_alternatives :: "file_ref list"
  pg_qualification_partial_fixes :: "file_ref list"
  pg_functional_cases :: "functional_case list"
  pg_semantic_obligations :: "semantic_obligation list"
  pg_negative_controls :: "negative_control list"

definition private_grader_check :: "private_grader \<Rightarrow> exn option" where
  "private_grader_check g = raises
     [(\<not> stable_id (pg_task_id g), VE ''task_id''), (\<not> stable_id (pg_task_version g), VE ''task_version''),
      (\<not> opt_ok stable_id (pg_root_cause g), VE ''root_cause''),
      (\<not> stable_id (pg_contamination_group g), VE ''contamination_group''),
      (\<not> provenance_ok (pg_provenance g), VE ''provenance''),
      (\<not> opt_ok mutation_record_ok (pg_mutation g), VE ''mutation''),
      (\<not> file_ref_ok (pg_reference_source g), VE ''reference_source''),
      (pg_valid_alternatives g = [] \<or> \<not> list_all file_ref_ok (pg_valid_alternatives g), VE ''valid_alternatives''),
      (16 < length (pg_qualification_partial_fixes g) \<or> \<not> list_all file_ref_ok (pg_qualification_partial_fixes g),
        VE ''qualification_partial_fixes''),
      (pg_functional_cases g = [] \<or> \<not> list_all functional_case_ok (pg_functional_cases g), VE ''functional_cases''),
      (pg_semantic_obligations g = [] \<or> \<not> list_all semantic_obligation_ok (pg_semantic_obligations g),
        VE ''semantic_obligations''),
      (length (pg_negative_controls g) < 4 \<or> \<not> list_all negative_control_ok (pg_negative_controls g),
        VE ''negative_controls''),
      (\<not> distinct (map nc_control_id (pg_negative_controls g)), VE ''negative control IDs must be unique'')]"

definition policy_json :: "policy \<Rightarrow> json" where
  "policy_json p = JObj
     [(''schema_version'', JStr ''bpe.reward-policy.v1''), (''policy_id'', JStr (rp_policy_id p)),
      (''description'', JStr (rp_description p)),
      (''ingest_failure_reward'', JFloat (rp_ingest_failure_reward p)),
      (''compile_failure_reward'', JFloat (rp_compile_failure_reward p)),
      (''object_policy_failure_reward'', JFloat (rp_object_policy_failure_reward p)),
      (''verifier_failure_reward'', JFloat (rp_verifier_failure_reward p)),
      (''functional_reward_cap'', JFloat (rp_functional_reward_cap p)),
      (''semantics_reward_cap'', JFloat (rp_semantics_reward_cap p)),
      (''success_reward'', JFloat (rp_success_reward p)),
      (''explicit_hack_reward'', JFloat (rp_explicit_hack_reward p)),
      (''explicit_hack_reason_prefix'', JStr (rp_explicit_hack_reason_prefix p))]"

section \<open>Suites and experiments\<close>

record suite_task =
  st_task_id :: string
  st_task_version :: string
  st_task_bundle_sha256 :: string
  st_evaluation_plan_sha256 :: string
  st_scoring_contract_sha256 :: string
  st_family :: family
  st_root_cause :: "string option"
  st_program_type :: string
  st_cluster_id :: string

definition suite_task_ok :: "suite_task \<Rightarrow> bool" where
  "suite_task_ok t \<longleftrightarrow> stable_id (st_task_id t) \<and> stable_id (st_task_version t) \<and>
     sha256_ok (st_task_bundle_sha256 t) \<and> sha256_ok (st_evaluation_plan_sha256 t) \<and>
     sha256_ok (st_scoring_contract_sha256 t) \<and> opt_ok stable_id (st_root_cause t) \<and>
     stable_id (st_program_type t) \<and> stable_id (st_cluster_id t)"

definition suite_task_json :: "suite_task \<Rightarrow> json" where
  "suite_task_json t = JObj
     [(''task_id'', JStr (st_task_id t)), (''task_version'', JStr (st_task_version t)),
      (''task_bundle_sha256'', JStr (st_task_bundle_sha256 t)),
      (''evaluation_plan_sha256'', JStr (st_evaluation_plan_sha256 t)),
      (''scoring_contract_sha256'', JStr (st_scoring_contract_sha256 t)),
      (''family'', JStr (family_value (st_family t))), (''root_cause'', jopt JStr (st_root_cause t)),
      (''program_type'', JStr (st_program_type t)), (''cluster_id'', JStr (st_cluster_id t))]"

record suite =
  su_suite_id :: string
  su_environment_id :: string
  su_family :: family
  su_root_cause_taxonomy :: "string list"
  su_tasks :: "suite_task list"

definition represented_causes :: "suite \<Rightarrow> string set" where
  "represented_causes s = set (concat (map (\<lambda>t. case st_root_cause t of None \<Rightarrow> [] | Some c \<Rightarrow> [c]) (su_tasks s)))"

definition suite_check :: "suite \<Rightarrow> exn option" where
  "suite_check s = raises
     ([(\<not> stable_id (su_suite_id s), VE ''suite_id''), (\<not> stable_id (su_environment_id s), VE ''environment_id''),
       (\<not> list_all stable_id (su_root_cause_taxonomy s), VE ''root_cause_taxonomy''),
       (su_tasks s = [] \<or> 100000 < length (su_tasks s), VE ''tasks''),
       (\<not> list_all suite_task_ok (su_tasks s), VE ''tasks''),
       (\<not> distinct (map st_task_id (su_tasks s)), VE ''suite task identities must be unique''),
       (\<not> distinct (su_root_cause_taxonomy s), VE ''suite root-cause taxonomy must be unique'')] @
      concat (map (\<lambda>t.
        [(st_family t \<noteq> su_family s, VE ''suite cannot mix benchmark families''),
         (st_family t = REPAIR \<and> st_root_cause t = None, VE ''repair suite tasks require a root cause''),
         (st_family t = GENERATION \<and> st_root_cause t \<noteq> None,
           VE ''generation suite tasks cannot claim a repair root cause'')]) (su_tasks s)) @
      [(su_family s = REPAIR \<and> represented_causes s \<noteq> set (su_root_cause_taxonomy s),
         VE ''repair suite tasks must cover the frozen root-cause taxonomy''),
       (su_family s = GENERATION \<and> su_root_cause_taxonomy s \<noteq> [],
         VE ''generation suites cannot declare a repair root-cause taxonomy'')])"

definition suite_json :: "suite \<Rightarrow> json" where
  "suite_json s = JObj
     [(''schema_version'', JStr ''bpe.suite.v1''), (''suite_id'', JStr (su_suite_id s)),
      (''strict_policy_id'', JStr ''strict-success-v1''), (''environment_id'', JStr (su_environment_id s)),
      (''family'', JStr (family_value (su_family s))),
      (''root_cause_taxonomy'', jarr JStr (su_root_cause_taxonomy s)), (''tasks'', jarr suite_task_json (su_tasks s))]"

record seed_plan =
  sp_training_seed :: int
  sp_checkpoint_id :: string
  sp_checkpoint_artifact_sha256 :: string
  sp_generation_seeds :: "int list"

definition seed_plan_ok :: "seed_plan \<Rightarrow> bool" where
  "seed_plan_ok p \<longleftrightarrow> 0 \<le> sp_training_seed p \<and> stable_id (sp_checkpoint_id p) \<and>
     sha256_ok (sp_checkpoint_artifact_sha256 p) \<and> sp_generation_seeds p \<noteq> [] \<and>
     list_all (\<lambda>g. 0 \<le> g) (sp_generation_seeds p) \<and> distinct (sp_generation_seeds p)"

definition seed_plan_json :: "seed_plan \<Rightarrow> json" where
  "seed_plan_json p = JObj
     [(''training_seed'', JInt (sp_training_seed p)), (''checkpoint_id'', JStr (sp_checkpoint_id p)),
      (''checkpoint_artifact_sha256'', JStr (sp_checkpoint_artifact_sha256 p)),
      (''generation_seeds'', jarr JInt (sp_generation_seeds p))]"

record experiment_manifest =
  ex_experiment_id :: string
  ex_suite_id :: string
  ex_suite_manifest_sha256 :: string
  ex_model_id :: string
  ex_model_artifact_sha256 :: string
  ex_sampling_config_sha256 :: string
  ex_diagnostic_condition :: diagnostic
  ex_reward_policy_id :: string
  ex_reward_policy_sha256 :: string
  ex_environment_sha256 :: string
  ex_harness_commit :: string
  ex_expected_grader_id :: string
  ex_seed_plans :: "seed_plan list"
  ex_reported_k :: "int list"

definition samples_per_task_seed :: "experiment_manifest \<Rightarrow> nat" where
  "samples_per_task_seed e = length (sp_generation_seeds (hd (ex_seed_plans e)))"

text \<open>
  \<open>next(iter(sample_counts))\<close> is the only element of a singleton, the sample count of any plan; the plans
  are not empty once their field has been accepted.
\<close>

definition experiment_check :: "experiment_manifest \<Rightarrow> exn option" where
  "experiment_check e = raises
     [(\<not> stable_id (ex_experiment_id e), VE ''experiment_id''), (\<not> stable_id (ex_suite_id e), VE ''suite_id''),
      (\<not> sha256_ok (ex_suite_manifest_sha256 e), VE ''suite_manifest_sha256''),
      (\<not> stable_id (ex_model_id e), VE ''model_id''),
      (\<not> sha256_ok (ex_model_artifact_sha256 e), VE ''model_artifact_sha256''),
      (\<not> sha256_ok (ex_sampling_config_sha256 e), VE ''sampling_config_sha256''),
      (\<not> stable_id (ex_reward_policy_id e), VE ''reward_policy_id''),
      (\<not> sha256_ok (ex_reward_policy_sha256 e), VE ''reward_policy_sha256''),
      (\<not> sha256_ok (ex_environment_sha256 e), VE ''environment_sha256''),
      (\<not> hex40_ok (ex_harness_commit e), VE ''harness_commit''),
      (\<not> sha256_ok (ex_expected_grader_id e), VE ''expected_grader_id''),
      (ex_seed_plans e = [] \<or> \<not> list_all seed_plan_ok (ex_seed_plans e), VE ''seed_plans''),
      (ex_reported_k e = [] \<or> \<not> list_all (\<lambda>k. 1 \<le> k) (ex_reported_k e), VE ''reported_k''),
      (\<not> distinct (map sp_training_seed (ex_seed_plans e)), VE ''experiment training seeds must be unique''),
      (\<not> distinct (map sp_checkpoint_id (ex_seed_plans e)) \<or>
         \<not> distinct (map sp_checkpoint_artifact_sha256 (ex_seed_plans e)),
        VE ''training seeds must use distinct checkpoint artifacts''),
      (card (set (map (length \<circ> sp_generation_seeds) (ex_seed_plans e))) \<noteq> 1,
        VE ''every training seed must predeclare the same sample count''),
      (\<not> distinct (ex_reported_k e), VE ''reported k values must be unique''),
      (list_ex (\<lambda>k. k > int (samples_per_task_seed e)) (ex_reported_k e),
        VE ''reported k cannot exceed the predeclared sample count'')]"

definition experiment_json :: "experiment_manifest \<Rightarrow> json" where
  "experiment_json e = JObj
     [(''schema_version'', JStr ''bpe.experiment.v1''), (''experiment_id'', JStr (ex_experiment_id e)),
      (''suite_id'', JStr (ex_suite_id e)), (''suite_manifest_sha256'', JStr (ex_suite_manifest_sha256 e)),
      (''model_id'', JStr (ex_model_id e)), (''model_artifact_sha256'', JStr (ex_model_artifact_sha256 e)),
      (''sampling_config_sha256'', JStr (ex_sampling_config_sha256 e)),
      (''diagnostic_condition'', JStr (diagnostic_value (ex_diagnostic_condition e))),
      (''reward_policy_id'', JStr (ex_reward_policy_id e)),
      (''reward_policy_sha256'', JStr (ex_reward_policy_sha256 e)),
      (''environment_sha256'', JStr (ex_environment_sha256 e)), (''harness_commit'', JStr (ex_harness_commit e)),
      (''expected_grader_id'', JStr (ex_expected_grader_id e)),
      (''seed_plans'', jarr seed_plan_json (ex_seed_plans e)), (''reported_k'', jarr JInt (ex_reported_k e))]"

section \<open>Attempts and replay anchors\<close>

record attempt =
  at_experiment_id :: string
  at_model_id :: string
  at_model_artifact_sha256 :: string
  at_checkpoint_id :: string
  at_checkpoint_artifact_sha256 :: string
  at_sampling_config_sha256 :: string
  at_reward_policy_sha256 :: string
  at_episode_id :: string
  at_task_id :: string
  at_task_version :: string
  at_task_bundle_sha256 :: string
  at_family :: family
  at_root_cause :: "string option"
  at_program_type :: string
  at_cluster_id :: string
  at_training_seed :: int
  at_sample_index :: int
  at_generation_seed :: int
  at_turn_index :: int
  at_replay_manifest_sha256 :: string
  at_evidence :: evidence
  at_grade :: grade

definition evidence_outcomes :: "evidence \<Rightarrow> stage \<rightharpoonup> outcome" where
  "evidence_outcomes e = map_of (rev (map (\<lambda>s. (se_stage s, se_outcome s)) (ev_stages e)))"

text \<open>Two partial maps over the six stages are compared stage by stage.\<close>

definition attempt_check :: "hasher \<Rightarrow> attempt \<Rightarrow> exn option" where
  "attempt_check h a = (let r = ev_request (at_evidence a) in raises
     [(\<not> stable_id (at_experiment_id a), VE ''experiment_id''), (\<not> stable_id (at_model_id a), VE ''model_id''),
      (\<not> sha256_ok (at_model_artifact_sha256 a), VE ''model_artifact_sha256''),
      (\<not> stable_id (at_checkpoint_id a), VE ''checkpoint_id''),
      (\<not> sha256_ok (at_checkpoint_artifact_sha256 a), VE ''checkpoint_artifact_sha256''),
      (\<not> sha256_ok (at_sampling_config_sha256 a), VE ''sampling_config_sha256''),
      (\<not> sha256_ok (at_reward_policy_sha256 a), VE ''reward_policy_sha256''),
      (\<not> stable_id (at_episode_id a), VE ''episode_id''), (\<not> stable_id (at_task_id a), VE ''task_id''),
      (\<not> stable_id (at_task_version a), VE ''task_version''),
      (\<not> sha256_ok (at_task_bundle_sha256 a), VE ''task_bundle_sha256''),
      (\<not> opt_ok stable_id (at_root_cause a), VE ''root_cause''),
      (\<not> stable_id (at_program_type a), VE ''program_type''), (\<not> stable_id (at_cluster_id a), VE ''cluster_id''),
      (\<not> 0 \<le> at_training_seed a, VE ''training_seed''), (\<not> 0 \<le> at_sample_index a, VE ''sample_index''),
      (\<not> 0 \<le> at_generation_seed a, VE ''generation_seed''), (\<not> 0 \<le> at_turn_index a, VE ''turn_index''),
      (\<not> sha256_ok (at_replay_manifest_sha256 a), VE ''replay_manifest_sha256''),
      (evidence_check h (at_evidence a) \<noteq> None, VE ''evidence''), (grade_check (at_grade a) \<noteq> None, VE ''grade''),
      (at_experiment_id a \<noteq> rq_experiment_id r, VE ''attempt experiment identity does not match evidence''),
      ((at_model_id a, at_model_artifact_sha256 a, at_checkpoint_id a, at_checkpoint_artifact_sha256 a,
          at_sampling_config_sha256 a, at_episode_id a) \<noteq>
        (rq_model_id r, rq_model_artifact_sha256 r, rq_checkpoint_id r, rq_checkpoint_artifact_sha256 r,
          rq_sampling_config_sha256 r, rq_episode_id r),
        VE ''attempt generation provenance does not match evidence''),
      ((at_task_id a, at_task_version a, at_task_bundle_sha256 a) \<noteq>
        (rq_task_id r, rq_task_version r, rq_task_bundle_sha256 r),
        VE ''attempt task identity does not match evidence''),
      (gr_task_id (at_grade a) \<noteq> at_task_id a, VE ''attempt task identity does not match grade''),
      (gr_grader_id (at_grade a) \<noteq> ev_grader_id (at_evidence a), VE ''attempt grader identity does not match evidence''),
      (gr_candidate_sha256 (at_grade a) \<noteq> ar_sha256 (rq_candidate r),
        VE ''attempt candidate identity does not match evidence''),
      (gr_evidence_sha256 (at_grade a) \<noteq> sha256_json h (evidence_json (at_evidence a)),
        VE ''attempt grade does not bind the supplied evidence''),
      (list_ex (\<lambda>s. gr_stage_outcomes (at_grade a) s \<noteq> evidence_outcomes (at_evidence a) s) STAGE_ORDER,
        VE ''attempt grade outcomes do not match the supplied evidence''),
      (rq_generation_seed r \<noteq> at_generation_seed a, VE ''attempt generation seed does not match the request''),
      (rq_training_seed r \<noteq> at_training_seed a, VE ''attempt training seed does not match the request''),
      (rq_sample_index r \<noteq> at_sample_index a, VE ''attempt sample index does not match the request''),
      (rq_attempt_index r \<noteq> at_turn_index a, VE ''attempt turn index does not match the request''),
      (at_turn_index a = 0 \<and> rq_parent_request_id r \<noteq> None, VE ''turn zero cannot have a parent request''),
      (at_turn_index a > 0 \<and> rq_parent_request_id r = None, VE ''interactive turns require a parent request'')])"

record replay_anchor =
  ra_manifest_sha256 :: string
  ra_evidence_sha256 :: string
  ra_grade_sha256 :: string
  ra_contract_sha256 :: string
  ra_policy_sha256 :: string

definition replay_anchor_ok :: "replay_anchor \<Rightarrow> bool" where
  "replay_anchor_ok a \<longleftrightarrow> sha256_ok (ra_manifest_sha256 a) \<and> sha256_ok (ra_evidence_sha256 a) \<and>
     sha256_ok (ra_grade_sha256 a) \<and> sha256_ok (ra_contract_sha256 a) \<and> sha256_ok (ra_policy_sha256 a)"

definition replay_anchor_json :: "replay_anchor \<Rightarrow> json" where
  "replay_anchor_json a = JObj
     [(''manifest_sha256'', JStr (ra_manifest_sha256 a)), (''evidence_sha256'', JStr (ra_evidence_sha256 a)),
      (''grade_sha256'', JStr (ra_grade_sha256 a)), (''contract_sha256'', JStr (ra_contract_sha256 a)),
      (''policy_sha256'', JStr (ra_policy_sha256 a))]"

record registry =
  rg_registry_id :: string
  rg_issuer :: string
  rg_experiment_manifest_sha256 :: string
  rg_anchors :: "replay_anchor list"

definition registry_check :: "registry \<Rightarrow> exn option" where
  "registry_check g = raises
     [(\<not> stable_id (rg_registry_id g), VE ''registry_id''), (\<not> stable_id (rg_issuer g), VE ''issuer''),
      (\<not> sha256_ok (rg_experiment_manifest_sha256 g), VE ''experiment_manifest_sha256''),
      (rg_anchors g = [] \<or> \<not> list_all replay_anchor_ok (rg_anchors g), VE ''anchors''),
      (\<not> distinct (map ra_manifest_sha256 (rg_anchors g)), VE ''replay manifest anchors must be unique'')]"

definition registry_json :: "registry \<Rightarrow> json" where
  "registry_json g = JObj
     [(''schema_version'', JStr ''bpe.replay-anchor-registry.v1''), (''registry_id'', JStr (rg_registry_id g)),
      (''issuer'', JStr (rg_issuer g)),
      (''experiment_manifest_sha256'', JStr (rg_experiment_manifest_sha256 g)),
      (''anchors'', jarr replay_anchor_json (rg_anchors g))]"

section \<open>Benchmark reports\<close>

record slice_score =
  sl_name :: string
  sl_task_count :: int
  sl_pass_at_k :: "rat option"

definition slice_score_ok :: "slice_score \<Rightarrow> bool" where
  "slice_score_ok s \<longleftrightarrow> stable_id (sl_name s) \<and> 0 \<le> sl_task_count s \<and> opt_ok (float_in 0 1) (sl_pass_at_k s)"

record seed_score =
  ss_training_seed :: int
  ss_checkpoint_id :: string
  ss_checkpoint_artifact_sha256 :: string
  ss_task_count :: int
  ss_pass_at_k :: rat

definition seed_score_ok :: "seed_score \<Rightarrow> bool" where
  "seed_score_ok s \<longleftrightarrow> 0 \<le> ss_training_seed s \<and> stable_id (ss_checkpoint_id s) \<and>
     sha256_ok (ss_checkpoint_artifact_sha256 s) \<and> 1 \<le> ss_task_count s \<and> float_in 0 1 (ss_pass_at_k s)"

record benchmark_report =
  br_experiment_id :: string
  br_experiment_manifest_sha256 :: string
  br_replay_anchor_registry_sha256 :: "string option"
  br_suite_id :: string
  br_suite_manifest_sha256 :: string
  br_family :: family
  br_grader_id :: string
  br_reward_policy_id :: string
  br_reward_policy_sha256 :: string
  br_environment_id :: string
  br_environment_sha256 :: string
  br_harness_commit :: string
  br_diagnostic_condition :: diagnostic
  br_model_id :: string
  br_model_artifact_sha256 :: string
  br_sampling_config_sha256 :: string
  br_k :: int
  br_samples_per_task_seed :: int
  br_eligible_task_count :: int
  br_eligible_training_seed_count :: int
  br_training_seeds :: "int list"
  br_eligible_attempt_count :: int
  br_excluded_attempt_count :: int
  br_pass_at_k :: "rat option"
  br_root_cause_macro_pass_at_k :: "rat option"
  br_bootstrap_95 :: "(rat \<times> rat) option"
  br_bootstrap_method :: string
  br_bootstrap_samples :: int
  br_bootstrap_seed :: int
  br_by_root_cause :: "slice_score list"
  br_by_program_type :: "slice_score list"
  br_training_seed_results :: "seed_score list"
  br_failure_stage_counts :: "(stage \<times> int) list"
  br_notes :: "string list"

definition report_fields_check :: "benchmark_report \<Rightarrow> exn option" where
  "report_fields_check r = raises
     [(\<not> stable_id (br_experiment_id r), VE ''experiment_id''),
      (\<not> sha256_ok (br_experiment_manifest_sha256 r), VE ''experiment_manifest_sha256''),
      (\<not> opt_ok sha256_ok (br_replay_anchor_registry_sha256 r), VE ''replay_anchor_registry_sha256''),
      (\<not> stable_id (br_suite_id r), VE ''suite_id''),
      (\<not> sha256_ok (br_suite_manifest_sha256 r), VE ''suite_manifest_sha256''),
      (\<not> sha256_ok (br_grader_id r), VE ''grader_id''), (\<not> stable_id (br_reward_policy_id r), VE ''reward_policy_id''),
      (\<not> sha256_ok (br_reward_policy_sha256 r), VE ''reward_policy_sha256''),
      (\<not> stable_id (br_environment_id r), VE ''environment_id''),
      (\<not> sha256_ok (br_environment_sha256 r), VE ''environment_sha256''),
      (\<not> hex40_ok (br_harness_commit r), VE ''harness_commit''), (\<not> stable_id (br_model_id r), VE ''model_id''),
      (\<not> sha256_ok (br_model_artifact_sha256 r), VE ''model_artifact_sha256''),
      (\<not> sha256_ok (br_sampling_config_sha256 r), VE ''sampling_config_sha256''),
      (\<not> 1 \<le> br_k r, VE ''k''), (\<not> 1 \<le> br_samples_per_task_seed r, VE ''samples_per_task_seed''),
      (\<not> 0 \<le> br_eligible_task_count r, VE ''eligible_task_count''),
      (\<not> 0 \<le> br_eligible_training_seed_count r, VE ''eligible_training_seed_count''),
      (\<not> list_all (\<lambda>s. 0 \<le> s) (br_training_seeds r), VE ''training_seeds''),
      (\<not> 0 \<le> br_eligible_attempt_count r, VE ''eligible_attempt_count''),
      (\<not> 0 \<le> br_excluded_attempt_count r, VE ''excluded_attempt_count''),
      (\<not> opt_ok (float_in 0 1) (br_pass_at_k r), VE ''pass_at_k''),
      (\<not> opt_ok (float_in 0 1) (br_root_cause_macro_pass_at_k r), VE ''root_cause_macro_pass_at_k''),
      (\<not> opt_ok (\<lambda>(lo, hi). float_in 0 1 lo \<and> float_in 0 1 hi) (br_bootstrap_95 r), VE ''bootstrap_95''),
      (br_bootstrap_method r \<notin> {''training-seed-and-root-cause-cluster-bayesian'', ''training-seed-and-cluster-bayesian''},
        VE ''bootstrap_method''),
      (\<not> 0 < br_bootstrap_samples r, VE ''bootstrap_samples''), (\<not> 0 \<le> br_bootstrap_seed r, VE ''bootstrap_seed''),
      (\<not> list_all slice_score_ok (br_by_root_cause r), VE ''by_root_cause''),
      (\<not> list_all slice_score_ok (br_by_program_type r), VE ''by_program_type''),
      (\<not> list_all seed_score_ok (br_training_seed_results r), VE ''training_seed_results''),
      (\<not> list_all (\<lambda>(_, n). 0 \<le> n) (br_failure_stage_counts r), VE ''failure_stage_counts'')]"

definition far_from :: "rat \<Rightarrow> rat \<Rightarrow> bool" where
  "far_from x y \<longleftrightarrow> \<bar>fsub x y\<bar> > fl64 (1 / 10 ^ 12)"

definition program_micro :: "benchmark_report \<Rightarrow> rat" where
  "program_micro r = fdiv
     (fsum (concat (map (\<lambda>s. case sl_pass_at_k s of None \<Rightarrow> [] | Some p \<Rightarrow> [fmul (fl64 (rat_of_int (sl_task_count s))) p])
        (br_by_program_type r)))) (fl64 (rat_of_int (br_eligible_task_count r)))"

definition seed_micro :: "benchmark_report \<Rightarrow> rat" where
  "seed_micro r = fdiv (fsum (map ss_pass_at_k (br_training_seed_results r)))
     (fl64 (rat_of_nat (length (br_training_seed_results r))))"

definition root_macro :: "slice_score list \<Rightarrow> rat" where
  "root_macro slices = fdiv (fsum (concat (map (\<lambda>s. case sl_pass_at_k s of None \<Rightarrow> [] | Some p \<Rightarrow> [p]) slices)))
     (fl64 (rat_of_nat (length slices)))"

definition benchmark_report_check :: "benchmark_report \<Rightarrow> exn option" where
  "benchmark_report_check r = orelse (report_fields_check r) (raises
     ([(case br_bootstrap_95 r of None \<Rightarrow> False | Some (lo, hi) \<Rightarrow> lo > hi, VE ''bootstrap interval bounds are reversed''),
       (br_eligible_task_count r = 0 \<and> (br_pass_at_k r \<noteq> None \<or> br_root_cause_macro_pass_at_k r \<noteq> None),
         VE ''an empty report cannot contain pass rates''),
       (br_eligible_task_count r \<noteq> 0 \<and> br_pass_at_k r = None, VE ''a non-empty report requires a micro pass rate''),
       (br_eligible_task_count r > 0 \<and> br_bootstrap_95 r = None, VE ''a non-empty report requires a bootstrap interval''),
       (br_eligible_task_count r > 0 \<and> br_eligible_training_seed_count r = 0,
         VE ''a non-empty report requires training-seed results''),
       (br_eligible_task_count r > 0 \<and> br_family r = REPAIR \<and>
          (br_root_cause_macro_pass_at_k r = None \<or> br_by_root_cause r = []),
         VE ''repair reports require root-cause metrics''),
       (\<not> (br_eligible_task_count r > 0 \<and> br_family r = REPAIR) \<and> br_family r = GENERATION \<and>
          (br_root_cause_macro_pass_at_k r \<noteq> None \<or> br_by_root_cause r \<noteq> []),
         VE ''generation reports cannot claim repair root-cause metrics''),
       (int (length (br_training_seeds r)) \<noteq> br_eligible_training_seed_count r,
         VE ''training seed count does not match the recorded seeds''),
       (\<not> distinct (br_training_seeds r), VE ''training seeds must be unique''),
       (map ss_training_seed (br_training_seed_results r) \<noteq> br_training_seeds r,
         VE ''training-seed result identities do not match the report''),
       (list_ex (\<lambda>s. ss_task_count s \<noteq> br_eligible_task_count r) (br_training_seed_results r),
         VE ''training-seed task counts do not match the report''),
       (br_eligible_attempt_count r \<noteq>
          br_eligible_task_count r * br_eligible_training_seed_count r * br_samples_per_task_seed r,
         VE ''eligible attempt count does not match the frozen sample design''),
       (sum_list (map snd (br_failure_stage_counts r)) > br_eligible_attempt_count r,
         VE ''failure-stage counts exceed eligible attempts'')] @
      (if br_eligible_task_count r > 0 then
        [(sum_list (map sl_task_count (br_by_program_type r)) \<noteq> br_eligible_task_count r,
           VE ''program-type slices do not partition the task set''),
         (far_from (program_micro r) (the (br_pass_at_k r)) \<or> far_from (seed_micro r) (the (br_pass_at_k r)),
           VE ''report slices do not reproduce the headline pass rate'')] @
        (if br_family r = REPAIR then
          [(sum_list (map sl_task_count (br_by_root_cause r)) \<noteq> br_eligible_task_count r,
             VE ''root-cause slices do not partition the task set''),
           (far_from (root_macro (br_by_root_cause r)) (the (br_root_cause_macro_pass_at_k r)),
             VE ''root-cause slices do not reproduce the macro rate'')] else [])
       else [])))"

end
