(* ===== verification/Aggregate.thy ===== *)
theory Aggregate
  imports Experiments "HOL-Library.AList"
begin

text \<open>
  \<open>aggregate.py\<close>: the benchmark aggregation.  Dictionaries that are iterated are association
  lists in insertion order, updated with \<open>AList.update\<close>, which replaces in place or appends as
  Python does.  The draws of \<open>random.Random(seed).expovariate(1.0)\<close> are a parameter
  \<open>rng :: int \<Rightarrow> nat \<Rightarrow> rat\<close>: \<open>rng seed i\<close> is the \<open>i\<close>-th draw.  Float expressions are rounded
  operation by operation, \<open>int / int\<close> once, and division by zero raises.
\<close>

abbreviation ValueError :: "string \<Rightarrow> exn" where
  "ValueError m \<equiv> Exn ''ValueError'' m"

section \<open>Estimators\<close>

definition comb :: "int \<Rightarrow> int \<Rightarrow> nat" where
  "comb n k = nat n choose nat k"

definition pass_at_k_estimate :: "int \<Rightarrow> int \<Rightarrow> int \<Rightarrow> rat result" where
  "pass_at_k_estimate n c k =
     (if \<not> (0 \<le> c \<and> c \<le> n) then Inl (ValueError ''successful samples must be between zero and n'')
      else if \<not> (1 \<le> k \<and> k \<le> n) then Inl (ValueError ''k must be between one and n'')
      else if n - c < k then Inr 1
      else Inr (fsub 1 (fl64 (rat_of_nat (comb (n - c) k) / rat_of_nat (comb n k)))))"

text \<open>The message also lists the values found; only its literal part is kept.\<close>

definition single_value :: "attempt list \<Rightarrow> string \<Rightarrow> (attempt \<Rightarrow> 'b) \<Rightarrow> 'b result" where
  "single_value records label getter =
     (case remdups (map getter records) of
        [v] \<Rightarrow> Inr v
      | _ \<Rightarrow> Inl (ValueError (''attempts mix '' @ label)))"

definition truediv :: "rat \<Rightarrow> rat \<Rightarrow> rat result" where
  "truediv a b = (if b = 0 then Inl (Exn ''ZeroDivisionError'' ''float division by zero'') else Inr (fdiv a b))"

definition percentile :: "rat list \<Rightarrow> rat \<Rightarrow> rat result" where
  "percentile values fraction =
     (if values = [] then Inl (ValueError ''cannot calculate a percentile of no values'')
      else let ordered = sort values;
               position = fmul (rat_of_nat (length ordered - 1)) fraction;
               lower_index = \<lfloor>position\<rfloor>;
               upper_index = \<lceil>position\<rceil>
           in if lower_index = upper_index then Inr (ordered ! nat lower_index)
              else let remainder = fsub position (rat_of_int lower_index)
                   in Inr (fadd (fmul (ordered ! nat lower_index) (fsub 1 remainder))
                                (fmul (ordered ! nat upper_index) remainder)))"

section \<open>The Bayesian cluster bootstrap\<close>

definition stratum :: "suite_task \<Rightarrow> string" where
  "stratum t = (case st_root_cause t of None \<Rightarrow> ''generation'' | Some c \<Rightarrow> if c = '''' then ''generation'' else c)"

text \<open>A lookup in a dictionary that holds the key.\<close>

definition item :: "('k \<times> 'v) list \<Rightarrow> 'k \<Rightarrow> 'v" where
  "item d k = the (map_of d k)"

definition root_mean ::
  "(string \<times> rat) list \<Rightarrow> (int \<times> rat) list \<Rightarrow> (int \<times> (string \<times> rat) list) list \<Rightarrow>
   suite_task list \<Rightarrow> int list \<Rightarrow> rat result" where
  "root_mean cluster_weights seed_weights scores_by_seed tasks training_seeds =
     (let denominator = fsum [fmul (item cluster_weights (st_cluster_id t)) (item seed_weights s).
                               t \<leftarrow> tasks, s \<leftarrow> training_seeds];
          total = fsum [fmul (fmul (item cluster_weights (st_cluster_id t)) (item seed_weights s))
                          (item (item scores_by_seed s) (st_task_id t)).
                        t \<leftarrow> tasks, s \<leftarrow> training_seeds]
      in truediv total denominator)"

definition replicate_score ::
  "(string \<times> rat) list \<Rightarrow> (int \<times> rat) list \<Rightarrow> (int \<times> (string \<times> rat) list) list \<Rightarrow>
   suite_task list \<Rightarrow> int list \<Rightarrow> rat result" where
  "replicate_score cluster_weights seed_weights scores_by_seed suite_tasks training_seeds =
     rbind (traverse
       (\<lambda>root_cause. let tasks = filter (\<lambda>t. stratum t = root_cause) suite_tasks in
          rbind (root_mean cluster_weights seed_weights scores_by_seed tasks training_seeds)
            (\<lambda>m. Inr (fmul m (rat_of_nat (length tasks)))))
       (sort (remdups (map stratum suite_tasks))))
     (\<lambda>parts. truediv (fsum parts) (rat_of_nat (length suite_tasks)))"

definition cluster_bootstrap_interval ::
  "(int \<Rightarrow> nat \<Rightarrow> rat) \<Rightarrow> (int \<times> (string \<times> rat) list) list \<Rightarrow> suite_task list \<Rightarrow> nat \<Rightarrow> int \<Rightarrow> (rat \<times> rat) result" where
  "cluster_bootstrap_interval rng scores_by_seed suite_tasks samples seed =
     (let cluster_ids = sort (remdups (map st_cluster_id suite_tasks));
          training_seeds = sort (map fst scores_by_seed);
          c = length cluster_ids; s = length training_seeds
      in rbind (traverse
           (\<lambda>j. replicate_score
              (zip cluster_ids (map (\<lambda>i. rng seed (j * (c + s) + i)) [0..<c]))
              (zip training_seeds (map (\<lambda>i. rng seed (j * (c + s) + c + i)) [0..<s]))
              scores_by_seed suite_tasks training_seeds)
           [0..<samples])
         (\<lambda>replicates. rbind (percentile replicates (fl64 (25 / 1000)))
           (\<lambda>lo. rbind (percentile replicates (fl64 (975 / 1000))) (\<lambda>hi. Inr (lo, hi)))))"

definition slice_scores :: "(string \<times> rat) list \<Rightarrow> suite_task list \<Rightarrow> (suite_task \<Rightarrow> string) \<Rightarrow> slice_score list result" where
  "slice_scores task_scores suite_tasks getter =
     traverse (\<lambda>name.
        let scores = map (\<lambda>t. item task_scores (st_task_id t)) (filter (\<lambda>t. getter t = name) suite_tasks);
            s = \<lparr>sl_name = name, sl_task_count = int (length scores),
                 sl_pass_at_k = Some (fdiv (fsum scores) (rat_of_nat (length scores)))\<rparr>
        in if slice_score_ok s then Inr s else Inl (VE ''SliceScore''))
       (sort (remdups (map getter suite_tasks)))"

section \<open>Run identity\<close>

record run_identity =
  ri_experiment_id :: string
  ri_model_id :: string
  ri_sampling_config_sha256 :: string
  ri_grader_id :: string
  ri_reward_policy_id :: string
  ri_environment_id :: string
  ri_diagnostic_condition :: diagnostic
  ri_suite_digest :: string

definition validate_run_identity ::
  "hasher \<Rightarrow> attempt list \<Rightarrow> suite \<Rightarrow> experiment_manifest \<Rightarrow> run_identity result" where
  "validate_run_identity h records su ex =
     rbind (single_value records ''experiment IDs'' at_experiment_id) (\<lambda>experiment_id.
     rbind (single_value records ''model IDs'' at_model_id) (\<lambda>model_id.
     rbind (single_value records ''model artifact digests'' at_model_artifact_sha256) (\<lambda>model_artifact_sha256.
     rbind (single_value records ''sampling configurations'' at_sampling_config_sha256) (\<lambda>sampling_config_sha256.
     rbind (single_value records ''grader IDs'' (\<lambda>a. gr_grader_id (at_grade a))) (\<lambda>grader_id.
     rbind (single_value records ''reward policy IDs'' (\<lambda>a. gr_policy_id (at_grade a))) (\<lambda>reward_policy_id.
     rbind (single_value records ''reward policy digests'' at_reward_policy_sha256) (\<lambda>reward_policy_sha256.
     rbind (single_value records ''environment IDs'' (\<lambda>a. rq_environment_id (ev_request (at_evidence a)))) (\<lambda>environment_id.
     rbind (single_value records ''diagnostic conditions''
              (\<lambda>a. rq_diagnostic_condition (ev_request (at_evidence a)))) (\<lambda>diagnostic_condition.
     rbind (single_value records ''environment fingerprints''
              (\<lambda>a. sha256_json h (environment_json (ev_environment (at_evidence a))))) (\<lambda>environment_sha256.
     rbind (single_value records ''harness commits'' (\<lambda>a. ev_harness_commit (at_evidence a))) (\<lambda>harness_commit.
     rbind (single_value records ''suite IDs'' (\<lambda>a. rq_suite_id (ev_request (at_evidence a)))) (\<lambda>suite_id.
     let suite_digest = sha256_json h (suite_json su) in
     rbind (single_value records ''suite manifest digests''
              (\<lambda>a. rq_suite_manifest_sha256 (ev_request (at_evidence a)))) (\<lambda>recorded_suite_digest.
     let experiment_digest = sha256_json h (experiment_json ex) in
     rbind (single_value records ''request experiment IDs''
              (\<lambda>a. rq_experiment_id (ev_request (at_evidence a)))) (\<lambda>recorded_experiment_id.
     rbind (single_value records ''experiment manifest digests''
              (\<lambda>a. rq_experiment_manifest_sha256 (ev_request (at_evidence a)))) (\<lambda>recorded_experiment_digest.
     check (raises
       [(suite_id \<noteq> su_suite_id su, ValueError ''attempt suite does not match''),
        (recorded_suite_digest \<noteq> suite_digest,
          ValueError ''attempts do not bind the supplied frozen suite manifest''),
        (environment_id \<noteq> su_environment_id su, ValueError ''attempt environment does not match suite environment''),
        (ex_suite_id ex \<noteq> su_suite_id su \<or> ex_suite_manifest_sha256 ex \<noteq> suite_digest,
          ValueError ''experiment manifest does not bind the supplied frozen suite''),
        (recorded_experiment_id \<noteq> ex_experiment_id ex \<or> experiment_id \<noteq> ex_experiment_id ex,
          ValueError ''attempts do not match the supplied experiment identity''),
        (recorded_experiment_digest \<noteq> experiment_digest,
          ValueError ''attempts do not bind the supplied frozen experiment manifest''),
        (model_id \<noteq> ex_model_id ex \<or> model_artifact_sha256 \<noteq> ex_model_artifact_sha256 ex \<or>
         sampling_config_sha256 \<noteq> ex_sampling_config_sha256 ex \<or>
         diagnostic_condition \<noteq> ex_diagnostic_condition ex \<or>
         reward_policy_id \<noteq> ex_reward_policy_id ex \<or> reward_policy_sha256 \<noteq> ex_reward_policy_sha256 ex \<or>
         environment_sha256 \<noteq> ex_environment_sha256 ex \<or> harness_commit \<noteq> ex_harness_commit ex \<or>
         grader_id \<noteq> ex_expected_grader_id ex,
          ValueError ''attempt run configuration does not match the experiment manifest'')])
     (Inr \<lparr>ri_experiment_id = experiment_id, ri_model_id = model_id,
           ri_sampling_config_sha256 = sampling_config_sha256, ri_grader_id = grader_id,
           ri_reward_policy_id = reward_policy_id, ri_environment_id = environment_id,
           ri_diagnostic_condition = diagnostic_condition, ri_suite_digest = suite_digest\<rparr>))))))))))))))))"

section \<open>Membership of the attempts in the frozen design\<close>

type_synonym episode_key = "string \<times> int \<times> int"

record membership =
  ms_seen_samples :: "(string \<times> int \<times> int \<times> int) set"
  ms_seen_request_ids :: "string set"
  ms_seen_replays :: "string set"
  ms_seen_turn_zero_seeds :: "(string \<times> int \<times> int) set"
  ms_episodes_by_sample :: "episode_key \<rightharpoonup> string"
  ms_episode_records :: "(episode_key \<times> attempt list) list"

definition no_membership :: membership where
  "no_membership = \<lparr>ms_seen_samples = {}, ms_seen_request_ids = {}, ms_seen_replays = {},
     ms_seen_turn_zero_seeds = {}, ms_episodes_by_sample = Map.empty, ms_episode_records = []\<rparr>"

definition sample_identity :: "attempt \<Rightarrow> string \<times> int \<times> int \<times> int" where
  "sample_identity a = (at_task_id a, at_training_seed a, at_sample_index a, at_turn_index a)"

definition generation_identity :: "attempt \<Rightarrow> string \<times> int \<times> int" where
  "generation_identity a = (at_task_id a, at_training_seed a, at_generation_seed a)"

definition episode_identity :: "attempt \<Rightarrow> episode_key" where
  "episode_identity a = (at_task_id a, at_training_seed a, at_sample_index a)"

definition attempt_request_id :: "attempt \<Rightarrow> string" where
  "attempt_request_id a = rq_request_id (ev_request (at_evidence a))"

text \<open>The dictionary comprehensions over unique keys are lookups in the lists.\<close>

definition suite_task_by_id :: "suite \<Rightarrow> string \<Rightarrow> suite_task option" where
  "suite_task_by_id su i = map_of (rev (map (\<lambda>t. (st_task_id t, t)) (su_tasks su))) i"

definition seed_plan_by_seed :: "experiment_manifest \<Rightarrow> int \<Rightarrow> seed_plan option" where
  "seed_plan_by_seed ex s = map_of (rev (map (\<lambda>p. (sp_training_seed p, p)) (ex_seed_plans ex))) s"

definition planned_record :: "suite \<Rightarrow> experiment_manifest \<Rightarrow> attempt \<Rightarrow> exn option" where
  "planned_record su ex a =
     (case suite_task_by_id su (at_task_id a) of
        None \<Rightarrow> Some (ValueError ''attempt references task outside frozen suite'')
      | Some t \<Rightarrow>
        if (at_task_version a, at_task_bundle_sha256 a, gr_contract_sha256 (at_grade a), at_family a,
             at_root_cause a, at_program_type a, at_cluster_id a) \<noteq>
           (st_task_version t, st_task_bundle_sha256 t, st_scoring_contract_sha256 t, st_family t,
             st_root_cause t, st_program_type t, st_cluster_id t)
        then Some (ValueError ''attempt metadata does not match frozen suite task'')
        else case seed_plan_by_seed ex (at_training_seed a) of
          None \<Rightarrow> Some (ValueError ''attempt uses undeclared training seed'')
        | Some p \<Rightarrow> raises
            [(at_checkpoint_id a \<noteq> sp_checkpoint_id p, ValueError ''attempt checkpoint does not match training seed''),
             (at_checkpoint_artifact_sha256 a \<noteq> sp_checkpoint_artifact_sha256 p,
               ValueError ''attempt checkpoint digest does not match training seed'')])"

definition turn_zero_check :: "experiment_manifest \<Rightarrow> membership \<Rightarrow> attempt \<Rightarrow> exn option" where
  "turn_zero_check ex ms a =
     (case seed_plan_by_seed ex (at_training_seed a) of
        None \<Rightarrow> None
      | Some p \<Rightarrow> raises
         [(at_sample_index a \<ge> int (length (sp_generation_seeds p)),
            ValueError ''sample index is outside the experiment seed plan''),
          (at_generation_seed a \<noteq> sp_generation_seeds p ! nat (at_sample_index a),
            ValueError ''generation seed does not match the experiment plan''),
          (generation_identity a \<in> ms_seen_turn_zero_seeds ms, ValueError ''duplicate turn-zero generation seed'')])"

definition membership_step :: "suite \<Rightarrow> experiment_manifest \<Rightarrow> attempt \<Rightarrow> membership \<Rightarrow> membership result" where
  "membership_step su ex a ms =
     check (orelse (planned_record su ex a) (orelse
       (raises
         [(sample_identity a \<in> ms_seen_samples ms, ValueError ''duplicate sample identity''),
          (attempt_request_id a \<in> ms_seen_request_ids ms, ValueError ''duplicate request ID''),
          (at_replay_manifest_sha256 a \<in> ms_seen_replays ms, ValueError ''duplicate replay manifest'')])
       (orelse (if at_turn_index a = 0 then turn_zero_check ex ms a else None)
         (case ms_episodes_by_sample ms (episode_identity a) of
            Some e \<Rightarrow> raises [(e \<noteq> at_episode_id a, ValueError ''sample is split across episode IDs'')]
          | None \<Rightarrow> None))))
     (Inr \<lparr>ms_seen_samples = insert (sample_identity a) (ms_seen_samples ms),
           ms_seen_request_ids = insert (attempt_request_id a) (ms_seen_request_ids ms),
           ms_seen_replays = insert (at_replay_manifest_sha256 a) (ms_seen_replays ms),
           ms_seen_turn_zero_seeds = (if at_turn_index a = 0
             then insert (generation_identity a) (ms_seen_turn_zero_seeds ms) else ms_seen_turn_zero_seeds ms),
           ms_episodes_by_sample = (ms_episodes_by_sample ms)(episode_identity a \<mapsto> at_episode_id a),
           ms_episode_records = AList.update (episode_identity a)
             ((case map_of (ms_episode_records ms) (episode_identity a) of None \<Rightarrow> [] | Some rs \<Rightarrow> rs) @ [a])
             (ms_episode_records ms)\<rparr>)"

fun membership_loop :: "suite \<Rightarrow> experiment_manifest \<Rightarrow> attempt list \<Rightarrow> membership \<Rightarrow> membership result" where
  "membership_loop su ex [] ms = Inr ms"
| "membership_loop su ex (a # as) ms = rbind (membership_step su ex a ms) (membership_loop su ex as)"

definition parents_linked :: "attempt list \<Rightarrow> bool" where
  "parents_linked ordered \<longleftrightarrow> list_all
     (\<lambda>(previous, current). rq_parent_request_id (ev_request (at_evidence current)) = Some (attempt_request_id previous))
     (pairwise ordered)"

definition episode_check :: "attempt list \<Rightarrow> exn option" where
  "episode_check episode = (let ordered = sort_key at_turn_index episode in raises
     [(map at_turn_index ordered \<noteq> map int [0..<length ordered], ValueError ''episode has non-contiguous turns''),
      (\<not> parents_linked ordered, ValueError ''episode has broken parent linkage'')])"

definition validate_attempt_membership :: "attempt list \<Rightarrow> suite \<Rightarrow> experiment_manifest \<Rightarrow> exn option" where
  "validate_attempt_membership records su ex =
     (case membership_loop su ex records no_membership of
        Inl e \<Rightarrow> Some e
      | Inr ms \<Rightarrow> raises (map (\<lambda>(_, episode). (episode_check episode \<noteq> None, the (episode_check episode)))
          (ms_episode_records ms)))"

section \<open>Eligibility and scores\<close>

definition anchored :: "hasher \<Rightarrow> registry \<Rightarrow> attempt \<Rightarrow> bool" where
  "anchored h g a \<longleftrightarrow>
     (case map_of (rev (map (\<lambda>n. (ra_manifest_sha256 n, n)) (rg_anchors g))) (at_replay_manifest_sha256 a) of
        None \<Rightarrow> False
      | Some n \<Rightarrow> ra_evidence_sha256 n = gr_evidence_sha256 (at_grade a) \<and>
          ra_grade_sha256 n = sha256_json h (grade_json (at_grade a)) \<and>
          ra_contract_sha256 n = gr_contract_sha256 (at_grade a) \<and>
          ra_policy_sha256 n = at_reward_policy_sha256 a)"

definition eligible_turn_zero :: "hasher \<Rightarrow> attempt list \<Rightarrow> bool \<Rightarrow> registry option \<Rightarrow> attempt list result" where
  "eligible_turn_zero h records include_nonbenchmark trusted_replay_registry =
     (let turn_zero = filter (\<lambda>a. at_turn_index a = 0) records in
      if include_nonbenchmark then Inr turn_zero
      else if filter (\<lambda>a. ev_origin (at_evidence a) \<noteq> O_MICROVM) turn_zero \<noteq> []
        then Inl (ValueError ''strict anchored aggregation accepts only microVM turn-zero evidence'')
      else case trusted_replay_registry of
        None \<Rightarrow> Inl (ValueError ''strict anchored aggregation requires a replay-anchor registry'')
      | Some g \<Rightarrow> if filter (\<lambda>a. \<not> anchored h g a) turn_zero \<noteq> []
          then Inl (ValueError ''strict aggregation requires externally anchored replays'')
          else Inr turn_zero)"

definition seed_attempts :: "attempt list \<Rightarrow> string \<Rightarrow> int \<Rightarrow> attempt list" where
  "seed_attempts eligible task_id seed =
     filter (\<lambda>a. (at_task_id a, at_training_seed a) = (task_id, seed)) eligible"

definition task_seed_score :: "attempt list \<Rightarrow> string \<Rightarrow> int \<Rightarrow> int \<Rightarrow> nat \<Rightarrow> rat result" where
  "task_seed_score eligible task_id seed k expected =
     (let attempts = seed_attempts eligible task_id seed in
      check (raises
        [(list_ex (\<lambda>a. \<not> gr_comparable (at_grade a)) attempts, ValueError ''infrastructure failure makes seed incomplete''),
         (length attempts \<noteq> expected, ValueError ''the frozen sample design requires exactly''),
         (sort (map at_sample_index attempts) \<noteq> map int [0..<length attempts],
           ValueError ''sample indices must be contiguous from zero'')])
      (pass_at_k_estimate (int (length attempts))
        (int (length (filter (\<lambda>a. gr_strict_success (at_grade a) = Some True) attempts))) k))"

type_synonym scores = "(string \<times> rat) list \<times> (int \<times> (string \<times> rat) list) list"

text \<open>
  The inner loop returns the row of a task, its score for every seed; \<open>result\<close> and \<open>by_seed\<close> are filled
  row by row, task by task.
\<close>

definition task_row :: "attempt list \<Rightarrow> int list \<Rightarrow> int \<Rightarrow> nat \<Rightarrow> suite_task \<Rightarrow> rat list result" where
  "task_row eligible seeds k expected t = traverse (\<lambda>s. task_seed_score eligible (st_task_id t) s k expected) seeds"

fun task_scores_loop :: "attempt list \<Rightarrow> int list \<Rightarrow> int \<Rightarrow> nat \<Rightarrow> suite_task list \<Rightarrow> scores \<Rightarrow> scores result" where
  "task_scores_loop eligible seeds k expected [] acc = Inr acc"
| "task_scores_loop eligible seeds k expected (t # ts) (res, by_seed) =
     rbind (task_row eligible seeds k expected t) (\<lambda>row.
       rbind (truediv (fsum row) (rat_of_nat (length row))) (\<lambda>score.
         task_scores_loop eligible seeds k expected ts
           (AList.update (st_task_id t) score res,
            foldl (\<lambda>d (s, v). AList.update s (AList.update (st_task_id t) v (item d s)) d) by_seed (zip seeds row))))"

definition task_scores :: "attempt list \<Rightarrow> suite \<Rightarrow> int list \<Rightarrow> int \<Rightarrow> nat \<Rightarrow> scores result" where
  "task_scores eligible su seeds k expected =
     task_scores_loop eligible seeds k expected (su_tasks su) ([], map (\<lambda>s. (s, [])) seeds)"

section \<open>The report\<close>

definition counter :: "'a list \<Rightarrow> ('a \<times> int) list" where
  "counter xs = foldl (\<lambda>d x. AList.update x ((case map_of d x of None \<Rightarrow> 0 | Some n \<Rightarrow> n) + 1) d) [] xs"

definition seed_results :: "experiment_manifest \<Rightarrow> suite \<Rightarrow> (int \<times> (string \<times> rat) list) list \<Rightarrow> seed_score list result" where
  "seed_results ex su scores_by_seed =
     traverse (\<lambda>p. let vs = map snd (item scores_by_seed (sp_training_seed p));
                       r = \<lparr>ss_training_seed = sp_training_seed p, ss_checkpoint_id = sp_checkpoint_id p,
                            ss_checkpoint_artifact_sha256 = sp_checkpoint_artifact_sha256 p,
                            ss_task_count = int (length (su_tasks su)),
                            ss_pass_at_k = fdiv (fsum vs) (rat_of_nat (length vs))\<rparr>
                   in if seed_score_ok r then Inr r else Inl (VE ''TrainingSeedScore''))
       (sort_key sp_training_seed (ex_seed_plans ex))"

definition report_notes :: "bool \<Rightarrow> string list" where
  "report_notes include_nonbenchmark =
     [''Every frozen-suite task and declared training seed has the exact frozen sample count.'',
      ''Only independent turn-0 attempts contribute to pass@k; repair turns are excluded.'',
      (if \<not> include_nonbenchmark
       then ''Replay manifests were checked against an externally supplied registry and the pinned microVM identity.''
       else ''This diagnostic report may include non-microVM or unanchored evidence.''),
      ''Phase 0 cannot produce official results because it has neither authoritative kernel execution nor authenticated evaluator attestations.'',
      ''The Bayesian interval shares original-program cluster weights across strata.'']"

definition registry_guard ::
  "hasher \<Rightarrow> experiment_manifest \<Rightarrow> bool \<Rightarrow> registry option \<Rightarrow> string option \<Rightarrow> exn option" where
  "registry_guard h ex include_nonbenchmark registry trusted_sha256 =
     (let registry_digest = map_option (\<lambda>g. sha256_json h (registry_json g)) registry in
      orelse (case registry of None \<Rightarrow> None | Some g \<Rightarrow> orelse (registry_check g) (raises
        [(rg_experiment_manifest_sha256 g \<noteq> sha256_json h (experiment_json ex),
           ValueError ''replay-anchor registry does not bind the experiment manifest'')]))
      (raises
        [(\<not> include_nonbenchmark \<and> (registry = None \<or> trusted_sha256 = None),
           ValueError ''strict anchored aggregation requires a registry and its external trusted digest''),
         (trusted_sha256 \<noteq> None \<and> registry_digest \<noteq> trusted_sha256,
           ValueError ''replay-anchor registry does not match its external trusted digest'')]))"

definition argument_guard :: "int \<Rightarrow> int \<Rightarrow> int \<Rightarrow> exn option" where
  "argument_guard k bootstrap_samples bootstrap_seed = raises
     [(k < 1, ValueError ''k must be a positive integer''),
      (bootstrap_samples < 1, ValueError ''bootstrap_samples must be a positive integer''),
      (bootstrap_seed < 0, ValueError ''bootstrap_seed must be a non-negative integer'')]"

definition experiment_seeds :: "experiment_manifest \<Rightarrow> int list" where
  "experiment_seeds ex = sort (map sp_training_seed (ex_seed_plans ex))"

definition validate_records :: "hasher \<Rightarrow> attempt list \<Rightarrow> exn option" where
  "validate_records h records = orelse
     (raises (map (\<lambda>a. (attempt_check h a \<noteq> None, the (attempt_check h a))) records))
     (raises [(records = [], ValueError ''cannot aggregate an empty attempt set'')])"

definition build_report ::
  "hasher \<Rightarrow> (int \<Rightarrow> nat \<Rightarrow> rat) \<Rightarrow> suite \<Rightarrow> experiment_manifest \<Rightarrow> int \<Rightarrow> bool \<Rightarrow> int \<Rightarrow> int \<Rightarrow> registry option \<Rightarrow>
   run_identity \<Rightarrow> nat \<Rightarrow> attempt list \<Rightarrow> scores \<Rightarrow> benchmark_report result" where
  "build_report h rng su ex k include_nonbenchmark bootstrap_samples bootstrap_seed registry ri record_count eligible sc =
     (let scores_by_task = fst sc; scores_by_seed = snd sc in
      rbind (truediv (fsum (map snd scores_by_task)) (rat_of_nat (length scores_by_task))) (\<lambda>pass_at_k.
      rbind (if su_family su = REPAIR then slice_scores scores_by_task (su_tasks su) stratum else Inr []) (\<lambda>by_root_cause.
      rbind (slice_scores scores_by_task (su_tasks su) st_program_type) (\<lambda>by_program_type.
      let root_cause_macro = (if by_root_cause \<noteq> [] then Some (root_macro by_root_cause) else None) in
      rbind (seed_results ex su scores_by_seed) (\<lambda>training_seed_results.
      rbind (cluster_bootstrap_interval rng scores_by_seed (su_tasks su) (nat bootstrap_samples) bootstrap_seed) (\<lambda>interval.
      let r = \<lparr>br_experiment_id = ri_experiment_id ri,
               br_experiment_manifest_sha256 = sha256_json h (experiment_json ex),
               br_replay_anchor_registry_sha256 = map_option (\<lambda>g. sha256_json h (registry_json g)) registry,
               br_suite_id = su_suite_id su, br_suite_manifest_sha256 = ri_suite_digest ri,
               br_family = su_family su, br_grader_id = ri_grader_id ri, br_reward_policy_id = ri_reward_policy_id ri,
               br_reward_policy_sha256 = ex_reward_policy_sha256 ex, br_environment_id = ri_environment_id ri,
               br_environment_sha256 = ex_environment_sha256 ex, br_harness_commit = ex_harness_commit ex,
               br_diagnostic_condition = ri_diagnostic_condition ri, br_model_id = ri_model_id ri,
               br_model_artifact_sha256 = ex_model_artifact_sha256 ex,
               br_sampling_config_sha256 = ri_sampling_config_sha256 ri,
               br_k = k, br_samples_per_task_seed = int (samples_per_task_seed ex),
               br_eligible_task_count = int (length scores_by_task),
               br_eligible_training_seed_count = int (length (experiment_seeds ex)),
               br_training_seeds = experiment_seeds ex,
               br_eligible_attempt_count = int (length eligible),
               br_excluded_attempt_count = int record_count - int (length eligible),
               br_pass_at_k = Some pass_at_k, br_root_cause_macro_pass_at_k = root_cause_macro,
               br_bootstrap_95 = Some interval,
               br_bootstrap_method = (if su_family su = REPAIR then ''training-seed-and-root-cause-cluster-bayesian''
                                      else ''training-seed-and-cluster-bayesian''),
               br_bootstrap_samples = bootstrap_samples, br_bootstrap_seed = bootstrap_seed,
               br_by_root_cause = by_root_cause, br_by_program_type = by_program_type,
               br_training_seed_results = training_seed_results,
               br_failure_stage_counts = counter (concat (map
                 (\<lambda>a. case gr_first_failure (at_grade a) of None \<Rightarrow> [] | Some s \<Rightarrow> [s]) eligible)),
               br_notes = report_notes include_nonbenchmark\<rparr>
      in check (benchmark_report_check r) (Inr r)))))))"

definition aggregate_attempts ::
  "hasher \<Rightarrow> (int \<Rightarrow> nat \<Rightarrow> rat) \<Rightarrow> attempt list \<Rightarrow> suite \<Rightarrow> experiment_manifest \<Rightarrow> int \<Rightarrow> bool \<Rightarrow> int \<Rightarrow> int \<Rightarrow>
   registry option \<Rightarrow> string option \<Rightarrow> benchmark_report result" where
  "aggregate_attempts h rng records su ex k include_nonbenchmark bootstrap_samples bootstrap_seed registry trusted_sha256 =
     check (argument_guard k bootstrap_samples bootstrap_seed)
    (check (suite_check su)
    (check (experiment_check ex)
    (check (registry_guard h ex include_nonbenchmark registry trusted_sha256)
    (check (raises [(k \<notin> set (ex_reported_k ex),
                     ValueError ''k was not predeclared in the frozen experiment manifest'')])
    (check (validate_records h records)
    (rbind (validate_run_identity h records su ex) (\<lambda>ri.
     check (validate_attempt_membership records su ex)
    (rbind (eligible_turn_zero h records include_nonbenchmark registry) (\<lambda>eligible.
     rbind (task_scores eligible su (experiment_seeds ex) k (samples_per_task_seed ex)) (\<lambda>sc.
     build_report h rng su ex k include_nonbenchmark bootstrap_samples bootstrap_seed registry ri
       (length records) eligible sc)))))))))) "

end
