(* ===== verification/Float_Sums.thy ===== *)
theory Float_Sums
  imports Binary64
begin

text \<open>
  Rounded sums and means: bounds that survive rounding and the distance to the exact value.
\<close>

lemma abs_via: "\<bar>a - b\<bar> \<le> x \<Longrightarrow> \<bar>b - c\<bar> \<le> y \<Longrightarrow> \<bar>a - c\<bar> \<le> x + (y :: rat)"
  by linarith

lemma fl64_abs_error:
  assumes "1 \<le> B" "\<bar>x\<bar> \<le> B"
  shows "\<bar>fl64 x - x\<bar> \<le> B / 2 ^ 53"
proof -
  define e where "e = ilog2 B"
  have e: "2 powi e \<le> B" "B < 2 powi (e + 1)" using ilog2_bounds[of B] assms(1) by (simp_all add: e_def)
  have "(2::rat) powi 0 < 2 powi (e + 1)" using e(2) assms(1) by simp
  then have "0 < e + 1" by (simp only: powi_two_less)
  then have "\<bar>fl64 x - x\<bar> \<le> 2 powi (e + 1 - 54)"
    using assms(2) e(2) by (intro fl64_error) auto
  also have "\<dots> = 2 powi e / 2 ^ 53"
    using power_int_diff[of "2::rat" e 53] by simp
  also have "\<dots> \<le> B / 2 ^ 53" using e(1) by (simp add: divide_right_mono)
  finally show ?thesis .
qed

lemma fl64_of_nat: "n \<le> 2 ^ 53 \<Longrightarrow> fl64 (of_nat n) = of_nat n"
  using fl64_of_int[of "int n"] by simp

lemma fsum_Nil [simp]: "fsum [] = 0"
  by (simp add: fsum_def)

lemma fsum_snoc: "fsum (xs @ [x]) = fadd (fsum xs) x"
  by (simp add: fsum_def)

lemma fsum_mono: "list_all2 (\<le>) xs ys \<Longrightarrow> fsum xs \<le> fsum ys"
proof (induction xs arbitrary: ys rule: rev_induct)
  case (snoc x xs)
  then obtain zs z where "ys = zs @ [z]" "list_all2 (\<le>) xs zs" "x \<le> z"
    by (auto simp: list_all2_append1 list_all2_Cons1)
  then show ?case using snoc.IH[of zs] by (simp add: fsum_snoc fadd_mono)
qed simp

text \<open>A sum of terms bounded by naturals stays below the sum of the naturals.\<close>

lemma fsum_le_nats:
  "list_all2 (\<lambda>x c. x \<le> of_nat c) xs cs \<Longrightarrow> sum_list cs \<le> 2 ^ 53 \<Longrightarrow> fsum xs \<le> of_nat (sum_list cs)"
proof (induction xs arbitrary: cs rule: rev_induct)
  case (snoc x xs)
  then obtain ds d where cs: "cs = ds @ [d]" "list_all2 (\<lambda>x c. x \<le> of_nat c) xs ds" "x \<le> of_nat d"
    by (auto simp: list_all2_append1 list_all2_Cons1)
  then have "fadd (fsum xs) x \<le> fadd (of_nat (sum_list ds)) (of_nat d)"
    using snoc by (intro fadd_mono) auto
  also have "\<dots> = of_nat (sum_list cs)"
    using snoc.prems(2) fl64_of_nat[of "sum_list cs"] by (simp add: fadd_def cs(1) add.commute)
  finally show ?case by (simp add: fsum_snoc)
qed simp

lemma fsum_le_length:
  assumes "\<forall>x \<in> set xs. x \<le> 1" "length xs \<le> 2 ^ 53"
  shows "fsum xs \<le> of_nat (length xs)"
  using fsum_le_nats[of xs "replicate (length xs) 1"] assms
  by (auto simp: list_all2_conv_all_nth sum_list_replicate)

lemma fsum_ge:
  assumes "xs \<noteq> []" "\<forall>x \<in> set xs. d \<le> x" "is_f64 d" "0 \<le> d"
  shows "d \<le> fsum xs"
proof (cases xs)
  case (Cons x ys)
  have "d \<le> fl64 x" using assms Cons by (auto simp: is_f64_def intro: f64.rnd_fixed_le)
  also have "\<dots> \<le> foldl (\<lambda>s x. fl64 (s + x)) (fl64 x) ys"
    using assms Cons by (intro f64.sum_ge_start) (auto simp: fl64_idem)
  finally show ?thesis using Cons by (simp add: fsum_fold)
qed (use assms in simp)

lemma fsum_error:
  assumes "\<forall>x \<in> set xs. 0 \<le> x \<and> x \<le> 1" "length xs \<le> 2 ^ 53"
  shows "\<bar>fsum xs - sum_list xs\<bar> \<le> of_nat (length xs * length xs) / 2 ^ 53"
  using assms
proof (induction xs rule: rev_induct)
  case (snoc x xs)
  let ?n = "of_nat (length xs) :: rat"
  have IH: "\<bar>fsum xs - sum_list xs\<bar> \<le> ?n * ?n / 2 ^ 53" using snoc by simp
  have "0 \<le> fsum xs" "fsum xs \<le> ?n" using snoc.prems fsum_nonneg[of xs] fsum_le_length[of xs] by auto
  then have "\<bar>fl64 (fsum xs + x) - (fsum xs + x)\<bar> \<le> (?n + 1) / 2 ^ 53"
    using snoc.prems by (intro fl64_abs_error) auto
  then have "\<bar>fsum (xs @ [x]) - sum_list (xs @ [x])\<bar> \<le> (?n + 1) / 2 ^ 53 + ?n * ?n / 2 ^ 53"
    using IH abs_via[of "fl64 (fsum xs + x)" "fsum xs + x" _ "sum_list xs + x"] by (simp only: fsum_snoc fadd_def) simp
  also have "\<dots> \<le> (?n + 1) * (?n + 1) / 2 ^ 53"
    unfolding add_divide_distrib[symmetric] by (intro divide_right_mono) (auto simp: algebra_simps)
  finally show ?case by (simp add: algebra_simps)
qed simp

section \<open>Means\<close>

definition fmean :: "rat list \<Rightarrow> rat" where
  "fmean xs = fdiv (fsum xs) (of_nat (length xs))"

definition mean :: "rat list \<Rightarrow> rat" where
  "mean xs = sum_list xs / of_nat (length xs)"

lemma fmean_unit:
  assumes "\<forall>x \<in> set xs. 0 \<le> x \<and> x \<le> 1" "length xs \<le> 2 ^ 53"
  shows "0 \<le> fmean xs \<and> fmean xs \<le> 1"
  unfolding fmean_def using assms by (intro fdiv_unit fsum_nonneg fsum_le_length) auto

lemma fmean_error:
  assumes "xs \<noteq> []" "\<forall>x \<in> set xs. 0 \<le> x \<and> x \<le> 1" "length xs \<le> 2 ^ 53"
  shows "\<bar>fmean xs - mean xs\<bar> \<le> of_nat (length xs + 1) / 2 ^ 53"
proof -
  let ?n = "of_nat (length xs) :: rat" and ?q = "fsum xs / of_nat (length xs)"
  have n: "0 < ?n" using assms(1) by simp
  have "0 \<le> ?q \<and> ?q \<le> 1"
    using n fsum_nonneg[of xs] fsum_le_length[of xs] assms(2,3) by (auto simp: divide_le_eq_1)
  then have 1: "\<bar>fmean xs - ?q\<bar> \<le> 1 / 2 ^ 53"
    unfolding fmean_def fdiv_def by (intro fl64_abs_error) auto
  have "\<bar>?q - mean xs\<bar> = \<bar>fsum xs - sum_list xs\<bar> / ?n"
    using n by (simp add: mean_def diff_divide_distrib[symmetric] abs_divide)
  also have "\<dots> \<le> ?n * ?n / 2 ^ 53 / ?n"
    using fsum_error[OF assms(2,3)] n by (intro divide_right_mono) auto
  finally have "\<bar>?q - mean xs\<bar> \<le> ?n / 2 ^ 53" using n by simp
  from abs_via[OF 1 this] show ?thesis by (simp add: add_divide_distrib)
qed

text \<open>Exact means of lists that agree up to \<open>e\<close> agree up to \<open>e\<close>.\<close>

lemma sum_list_close:
  "list_all2 (\<lambda>x y. \<bar>x - y\<bar> \<le> (e::rat)) xs ys \<Longrightarrow> \<bar>sum_list xs - sum_list ys\<bar> \<le> of_nat (length xs) * e"
proof (induction rule: list_all2_induct)
  case (Cons x xs y ys)
  then show ?case by (simp add: algebra_simps abs_le_iff)
qed simp

lemma mean_close:
  assumes "list_all2 (\<lambda>x y. \<bar>x - y\<bar> \<le> e) xs ys" "xs \<noteq> []"
  shows "\<bar>mean xs - mean ys\<bar> \<le> e"
proof -
  have l: "length ys = length xs" and n: "0 < (of_nat (length xs) :: rat)"
    using assms list_all2_lengthD by fastforce+
  have "\<bar>mean xs - mean ys\<bar> = \<bar>sum_list xs - sum_list ys\<bar> / of_nat (length xs)"
    using n l by (simp add: mean_def diff_divide_distrib[symmetric] abs_divide)
  also have "\<dots> \<le> of_nat (length xs) * e / of_nat (length xs)"
    using sum_list_close[OF assms(1)] n by (intro divide_right_mono) auto
  finally show ?thesis using n by simp
qed

end
