(* ===== verification/Aggregate_Scores.thy ===== *)
theory Aggregate_Scores
  imports Aggregate Float_Sums
begin

text \<open>
  The scores of \<open>aggregate.py\<close>: the pass@k estimator against its combinatorial meaning, the task and
  seed means against the exact ones, and the range of the bootstrap.
\<close>

section \<open>The estimator\<close>

text \<open>Of the \<open>k\<close>-element subsets of \<open>n\<close> samples, the share that contains one of the \<open>c\<close> successes.\<close>

definition hit_fraction :: "nat \<Rightarrow> nat \<Rightarrow> nat \<Rightarrow> rat" where
  "hit_fraction n c k =
     of_nat (card {S. S \<subseteq> {..<n} \<and> card S = k \<and> S \<inter> {..<c} \<noteq> {}}) / of_nat (card {S. S \<subseteq> {..<n} \<and> card S = k})"

lemma finite_k_subsets: "finite {S. S \<subseteq> {..<n::nat} \<and> card S = k}"
  using finite_subset[of "{S. S \<subseteq> {..<n} \<and> card S = k}" "Pow {..<n}"] by auto

lemma card_missing:
  assumes "c \<le> n" shows "card {S. S \<subseteq> {..<n} \<and> card S = k \<and> S \<inter> {..<c} = {}} = (n - c) choose k"
proof -
  have "S \<subseteq> {..<n} \<and> S \<inter> {..<c} = {} \<longleftrightarrow> S \<subseteq> {c..<n}" for S by (auto simp: disjoint_iff subset_eq)
  then have "{S. S \<subseteq> {..<n} \<and> card S = k \<and> S \<inter> {..<c} = {}} = {S. S \<subseteq> {c..<n} \<and> card S = k}" by blast
  then show ?thesis using n_subsets[of "{c..<n}" k] by simp
qed

lemma hit_fraction_alt:
  assumes "c \<le> n" "k \<le> n"
  shows "hit_fraction n c k = 1 - of_nat ((n - c) choose k) / of_nat (n choose k)"
proof -
  let ?all = "{S. S \<subseteq> {..<n} \<and> card S = k}" and ?miss = "{S. S \<subseteq> {..<n} \<and> card S = k \<and> S \<inter> {..<c} = {}}"
  have fin: "finite ?all" by (rule finite_k_subsets)
  have sub: "?miss \<subseteq> ?all" by auto
  then have fin': "finite ?miss" using fin by (rule finite_subset)
  have all: "card ?all = n choose k" using n_subsets[of "{..<n}" k] by simp
  have "{S. S \<subseteq> {..<n} \<and> card S = k \<and> S \<inter> {..<c} \<noteq> {}} = ?all - ?miss" by auto
  then have "card {S. S \<subseteq> {..<n} \<and> card S = k \<and> S \<inter> {..<c} \<noteq> {}} = card ?all - card ?miss"
    using card_Diff_subset[OF fin' sub] by (simp only:)
  moreover have "card ?miss \<le> card ?all" using fin sub by (rule card_mono)
  ultimately have "hit_fraction n c k = (of_nat (card ?all) - of_nat (card ?miss)) / of_nat (card ?all)"
    by (simp only: hit_fraction_def of_nat_diff)
  also have "\<dots> = 1 - of_nat ((n - c) choose k) / of_nat (n choose k)"
    unfolding all card_missing[OF assms(1)] using assms(2) by (simp add: diff_divide_distrib)
  finally show ?thesis .
qed

lemma binomial_top_mono: "m \<le> n \<Longrightarrow> m choose k \<le> n choose (k :: nat)"
proof -
  assume "m \<le> n"
  then have "{S. S \<subseteq> {..<m} \<and> card S = k} \<subseteq> {S. S \<subseteq> {..<n} \<and> card S = k}" by auto
  then have "card {S. S \<subseteq> {..<m} \<and> card S = k} \<le> card {S. S \<subseteq> {..<n} \<and> card S = k}"
    by (rule card_mono[OF finite_k_subsets])
  then show ?thesis using n_subsets[of "{..<m}" k] n_subsets[of "{..<n}" k] by simp
qed

lemma pass_at_k_estimate_nat:
  "c \<le> n \<Longrightarrow> 1 \<le> k \<Longrightarrow> k \<le> n \<Longrightarrow> pass_at_k_estimate (int n) (int c) (int k) =
     Inr (fsub 1 (fl64 (of_nat ((n - c) choose k) / of_nat (n choose k))))"
  by (simp add: pass_at_k_estimate_def comb_def of_nat_diff[symmetric] fsub_def nat_diff_distrib binomial_eq_0 del: of_nat_diff)

lemma missing_share_unit:
  "c \<le> n \<Longrightarrow> (0::rat) \<le> of_nat ((n - c) choose k) / of_nat (n choose k) \<and>
    of_nat ((n - c) choose k) / of_nat (n choose k) \<le> (1::rat)"
  using binomial_top_mono[of "n - c" n k] by (auto simp: divide_le_eq_1)

lemma estimate_accuracy:
  assumes "c \<le> n" "1 \<le> k" "k \<le> n" "pass_at_k_estimate (int n) (int c) (int k) = Inr r"
  shows "0 \<le> r \<and> r \<le> 1 \<and> \<bar>r - hit_fraction n c k\<bar> \<le> 2 / 2 ^ 53"
proof -
  let ?q = "of_nat ((n - c) choose k) / of_nat (n choose k) :: rat"
  have r: "r = fl64 (1 - fl64 ?q)"
    using assms(4) pass_at_k_estimate_nat[OF assms(1-3)] by (simp add: fsub_def)
  have q: "0 \<le> ?q" "?q \<le> 1" using missing_share_unit[OF assms(1)] by auto
  then have f: "0 \<le> fl64 ?q" "fl64 ?q \<le> 1" using f64.rnd_unit[of ?q] by auto
  have "\<bar>fl64 (1 - fl64 ?q) - (1 - fl64 ?q)\<bar> \<le> 1 / 2 ^ 53" using f by (intro fl64_abs_error) auto
  moreover have "\<bar>(1 - fl64 ?q) - (1 - ?q)\<bar> \<le> 1 / 2 ^ 53"
    using fl64_abs_error[of 1 ?q] q by (simp add: abs_minus_commute)
  ultimately have "\<bar>r - (1 - ?q)\<bar> \<le> 1 / 2 ^ 53 + 1 / 2 ^ 53" unfolding r by (rule abs_via)
  moreover have "0 \<le> r" "r \<le> 1" using f64.rnd_unit[of "1 - fl64 ?q"] f r by auto
  ultimately show ?thesis using hit_fraction_alt[OF assms(1,3)] by simp
qed

lemma estimate_mono:
  assumes "c \<le> c'" "c' \<le> n" "1 \<le> k" "k \<le> n"
    "pass_at_k_estimate (int n) (int c) (int k) = Inr r" "pass_at_k_estimate (int n) (int c') (int k) = Inr r'"
  shows "r \<le> r'"
proof -
  have "(of_nat ((n - c') choose k) :: rat) / of_nat (n choose k) \<le> of_nat ((n - c) choose k) / of_nat (n choose k)"
    using binomial_top_mono[of "n - c'" "n - c" k] assms(1) by (intro divide_right_mono) auto
  then have "fl64 (of_nat ((n - c') choose k) / of_nat (n choose k)) \<le> fl64 (of_nat ((n - c) choose k) / of_nat (n choose k))"
    by (rule fl64_mono)
  then have "fl64 (1 - fl64 (of_nat ((n - c) choose k) / of_nat (n choose k))) \<le>
      fl64 (1 - fl64 (of_nat ((n - c') choose k) / of_nat (n choose k)))" by (intro fl64_mono) simp
  then show ?thesis using assms pass_at_k_estimate_nat[of c n k] pass_at_k_estimate_nat[of c' n k]
    by (simp add: fsub_def)
qed

lemma estimate_defined:
  "(\<exists>r. pass_at_k_estimate n c k = Inr r) \<longleftrightarrow> 0 \<le> c \<and> c \<le> n \<and> 1 \<le> k \<and> k \<le> n"
  by (auto simp: pass_at_k_estimate_def)

section \<open>Task scores\<close>

definition successes :: "attempt list \<Rightarrow> string \<Rightarrow> int \<Rightarrow> nat" where
  "successes eligible task_id seed =
     length (filter (\<lambda>a. gr_strict_success (at_grade a) = Some True) (seed_attempts eligible task_id seed))"

lemma successes_le: "successes eligible i s \<le> length (seed_attempts eligible i s)"
  by (simp add: successes_def)

lemma task_seed_score_Inr:
  "task_seed_score eligible i s k n = Inr r \<longleftrightarrow>
     (\<forall>a \<in> set (seed_attempts eligible i s). gr_comparable (at_grade a)) \<and>
     length (seed_attempts eligible i s) = n \<and>
     sort (map at_sample_index (seed_attempts eligible i s)) = map int [0..<n] \<and>
     pass_at_k_estimate (int n) (int (successes eligible i s)) k = Inr r"
  by (auto simp: task_seed_score_def Let_def check_Inr_iff list_ex_iff successes_def)

text \<open>The score of a task for a seed, when it has one.\<close>

definition seed_score_of :: "attempt list \<Rightarrow> int \<Rightarrow> nat \<Rightarrow> suite_task \<Rightarrow> int \<Rightarrow> rat" where
  "seed_score_of eligible k n t s = projr (task_seed_score eligible (st_task_id t) s k n)"

lemma task_row_Inr:
  "task_row eligible seeds k n t = Inr row \<Longrightarrow> row = map (seed_score_of eligible k n t) seeds \<and>
     (\<forall>s \<in> set seeds. task_seed_score eligible (st_task_id t) s k n = Inr (seed_score_of eligible k n t s))"
  by (auto simp: task_row_def traverse_Inr_iff list_all2_conv_all_nth seed_score_of_def in_set_conv_nth
      intro!: nth_equalityI)

lemma update_skip: "k \<notin> fst ` set xs \<Longrightarrow> AList.update k v (xs @ ys) = xs @ AList.update k v ys"
  by (induction xs) auto

lemma update_new: "k \<notin> fst ` set xs \<Longrightarrow> AList.update k v xs = xs @ [(k, v)]"
  using update_skip[of k xs v "[]"] by simp

lemma map_of_skip: "k \<notin> fst ` set xs \<Longrightarrow> map_of (xs @ ys) k = map_of ys k"
  by (induction xs) auto

lemma fill_column:
  "distinct (as @ bs) \<Longrightarrow>
   foldl (\<lambda>d (s, v). AList.update s (AList.update i v (item d s)) d)
     (map (\<lambda>s. (s, f s)) as @ map (\<lambda>s. (s, g s)) bs) (zip bs (map v bs)) =
   map (\<lambda>s. (s, f s)) as @ map (\<lambda>s. (s, AList.update i (v s) (g s))) bs"
proof (induction bs arbitrary: as f)
  case (Cons b bs)
  let ?f = "f(b := AList.update i (v b) (g b))"
  have b: "b \<notin> fst ` set (map (\<lambda>s. (s, f s)) as)" using Cons.prems by auto
  have "AList.update b (AList.update i (v b) (item (map (\<lambda>s. (s, f s)) as @ map (\<lambda>s. (s, g s)) (b # bs)) b))
      (map (\<lambda>s. (s, f s)) as @ map (\<lambda>s. (s, g s)) (b # bs)) =
    map (\<lambda>s. (s, ?f s)) (as @ [b]) @ map (\<lambda>s. (s, g s)) bs"
    unfolding update_skip[OF b] item_def map_of_skip[OF b] using Cons.prems by auto
  then show ?case using Cons.IH[of "as @ [b]" ?f] Cons.prems by auto
qed simp

lemma task_scores_loop_Inr:
  assumes "task_scores_loop eligible seeds k n ts (res, map (\<lambda>s. (s, f s)) seeds) = Inr sc"
    "distinct seeds" "distinct (map st_task_id ts)"
    "\<forall>t \<in> set ts. st_task_id t \<notin> fst ` set res \<and> (\<forall>s. st_task_id t \<notin> fst ` set (f s))"
  shows "sc = (res @ map (\<lambda>t. (st_task_id t, fmean (map (seed_score_of eligible k n t) seeds))) ts,
      map (\<lambda>s. (s, f s @ map (\<lambda>t. (st_task_id t, seed_score_of eligible k n t s)) ts)) seeds) \<and>
    (\<forall>t \<in> set ts. \<forall>s \<in> set seeds. task_seed_score eligible (st_task_id t) s k n = Inr (seed_score_of eligible k n t s))"
  using assms
proof (induction ts arbitrary: res f)
  case (Cons t ts)
  let ?v = "seed_score_of eligible k n t"
  obtain row score where row: "task_row eligible seeds k n t = Inr row"
    "truediv (fsum row) (rat_of_nat (length row)) = Inr score"
    and rest: "task_scores_loop eligible seeds k n ts (AList.update (st_task_id t) score res,
      foldl (\<lambda>d (s, v). AList.update s (AList.update (st_task_id t) v (item d s)) d)
        (map (\<lambda>s. (s, f s)) seeds) (zip seeds row)) = Inr sc"
    using Cons.prems(1) by (auto simp: rbind_Inr_iff)
  have r: "row = map ?v seeds" and all: "\<forall>s \<in> set seeds. task_seed_score eligible (st_task_id t) s k n = Inr (?v s)"
    using task_row_Inr[OF row(1)] by auto
  have sc: "score = fmean (map ?v seeds)" using row(2) r by (auto simp: truediv_def fmean_def split: if_splits)
  have "foldl (\<lambda>d (s, v). AList.update s (AList.update (st_task_id t) v (item d s)) d)
      (map (\<lambda>s. (s, f s)) seeds) (zip seeds row) = map (\<lambda>s. (s, f s @ [(st_task_id t, ?v s)])) seeds"
    unfolding r using fill_column[of "[]" seeds "st_task_id t" undefined f ?v] Cons.prems(2,4)
    by (simp add: update_new)
  moreover have "AList.update (st_task_id t) score res = res @ [(st_task_id t, score)]"
    using Cons.prems(4) by (simp add: update_new)
  ultimately have "task_scores_loop eligible seeds k n ts (res @ [(st_task_id t, score)],
      map (\<lambda>s. (s, f s @ [(st_task_id t, ?v s)])) seeds) = Inr sc" using rest by simp
  moreover have "\<forall>u \<in> set ts. st_task_id u \<noteq> st_task_id t" using Cons.prems(3) by (auto simp: image_iff)
  ultimately show ?case
    using Cons.IH[of "res @ [(st_task_id t, score)]" "\<lambda>s. f s @ [(st_task_id t, ?v s)]"] Cons.prems(2-4) all sc by simp
qed simp

lemma task_scores_Inr:
  assumes "task_scores eligible su seeds k n = Inr sc" "distinct seeds" "distinct (map st_task_id (su_tasks su))"
  shows "sc = (map (\<lambda>t. (st_task_id t, fmean (map (seed_score_of eligible k n t) seeds))) (su_tasks su),
      map (\<lambda>s. (s, map (\<lambda>t. (st_task_id t, seed_score_of eligible k n t s)) (su_tasks su))) seeds)"
    "t \<in> set (su_tasks su) \<Longrightarrow> s \<in> set seeds \<Longrightarrow>
      task_seed_score eligible (st_task_id t) s k n = Inr (seed_score_of eligible k n t s)"
  using task_scores_loop_Inr[of eligible seeds k n "su_tasks su" "[]" "\<lambda>_. []" sc] assms
  by (auto simp: task_scores_def)

section \<open>Percentiles\<close>

lemma fmul_unit_right: "is_f64 c \<Longrightarrow> 0 \<le> c \<Longrightarrow> 0 \<le> x \<Longrightarrow> x \<le> 1 \<Longrightarrow> 0 \<le> fmul x c \<and> fmul x c \<le> c"
  using fmul_unit_le[of c x] by (simp add: fmul_def mult.commute)

lemma is_f64_of_nat: "n \<le> 2 ^ 53 \<Longrightarrow> is_f64 (of_nat n)"
  by (simp add: is_f64_def fl64_of_nat)

lemma is_f64_fsub [simp]: "is_f64 (fsub a b)"
  and is_f64_fmul [simp]: "is_f64 (fmul a b)"
  and is_f64_fadd [simp]: "is_f64 (fadd a b)"
  by (simp_all add: fsub_def fmul_def fadd_def)

lemma fsub_unit: "b \<le> a \<Longrightarrow> a \<le> b + 1 \<Longrightarrow> 0 \<le> fsub a b \<and> fsub a b \<le> 1"
  unfolding fsub_def by (intro f64.rnd_unit) auto

text \<open>The interpolation never leaves the unit interval.\<close>

lemma interpolate_unit:
  assumes "0 \<le> a" "a \<le> 1" "0 \<le> b" "b \<le> 1" "0 \<le> r" "r \<le> 1" "is_f64 r"
  shows "0 \<le> fadd (fmul a (fsub 1 r)) (fmul b r) \<and> fadd (fmul a (fsub 1 r)) (fmul b r) \<le> 1"
proof -
  have s: "0 \<le> fsub 1 r" "fsub 1 r \<le> 1" using assms fsub_unit[of r 1] by auto
  have l: "0 \<le> fmul a (fsub 1 r)" "fmul a (fsub 1 r) \<le> fsub 1 r"
    using fmul_unit_right[of "fsub 1 r" a] assms s by auto
  have u: "0 \<le> fmul b r" "fmul b r \<le> r" using fmul_unit_right[of r b] assms by auto
  have "fadd (fmul a (fsub 1 r)) (fmul b r) \<le> fadd (fsub 1 r) r" using l u by (intro fadd_mono)
  also have "\<dots> \<le> 1" using fadd_fsub_one_le[of r] assms by (simp add: fadd_def add.commute)
  finally show ?thesis using l(1) u(1) fl64_nonneg[of "fmul a (fsub 1 r) + fmul b r"] by (simp add: fadd_def)
qed

lemma percentile_position:
  assumes "0 \<le> f" "f \<le> 1" "n \<le> 2 ^ 53" "p = fmul (of_nat n) f"
  shows "0 \<le> \<lfloor>p\<rfloor>" "\<lfloor>p\<rfloor> \<le> \<lceil>p\<rceil>" "nat \<lceil>p\<rceil> \<le> n"
proof -
  have p: "0 \<le> p" "p \<le> of_nat n" using fmul_unit_le[OF is_f64_of_nat[OF assms(3)]] assms by auto
  then show "0 \<le> \<lfloor>p\<rfloor>" "\<lfloor>p\<rfloor> \<le> \<lceil>p\<rceil>" by (simp_all add: floor_le_ceiling)
  have "\<lceil>p\<rceil> \<le> int n" using p(2) by (simp add: ceiling_le_iff)
  then show "nat \<lceil>p\<rceil> \<le> n" by simp
qed

lemma percentile_unit:
  assumes "values \<noteq> []" "\<forall>v \<in> set values. 0 \<le> v \<and> v \<le> 1" "length values \<le> 2 ^ 53" "0 \<le> f" "f \<le> 1"
  shows "\<exists>r. percentile values f = Inr r \<and> 0 \<le> r \<and> r \<le> 1"
proof -
  define p where "p = fmul (of_nat (length values - 1)) f"
  let ?o = "sort values"
  have i: "0 \<le> \<lfloor>p\<rfloor>" "\<lfloor>p\<rfloor> \<le> \<lceil>p\<rceil>" "nat \<lceil>p\<rceil> \<le> length values - 1"
    using percentile_position[OF assms(4,5) _ p_def] assms(3) by auto
  then have "nat \<lfloor>p\<rfloor> \<le> length values - 1" by linarith
  then have l: "nat \<lceil>p\<rceil> < length ?o" "nat \<lfloor>p\<rfloor> < length ?o"
    using i(3) assms(1) by (cases "values"; simp)+
  have "?o ! nat \<lfloor>p\<rfloor> \<in> set values" "?o ! nat \<lceil>p\<rceil> \<in> set values"
    using nth_mem[OF l(1)] nth_mem[OF l(2)] by simp_all
  then have v: "0 \<le> ?o ! nat \<lfloor>p\<rfloor>" "?o ! nat \<lfloor>p\<rfloor> \<le> 1" "0 \<le> ?o ! nat \<lceil>p\<rceil>" "?o ! nat \<lceil>p\<rceil> \<le> 1"
    using assms(2) by blast+
  define r where "r = fsub p (of_int \<lfloor>p\<rfloor>)"
  have "0 \<le> r \<and> r \<le> 1" unfolding r_def by (intro fsub_unit) linarith+
  then have u: "0 \<le> fadd (fmul (?o ! nat \<lfloor>p\<rfloor>) (fsub 1 r)) (fmul (?o ! nat \<lceil>p\<rceil>) r)"
    "fadd (fmul (?o ! nat \<lfloor>p\<rfloor>) (fsub 1 r)) (fmul (?o ! nat \<lceil>p\<rceil>) r) \<le> 1"
    using interpolate_unit[OF v, of r] by (simp_all add: r_def)
  have "percentile values f = Inr (if \<lfloor>p\<rfloor> = \<lceil>p\<rceil> then ?o ! nat \<lfloor>p\<rfloor>
      else fadd (fmul (?o ! nat \<lfloor>p\<rfloor>) (fsub 1 r)) (fmul (?o ! nat \<lceil>p\<rceil>) r))"
    using assms(1) by (simp add: percentile_def Let_def p_def r_def)
  then show ?thesis using u v(1,2) by (cases "\<lfloor>p\<rfloor> = \<lceil>p\<rceil>") simp_all
qed

section \<open>The bootstrap\<close>

text \<open>
  The documented range of \<open>expovariate(1.0) = -log(1.0 - random())\<close> with a 53-bit \<open>random()\<close>, apart
  from the draw 0 of probability \<open>2^-53\<close>.
\<close>

definition draw_min :: rat where
  "draw_min = 1 / 2 ^ 60"

definition weight_min :: rat where
  "weight_min = 1 / 2 ^ 120"

lemma weight_min_pos: "0 < weight_min" "0 \<le> weight_min"
  by (simp_all add: weight_min_def)

lemma weight_min_f64: "is_f64 weight_min"
  unfolding is_f64_def weight_min_def by code_simp

definition draws_ok :: "(int \<Rightarrow> nat \<Rightarrow> rat) \<Rightarrow> int \<Rightarrow> bool" where
  "draws_ok rng seed \<longleftrightarrow> (\<forall>i. draw_min \<le> rng seed i \<and> rng seed i \<le> 64)"

definition scores_unit :: "(int \<times> (string \<times> rat) list) list \<Rightarrow> suite_task list \<Rightarrow> bool" where
  "scores_unit scores_by_seed tasks \<longleftrightarrow> (\<forall>s \<in> fst ` set scores_by_seed. \<forall>t \<in> set tasks.
     0 \<le> item (item scores_by_seed s) (st_task_id t) \<and> item (item scores_by_seed s) (st_task_id t) \<le> 1)"

lemma pairs_product: "concat (map (\<lambda>t. map (f t) ss) ts) = map (\<lambda>(t, s). f t s) (List.product ts ss)"
  by (induction ts) (auto simp: comp_def)

lemma item_zip_mem:
  assumes "k \<in> set ks" "length vs = length ks" shows "item (zip ks vs) k \<in> set vs"
proof -
  have "map_of (zip ks vs) k \<noteq> None" using assms by (simp add: map_of_zip_is_None)
  then obtain v where "map_of (zip ks vs) k = Some v" by auto
  then show ?thesis using map_of_SomeD[of "zip ks vs" k v] set_zip_rightD by (fastforce simp: item_def)
qed

lemma weight_product_pos:
  assumes "draw_min \<le> a" "draw_min \<le> b" shows "weight_min \<le> fmul a b"
proof -
  have "draw_min * draw_min \<le> a * b" using assms by (intro mult_mono) (auto simp: draw_min_def intro: order_trans[of 0])
  moreover have "draw_min * draw_min = weight_min" by (simp add: draw_min_def weight_min_def)
  ultimately show ?thesis
    unfolding fmul_def using f64.rnd_fixed_le[of weight_min "a * b"] weight_min_f64 by (simp add: is_f64_def)
qed

lemma fsum_map_mono: "(\<And>p. p \<in> set ps \<Longrightarrow> f p \<le> g p) \<Longrightarrow> fsum (map f ps) \<le> fsum (map g ps)"
  by (rule fsum_mono) (simp add: list_all2_conv_all_nth)

lemma root_mean_unit:
  assumes "tasks \<noteq> []" "seeds \<noteq> []"
    "\<forall>t \<in> set tasks. draw_min \<le> item cw (st_cluster_id t)" "\<forall>s \<in> set seeds. draw_min \<le> item sw s"
    "\<forall>t \<in> set tasks. \<forall>s \<in> set seeds.
       0 \<le> item (item scores s) (st_task_id t) \<and> item (item scores s) (st_task_id t) \<le> 1"
  shows "\<exists>m. root_mean cw sw scores tasks seeds = Inr m \<and> 0 \<le> m \<and> m \<le> 1"
proof -
  let ?ps = "List.product tasks seeds"
  let ?w = "\<lambda>(t, s). fmul (item cw (st_cluster_id t)) (item sw s)"
  let ?x = "\<lambda>(t, s). fmul (fmul (item cw (st_cluster_id t)) (item sw s)) (item (item scores s) (st_task_id t))"
  have w: "weight_min \<le> ?w p" if "p \<in> set ?ps" for p
    using that assms(3,4) by (auto intro: weight_product_pos)
  have x: "0 \<le> ?x p \<and> ?x p \<le> ?w p" if "p \<in> set ?ps" for p
  proof -
    obtain t s where p: "p = (t, s)" by (cases p)
    have "0 \<le> fmul (item cw (st_cluster_id t)) (item sw s)" using w[OF that] weight_min_pos(2) p by simp
    then show ?thesis using that assms(5) p
      fmul_unit_le[of "fmul (item cw (st_cluster_id t)) (item sw s)" "item (item scores s) (st_task_id t)"] by auto
  qed
  have "map ?w ?ps \<noteq> []" using assms(1,2) by (cases tasks; cases seeds) auto
  then have d: "weight_min \<le> fsum (map ?w ?ps)"
    using w weight_min_f64 weight_min_pos by (intro fsum_ge) auto
  have t: "fsum (map ?x ?ps) \<le> fsum (map ?w ?ps)"
    using x by (intro fsum_map_mono) blast
  have "0 \<le> fsum (map ?x ?ps)" using x by (intro fsum_nonneg) auto
  moreover have "root_mean cw sw scores tasks seeds = truediv (fsum (map ?x ?ps)) (fsum (map ?w ?ps))"
    by (simp add: root_mean_def pairs_product Let_def)
  moreover have "fsum (map ?w ?ps) \<noteq> 0" using d weight_min_pos(1) by linarith
  ultimately show ?thesis using t fdiv_unit[of "fsum (map ?x ?ps)" "fsum (map ?w ?ps)"]
    by (auto simp: truediv_def)
qed

text \<open>The strata partition the tasks.\<close>

lemma strata_partition:
  "distinct ks \<Longrightarrow> f ` set xs \<subseteq> set ks \<Longrightarrow> sum_list (map (\<lambda>k. length (filter (\<lambda>x. f x = k) xs)) ks) = length xs"
proof (induction xs)
  case (Cons x xs)
  have "sum_list (map (\<lambda>k. length (filter (\<lambda>y. f y = k) (x # xs))) ks) =
      sum_list (map (\<lambda>k. (if k = f x then 1 else 0) + length (filter (\<lambda>y. f y = k) xs)) ks)"
    by (rule arg_cong[of _ _ sum_list]) auto
  also have "\<dots> = sum_list (map (\<lambda>k. if k = f x then 1 else 0) ks) + length xs"
    using Cons by (simp add: sum_list_addf)
  also have "sum_list (map (\<lambda>k. if k = f x then 1 else 0) ks) = (1::nat)"
    using Cons.prems by (simp add: sum_list_distinct_conv_sum_set)
  finally show ?case by simp
qed simp

lemma replicate_score_unit:
  assumes "tasks \<noteq> []" "seeds \<noteq> []" "length tasks \<le> 2 ^ 53"
    "\<forall>t \<in> set tasks. draw_min \<le> item cw (st_cluster_id t)" "\<forall>s \<in> set seeds. draw_min \<le> item sw s"
    "\<forall>t \<in> set tasks. \<forall>s \<in> set seeds.
       0 \<le> item (item scores s) (st_task_id t) \<and> item (item scores s) (st_task_id t) \<le> 1"
  shows "\<exists>m. replicate_score cw sw scores tasks seeds = Inr m \<and> 0 \<le> m \<and> m \<le> 1"
proof -
  let ?ks = "sort (remdups (map stratum tasks))"
  let ?ts = "\<lambda>k. filter (\<lambda>t. stratum t = k) tasks"
  let ?f = "\<lambda>k. rbind (root_mean cw sw scores (?ts k) seeds) (\<lambda>m. Inr (fmul m (rat_of_nat (length (?ts k)))))"
  have f: "\<exists>y. ?f k = Inr y \<and> 0 \<le> y \<and> y \<le> of_nat (length (?ts k))" if "k \<in> set ?ks" for k
  proof -
    have "?ts k \<noteq> []" using that by (auto simp: filter_empty_conv)
    then obtain m where m: "root_mean cw sw scores (?ts k) seeds = Inr m" "0 \<le> m" "m \<le> 1"
      using root_mean_unit[of "?ts k" seeds cw sw scores] assms by auto
    have "length (?ts k) \<le> 2 ^ 53" using order_trans[OF length_filter_le assms(3)] .
    then show ?thesis using m fmul_unit_right[of "of_nat (length (?ts k))" m] is_f64_of_nat by simp
  qed
  then obtain parts where p: "traverse ?f ?ks = Inr parts" using traverse_total[of ?ks ?f] by blast
  have "0 \<le> parts ! i \<and> parts ! i \<le> rat_of_nat (length (?ts (?ks ! i)))" if "i < length ?ks" for i
  proof -
    have "?f (?ks ! i) = Inr (parts ! i)" using traverse_nth[OF p that] .
    then show ?thesis using f[OF nth_mem[OF that]] by auto
  qed
  then have b: "list_all2 (\<lambda>y n. 0 \<le> y \<and> y \<le> rat_of_nat n) parts (map (\<lambda>k. length (?ts k)) ?ks)"
    using traverse_length[OF p] by (simp add: list_all2_conv_all_nth)
  have sum: "sum_list (map (\<lambda>k. length (?ts k)) ?ks) = length tasks" by (rule strata_partition) auto
  have "fsum parts \<le> of_nat (length tasks)"
    using fsum_le_nats[of parts "map (\<lambda>k. length (?ts k)) ?ks"] list_all2_mono[OF b] sum assms(3) by auto
  moreover have "0 \<le> fsum parts" using b by (intro fsum_nonneg) (auto simp: list_all2_conv_all_nth in_set_conv_nth)
  ultimately show ?thesis using p assms(1) fdiv_unit[of "fsum parts" "of_nat (length tasks)"]
    by (simp add: replicate_score_def truediv_def Let_def)
qed

lemma sort_Nil_iff: "sort xs = [] \<longleftrightarrow> xs = []"
  by (metis set_empty set_sort)

lemma drawn:
  assumes "draws_ok rng seed" "k \<in> set ks" "length ks = n"
  shows "draw_min \<le> item (zip ks (map (\<lambda>i. rng seed (f i)) [0..<n])) k"
  using item_zip_mem[of k ks "map (\<lambda>i. rng seed (f i)) [0..<n]"] assms by (auto simp: draws_ok_def)

lemma bootstrap_unit:
  assumes "tasks \<noteq> []" "scores \<noteq> []" "length tasks \<le> 2 ^ 53" "draws_ok rng seed" "scores_unit scores tasks"
    "0 < samples" "samples \<le> 2 ^ 53"
  shows "\<exists>lo hi. cluster_bootstrap_interval rng scores tasks samples seed = Inr (lo, hi) \<and>
    0 \<le> lo \<and> lo \<le> 1 \<and> 0 \<le> hi \<and> hi \<le> 1"
proof -
  let ?cs = "sort (remdups (map st_cluster_id tasks))" and ?ss = "sort (map fst scores)"
  let ?c = "length ?cs" and ?s = "length ?ss"
  let ?r = "\<lambda>j. replicate_score (zip ?cs (map (\<lambda>i. rng seed (j * (?c + ?s) + i)) [0..<?c]))
     (zip ?ss (map (\<lambda>i. rng seed (j * (?c + ?s) + ?c + i)) [0..<?s])) scores tasks ?ss"
  have r: "\<exists>m. ?r j = Inr m \<and> 0 \<le> m \<and> m \<le> 1" for j
  proof (rule replicate_score_unit)
    show "\<forall>t \<in> set tasks. draw_min \<le> item (zip ?cs (map (\<lambda>i. rng seed (j * (?c + ?s) + i)) [0..<?c])) (st_cluster_id t)"
    proof
      fix t assume "t \<in> set tasks"
      then show "draw_min \<le> item (zip ?cs (map (\<lambda>i. rng seed (j * (?c + ?s) + i)) [0..<?c])) (st_cluster_id t)"
        by (intro drawn[OF assms(4)]) auto
    qed
    show "\<forall>s \<in> set ?ss. draw_min \<le> item (zip ?ss (map (\<lambda>i. rng seed (j * (?c + ?s) + ?c + i)) [0..<?s])) s"
      by (intro ballI drawn[OF assms(4)]) auto
    show "\<forall>t \<in> set tasks. \<forall>s \<in> set ?ss.
       0 \<le> item (item scores s) (st_task_id t) \<and> item (item scores s) (st_task_id t) \<le> 1"
      using assms(5) by (simp add: scores_unit_def)
    show "?ss \<noteq> []" using assms(2) by (simp add: sort_Nil_iff)
  qed (use assms(1,3) in auto)
  then obtain reps where reps: "traverse ?r [0..<samples] = Inr reps"
    using traverse_total[of "[0..<samples]" ?r] by blast
  have "0 \<le> v \<and> v \<le> 1" if mem: "v \<in> set reps" for v
  proof -
    obtain j where "j < length reps" "reps ! j = v" using mem unfolding in_set_conv_nth by blast
    moreover have "length reps = samples" using traverse_length[OF reps] by simp
    ultimately have "?r j = Inr v" using traverse_nth[OF reps, of j] by simp
    then show ?thesis using r[of j] by auto
  qed
  then have "\<forall>v \<in> set reps. 0 \<le> v \<and> v \<le> 1" by blast
  moreover have "reps \<noteq> []" "length reps \<le> 2 ^ 53" using traverse_length[OF reps] assms(6,7) by auto
  moreover have "0 \<le> fl64 (25 / 1000)" "fl64 (25 / 1000) \<le> 1" "0 \<le> fl64 (975 / 1000)" "fl64 (975 / 1000) \<le> 1"
    using f64.rnd_unit[of "25 / 1000"] f64.rnd_unit[of "975 / 1000"] by auto
  ultimately obtain lo hi where "percentile reps (fl64 (25 / 1000)) = Inr lo" "0 \<le> lo" "lo \<le> 1"
    "percentile reps (fl64 (975 / 1000)) = Inr hi" "0 \<le> hi" "hi \<le> 1"
    using percentile_unit[of reps "fl64 (25 / 1000)"] percentile_unit[of reps "fl64 (975 / 1000)"] by auto
  then show ?thesis using reps by (simp add: cluster_bootstrap_interval_def Let_def)
qed

section \<open>The headline rate\<close>

text \<open>The exact unbiased estimate: the mean over tasks of the mean over training seeds.\<close>

definition exact_pass_at_k :: "attempt list \<Rightarrow> suite_task list \<Rightarrow> int list \<Rightarrow> nat \<Rightarrow> nat \<Rightarrow> rat" where
  "exact_pass_at_k eligible tasks seeds n k =
     mean (map (\<lambda>t. mean (map (\<lambda>s. hit_fraction n (successes eligible (st_task_id t) s) k) seeds)) tasks)"

lemma seed_score_accuracy:
  assumes "task_seed_score eligible i s (int k) n = Inr r" "1 \<le> k"
  shows "0 \<le> r \<and> r \<le> 1 \<and> \<bar>r - hit_fraction n (successes eligible i s) k\<bar> \<le> 2 / 2 ^ 53"
proof -
  have e: "pass_at_k_estimate (int n) (int (successes eligible i s)) (int k) = Inr r"
    and l: "length (seed_attempts eligible i s) = n" using assms by (auto simp: task_seed_score_Inr)
  then have "successes eligible i s \<le> n" "k \<le> n"
    using successes_le[of eligible i s] estimate_defined[of "int n" "int (successes eligible i s)" "int k"] by auto
  then show ?thesis using estimate_accuracy[OF _ assms(2) _ e] by simp
qed

lemma headline_accuracy:
  assumes "task_scores eligible su seeds (int k) n = Inr sc" "1 \<le> k" "distinct seeds" "seeds \<noteq> []"
    "distinct (map st_task_id (su_tasks su))" "su_tasks su \<noteq> []" "length seeds \<le> 2 ^ 53" "length (su_tasks su) \<le> 2 ^ 53"
  shows "\<bar>fmean (map snd (fst sc)) - exact_pass_at_k eligible (su_tasks su) seeds n k\<bar> \<le>
      of_nat (length (su_tasks su) + length seeds + 4) / 2 ^ 53 \<and>
    0 \<le> fmean (map snd (fst sc)) \<and> fmean (map snd (fst sc)) \<le> 1"
proof -
  let ?ts = "su_tasks su" and ?sc = "seed_score_of eligible (int k) n"
  let ?h = "\<lambda>t s. hit_fraction n (successes eligible (st_task_id t) s) k"
  let ?rows = "map (\<lambda>t. fmean (map (?sc t) seeds)) ?ts"
  let ?e = "of_nat (length seeds + 1) / 2 ^ 53 + 2 / 2 ^ 53 :: rat"
  have a: "0 \<le> ?sc t s \<and> ?sc t s \<le> 1 \<and> \<bar>?sc t s - ?h t s\<bar> \<le> 2 / 2 ^ 53" if "t \<in> set ?ts" "s \<in> set seeds" for t s
    using seed_score_accuracy[OF task_scores_Inr(2)[OF assms(1,3,5) that] assms(2)] .
  have row: "\<bar>fmean (map (?sc t) seeds) - mean (map (?h t) seeds)\<bar> \<le> ?e"
    "0 \<le> fmean (map (?sc t) seeds)" "fmean (map (?sc t) seeds) \<le> 1" if "t \<in> set ?ts" for t
  proof -
    have u: "\<forall>x \<in> set (map (?sc t) seeds). 0 \<le> x \<and> x \<le> 1" using a[OF that] by auto
    have "list_all2 (\<lambda>x y. \<bar>x - y\<bar> \<le> 2 / 2 ^ 53) (map (?sc t) seeds) (map (?h t) seeds)"
      using a[OF that] by (simp add: list_all2_conv_all_nth)
    then have m: "\<bar>mean (map (?sc t) seeds) - mean (map (?h t) seeds)\<bar> \<le> 2 / 2 ^ 53"
      by (rule mean_close) (simp add: assms(4))
    have "\<bar>fmean (map (?sc t) seeds) - mean (map (?sc t) seeds)\<bar> \<le> of_nat (length seeds + 1) / 2 ^ 53"
      using fmean_error[OF _ u] assms(4,7) by simp
    from abs_via[OF this m] show "\<bar>fmean (map (?sc t) seeds) - mean (map (?h t) seeds)\<bar> \<le> ?e" .
    show "0 \<le> fmean (map (?sc t) seeds)" "fmean (map (?sc t) seeds) \<le> 1"
      using fmean_unit[OF u] assms(7) by auto
  qed
  have u: "\<forall>x \<in> set ?rows. 0 \<le> x \<and> x \<le> 1" using row(2,3) by auto
  have "list_all2 (\<lambda>x y. \<bar>x - y\<bar> \<le> ?e) ?rows (map (\<lambda>t. mean (map (?h t) seeds)) ?ts)"
    using row(1) by (simp add: list_all2_conv_all_nth)
  then have m: "\<bar>mean ?rows - exact_pass_at_k eligible ?ts seeds n k\<bar> \<le> ?e"
    unfolding exact_pass_at_k_def by (rule mean_close) (simp add: assms(6))
  have "\<bar>fmean ?rows - mean ?rows\<bar> \<le> of_nat (length ?ts + 1) / 2 ^ 53"
    using fmean_error[OF _ u] assms(6,8) by simp
  from abs_via[OF this m] have "\<bar>fmean ?rows - exact_pass_at_k eligible ?ts seeds n k\<bar> \<le>
      of_nat (length ?ts + length seeds + 4) / 2 ^ 53" by (simp add: add_divide_distrib)
  moreover have "map snd (fst sc) = ?rows" using task_scores_Inr(1)[OF assms(1,3,5)] by simp
  ultimately show ?thesis using fmean_unit[OF u] assms(8) by simp
qed

end
