(* ===== verification/Aggregate_Design.thy ===== *)
theory Aggregate_Design
  imports Aggregate
begin

text \<open>
  The membership loop of \<open>aggregate.py\<close> against a declarative description of the attempts it admits,
  which does not mention their order.
\<close>

section \<open>Lists of consecutive turns\<close>

lemma pairwise_nth:
  "set (pairwise xs) = {(xs ! i, xs ! Suc i) |i. Suc i < length xs}"
proof (induction xs rule: pairwise.induct)
  case (1 x y zs)
  have "{((x # y # zs) ! i, (x # y # zs) ! Suc i) |i. Suc i < length (x # y # zs)} =
      insert (x, y) {((y # zs) ! i, (y # zs) ! Suc i) |i. Suc i < length (y # zs)}" (is "?l = ?r")
  proof (rule set_eqI, rule iffI)
    fix p assume "p \<in> ?l"
    then obtain i where i: "p = ((x # y # zs) ! i, (x # y # zs) ! Suc i)" "Suc i < length (x # y # zs)" by blast
    then show "p \<in> ?r" by (cases i) auto
  next
    fix p assume "p \<in> ?r"
    then consider "p = (x, y)" | i where "p = ((y # zs) ! i, (y # zs) ! Suc i)" "Suc i < length (y # zs)" by blast
    then show "p \<in> ?l"
    proof cases
      case 1
      then show ?thesis by (intro CollectI exI[of _ 0]) simp
    next
      case (2 i)
      then show ?thesis by (intro CollectI exI[of _ "Suc i"]) simp
    qed
  qed
  then show ?case using 1 by simp
qed simp_all

lemma predecessor_closed:
  assumes "finite S" "\<forall>x \<in> S. 0 \<le> x" "\<forall>x \<in> S. x \<noteq> 0 \<longrightarrow> x - 1 \<in> S"
  shows "S = {0..<int (card S)}"
proof (cases "S = {}")
  case False
  have down: "y \<in> S" if "x \<in> S" "0 \<le> y" "y \<le> x" for x y
    using that(3,1,2)
  proof (induction rule: int_le_induct)
    case (step i)
    then show ?case using assms(3) by auto
  qed
  have m: "Max S \<in> S" using assms(1) False by (rule Max_in)
  then have "0 \<le> Max S" using assms(2) by blast
  have S: "S = {0..Max S}"
  proof
    show "S \<subseteq> {0..Max S}" using assms(1,2) by auto
    show "{0..Max S} \<subseteq> S" using down[OF m] by auto
  qed
  then have "card S = card {0..Max S}" by (rule arg_cong)
  then have c: "card S = nat (Max S + 1)" by simp
  have "{0..<int (card S)} = {0..Max S}" unfolding c using \<open>0 \<le> Max S\<close> by auto
  with S show ?thesis by (rule trans[OF _ sym])
qed simp

lemma contiguous_iff:
  assumes "sorted xs" "distinct xs" "\<forall>x \<in> set xs. 0 \<le> x"
  shows "xs = map int [0..<length xs] \<longleftrightarrow> (\<forall>x \<in> set xs. x \<noteq> 0 \<longrightarrow> x - 1 \<in> set xs)"
proof
  assume c: "xs = map int [0..<length xs]"
  have n: "xs ! i = int i" if "i < length xs" for i using that arg_cong[OF c, of "\<lambda>l. l ! i"] by simp
  show "\<forall>x \<in> set xs. x \<noteq> 0 \<longrightarrow> x - 1 \<in> set xs"
  proof (intro ballI impI)
    fix x assume "x \<in> set xs" "x \<noteq> 0"
    then obtain i where i: "i < length xs" "xs ! i = x" unfolding in_set_conv_nth by blast
    then have "xs ! (i - 1) = x - 1" "i - 1 < length xs" using n[of i] n[of "i - 1"] \<open>x \<noteq> 0\<close> by auto
    then show "x - 1 \<in> set xs" using nth_mem[of "i - 1" xs] by simp
  qed
next
  assume "\<forall>x \<in> set xs. x \<noteq> 0 \<longrightarrow> x - 1 \<in> set xs"
  then have "set xs = {0..<int (length xs)}"
    using predecessor_closed[of "set xs"] assms(2,3) distinct_card[of xs] by simp
  also have "\<dots> = set (map int [0..<length xs])" by (simp add: image_int_atLeastLessThan)
  finally show "xs = map int [0..<length xs]"
    using assms by (intro sorted_distinct_set_unique) (auto simp: distinct_map sorted_map sorted_wrt_upt)
qed

section \<open>Episodes\<close>

definition follows :: "attempt \<Rightarrow> attempt \<Rightarrow> bool" where
  "follows a b \<longleftrightarrow> at_turn_index b = at_turn_index a - 1 \<and>
     rq_parent_request_id (ev_request (at_evidence a)) = Some (attempt_request_id b)"

lemma episode_check_iff:
  assumes "distinct (map at_turn_index ep)" "\<forall>a \<in> set ep. 0 \<le> at_turn_index a"
  shows "episode_check ep = None \<longleftrightarrow> (\<forall>a \<in> set ep. at_turn_index a \<noteq> 0 \<longrightarrow> (\<exists>b \<in> set ep. follows a b))"
proof -
  define os where "os = sort_key at_turn_index ep"
  let ?ts = "map at_turn_index os"
  have s: "set os = set ep" "length os = length ep" by (simp_all add: os_def)
  have ts: "sorted ?ts" "distinct ?ts" "\<forall>x \<in> set ?ts. 0 \<le> x"
    using assms by (auto simp: os_def distinct_map)
  have check: "episode_check ep = None \<longleftrightarrow> ?ts = map int [0..<length ?ts] \<and> parents_linked os"
    by (simp add: episode_check_def os_def Let_def)
  show ?thesis
  proof
    assume "episode_check ep = None"
    then have c: "?ts = map int [0..<length ?ts]" and l: "parents_linked os" using check by auto
    show "\<forall>a \<in> set ep. at_turn_index a \<noteq> 0 \<longrightarrow> (\<exists>b \<in> set ep. follows a b)"
    proof (intro ballI impI)
      fix a assume "a \<in> set ep" "at_turn_index a \<noteq> 0"
      then obtain i where i: "i < length os" "a = os ! i" using s(1) by (metis in_set_conv_nth)
      have t: "at_turn_index (os ! j) = int j" if "j < length os" for j
        using that arg_cong[OF c, of "\<lambda>l. l ! j"] by simp
      obtain j where j: "i = Suc j" using \<open>at_turn_index a \<noteq> 0\<close> i t by (cases i) auto
      then have "(os ! j, os ! i) \<in> set (pairwise os)" using i unfolding pairwise_nth by blast
      then have "follows a (os ! j)" using l i j t[of i] t[of j]
        by (auto simp: follows_def parents_linked_def list_all_iff)
      then show "\<exists>b \<in> set ep. follows a b" using i j s(1) nth_mem[of j os] by auto
    qed
  next
    assume r: "\<forall>a \<in> set ep. at_turn_index a \<noteq> 0 \<longrightarrow> (\<exists>b \<in> set ep. follows a b)"
    have "\<forall>x \<in> set ?ts. x \<noteq> 0 \<longrightarrow> x - 1 \<in> set ?ts"
    proof (intro ballI impI)
      fix x assume "x \<in> set ?ts" "x \<noteq> 0"
      then obtain a where "a \<in> set ep" "x = at_turn_index a" using s(1) by auto
      then obtain b where "b \<in> set ep" "follows a b" using r \<open>x \<noteq> 0\<close> by blast
      then show "x - 1 \<in> set ?ts" using s(1) \<open>x = at_turn_index a\<close> by (force simp: follows_def)
    qed
    then have c: "?ts = map int [0..<length ?ts]" using contiguous_iff[OF ts] by simp
    have "parents_linked os"
      unfolding parents_linked_def list_all_iff pairwise_nth
    proof clarify
      fix i assume i: "Suc i < length os"
      have t: "at_turn_index (os ! j) = int j" if "j < length os" for j
        using that arg_cong[OF c, of "\<lambda>l. l ! j"] by simp
      have "os ! Suc i \<in> set ep" "at_turn_index (os ! Suc i) \<noteq> 0" using i s(1) nth_mem[of "Suc i" os] t[OF i] by auto
      then obtain b where b: "b \<in> set ep" "follows (os ! Suc i) b" using r by blast
      then have "at_turn_index b = at_turn_index (os ! i)" using t[OF i] t[of i] i by (simp add: follows_def)
      then have "b = os ! i" using b(1) i s(1) ts(2) nth_mem[of i os]
        by (intro distinct_map_filter_unique[of at_turn_index os]) auto
      then show "rq_parent_request_id (ev_request (at_evidence (os ! Suc i))) = Some (attempt_request_id (os ! i))"
        using b(2) by (simp add: follows_def)
    qed
    then show "episode_check ep = None" using check c by simp
  qed
qed

section \<open>The membership loop\<close>

text \<open>
  What the loop demands of a set of attempts, with nothing about order: each attempt is one the suite and
  the experiment plan declare, the four identities are used once, and a sample has one episode.
\<close>

definition declared_attempt :: "suite \<Rightarrow> experiment_manifest \<Rightarrow> attempt \<Rightarrow> bool" where
  "declared_attempt su ex a \<longleftrightarrow>
     (\<exists>t p. suite_task_by_id su (at_task_id a) = Some t \<and> seed_plan_by_seed ex (at_training_seed a) = Some p \<and>
       at_task_version a = st_task_version t \<and> at_task_bundle_sha256 a = st_task_bundle_sha256 t \<and>
       gr_contract_sha256 (at_grade a) = st_scoring_contract_sha256 t \<and> at_family a = st_family t \<and>
       at_root_cause a = st_root_cause t \<and> at_program_type a = st_program_type t \<and> at_cluster_id a = st_cluster_id t \<and>
       at_checkpoint_id a = sp_checkpoint_id p \<and>
       at_checkpoint_artifact_sha256 a = sp_checkpoint_artifact_sha256 p \<and>
       (at_turn_index a = 0 \<longrightarrow> at_sample_index a < int (length (sp_generation_seeds p)) \<and>
          at_generation_seed a = sp_generation_seeds p ! nat (at_sample_index a)))"

definition turn_zero :: "attempt list \<Rightarrow> attempt list" where
  "turn_zero as = filter (\<lambda>a. at_turn_index a = 0) as"

definition design_ok :: "suite \<Rightarrow> experiment_manifest \<Rightarrow> attempt list \<Rightarrow> bool" where
  "design_ok su ex as \<longleftrightarrow> list_all (declared_attempt su ex) as \<and>
     distinct (map sample_identity as) \<and> distinct (map attempt_request_id as) \<and>
     distinct (map at_replay_manifest_sha256 as) \<and> distinct (map generation_identity (turn_zero as)) \<and>
     (\<forall>a \<in> set as. \<forall>b \<in> set as. episode_identity a = episode_identity b \<longrightarrow> at_episode_id a = at_episode_id b)"

text \<open>The loop's state after the attempts \<open>as\<close>.\<close>

definition tracks :: "membership \<Rightarrow> attempt list \<Rightarrow> bool" where
  "tracks ms as \<longleftrightarrow> ms_seen_samples ms = sample_identity ` set as \<and>
     ms_seen_request_ids ms = attempt_request_id ` set as \<and>
     ms_seen_replays ms = at_replay_manifest_sha256 ` set as \<and>
     ms_seen_turn_zero_seeds ms = generation_identity ` set (turn_zero as) \<and>
     dom (ms_episodes_by_sample ms) = episode_identity ` set as \<and>
     (\<forall>a \<in> set as. ms_episodes_by_sample ms (episode_identity a) = Some (at_episode_id a)) \<and>
     distinct (map fst (ms_episode_records ms)) \<and>
     map_of (ms_episode_records ms) = (\<lambda>k. if k \<in> episode_identity ` set as
       then Some (filter (\<lambda>a. episode_identity a = k) as) else None)"

lemma tracks_start: "tracks no_membership []"
  by (simp add: tracks_def no_membership_def turn_zero_def)

lemma declared_attempt_alt:
  "declared_attempt su ex a \<longleftrightarrow> planned_record su ex a = None \<and>
     (at_turn_index a = 0 \<longrightarrow> (\<exists>p. seed_plan_by_seed ex (at_training_seed a) = Some p \<and>
        at_sample_index a < int (length (sp_generation_seeds p)) \<and>
        at_generation_seed a = sp_generation_seeds p ! nat (at_sample_index a)))"
  by (auto simp: declared_attempt_def planned_record_def split: option.splits)

lemma turn_zero_snoc: "turn_zero (as @ [a]) = turn_zero as @ (if at_turn_index a = 0 then [a] else [])"
  by (simp add: turn_zero_def)

definition admissible :: "suite \<Rightarrow> experiment_manifest \<Rightarrow> attempt list \<Rightarrow> attempt \<Rightarrow> bool" where
  "admissible su ex as a \<longleftrightarrow> declared_attempt su ex a \<and> sample_identity a \<notin> sample_identity ` set as \<and>
     attempt_request_id a \<notin> attempt_request_id ` set as \<and>
     at_replay_manifest_sha256 a \<notin> at_replay_manifest_sha256 ` set as \<and>
     (at_turn_index a = 0 \<longrightarrow> generation_identity a \<notin> generation_identity ` set (turn_zero as)) \<and>
     (\<forall>b \<in> set as. episode_identity b = episode_identity a \<longrightarrow> at_episode_id b = at_episode_id a)"

lemma agree_snoc:
  "(\<forall>x \<in> set (as @ [a]). \<forall>y \<in> set (as @ [a]). f x = f y \<longrightarrow> g x = g y) \<longleftrightarrow>
   (\<forall>x \<in> set as. \<forall>y \<in> set as. f x = f y \<longrightarrow> g x = g y) \<and> (\<forall>b \<in> set as. f b = f a \<longrightarrow> g b = g a)"
  by (simp add: ball_Un eq_commute[of "f a"] eq_commute[of "g a"]) blast

lemma design_ok_snoc: "design_ok su ex (as @ [a]) \<longleftrightarrow> design_ok su ex as \<and> admissible su ex as a"
  unfolding design_ok_def admissible_def turn_zero_snoc agree_snoc
  by (cases "at_turn_index a = 0") (simp_all, blast+)

lemma episodes_guard:
  assumes "tracks ms as"
  shows "(case ms_episodes_by_sample ms (episode_identity a) of
            Some e \<Rightarrow> raises [(e \<noteq> at_episode_id a, ValueError m)] | None \<Rightarrow> None) = None \<longleftrightarrow>
    (\<forall>b \<in> set as. episode_identity b = episode_identity a \<longrightarrow> at_episode_id b = at_episode_id a)"
proof (cases "episode_identity a \<in> episode_identity ` set as")
  case True
  then obtain b where b: "b \<in> set as" "episode_identity b = episode_identity a" by auto
  have t: "ms_episodes_by_sample ms (episode_identity c) = Some (at_episode_id c)" if "c \<in> set as" for c
    using assms that by (simp add: tracks_def)
  have some: "ms_episodes_by_sample ms (episode_identity a) = Some (at_episode_id b)" using t[OF b(1)] b(2) by simp
  have same: "at_episode_id c = at_episode_id b" if "c \<in> set as" "episode_identity c = episode_identity a" for c
    using t[OF that(1)] that(2) some by simp
  have "(\<forall>c \<in> set as. episode_identity c = episode_identity a \<longrightarrow> at_episode_id c = at_episode_id a) \<longleftrightarrow>
      at_episode_id b = at_episode_id a" (is "?l = ?r")
  proof
    assume ?l
    from bspec[OF this b(1)] show ?r using b(2) by simp
  qed (use same in simp)
  then show ?thesis by (simp only: some) simp
next
  case False
  have "dom (ms_episodes_by_sample ms) = episode_identity ` set as" using assms by (simp add: tracks_def)
  then have "ms_episodes_by_sample ms (episode_identity a) = None" using False domIff[of "episode_identity a" "ms_episodes_by_sample ms"] by simp
  moreover have "\<forall>b \<in> set as. episode_identity b \<noteq> episode_identity a" using False by (simp add: image_iff eq_commute)
  ultimately show ?thesis by simp
qed

lemma planned_seed: "planned_record su ex a = None \<Longrightarrow> \<exists>p. seed_plan_by_seed ex (at_training_seed a) = Some p"
  by (auto simp: planned_record_def split: option.splits if_splits)

lemma turn_zero_check_iff:
  assumes "planned_record su ex a = None"
  shows "turn_zero_check ex ms a = None \<longleftrightarrow> (\<exists>p. seed_plan_by_seed ex (at_training_seed a) = Some p \<and>
      at_sample_index a < int (length (sp_generation_seeds p)) \<and>
      at_generation_seed a = sp_generation_seeds p ! nat (at_sample_index a)) \<and>
    generation_identity a \<notin> ms_seen_turn_zero_seeds ms"
  using planned_seed[OF assms] by (auto simp: turn_zero_check_def)

lemma membership_step_iff:
  assumes "tracks ms as"
  shows "(\<exists>ms'. membership_step su ex a ms = Inr ms') \<longleftrightarrow> admissible su ex as a"
proof -
  have "(\<exists>ms'. membership_step su ex a ms = Inr ms') \<longleftrightarrow> planned_record su ex a = None \<and>
      sample_identity a \<notin> ms_seen_samples ms \<and> attempt_request_id a \<notin> ms_seen_request_ids ms \<and>
      at_replay_manifest_sha256 a \<notin> ms_seen_replays ms \<and> (at_turn_index a = 0 \<longrightarrow> turn_zero_check ex ms a = None) \<and>
      (\<forall>b \<in> set as. episode_identity b = episode_identity a \<longrightarrow> at_episode_id b = at_episode_id a)"
    unfolding membership_step_def check_Inr_iff orelse_None_iff episodes_guard[OF assms] by simp
  also have "\<dots> \<longleftrightarrow> admissible su ex as a"
  proof (cases "planned_record su ex a = None")
    case True
    have t: "ms_seen_samples ms = sample_identity ` set as" "ms_seen_request_ids ms = attempt_request_id ` set as"
      "ms_seen_replays ms = at_replay_manifest_sha256 ` set as"
      "ms_seen_turn_zero_seeds ms = generation_identity ` set (turn_zero as)" using assms by (simp_all add: tracks_def)
    show ?thesis unfolding admissible_def declared_attempt_alt turn_zero_check_iff[OF True] t by blast
  next
    case False
    then show ?thesis unfolding admissible_def declared_attempt_alt by blast
  qed
  finally show ?thesis .
qed

lemma membership_step_tracks:
  assumes "tracks ms as" "membership_step su ex a ms = Inr ms'"
  shows "tracks ms' (as @ [a])"
proof -
  let ?k = "episode_identity a" and ?e = "ms_episode_records ms"
  have ad: "admissible su ex as a" using membership_step_iff[OF assms(1), of su ex a] assms(2) by auto
  have ms': "ms' = \<lparr>ms_seen_samples = insert (sample_identity a) (ms_seen_samples ms),
           ms_seen_request_ids = insert (attempt_request_id a) (ms_seen_request_ids ms),
           ms_seen_replays = insert (at_replay_manifest_sha256 a) (ms_seen_replays ms),
           ms_seen_turn_zero_seeds = (if at_turn_index a = 0
             then insert (generation_identity a) (ms_seen_turn_zero_seeds ms) else ms_seen_turn_zero_seeds ms),
           ms_episodes_by_sample = (ms_episodes_by_sample ms)(?k \<mapsto> at_episode_id a),
           ms_episode_records = AList.update ?k ((case map_of ?e ?k of None \<Rightarrow> [] | Some rs \<Rightarrow> rs) @ [a]) ?e\<rparr>"
    using assms(2) by (simp add: membership_step_def check_Inr_iff)
  have mo: "map_of ?e = (\<lambda>k. if k \<in> episode_identity ` set as
      then Some (filter (\<lambda>b. episode_identity b = k) as) else None)" using assms(1) by (simp add: tracks_def)
  have old: "(case map_of ?e ?k of None \<Rightarrow> [] | Some rs \<Rightarrow> rs) = filter (\<lambda>b. episode_identity b = ?k) as"
  proof (cases "?k \<in> episode_identity ` set as")
    case False
    then have "filter (\<lambda>b. episode_identity b = ?k) as = []" by (simp add: filter_empty_conv image_iff eq_commute)
    then show ?thesis using False mo by simp
  qed (simp add: mo)
  have "map_of (ms_episode_records ms') = (map_of ?e)(?k \<mapsto> filter (\<lambda>b. episode_identity b = ?k) (as @ [a]))"
    unfolding ms' old by (simp add: update_conv')
  then have "map_of (ms_episode_records ms') = (\<lambda>k. if k \<in> episode_identity ` set (as @ [a])
      then Some (filter (\<lambda>b. episode_identity b = k) (as @ [a])) else None)"
    by (simp only: mo) (rule ext, simp)
  moreover have "distinct (map fst (ms_episode_records ms'))"
    using assms(1) by (simp add: ms' tracks_def distinct_update)
  moreover have "\<forall>b \<in> set (as @ [a]). ms_episodes_by_sample ms' (episode_identity b) = Some (at_episode_id b)"
    using assms(1) ad by (auto simp: ms' tracks_def admissible_def)
  moreover have "dom (ms_episodes_by_sample ms') = episode_identity ` set (as @ [a])"
    using assms(1) by (simp add: ms' tracks_def)
  ultimately show ?thesis using assms(1) unfolding tracks_def by (simp add: ms' turn_zero_snoc)
qed

lemma design_ok_prefix: "design_ok su ex (as @ bs) \<Longrightarrow> design_ok su ex as"
proof (induction bs rule: rev_induct)
  case (snoc b bs)
  then show ?case using design_ok_snoc[of su ex "as @ bs" b] by simp
qed simp

lemma membership_loop_iff:
  assumes "tracks ms as" "design_ok su ex as"
  shows "(\<exists>ms'. membership_loop su ex bs ms = Inr ms') \<longleftrightarrow> design_ok su ex (as @ bs)"
    and "membership_loop su ex bs ms = Inr ms' \<Longrightarrow> tracks ms' (as @ bs)"
proof -
  have "((\<exists>ms'. membership_loop su ex bs ms = Inr ms') \<longleftrightarrow> design_ok su ex (as @ bs)) \<and>
      (membership_loop su ex bs ms = Inr ms' \<longrightarrow> tracks ms' (as @ bs))"
    using assms
  proof (induction bs arbitrary: as ms)
    case (Cons b bs)
    show ?case
    proof (cases "membership_step su ex b ms")
      case (Inl e)
      then have "\<not> admissible su ex as b" using membership_step_iff[OF Cons.prems(1), of su ex b] by simp
      then have "\<not> design_ok su ex (as @ [b])" using design_ok_snoc by blast
      then have "\<not> design_ok su ex ((as @ [b]) @ bs)" using design_ok_prefix by blast
      then show ?thesis using Inl by simp
    next
      case (Inr ms1)
      then have "tracks ms1 (as @ [b])" "design_ok su ex (as @ [b])"
        using membership_step_tracks[OF Cons.prems(1) Inr] membership_step_iff[OF Cons.prems(1), of su ex b]
          Cons.prems(2) design_ok_snoc by blast+
      then show ?thesis using Cons.IH[of ms1 "as @ [b]"] Inr by simp
    qed
  qed auto
  then show "(\<exists>ms'. membership_loop su ex bs ms = Inr ms') \<longleftrightarrow> design_ok su ex (as @ bs)"
    "membership_loop su ex bs ms = Inr ms' \<Longrightarrow> tracks ms' (as @ bs)" by auto
qed

lemma distinct_turns:
  assumes "distinct (map sample_identity as)"
  shows "distinct (map at_turn_index (filter (\<lambda>a. episode_identity a = k) as))"
  using assms
proof (induction as)
  case (Cons x as)
  have n: "sample_identity x \<notin> sample_identity ` set as" and IH: "distinct (map at_turn_index (filter (\<lambda>a. episode_identity a = k) as))"
    using Cons by simp_all
  have "at_turn_index x \<notin> at_turn_index ` set (filter (\<lambda>a. episode_identity a = k) as)" if k: "episode_identity x = k"
  proof
    assume "at_turn_index x \<in> at_turn_index ` set (filter (\<lambda>a. episode_identity a = k) as)"
    then obtain y where y: "y \<in> set as" "episode_identity y = k" "at_turn_index y = at_turn_index x" by auto
    then have "sample_identity x = sample_identity y" using k by (auto simp: sample_identity_def episode_identity_def)
    then show False using n y(1) by simp
  qed
  then show ?case using IH by simp
qed simp

lemma episode_records_iff:
  assumes "tracks ms as"
  shows "(\<forall>x \<in> set (ms_episode_records ms). P (snd x)) \<longleftrightarrow>
    (\<forall>k \<in> episode_identity ` set as. P (filter (\<lambda>a. episode_identity a = k) as))" (is "?l = ?c")
proof -
  let ?ep = "\<lambda>k. filter (\<lambda>a. episode_identity a = k) as"
  have d: "distinct (map fst (ms_episode_records ms))"
    and m: "map_of (ms_episode_records ms) = (\<lambda>k. if k \<in> episode_identity ` set as then Some (?ep k) else None)"
    using assms by (simp_all add: tracks_def)
  have e: "(k, ep) \<in> set (ms_episode_records ms) \<longleftrightarrow> k \<in> episode_identity ` set as \<and> ep = ?ep k" for k ep
    unfolding map_of_eq_Some_iff[OF d, symmetric] m by auto
  show ?thesis
  proof
    assume l: ?l
    show ?c
    proof
      fix k assume "k \<in> episode_identity ` set as"
      then have "(k, ?ep k) \<in> set (ms_episode_records ms)" by (simp only: e)
      from bspec[OF l this] show "P (?ep k)" by simp
    qed
  next
    assume c: ?c
    show ?l
    proof
      fix x assume x: "x \<in> set (ms_episode_records ms)"
      obtain k ep where [simp]: "x = (k, ep)" by (cases x)
      have "k \<in> episode_identity ` set as" "ep = ?ep k" using x e[of k ep] by simp_all
      then show "P (snd x)" using bspec[OF c] by simp
    qed
  qed
qed

lemma grouped_iff:
  "(\<forall>k \<in> f ` set as. \<forall>a \<in> set (filter (\<lambda>a. f a = k) as). P a \<longrightarrow> (\<exists>b \<in> set (filter (\<lambda>a. f a = k) as). Q a b)) \<longleftrightarrow>
   (\<forall>a \<in> set as. P a \<longrightarrow> (\<exists>b \<in> set as. f b = f a \<and> Q a b))" (is "?m = ?r")
proof
  assume m: ?m
  show ?r
  proof (intro ballI impI)
    fix a assume a: "a \<in> set as" "P a"
    have "a \<in> set (filter (\<lambda>x. f x = f a) as)" using a(1) by simp
    with m a obtain b where "b \<in> set (filter (\<lambda>x. f x = f a) as)" "Q a b" by blast
    then show "\<exists>b \<in> set as. f b = f a \<and> Q a b" by auto
  qed
next
  assume r: ?r
  show ?m
  proof (intro ballI impI)
    fix k a assume a: "a \<in> set (filter (\<lambda>a. f a = k) as)" "P a"
    with r obtain b where "b \<in> set as" "f b = f a" "Q a b" by auto
    then show "\<exists>b \<in> set (filter (\<lambda>a. f a = k) as). Q a b" using a(1) by auto
  qed
qed

lemma episodes_iff:
  assumes "tracks ms as" "distinct (map sample_identity as)" "\<forall>a \<in> set as. 0 \<le> at_turn_index a"
  shows "(\<forall>x \<in> set (ms_episode_records ms). episode_check (snd x) = None) \<longleftrightarrow>
    (\<forall>a \<in> set as. at_turn_index a \<noteq> 0 \<longrightarrow>
      (\<exists>b \<in> set as. episode_identity b = episode_identity a \<and> follows a b))"
  unfolding episode_records_iff[OF assms(1), of "\<lambda>ep. episode_check ep = None"] grouped_iff[symmetric]
proof (rule ball_cong[OF refl])
  fix k
  have "\<forall>a \<in> set (filter (\<lambda>a. episode_identity a = k) as). 0 \<le> at_turn_index a" using assms(3) by simp
  from episode_check_iff[OF distinct_turns[OF assms(2)] this]
  show "episode_check (filter (\<lambda>a. episode_identity a = k) as) = None \<longleftrightarrow>
    (\<forall>a \<in> set (filter (\<lambda>a. episode_identity a = k) as). at_turn_index a \<noteq> 0 \<longrightarrow>
      (\<exists>b \<in> set (filter (\<lambda>a. episode_identity a = k) as). follows a b))" .
qed

text \<open>Acceptance depends on the set of attempts only.\<close>

lemma membership_iff:
  assumes "\<forall>a \<in> set records. 0 \<le> at_turn_index a"
  shows "validate_attempt_membership records su ex = None \<longleftrightarrow> design_ok su ex records \<and>
    (\<forall>a \<in> set records. at_turn_index a \<noteq> 0 \<longrightarrow>
      (\<exists>b \<in> set records. episode_identity b = episode_identity a \<and> follows a b))"
proof (cases "membership_loop su ex records no_membership")
  case (Inl e)
  moreover have "design_ok su ex []" by (simp add: design_ok_def turn_zero_def)
  ultimately have "\<not> design_ok su ex records"
    using membership_loop_iff(1)[OF tracks_start, of su ex records] by simp
  then show ?thesis using Inl by (simp add: validate_attempt_membership_def)
next
  case (Inr ms)
  have 0: "design_ok su ex []" by (simp add: design_ok_def turn_zero_def)
  have t: "tracks ms records" using membership_loop_iff(2)[OF tracks_start 0 Inr] by simp
  have d: "design_ok su ex records"
    using membership_loop_iff(1)[OF tracks_start 0, of records] Inr by simp
  then have "distinct (map sample_identity records)" by (simp add: design_ok_def)
  from episodes_iff[OF t this assms] d Inr show ?thesis
    by (simp add: validate_attempt_membership_def case_prod_unfold)
qed

end
