(* ===== verification/Aggregate_Samples.thy ===== *)
theory Aggregate_Samples
  imports Aggregate Samples
begin

text \<open>
  A concrete strict run: one repair task, one training seed and one solved microVM attempt, anchored in a
  registry.
\<close>

definition sample_suite_task :: suite_task where
  "sample_suite_task = \<lparr>st_task_id = ''t'', st_task_version = ''v1'', st_task_bundle_sha256 = digest_a,
     st_evaluation_plan_sha256 = digest_a, st_scoring_contract_sha256 = digest_a, st_family = REPAIR,
     st_root_cause = Some ''rc'', st_program_type = ''xdp'', st_cluster_id = ''cl''\<rparr>"

definition sample_suite :: suite where
  "sample_suite = \<lparr>su_suite_id = ''s'', su_environment_id = ''env'', su_family = REPAIR,
     su_root_cause_taxonomy = [''rc''], su_tasks = [sample_suite_task]\<rparr>"

definition sample_experiment :: experiment_manifest where
  "sample_experiment = \<lparr>ex_experiment_id = ''x'', ex_suite_id = ''s'', ex_suite_manifest_sha256 = digest_a,
     ex_model_id = ''m'', ex_model_artifact_sha256 = digest_a, ex_sampling_config_sha256 = digest_a,
     ex_diagnostic_condition = D_NONE, ex_reward_policy_id = ''p'', ex_reward_policy_sha256 = digest_a,
     ex_environment_sha256 = digest_a, ex_harness_commit = commit_b, ex_expected_grader_id = digest_a,
     ex_seed_plans = [\<lparr>sp_training_seed = 0, sp_checkpoint_id = ''c'',
       sp_checkpoint_artifact_sha256 = digest_a, sp_generation_seeds = [0]\<rparr>], ex_reported_k = [1]\<rparr>"

definition vm_evidence :: evidence where
  "vm_evidence = solved_evidence\<lparr>ev_origin := O_MICROVM,
     ev_environment := sample_environment\<lparr>en_isolation := I_MICROVM, en_snapshot_sha256 := Some digest_a\<rparr>\<rparr>"

definition vm_grade :: grade where
  "vm_grade = \<lparr>gr_policy_id = ''p'', gr_grader_id = digest_a, gr_task_id = ''t'', gr_candidate_sha256 = digest_a,
     gr_evidence_sha256 = digest_a, gr_contract_sha256 = digest_a, gr_comparable = True,
     gr_strict_success = Some True, gr_benchmark_score = Some 1, gr_training_reward = Some 1,
     gr_first_failure = None, gr_failure_reason = None, gr_stage_outcomes = (\<lambda>_. Some PASS)\<rparr>"

definition vm_attempt :: attempt where
  "vm_attempt = \<lparr>at_experiment_id = ''x'', at_model_id = ''m'', at_model_artifact_sha256 = digest_a,
     at_checkpoint_id = ''c'', at_checkpoint_artifact_sha256 = digest_a, at_sampling_config_sha256 = digest_a,
     at_reward_policy_sha256 = digest_a, at_episode_id = ''e0'', at_task_id = ''t'', at_task_version = ''v1'',
     at_task_bundle_sha256 = digest_a, at_family = REPAIR, at_root_cause = Some ''rc'', at_program_type = ''xdp'',
     at_cluster_id = ''cl'', at_training_seed = 0, at_sample_index = 0, at_generation_seed = 0, at_turn_index = 0,
     at_replay_manifest_sha256 = digest_a, at_evidence = vm_evidence, at_grade = vm_grade\<rparr>"

definition sample_registry :: registry where
  "sample_registry = \<lparr>rg_registry_id = ''g'', rg_issuer = ''i'', rg_experiment_manifest_sha256 = digest_a,
     rg_anchors = [\<lparr>ra_manifest_sha256 = digest_a, ra_evidence_sha256 = digest_a, ra_grade_sha256 = digest_a,
       ra_contract_sha256 = digest_a, ra_policy_sha256 = digest_a\<rparr>]\<rparr>"

lemma vm_evidence_ok [simp]: "evidence_check sample_hasher vm_evidence = None"
  using solved_evidence_ok
  by (auto simp: evidence_check_def vm_evidence_def solved_evidence_def evidence_of_def orelse_None_iff
      environment_check_def sample_environment_def id_simps grader_id_for_def)

lemma vm_grade_ok [simp]: "grade_check vm_grade = None"
  by (simp add: grade_check_def vm_grade_def grade_first_non_pass_def STAGE_ORDER_def id_simps float_in_def is_f64_def)

lemma vm_evidence_simps [simp]: "ev_request vm_evidence = sample_request" "ev_grader_id vm_evidence = digest_a"
  "ev_origin vm_evidence = O_MICROVM" "ev_harness_commit vm_evidence = commit_b"
  "s \<in> set STAGE_ORDER \<Longrightarrow> evidence_outcomes vm_evidence s = Some PASS"
  by (auto simp: vm_evidence_def solved_evidence_def evidence_of_def evidence_outcomes_def STAGE_ORDER_def)

lemma vm_attempt_ok [simp]: "attempt_check sample_hasher vm_attempt = None"
proof -
  have "\<not> list_ex (\<lambda>s. gr_stage_outcomes vm_grade s \<noteq> evidence_outcomes vm_evidence s) STAGE_ORDER"
    by (simp add: list_ex_iff vm_grade_def)
  then show ?thesis
    by (simp add: attempt_check_def vm_attempt_def Let_def id_simps)
      (simp add: sample_request_def sample_ref_def vm_grade_def)
qed

lemma sample_suite_ok: "suite_check sample_suite = None"
  by (simp add: suite_check_def sample_suite_def suite_task_ok_def sample_suite_task_def id_simps represented_causes_def)

lemma sample_experiment_ok: "experiment_check sample_experiment = None"
  by (simp add: experiment_check_def sample_experiment_def seed_plan_ok_def samples_per_task_seed_def id_simps)

lemma sample_registry_ok: "registry_guard sample_hasher sample_experiment False (Some sample_registry) (Some digest_a) = None"
  by (simp add: registry_guard_def Let_def orelse_None_iff registry_check_def sample_registry_def replay_anchor_ok_def
      id_simps)

lemma sample_identity_ok: "\<exists>ri. validate_run_identity sample_hasher [vm_attempt] sample_suite sample_experiment = Inr ri \<and>
    ri_experiment_id ri = ''x'' \<and> ri_model_id ri = ''m'' \<and> ri_sampling_config_sha256 ri = digest_a \<and>
    ri_grader_id ri = digest_a \<and> ri_reward_policy_id ri = ''p'' \<and> ri_environment_id ri = ''env'' \<and>
    ri_suite_digest ri = digest_a"
  by (simp add: validate_run_identity_def single_value_def Let_def vm_attempt_def sample_suite_def sample_experiment_def)
    (simp add: vm_grade_def sample_request_def check_def)

lemma sample_membership_ok: "validate_attempt_membership [vm_attempt] sample_suite sample_experiment = None"
  by (simp add: validate_attempt_membership_def membership_step_def no_membership_def orelse_None_iff planned_record_def
      suite_task_by_id_def seed_plan_by_seed_def turn_zero_check_def sample_suite_def sample_suite_task_def
      sample_experiment_def vm_attempt_def vm_grade_def episode_check_def parents_linked_def Let_def orelse_def)

lemma sample_eligible: "eligible_turn_zero sample_hasher [vm_attempt] False (Some sample_registry) = Inr [vm_attempt]"
  by (simp add: eligible_turn_zero_def vm_attempt_def anchored_def sample_registry_def vm_grade_def)

lemma sample_task_scores:
  "task_scores [vm_attempt] sample_suite (experiment_seeds sample_experiment) 1 (samples_per_task_seed sample_experiment) =
     Inr ([(''t'', 1)], [(0, [(''t'', 1)])])"
  by (simp add: task_scores_def experiment_seeds_def sample_experiment_def samples_per_task_seed_def sample_suite_def
      sample_suite_task_def task_row_def task_seed_score_def seed_attempts_def vm_attempt_def vm_grade_def
      pass_at_k_estimate_def truediv_def fsum_def fadd_def fdiv_def item_def Let_def)

lemma unit_floats [simp]: "fadd 0 1 = 1" "fmul 1 1 = 1" "fdiv 1 1 = 1" "fsub 1 1 = 0" "fl64 1 = 1" "fmul 0 x = 0"
  by (simp_all add: fadd_def fmul_def fdiv_def fsub_def)

lemma sample_slices:
  "slice_scores [(''t'', 1)] [sample_suite_task] stratum = Inr [\<lparr>sl_name = ''rc'', sl_task_count = 1, sl_pass_at_k = Some 1\<rparr>]"
  "slice_scores [(''t'', 1)] [sample_suite_task] st_program_type =
     Inr [\<lparr>sl_name = ''xdp'', sl_task_count = 1, sl_pass_at_k = Some 1\<rparr>]"
  by (simp_all add: slice_scores_def stratum_def sample_suite_task_def item_def fsum_def slice_score_ok_def id_simps
      float_in_def is_f64_def Let_def)

lemma sample_seed_results:
  "seed_results sample_experiment sample_suite [(0, [(''t'', 1)])] = Inr [\<lparr>ss_training_seed = 0, ss_checkpoint_id = ''c'',
     ss_checkpoint_artifact_sha256 = digest_a, ss_task_count = 1, ss_pass_at_k = 1\<rparr>]"
  by (simp add: seed_results_def sample_experiment_def sample_suite_def item_def fsum_def seed_score_ok_def id_simps
      float_in_def is_f64_def Let_def)

lemma sample_interval:
  "cluster_bootstrap_interval (\<lambda>_ _. 1) [(0, [(''t'', 1)])] [sample_suite_task] 1 0 = Inr (1, 1)"
  by (simp add: cluster_bootstrap_interval_def Let_def sample_suite_task_def replicate_score_def stratum_def
      root_mean_def item_def fsum_def truediv_def percentile_def)

lemma far_from_same [simp]: "\<not> far_from 1 1"
  by (simp add: far_from_def fl64_nonneg not_less)

lemma vm_report:
  assumes "ri_experiment_id ri = ''x''" "ri_model_id ri = ''m''" "ri_sampling_config_sha256 ri = digest_a"
    "ri_grader_id ri = digest_a" "ri_reward_policy_id ri = ''p''" "ri_environment_id ri = ''env''"
    "ri_suite_digest ri = digest_a"
  shows "\<exists>r. build_report sample_hasher (\<lambda>_ _. 1) sample_suite sample_experiment 1 False 1 0 (Some sample_registry)
    ri 1 [vm_attempt] ([(''t'', 1)], [(0, [(''t'', 1)])]) = Inr r"
proof -
  have s: "su_tasks sample_suite = [sample_suite_task]" "su_family sample_suite = REPAIR" "su_suite_id sample_suite = ''s''"
    by (simp_all add: sample_suite_def)
  have e: "experiment_seeds sample_experiment = [0]" "samples_per_task_seed sample_experiment = 1"
    by (simp_all add: experiment_seeds_def sample_experiment_def samples_per_task_seed_def)
  have g: "gr_first_failure (at_grade vm_attempt) = None" by (simp add: vm_attempt_def vm_grade_def)
  have x: "ex_reward_policy_sha256 sample_experiment = digest_a" "ex_environment_sha256 sample_experiment = digest_a"
    "ex_harness_commit sample_experiment = commit_b" "ex_model_artifact_sha256 sample_experiment = digest_a"
    by (simp_all add: sample_experiment_def)
  show ?thesis
    unfolding build_report_def Let_def s e x
    by (simp add: truediv_def fsum_def sample_slices sample_seed_results sample_interval[simplified] check_Inr_iff g counter_def
        benchmark_report_check_def orelse_None_iff report_fields_check_def assms id_simps float_in_def is_f64_def
        slice_score_ok_def seed_score_ok_def program_micro_def seed_micro_def root_macro_def)
qed

lemma vm_run: "\<exists>r. aggregate_attempts sample_hasher (\<lambda>_ _. 1) [vm_attempt] sample_suite sample_experiment 1 False 1 0
    (Some sample_registry) (Some digest_a) = Inr r"
proof -
  obtain ri where ri: "validate_run_identity sample_hasher [vm_attempt] sample_suite sample_experiment = Inr ri"
    "ri_experiment_id ri = ''x''" "ri_model_id ri = ''m''" "ri_sampling_config_sha256 ri = digest_a"
    "ri_grader_id ri = digest_a" "ri_reward_policy_id ri = ''p''" "ri_environment_id ri = ''env''"
    "ri_suite_digest ri = digest_a" using sample_identity_ok by blast
  have "(1::int) \<in> set (ex_reported_k sample_experiment)" by (simp add: sample_experiment_def)
  then show ?thesis using vm_report[OF ri(2-)]
    by (simp add: aggregate_attempts_def argument_guard_def sample_suite_ok sample_experiment_ok sample_registry_ok
        validate_records_def orelse_def ri(1) sample_membership_ok sample_eligible sample_task_scores)
qed

end
