(* ===== verification/Aggregate_Correct.thy ===== *)
theory Aggregate_Correct
  imports Aggregate_Scores Aggregate_Design Aggregate_Samples "HOL-Library.Multiset"
begin

text \<open>
  What a published benchmark report guarantees, and the arithmetic of the pass rates.
\<close>

section \<open>A successful aggregation\<close>

lemma aggregateE:
  assumes "aggregate_attempts h rng records su ex k nb bs seed reg tr = Inr r"
  obtains ri eligible sc where
    "suite_check su = None" "experiment_check ex = None" "registry_guard h ex nb reg tr = None" "k \<in> set (ex_reported_k ex)"
    "\<forall>a \<in> set records. attempt_check h a = None" "validate_run_identity h records su ex = Inr ri"
    "validate_attempt_membership records su ex = None" "eligible_turn_zero h records nb reg = Inr eligible"
    "task_scores eligible su (experiment_seeds ex) k (samples_per_task_seed ex) = Inr sc"
    "build_report h rng su ex k nb bs seed reg ri (length records) eligible sc = Inr r" "1 \<le> k"
proof -
  have "argument_guard k bs seed = None" "suite_check su = None" "experiment_check ex = None"
    "registry_guard h ex nb reg tr = None" "k \<in> set (ex_reported_k ex)" "validate_records h records = None"
    "\<exists>ri eligible sc. validate_run_identity h records su ex = Inr ri \<and>
      validate_attempt_membership records su ex = None \<and> eligible_turn_zero h records nb reg = Inr eligible \<and>
      task_scores eligible su (experiment_seeds ex) k (samples_per_task_seed ex) = Inr sc \<and>
      build_report h rng su ex k nb bs seed reg ri (length records) eligible sc = Inr r"
    using assms unfolding aggregate_attempts_def check_Inr_iff rbind_Inr_iff by auto
  then show ?thesis
    using that by (auto simp: argument_guard_def validate_records_def orelse_None_iff)
qed

lemma suite_checkD:
  assumes "suite_check su = None"
  shows "su_tasks su \<noteq> []" "length (su_tasks su) \<le> 100000" "distinct (map st_task_id (su_tasks su))"
  using assms by (auto simp: suite_check_def)

lemma experiment_checkD:
  assumes "experiment_check ex = None"
  shows "ex_seed_plans ex \<noteq> []" "distinct (map sp_training_seed (ex_seed_plans ex))"
    "p \<in> set (ex_seed_plans ex) \<Longrightarrow> length (sp_generation_seeds p) = samples_per_task_seed ex"
proof -
  show ne: "ex_seed_plans ex \<noteq> []" and "distinct (map sp_training_seed (ex_seed_plans ex))"
    using assms by (auto simp: experiment_check_def)
  have "card (set (map (length \<circ> sp_generation_seeds) (ex_seed_plans ex))) = 1"
    using assms by (simp add: experiment_check_def)
  then obtain n where n: "set (map (length \<circ> sp_generation_seeds) (ex_seed_plans ex)) = {n}"
    by (auto simp: card_1_singleton_iff)
  have each: "length (sp_generation_seeds q) = n" if "q \<in> set (ex_seed_plans ex)" for q
    using n that by auto
  show "length (sp_generation_seeds p) = samples_per_task_seed ex" if "p \<in> set (ex_seed_plans ex)"
    using each[OF that] each[OF hd_in_set[OF ne]] by (simp add: samples_per_task_seed_def)
qed

lemma seeds_facts:
  assumes "experiment_check ex = None"
  shows "distinct (experiment_seeds ex)" "experiment_seeds ex \<noteq> []"
    "set (experiment_seeds ex) = sp_training_seed ` set (ex_seed_plans ex)"
    "length (experiment_seeds ex) = length (ex_seed_plans ex)"
  using experiment_checkD[OF assms] by (auto simp: experiment_seeds_def sort_Nil_iff)

lemma eligible_Inr:
  assumes "eligible_turn_zero h records nb reg = Inr eligible"
  shows "eligible = turn_zero records"
    "\<not> nb \<Longrightarrow> \<exists>g. reg = Some g \<and> (\<forall>a \<in> set (turn_zero records). ev_origin (at_evidence a) = O_MICROVM \<and> anchored h g a)"
  using assms by (auto simp: eligible_turn_zero_def turn_zero_def Let_def filter_empty_conv split: if_splits option.splits)

lemma build_report_Inr:
  assumes "build_report h rng su ex k nb bs seed reg ri n eligible sc = Inr r"
  shows "benchmark_report_check r = None" "br_pass_at_k r = Some (fmean (map snd (fst sc)))"
    "br_eligible_attempt_count r = int (length eligible)" "br_excluded_attempt_count r = int n - int (length eligible)"
    "br_eligible_task_count r = int (length (fst sc))" "br_training_seeds r = experiment_seeds ex"
    "br_samples_per_task_seed r = int (samples_per_task_seed ex)"
    "br_eligible_training_seed_count r = int (length (experiment_seeds ex))"
  using assms unfolding build_report_def
  by (auto simp: rbind_Inr_iff check_Inr_iff Let_def truediv_def fmean_def split: if_splits)

lemma sample_at:
  assumes "task_seed_score eligible i s k n = Inr r" "j < n"
  shows "\<exists>!a. a \<in> set eligible \<and> at_task_id a = i \<and> at_training_seed a = s \<and> at_sample_index a = int j"
    "a \<in> set eligible \<Longrightarrow> at_task_id a = i \<Longrightarrow> at_training_seed a = s \<Longrightarrow> gr_comparable (at_grade a)"
proof -
  let ?as = "seed_attempts eligible i s"
  have f: "length ?as = n" "sort (map at_sample_index ?as) = map int [0..<n]"
    "\<forall>a \<in> set ?as. gr_comparable (at_grade a)" using assms(1) by (simp_all add: task_seed_score_Inr)
  have "distinct (sort (map at_sample_index ?as))" unfolding f(2) by (simp add: distinct_map)
  then have d: "distinct (map at_sample_index ?as)" by simp
  have "set (sort (map at_sample_index ?as)) = int ` {0..<n}" unfolding f(2) by simp
  then have "int j \<in> at_sample_index ` set ?as" using assms(2) by simp
  then obtain a where a: "a \<in> set ?as" "at_sample_index a = int j" by auto
  have mem: "b \<in> set ?as \<longleftrightarrow> b \<in> set eligible \<and> at_task_id b = i \<and> at_training_seed b = s" for b
    by (simp add: seed_attempts_def)
  show "\<exists>!a. a \<in> set eligible \<and> at_task_id a = i \<and> at_training_seed a = s \<and> at_sample_index a = int j"
  proof (rule ex1I[of _ a])
    show "a \<in> set eligible \<and> at_task_id a = i \<and> at_training_seed a = s \<and> at_sample_index a = int j"
      using a mem by simp
    show "b = a" if "b \<in> set eligible \<and> at_task_id b = i \<and> at_training_seed b = s \<and> at_sample_index b = int j" for b
      using that a mem[of b] by (intro distinct_map_filter_unique[OF d]) auto
  qed
  show "gr_comparable (at_grade a)" if "a \<in> set eligible" "at_task_id a = i" "at_training_seed a = s" for a
    using that f(3) mem by blast
qed

lemma seed_plan_lookup:
  assumes "distinct (map sp_training_seed (ex_seed_plans ex))" "p \<in> set (ex_seed_plans ex)"
  shows "seed_plan_by_seed ex (sp_training_seed p) = Some p"
  unfolding seed_plan_by_seed_def rev_map
  using map_of_distinct_Some[of sp_training_seed "rev (ex_seed_plans ex)" p "\<lambda>q. q"] assms
  by (simp add: rev_map[symmetric])

lemma attempt_turn_nonneg: "attempt_check h a = None \<Longrightarrow> 0 \<le> at_turn_index a"
  by (simp add: attempt_check_def Let_def)

lemma design_ok_perm:
  assumes "mset as = mset bs" shows "design_ok su ex as \<longleftrightarrow> design_ok su ex bs"
proof -
  have s: "set as = set bs" using assms by (rule mset_eq_setD)
  have d: "distinct (map f as) \<longleftrightarrow> distinct (map f bs)" for f :: "attempt \<Rightarrow> 'b"
    using assms by (intro mset_eq_imp_distinct_iff) simp
  have "mset (turn_zero as) = mset (turn_zero bs)" using assms by (simp add: turn_zero_def)
  then have "distinct (map generation_identity (turn_zero as)) \<longleftrightarrow> distinct (map generation_identity (turn_zero bs))"
    by (intro mset_eq_imp_distinct_iff) simp
  then show ?thesis
    using d[of sample_identity] d[of attempt_request_id] d[of at_replay_manifest_sha256] s
    by (simp add: design_ok_def list_all_iff)
qed

lemma aggregate_scored:
  assumes "aggregate_attempts h rng records su ex k nb bs seed reg tr = Inr r"
    "t \<in> set (su_tasks su)" "p \<in> set (ex_seed_plans ex)"
  shows "\<exists>v. task_seed_score (turn_zero records) (st_task_id t) (sp_training_seed p) k (samples_per_task_seed ex) = Inr v"
proof -
  obtain ri eligible sc where c: "suite_check su = None" "experiment_check ex = None"
    "eligible_turn_zero h records nb reg = Inr eligible"
    "task_scores eligible su (experiment_seeds ex) k (samples_per_task_seed ex) = Inr sc"
    using aggregateE[OF assms(1)] by metis
  have "sp_training_seed p \<in> set (experiment_seeds ex)" using assms(3) seeds_facts(3)[OF c(2)] by simp
  from task_scores_Inr(2)[OF c(4) seeds_facts(1)[OF c(2)] suite_checkD(3)[OF c(1)] assms(2) this]
  show ?thesis unfolding eligible_Inr(1)[OF c(3)] by blast
qed

lemma aggregate_slots:
  assumes "aggregate_attempts h rng records su ex k nb bs seed reg tr = Inr r"
  shows "\<forall>t \<in> set (su_tasks su). \<forall>p \<in> set (ex_seed_plans ex). \<forall>i < samples_per_task_seed ex.
      \<exists>!a. a \<in> set (turn_zero records) \<and> at_task_id a = st_task_id t \<and>
        at_training_seed a = sp_training_seed p \<and> at_sample_index a = int i"
proof (intro ballI allI impI)
  fix t p i assume "t \<in> set (su_tasks su)" "p \<in> set (ex_seed_plans ex)" and i: "i < samples_per_task_seed ex"
  then obtain v where "task_seed_score (turn_zero records) (st_task_id t) (sp_training_seed p) k (samples_per_task_seed ex) = Inr v"
    using aggregate_scored[OF assms] by blast
  from sample_at(1)[OF this i] show "\<exists>!a. a \<in> set (turn_zero records) \<and> at_task_id a = st_task_id t \<and>
        at_training_seed a = sp_training_seed p \<and> at_sample_index a = int i" .
qed

lemma suite_task_lookup: "suite_task_by_id su i = Some t \<Longrightarrow> t \<in> set (su_tasks su) \<and> st_task_id t = i"
  by (auto simp: suite_task_by_id_def rev_map dest: map_of_SomeD)

lemma seed_plan_lookupD: "seed_plan_by_seed ex s = Some p \<Longrightarrow> p \<in> set (ex_seed_plans ex) \<and> sp_training_seed p = s"
  by (auto simp: seed_plan_by_seed_def rev_map dest: map_of_SomeD)

lemma aggregate_attempts_planned:
  assumes "aggregate_attempts h rng records su ex k nb bs seed reg tr = Inr r"
  shows "\<forall>a \<in> set (turn_zero records). gr_comparable (at_grade a) \<and>
      (\<exists>t \<in> set (su_tasks su). \<exists>p \<in> set (ex_seed_plans ex). at_task_id a = st_task_id t \<and>
        at_training_seed a = sp_training_seed p \<and> at_sample_index a < int (samples_per_task_seed ex) \<and>
        at_generation_seed a = sp_generation_seeds p ! nat (at_sample_index a))"
proof
  fix a assume a: "a \<in> set (turn_zero records)"
  obtain ri where c: "experiment_check ex = None" "validate_attempt_membership records su ex = None"
    "\<forall>a \<in> set records. attempt_check h a = None"
    using aggregateE[OF assms] by metis
  have "\<forall>a \<in> set records. 0 \<le> at_turn_index a" using c(3) attempt_turn_nonneg by blast
  then have "design_ok su ex records" using membership_iff c(2) by blast
  then have "declared_attempt su ex a" using a by (simp add: design_ok_def list_all_iff turn_zero_def)
  then obtain t p where "suite_task_by_id su (at_task_id a) = Some t" "seed_plan_by_seed ex (at_training_seed a) = Some p"
    and i: "at_sample_index a < int (length (sp_generation_seeds p))"
      "at_generation_seed a = sp_generation_seeds p ! nat (at_sample_index a)"
    using a by (auto simp: declared_attempt_def turn_zero_def)
  then have t: "t \<in> set (su_tasks su)" "at_task_id a = st_task_id t"
    and p: "p \<in> set (ex_seed_plans ex)" "at_training_seed a = sp_training_seed p"
    using suite_task_lookup seed_plan_lookupD by metis+
  obtain v where v: "task_seed_score (turn_zero records) (st_task_id t) (sp_training_seed p) k (samples_per_task_seed ex) = Inr v"
    using aggregate_scored[OF assms t(1) p(1)] by blast
  have "gr_comparable (at_grade a)" using v a t(2) p(2) by (auto simp: task_seed_score_Inr seed_attempts_def)
  then show "gr_comparable (at_grade a) \<and>
      (\<exists>t \<in> set (su_tasks su). \<exists>p \<in> set (ex_seed_plans ex). at_task_id a = st_task_id t \<and>
        at_training_seed a = sp_training_seed p \<and> at_sample_index a < int (samples_per_task_seed ex) \<and>
        at_generation_seed a = sp_generation_seeds p ! nat (at_sample_index a))"
    using t p i experiment_checkD(3)[OF c(1) p(1)] by auto
qed

lemma aggregate_counts:
  assumes "aggregate_attempts h rng records su ex k nb bs seed reg tr = Inr r"
  shows "br_eligible_attempt_count r = int (length (su_tasks su) * length (ex_seed_plans ex) * samples_per_task_seed ex)"
    "br_eligible_attempt_count r = int (length (turn_zero records))"
    "br_excluded_attempt_count r = int (length (filter (\<lambda>a. at_turn_index a \<noteq> 0) records))"
proof -
  obtain ri eligible sc where c: "suite_check su = None" "experiment_check ex = None"
    "eligible_turn_zero h records nb reg = Inr eligible"
    "task_scores eligible su (experiment_seeds ex) k (samples_per_task_seed ex) = Inr sc"
    "build_report h rng su ex k nb bs seed reg ri (length records) eligible sc = Inr r"
    using aggregateE[OF assms] by metis
  note b = build_report_Inr[OF c(5)]
  have e: "eligible = turn_zero records" by (rule eligible_Inr(1)[OF c(3)])
  have "length (fst sc) = length (su_tasks su)"
    using task_scores_Inr(1)[OF c(4) seeds_facts(1)[OF c(2)] suite_checkD(3)[OF c(1)]] by simp
  moreover have "br_eligible_attempt_count r =
      br_eligible_task_count r * br_eligible_training_seed_count r * br_samples_per_task_seed r"
    using b(1) by (simp add: benchmark_report_check_def orelse_None_iff)
  ultimately show "br_eligible_attempt_count r = int (length (su_tasks su) * length (ex_seed_plans ex) * samples_per_task_seed ex)"
    using b(5,7,8) seeds_facts(4)[OF c(2)] by simp
  show "br_eligible_attempt_count r = int (length (turn_zero records))" using b(3) e by simp
  have "length records = length (turn_zero records) + length (filter (\<lambda>a. at_turn_index a \<noteq> 0) records)"
    unfolding turn_zero_def using sum_length_filter_compl[of "\<lambda>a. at_turn_index a = 0" records] by simp
  then show "br_excluded_attempt_count r = int (length (filter (\<lambda>a. at_turn_index a \<noteq> 0) records))"
    using b(4) e by simp
qed

lemma aggregate_anchored:
  assumes "aggregate_attempts h rng records su ex k nb bs seed reg tr = Inr r"
  shows "\<not> nb \<longrightarrow> (\<exists>g. reg = Some g \<and> tr = Some (sha256_json h (registry_json g)) \<and>
      (\<forall>a \<in> set (turn_zero records). ev_origin (at_evidence a) = O_MICROVM \<and> anchored h g a))"
proof
  assume nb: "\<not> nb"
  obtain eligible where c: "registry_guard h ex nb reg tr = None" "eligible_turn_zero h records nb reg = Inr eligible"
    using aggregateE[OF assms] by metis
  obtain g where g: "reg = Some g" "\<forall>a \<in> set (turn_zero records). ev_origin (at_evidence a) = O_MICROVM \<and> anchored h g a"
    using eligible_Inr(2)[OF c(2) nb] by blast
  have "tr = Some (sha256_json h (registry_json g))"
    using c(1) nb g(1) by (auto simp: registry_guard_def Let_def orelse_None_iff)
  with g show "\<exists>g. reg = Some g \<and> tr = Some (sha256_json h (registry_json g)) \<and>
      (\<forall>a \<in> set (turn_zero records). ev_origin (at_evidence a) = O_MICROVM \<and> anchored h g a)" by blast
qed

section \<open>Properties\<close>

text \<open>
  C26. \<open>pass_at_k_estimate\<close> returns exactly for \<open>0 \<le> c \<le> n\<close> and \<open>1 \<le> k \<le> n\<close>; the float it returns lies
  in the unit interval and is within two units in the last place of 1 of the share of the \<open>k\<close>-element
  subsets of the \<open>n\<close> samples that contain one of the \<open>c\<close> successes, and one success more never lowers it.
\<close>

theorem pass_at_k_estimate_exact:
  "((\<exists>r. pass_at_k_estimate n c k = Inr r) \<longleftrightarrow> 0 \<le> c \<and> c \<le> n \<and> 1 \<le> k \<and> k \<le> n) \<and>
   (pass_at_k_estimate n c k = Inr r \<longrightarrow> 0 \<le> r \<and> r \<le> 1 \<and> \<bar>r - hit_fraction (nat n) (nat c) (nat k)\<bar> \<le> 2 / 2 ^ 53) \<and>
   (pass_at_k_estimate n c k = Inr r \<and> pass_at_k_estimate n (c + 1) k = Inr r' \<longrightarrow> r \<le> r')"
proof (intro conjI impI)
  show "(\<exists>r. pass_at_k_estimate n c k = Inr r) \<longleftrightarrow> 0 \<le> c \<and> c \<le> n \<and> 1 \<le> k \<and> k \<le> n" by (rule estimate_defined)
next
  assume e: "pass_at_k_estimate n c k = Inr r"
  then have "0 \<le> c" "c \<le> n" "1 \<le> k" "k \<le> n" using estimate_defined[of n c k] by auto
  then show "0 \<le> r" "r \<le> 1" "\<bar>r - hit_fraction (nat n) (nat c) (nat k)\<bar> \<le> 2 / 2 ^ 53"
    using estimate_accuracy[of "nat c" "nat n" "nat k" r] e by auto
next
  assume "pass_at_k_estimate n c k = Inr r \<and> pass_at_k_estimate n (c + 1) k = Inr r'"
  then have e: "pass_at_k_estimate n c k = Inr r" "pass_at_k_estimate n (c + 1) k = Inr r'" by auto
  then have "0 \<le> c" "c + 1 \<le> n" "1 \<le> k" "k \<le> n"
    using estimate_defined[of n c k] estimate_defined[of n "c + 1" k] by auto
  then show "r \<le> r'" using estimate_mono[of "nat c" "nat (c + 1)" "nat n" "nat k" r r'] e by auto
qed

theorem pass_at_k_estimate_exact_witness:
  "\<exists>r. pass_at_k_estimate 5 2 1 = Inr r \<and> 0 \<le> r \<and> r \<le> 1 \<and> \<bar>r - hit_fraction 5 2 1\<bar> \<le> 2 / 2 ^ 53"
proof -
  obtain r where "pass_at_k_estimate 5 2 1 = Inr r" using pass_at_k_estimate_exact[of 5 2 1] by auto
  then show ?thesis using pass_at_k_estimate_exact[of 5 2 1 r] by auto
qed

text \<open>
  C27. The membership check accepts a list of attempts exactly when each attempt is declared by the suite
  and the seed plans, no sample, request, replay or turn-zero generation seed is used twice, each sample
  has one episode, and each later turn names as parent the request of the turn just before it in its
  episode.  The verdict does not depend on the order of the attempts.
\<close>

theorem attempt_membership_iff:
  assumes "\<forall>a \<in> set records. attempt_check h a = None" "mset shuffled = mset records"
  shows "(validate_attempt_membership records su ex = None \<longleftrightarrow> design_ok su ex records \<and>
      (\<forall>a \<in> set records. at_turn_index a \<noteq> 0 \<longrightarrow>
        (\<exists>b \<in> set records. episode_identity b = episode_identity a \<and> at_turn_index b = at_turn_index a - 1 \<and>
           rq_parent_request_id (ev_request (at_evidence a)) = Some (attempt_request_id b)))) \<and>
    (validate_attempt_membership shuffled su ex = None \<longleftrightarrow> validate_attempt_membership records su ex = None)"
proof -
  have s: "set shuffled = set records" using assms(2) by (rule mset_eq_setD)
  have t: "\<forall>a \<in> set records. 0 \<le> at_turn_index a" using assms(1) attempt_turn_nonneg by blast
  then have "\<forall>a \<in> set shuffled. 0 \<le> at_turn_index a" using s by simp
  from membership_iff[OF this] membership_iff[OF t] show ?thesis
    unfolding s design_ok_perm[OF assms(2)] follows_def by blast
qed

theorem attempt_membership_iff_witness:
  "design_ok sample_suite sample_experiment [vm_attempt] \<and>
   validate_attempt_membership [vm_attempt] sample_suite sample_experiment = None"
  using attempt_membership_iff[of "[vm_attempt]" sample_hasher "[vm_attempt]" sample_suite sample_experiment]
    sample_membership_ok by simp

text \<open>
  C28. A report is published only for a complete run: for every task, training seed and planned sample
  there is exactly one turn-zero attempt, it is comparable and used the planned generation seed; the report
  counts exactly these attempts and sets aside exactly the later turns; and a strict report rests only on
  microVM evidence anchored in the registry whose digest the caller trusts.
\<close>

theorem aggregate_complete:
  assumes "aggregate_attempts h rng records su ex k nb bs seed reg tr = Inr r"
  shows "(\<forall>t \<in> set (su_tasks su). \<forall>p \<in> set (ex_seed_plans ex). \<forall>i < samples_per_task_seed ex.
      \<exists>!a. a \<in> set (turn_zero records) \<and> at_task_id a = st_task_id t \<and>
        at_training_seed a = sp_training_seed p \<and> at_sample_index a = int i) \<and>
    (\<forall>a \<in> set (turn_zero records). gr_comparable (at_grade a) \<and>
      (\<exists>t \<in> set (su_tasks su). \<exists>p \<in> set (ex_seed_plans ex). at_task_id a = st_task_id t \<and>
        at_training_seed a = sp_training_seed p \<and> at_sample_index a < int (samples_per_task_seed ex) \<and>
        at_generation_seed a = sp_generation_seeds p ! nat (at_sample_index a))) \<and>
    br_eligible_attempt_count r = int (length (su_tasks su) * length (ex_seed_plans ex) * samples_per_task_seed ex) \<and>
    br_eligible_attempt_count r = int (length (turn_zero records)) \<and>
    br_excluded_attempt_count r = int (length (filter (\<lambda>a. at_turn_index a \<noteq> 0) records)) \<and>
    (\<not> nb \<longrightarrow> (\<exists>g. reg = Some g \<and> tr = Some (sha256_json h (registry_json g)) \<and>
      (\<forall>a \<in> set (turn_zero records). ev_origin (at_evidence a) = O_MICROVM \<and> anchored h g a)))"
  using aggregate_slots[OF assms] aggregate_attempts_planned[OF assms] aggregate_counts[OF assms]
    aggregate_anchored[OF assms] by blast

theorem aggregate_complete_witness:
  "\<exists>r a. aggregate_attempts sample_hasher (\<lambda>_ _. 1) [vm_attempt] sample_suite sample_experiment 1 False 1 0
      (Some sample_registry) (Some digest_a) = Inr r \<and> a \<in> set (turn_zero [vm_attempt]) \<and> at_sample_index a = 0 \<and>
    anchored sample_hasher sample_registry a \<and> br_eligible_attempt_count r = 1 \<and> br_excluded_attempt_count r = 0"
proof -
  obtain r where r: "aggregate_attempts sample_hasher (\<lambda>_ _. 1) [vm_attempt] sample_suite sample_experiment 1 False 1 0
      (Some sample_registry) (Some digest_a) = Inr r" using vm_run by blast
  have n: "sample_suite_task \<in> set (su_tasks sample_suite)" "samples_per_task_seed sample_experiment = 1"
    "\<exists>p. p \<in> set (ex_seed_plans sample_experiment)" "turn_zero [vm_attempt] = [vm_attempt]"
    by (auto simp: sample_suite_def sample_experiment_def samples_per_task_seed_def turn_zero_def vm_attempt_def)
  then show ?thesis using aggregate_complete[OF r] r by (auto simp: turn_zero_def vm_attempt_def)
qed

text \<open>
  C29. The headline pass rate of a published report is a float in the unit interval whose distance from the
  exact unbiased estimate, the mean over tasks and training seeds of the share of \<open>k\<close>-subsets of samples
  with a success, is at most (tasks + seeds + 4) units of \<open>2^-53\<close>.
\<close>

theorem headline_near_exact:
  assumes "aggregate_attempts h rng records su ex k nb bs seed reg tr = Inr r" "length (ex_seed_plans ex) \<le> 2 ^ 53"
  shows "\<exists>p. br_pass_at_k r = Some p \<and> 0 \<le> p \<and> p \<le> 1 \<and>
    \<bar>p - exact_pass_at_k (turn_zero records) (su_tasks su) (experiment_seeds ex) (samples_per_task_seed ex) (nat k)\<bar>
      \<le> of_nat (length (su_tasks su) + length (ex_seed_plans ex) + 4) / 2 ^ 53"
proof -
  obtain ri eligible sc where c: "suite_check su = None" "experiment_check ex = None"
    "eligible_turn_zero h records nb reg = Inr eligible"
    "task_scores eligible su (experiment_seeds ex) k (samples_per_task_seed ex) = Inr sc"
    "build_report h rng su ex k nb bs seed reg ri (length records) eligible sc = Inr r" "1 \<le> k"
    using aggregateE[OF assms(1)] by metis
  have "task_scores (turn_zero records) su (experiment_seeds ex) (int (nat k)) (samples_per_task_seed ex) = Inr sc"
    using c(4,6) eligible_Inr(1)[OF c(3)] by simp
  from headline_accuracy[OF this _ seeds_facts(1,2)[OF c(2)] suite_checkD(3,1)[OF c(1)]]
  show ?thesis using c(6) assms(2) suite_checkD(2)[OF c(1)] seeds_facts(4)[OF c(2)] build_report_Inr(2)[OF c(5)]
    by auto
qed

theorem headline_near_exact_witness:
  "\<exists>r p. aggregate_attempts sample_hasher (\<lambda>_ _. 1) [vm_attempt] sample_suite sample_experiment 1 False 1 0
      (Some sample_registry) (Some digest_a) = Inr r \<and> br_pass_at_k r = Some p \<and>
    \<bar>p - exact_pass_at_k [vm_attempt] [sample_suite_task] [0] 1 1\<bar> \<le> 6 / 2 ^ 53"
proof -
  obtain r where r: "aggregate_attempts sample_hasher (\<lambda>_ _. 1) [vm_attempt] sample_suite sample_experiment 1 False 1 0
      (Some sample_registry) (Some digest_a) = Inr r" using vm_run by blast
  have n: "turn_zero [vm_attempt] = [vm_attempt]" "experiment_seeds sample_experiment = [0]"
    "su_tasks sample_suite = [sample_suite_task]" "samples_per_task_seed sample_experiment = 1"
    "length (ex_seed_plans sample_experiment) = 1"
    by (simp_all add: sample_suite_def sample_experiment_def samples_per_task_seed_def turn_zero_def vm_attempt_def
        experiment_seeds_def)
  then show ?thesis using headline_near_exact[OF r] r by auto
qed



text \<open>Equal replicates.\<close>

lemma percentile_replicate:
  assumes "0 < n" "n \<le> 2 ^ 53" "0 \<le> f" "f \<le> 1" "fmul (of_nat (n - 1)) f = p" "\<lfloor>p\<rfloor> \<noteq> \<lceil>p\<rceil>"
  shows "percentile (replicate n v) f =
    Inr (fadd (fmul v (fsub 1 (fsub p (of_int \<lfloor>p\<rfloor>)))) (fmul v (fsub p (of_int \<lfloor>p\<rfloor>))))"
proof -
  have "n - 1 \<le> 2 ^ 53" using assms(2) by linarith
  note pos = percentile_position[OF assms(3,4) this assms(5)[symmetric]]
  have "nat \<lceil>p\<rceil> < n" using pos(3) assms(1) by linarith
  moreover from this pos(2) have "nat \<lfloor>p\<rfloor> < n" by linarith
  ultimately show ?thesis using assms by (simp add: percentile_def Let_def sorted_sort_id)
qed

lemma two_fifths: "fl64 (2 / 5) = 3602879701896397 / 9007199254740992"
  by code_simp

lemma low_percentile:
  "percentile (replicate 10 (fl64 (2 / 5))) (fl64 (25 / 1000)) = Inr (7205759403792795 / 18014398509481984)"
proof -
  have f: "fl64 (25 / 1000) = 3602879701896397 / 144115188075855872" by code_simp
  have p: "fmul 9 (3602879701896397 / 144115188075855872) = 8106479329266893 / 36028797018963968" by code_simp
  have r: "fsub (8106479329266893 / 36028797018963968) 0 = 8106479329266893 / 36028797018963968" by code_simp
  have s: "fsub 1 (8106479329266893 / 36028797018963968) = 6980579422424269 / 9007199254740992" by code_simp
  have a: "fmul (3602879701896397 / 9007199254740992) (6980579422424269 / 9007199254740992) =
      698057942242427 / 2251799813685248" by code_simp
  have b: "fmul (3602879701896397 / 9007199254740992) (8106479329266893 / 36028797018963968) =
      6485183463413515 / 72057594037927936" by code_simp
  have c: "fadd (698057942242427 / 2251799813685248) (6485183463413515 / 72057594037927936) =
      7205759403792795 / 18014398509481984" by code_simp
  have i: "\<lfloor>8106479329266893 / 36028797018963968 :: rat\<rfloor> = 0" "\<lceil>8106479329266893 / 36028797018963968 :: rat\<rceil> = 1"
    by (simp_all add: floor_eq_iff ceiling_eq_iff)
  show ?thesis
    unfolding two_fifths f
    using percentile_replicate[of 10 "3602879701896397 / 144115188075855872" "8106479329266893 / 36028797018963968"
      "3602879701896397 / 9007199254740992"] p r s a b c by (simp add: i)
qed

lemma high_percentile:
  "percentile (replicate 10 (fl64 (2 / 5))) (fl64 (975 / 1000)) = Inr (3602879701896397 / 9007199254740992)"
proof -
  have f: "fl64 (975 / 1000) = 8782019273372467 / 9007199254740992" by code_simp
  have p: "fmul 9 (8782019273372467 / 9007199254740992) = 4939885841272013 / 562949953421312" by code_simp
  have r: "fsub (4939885841272013 / 562949953421312) 8 = 436286213901517 / 562949953421312" by code_simp
  have s: "fsub 1 (436286213901517 / 562949953421312) = 126663739519795 / 562949953421312" by code_simp
  have a: "fmul (3602879701896397 / 9007199254740992) (126663739519795 / 562949953421312) =
      25332747903959 / 281474976710656" by code_simp
  have b: "fmul (3602879701896397 / 9007199254740992) (436286213901517 / 562949953421312) =
      2792231768969709 / 9007199254740992" by code_simp
  have c: "fadd (25332747903959 / 281474976710656) (2792231768969709 / 9007199254740992) =
      3602879701896397 / 9007199254740992" by code_simp
  have i: "\<lfloor>4939885841272013 / 562949953421312 :: rat\<rfloor> = 8" "\<lceil>4939885841272013 / 562949953421312 :: rat\<rceil> = 9"
    by (simp_all add: floor_eq_iff ceiling_eq_iff)
  show ?thesis
    unfolding two_fifths f
    using percentile_replicate[of 10 "8782019273372467 / 9007199254740992" "4939885841272013 / 562949953421312"
      "3602879701896397 / 9007199254740992"] p r s a b c by (simp add: i)
qed

text \<open>
  C31. The interval can come out reversed: one task with two successes in five samples, one training seed
  and ten replicates that are all equal to its score give a 2.5% percentile above the 97.5% percentile,
  because the two interpolations round differently; no report with that interval is accepted.
\<close>

theorem bootstrap_interval_reversed:
  "\<exists>v lo hi. pass_at_k_estimate 5 2 1 = Inr v \<and>
     cluster_bootstrap_interval (\<lambda>_ _. 1) [(0, [(''t'', v)])] [sample_suite_task] 10 0 = Inr (lo, hi) \<and> hi < lo \<and>
     (\<forall>r. benchmark_report_check (r\<lparr>br_bootstrap_95 := Some (lo, hi)\<rparr>) \<noteq> None)"
proof -
  define v where "v = fl64 (2 / 5)"
  have e: "pass_at_k_estimate 5 2 1 = Inr v"
    unfolding v_def by code_simp
  have reps: "replicate_score [(''cl'', 1)] [(0, 1)] [(0, [(''t'', v)])] [sample_suite_task] [0] = Inr v"
    by (simp add: replicate_score_def root_mean_def sample_suite_task_def stratum_def item_def fsum_def truediv_def
        Let_def v_def) (simp add: fmul_def fadd_def fdiv_def fl64_idem)
  define lo :: rat where "lo = 7205759403792795 / 18014398509481984"
  define hi :: rat where "hi = 3602879701896397 / 9007199254740992"
  have p: "percentile (replicate 10 v) (fl64 (25 / 1000)) = Inr lo"
    "percentile (replicate 10 v) (fl64 (975 / 1000)) = Inr hi" "hi < lo"
    unfolding v_def lo_def hi_def low_percentile high_percentile by simp_all
  have "cluster_bootstrap_interval (\<lambda>_ _. 1) [(0, [(''t'', v)])] [sample_suite_task] 10 0 = Inr (lo, hi)"
    using p(1,2) reps by (simp add: cluster_bootstrap_interval_def Let_def sample_suite_task_def upt_rec numeral_eq_Suc)
  moreover have "benchmark_report_check (r\<lparr>br_bootstrap_95 := Some (lo, hi)\<rparr>) \<noteq> None" for r :: benchmark_report
    using p(3) by (simp add: benchmark_report_check_def orelse_None_iff)
  ultimately show ?thesis using e p(3) by blast
qed

end
