(* ===== verification/Utf8.thy ===== *)
theory Utf8
  imports Bytes
begin

text \<open>
  Strict UTF-8 as \<open>bytes.decode("utf-8", errors="strict")\<close> and \<open>str.encode("utf-8")\<close> of the language: text
  is a list of code points, surrogates have no encoding, and a sequence that is overlong, truncated, beyond
  \<open>U+10FFFF\<close> or a surrogate does not decode.
\<close>

definition scalar :: "nat \<Rightarrow> bool" where
  "scalar c \<longleftrightarrow> c < 0xD800 \<or> 0xE000 \<le> c \<and> c < 0x110000"

definition byte_of :: "nat \<Rightarrow> byte" where
  "byte_of n = of_nat n"

definition utf8_code :: "nat \<Rightarrow> byte list" where
  "utf8_code c =
     (if c < 0x80 then [byte_of c]
      else if c < 0x800 then [byte_of (0xC0 + c div 64), byte_of (0x80 + c mod 64)]
      else if c < 0x10000 then [byte_of (0xE0 + c div 4096), byte_of (0x80 + c div 64 mod 64), byte_of (0x80 + c mod 64)]
      else [byte_of (0xF0 + c div 262144), byte_of (0x80 + c div 4096 mod 64), byte_of (0x80 + c div 64 mod 64),
            byte_of (0x80 + c mod 64)])"

definition utf8_encode :: "nat list \<Rightarrow> byte list" where
  "utf8_encode cs = concat (map utf8_code cs)"

definition cont :: "byte \<Rightarrow> bool" where
  "cont b \<longleftrightarrow> 0x80 \<le> unat b \<and> unat b < 0xC0"

definition low6 :: "byte \<Rightarrow> nat" where
  "low6 b = unat b - 0x80"

text \<open>One code point from the front of the bytes.\<close>

definition utf8_next :: "byte list \<Rightarrow> (nat \<times> byte list) option" where
  "utf8_next bs = (case bs of
     [] \<Rightarrow> None
   | b0 # bs1 \<Rightarrow>
     if unat b0 < 0x80 then Some (unat b0, bs1)
     else if 0xC2 \<le> unat b0 \<and> unat b0 < 0xE0 then
       (case bs1 of b1 # rest \<Rightarrow> if cont b1 then Some ((unat b0 - 0xC0) * 64 + low6 b1, rest) else None
        | _ \<Rightarrow> None)
     else if 0xE0 \<le> unat b0 \<and> unat b0 < 0xF0 then
       (case bs1 of b1 # b2 # rest \<Rightarrow>
          let c = (unat b0 - 0xE0) * 4096 + low6 b1 * 64 + low6 b2 in
          if cont b1 \<and> cont b2 \<and> 0x800 \<le> c \<and> scalar c then Some (c, rest) else None
        | _ \<Rightarrow> None)
     else if 0xF0 \<le> unat b0 \<and> unat b0 < 0xF5 then
       (case bs1 of b1 # b2 # b3 # rest \<Rightarrow>
          let c = (unat b0 - 0xF0) * 262144 + low6 b1 * 4096 + low6 b2 * 64 + low6 b3 in
          if cont b1 \<and> cont b2 \<and> cont b3 \<and> 0x10000 \<le> c \<and> scalar c then Some (c, rest) else None
        | _ \<Rightarrow> None)
     else None)"

lemma utf8_next_shorter: "utf8_next bs = Some (c, rest) \<Longrightarrow> length rest < length bs"
  by (auto simp: utf8_next_def Let_def split: list.splits if_splits)

function utf8_decode :: "byte list \<Rightarrow> nat list option" where
  "utf8_decode bs = (if bs = [] then Some [] else case utf8_next bs of
     None \<Rightarrow> None
   | Some (c, rest) \<Rightarrow> (case utf8_decode rest of None \<Rightarrow> None | Some cs \<Rightarrow> Some (c # cs)))"
  by pat_completeness auto

termination
  by (relation "measure length") (auto dest: utf8_next_shorter)

declare utf8_decode.simps [simp del]

section \<open>The round trip\<close>

lemma unat_byte: "n < 256 \<Longrightarrow> unat (byte_of n) = n"
  by (simp add: byte_of_def unat_of_nat)

lemma byte_of_unat_id: "unat b = n \<Longrightarrow> byte_of n = b"
  by (auto simp: byte_of_def)

lemma split6: "c div 64 * 64 + c mod 64 = (c :: nat)"
  by (rule div_mult_mod_eq)

lemma split12: "c div 4096 * 64 + c div 64 mod 64 = (c :: nat) div 64"
  using div_mult_mod_eq[of "c div 64" 64] by (simp add: div_mult2_eq[symmetric])

lemma split18: "c div 262144 * 64 + c div 4096 mod 64 = (c :: nat) div 4096"
  using div_mult_mod_eq[of "c div 4096" 64] by (simp add: div_mult2_eq[symmetric])

lemma next_three:
  assumes "unat b0 = 0xE0 + x" "x < 16" "unat b1 = 0x80 + y" "y < 64" "unat b2 = 0x80 + z" "z < 64"
    "c = x * 4096 + y * 64 + z" "0x800 \<le> c" "scalar c"
  shows "utf8_next (b0 # b1 # b2 # rest) = Some (c, rest)"
proof -
  have "cont b1" "cont b2" "low6 b1 = y" "low6 b2 = z" using assms(3-6) by (simp_all add: cont_def low6_def)
  then show ?thesis using assms(1,2,7-9) by (simp add: utf8_next_def Let_def)
qed

lemma next_four:
  assumes "unat b0 = 0xF0 + x" "x < 5" "unat b1 = 0x80 + y" "y < 64" "unat b2 = 0x80 + z" "z < 64"
    "unat b3 = 0x80 + w" "w < 64" "c = x * 262144 + y * 4096 + z * 64 + w" "0x10000 \<le> c" "scalar c"
  shows "utf8_next (b0 # b1 # b2 # b3 # rest) = Some (c, rest)"
proof -
  have "cont b1" "cont b2" "cont b3" "low6 b1 = y" "low6 b2 = z" "low6 b3 = w"
    using assms(3-8) by (simp_all add: cont_def low6_def)
  then show ?thesis using assms(1,2,9-11) by (simp add: utf8_next_def Let_def)
qed

lemma next_code:
  assumes "scalar c" shows "utf8_next (utf8_code c @ rest) = Some (c, rest)"
proof -
  have c: "c < 0x110000" using assms by (auto simp: scalar_def)
  consider "c < 0x80" | "0x80 \<le> c" "c < 0x800" | "0x800 \<le> c" "c < 0x10000" | "0x10000 \<le> c" by linarith
  then show ?thesis
  proof cases
    case 1
    then show ?thesis by (simp add: utf8_code_def utf8_next_def unat_byte)
  next
    case 2
    then have "c div 64 < 32" "2 \<le> c div 64" by (simp_all add: div_less_iff_less_mult less_eq_div_iff_mult_less_eq)
    then show ?thesis using 2 by (simp add: utf8_code_def utf8_next_def unat_byte cont_def low6_def)
  next
    case 3
    then have x: "c div 4096 < 16" by (simp add: div_less_iff_less_mult)
    have "c = c div 4096 * 4096 + c div 64 mod 64 * 64 + c mod 64" using split6[of c] split12[of c] by linarith
    then have "utf8_next (byte_of (0xE0 + c div 4096) # byte_of (0x80 + c div 64 mod 64) # byte_of (0x80 + c mod 64) # rest) =
        Some (c, rest)" using x 3(1) assms by (intro next_three) (auto simp: unat_byte)
    then show ?thesis using 3 by (simp add: utf8_code_def)
  next
    case 4
    then have x: "c div 262144 < 5" using c by (simp add: div_less_iff_less_mult)
    have "c = c div 262144 * 262144 + c div 4096 mod 64 * 4096 + c div 64 mod 64 * 64 + c mod 64"
      using split6[of c] split12[of c] split18[of c] by linarith
    then have "utf8_next (byte_of (0xF0 + c div 262144) # byte_of (0x80 + c div 4096 mod 64) #
        byte_of (0x80 + c div 64 mod 64) # byte_of (0x80 + c mod 64) # rest) = Some (c, rest)"
      using x 4 assms by (intro next_four) (auto simp: unat_byte)
    then show ?thesis using 4 by (simp add: utf8_code_def)
  qed
qed

lemma cont_low6: "cont b \<Longrightarrow> low6 b < 64 \<and> unat b = 0x80 + low6 b"
  by (auto simp: cont_def low6_def)

lemma digits2: "x < 64 \<Longrightarrow> (a * 64 + x) div 64 = a \<and> (a * 64 + x) mod 64 = (x :: nat)"
  by simp

lemma digits3:
  assumes "x < 64" "y < (64 :: nat)"
  shows "(a * 4096 + y * 64 + x) div 4096 = a" "(a * 4096 + y * 64 + x) div 64 mod 64 = y" "(a * 4096 + y * 64 + x) mod 64 = x"
proof -
  have e: "a * 4096 + y * 64 + x = (a * 64 + y) * 64 + x" by simp
  show "(a * 4096 + y * 64 + x) mod 64 = x" unfolding e using digits2[OF assms(1)] by blast
  have d: "(a * 4096 + y * 64 + x) div 64 = a * 64 + y" unfolding e using digits2[OF assms(1)] by blast
  then show "(a * 4096 + y * 64 + x) div 64 mod 64 = y" using digits2[OF assms(2), of a] by simp
  have "(a * 4096 + y * 64 + x) div 4096 = (a * 4096 + y * 64 + x) div 64 div 64" by (simp add: div_mult2_eq[symmetric])
  then show "(a * 4096 + y * 64 + x) div 4096 = a" using d digits2[OF assms(2), of a] by simp
qed

lemma digits4:
  assumes "x < 64" "y < 64" "z < (64 :: nat)"
  shows "(a * 262144 + z * 4096 + y * 64 + x) div 262144 = a" "(a * 262144 + z * 4096 + y * 64 + x) div 4096 mod 64 = z"
    "(a * 262144 + z * 4096 + y * 64 + x) div 64 mod 64 = y" "(a * 262144 + z * 4096 + y * 64 + x) mod 64 = x"
proof -
  let ?c = "a * 262144 + z * 4096 + y * 64 + x"
  have e: "?c = (a * 64 + z) * 4096 + y * 64 + x" by simp
  note d = digits3[OF assms(1,2), of "a * 64 + z"]
  show "?c div 64 mod 64 = y" "?c mod 64 = x" unfolding e using d(2,3) by blast+
  have f: "?c div 4096 = a * 64 + z" unfolding e using d(1) by blast
  then show "?c div 4096 mod 64 = z" using digits2[OF assms(3), of a] by simp
  have "?c div 262144 = ?c div 4096 div 64" by (simp add: div_mult2_eq[symmetric])
  then show "?c div 262144 = a" using f digits2[OF assms(3), of a] by simp
qed

lemma next_sound:
  assumes "utf8_next bs = Some (c, rest)"
  shows "scalar c \<and> bs = utf8_code c @ rest"
proof -
  obtain b0 bs1 where bs: "bs = b0 # bs1" using assms by (auto simp: utf8_next_def split: list.splits)
  consider (one) "unat b0 < 0x80" "c = unat b0" "rest = bs1"
    | (two) b1 where "0xC2 \<le> unat b0" "unat b0 < 0xE0" "bs1 = b1 # rest" "cont b1" "c = (unat b0 - 0xC0) * 64 + low6 b1"
    | (three) b1 b2 where "0xE0 \<le> unat b0" "unat b0 < 0xF0" "bs1 = b1 # b2 # rest" "cont b1" "cont b2"
        "c = (unat b0 - 0xE0) * 4096 + low6 b1 * 64 + low6 b2" "0x800 \<le> c" "scalar c"
    | (four) b1 b2 b3 where "0xF0 \<le> unat b0" "unat b0 < 0xF5" "bs1 = b1 # b2 # b3 # rest" "cont b1" "cont b2" "cont b3"
        "c = (unat b0 - 0xF0) * 262144 + low6 b1 * 4096 + low6 b2 * 64 + low6 b3" "0x10000 \<le> c" "scalar c"
    using assms by (auto simp: bs utf8_next_def Let_def split: list.splits if_splits)
  then show ?thesis
  proof cases
    case one
    then show ?thesis by (simp add: bs utf8_code_def scalar_def byte_of_unat_id)
  next
    case two
    note l = cont_low6[OF two(4)]
    have d: "c div 64 = unat b0 - 0xC0" "c mod 64 = low6 b1" using digits2[of "low6 b1" "unat b0 - 0xC0"] l two(5) by auto
    have r: "0x80 \<le> c" "c < 0x800" using two(1,2,5) l by auto
    have "byte_of (0xC0 + c div 64) = b0" "byte_of (0x80 + c mod 64) = b1"
      unfolding d using two(1) l by (auto intro: byte_of_unat_id)
    then show ?thesis using r two(3) by (simp add: bs utf8_code_def scalar_def)
  next
    case three
    note l = cont_low6[OF three(4)] cont_low6[OF three(5)]
    have d: "c div 4096 = unat b0 - 0xE0" "c div 64 mod 64 = low6 b1" "c mod 64 = low6 b2"
      unfolding three(6) using digits3[of "low6 b2" "low6 b1" "unat b0 - 0xE0"] l by auto
    have r: "c < 0x10000" using three(2,6) l by auto
    have "byte_of (0xE0 + c div 4096) = b0" "byte_of (0x80 + c div 64 mod 64) = b1" "byte_of (0x80 + c mod 64) = b2"
      unfolding d using three(1) l by (auto intro: byte_of_unat_id)
    then show ?thesis using r three(3,7,8) by (simp add: bs utf8_code_def)
  next
    case four
    note l = cont_low6[OF four(4)] cont_low6[OF four(5)] cont_low6[OF four(6)]
    have d: "c div 262144 = unat b0 - 0xF0" "c div 4096 mod 64 = low6 b1" "c div 64 mod 64 = low6 b2" "c mod 64 = low6 b3"
      unfolding four(7) using digits4[of "low6 b3" "low6 b2" "low6 b1" "unat b0 - 0xF0"] l by auto
    have "byte_of (0xF0 + c div 262144) = b0" "byte_of (0x80 + c div 4096 mod 64) = b1"
      "byte_of (0x80 + c div 64 mod 64) = b2" "byte_of (0x80 + c mod 64) = b3"
      unfolding d using four(1) l by (auto intro: byte_of_unat_id)
    then show ?thesis using four(3,8,9) by (simp add: bs utf8_code_def)
  qed
qed

lemma utf8_code_ne: "utf8_code c \<noteq> []"
  by (simp add: utf8_code_def)

lemma decode_encode: "list_all scalar cs \<Longrightarrow> utf8_decode (utf8_encode cs) = Some cs"
proof (induction cs)
  case (Cons c cs)
  then show ?case using next_code[of c "utf8_encode cs"] utf8_code_ne[of c]
    by (subst utf8_decode.simps) (simp add: utf8_encode_def)
qed (simp add: utf8_encode_def utf8_decode.simps)

lemma decode_sound: "utf8_decode bs = Some cs \<Longrightarrow> list_all scalar cs \<and> utf8_encode cs = bs"
proof (induction bs arbitrary: cs rule: utf8_decode.induct)
  case (1 bs)
  show ?case
  proof (cases "bs = []")
    case False
    then obtain c rest ds where n: "utf8_next bs = Some (c, rest)" "utf8_decode rest = Some ds" "cs = c # ds"
      using 1(2) by (subst (asm) utf8_decode.simps) (auto split: option.splits)
    then show ?thesis using 1(1)[OF False n(1), of c rest ds] next_sound[OF n(1)] by (auto simp: utf8_encode_def)
  qed (use 1(2) in \<open>auto simp: utf8_decode.simps utf8_encode_def\<close>)
qed

definition decode_utf8 :: "byte list \<Rightarrow> nat list result" where
  "decode_utf8 bs = (case utf8_decode bs of
     None \<Rightarrow> Inl (Exn ''UnicodeDecodeError'' ''utf-8'') | Some cs \<Rightarrow> Inr cs)"

interpretation utf8: codec utf8_encode decode_utf8 "list_all scalar"
  by unfold_locales (auto simp: decode_utf8_def decode_encode dest: decode_sound split: option.splits)

end
