(* ===== verification/Submission.thy ===== *)
theory Submission
  imports Utf8
begin

text \<open>
  \<open>submission.py\<close>: the strict extraction of a candidate C source.  Text is the list of its code points;
  \<open>is_space\<close> is the white space of \<open>str.strip\<close> and of \<open>\s\<close>.  The regular expression is matched as its
  quantifiers demand: \<open>\s*\n\<close> is greedy, the source is lazy.
\<close>

section \<open>Text\<close>

definition is_space :: "nat \<Rightarrow> bool" where
  "is_space c \<longleftrightarrow> 9 \<le> c \<and> c \<le> 13 \<or> 28 \<le> c \<and> c \<le> 32 \<or> c = 0x85 \<or> c = 0xA0 \<or> c = 0x1680 \<or>
     0x2000 \<le> c \<and> c \<le> 0x200A \<or> c = 0x2028 \<or> c = 0x2029 \<or> c = 0x202F \<or> c = 0x205F \<or> c = 0x3000"

abbreviation (input) backtick :: nat where "backtick \<equiv> 96"
abbreviation (input) newline :: nat where "newline \<equiv> 10"

text \<open>\<open>text.count("```")\<close>: occurrences from the left that do not overlap.\<close>

fun count_fence :: "nat list \<Rightarrow> nat" where
  "count_fence [] = 0"
| "count_fence [a] = 0"
| "count_fence [a, b] = 0"
| "count_fence (a # b # c # cs) =
     (if a = backtick \<and> b = backtick \<and> c = backtick then Suc (count_fence cs) else count_fence (b # c # cs))"

text \<open>\<open>(?P<source>.*?)\n```\s*\Z\<close>\<close>

definition closes :: "nat list \<Rightarrow> bool" where
  "closes cs \<longleftrightarrow> take 4 cs = [newline, backtick, backtick, backtick] \<and> list_all is_space (drop 4 cs)"

fun fenced_source :: "nat list \<Rightarrow> nat list option" where
  "fenced_source [] = None"
| "fenced_source (c # cs) = (if closes (c # cs) then Some [] else map_option ((#) c) (fenced_source cs))"

text \<open>\<open>\s*\n\<close> and the source: the newlines of the leading white space are tried from the last one back.\<close>

definition fence_body :: "nat list \<Rightarrow> nat list option" where
  "fence_body cs = (case filter (\<lambda>m. m \<noteq> None) (map (\<lambda>n. fenced_source (drop (Suc n) cs))
       (rev (filter (\<lambda>n. cs ! n = newline) [0..<length (takeWhile is_space cs)]))) of
     [] \<Rightarrow> None | m # _ \<Rightarrow> m)"

definition match_fence :: "nat list \<Rightarrow> nat list option" where
  "match_fence text = (case dropWhile is_space text of
     a # b # c # l # rest \<Rightarrow>
       if [a, b, c] = [backtick, backtick, backtick] \<and> (l = 99 \<or> l = 67) then fence_body rest else None
   | _ \<Rightarrow> None)"

section \<open>Extraction\<close>

abbreviation SubmissionError :: "string \<Rightarrow> exn" where
  "SubmissionError m \<equiv> Exn ''SubmissionError'' m"

definition extract_c_source :: "byte list \<Rightarrow> int \<Rightarrow> bool \<Rightarrow> byte list result" where
  "extract_c_source raw max_bytes allow_fence =
     (if int (length raw) > max_bytes then Inl (SubmissionError ''response exceeds the byte limit'')
      else case utf8_decode raw of
        None \<Rightarrow> Inl (SubmissionError ''response is not valid UTF-8'')
      | Some text \<Rightarrow>
        if 0 \<in> set text then Inl (SubmissionError ''response contains a NUL byte'')
        else if count_fence text = 0 then
          (if list_all is_space text then Inl (SubmissionError ''response is empty'') else Inr raw)
        else if \<not> allow_fence then Inl (SubmissionError ''Markdown fences are disabled for this task'')
        else if count_fence text \<noteq> 2 then Inl (SubmissionError ''response must contain exactly one Markdown fence'')
        else case match_fence text of
          None \<Rightarrow> Inl (SubmissionError ''response must contain exactly one C fence and only whitespace outside it'')
        | Some source \<Rightarrow>
          if list_all is_space source then Inl (SubmissionError ''C fence is empty'') else Inr (utf8_encode source))"

section \<open>What a fence match means\<close>

lemma count_fence_sep: "y \<noteq> backtick \<Longrightarrow> count_fence (xs @ y # ys) = count_fence xs + count_fence (y # ys)"
  by (induction xs rule: count_fence.induct) (cases ys; auto)+

lemma count_fence_skip: "y \<noteq> backtick \<Longrightarrow> count_fence (y # ys) = count_fence ys"
  by (cases ys rule: count_fence.cases) auto

lemma count_fence_none: "backtick \<notin> set xs \<Longrightarrow> count_fence xs = 0"
  by (induction xs rule: count_fence.induct) auto

lemma count_fence_prefix:
  assumes "backtick \<notin> set xs" shows "count_fence (xs @ ys) = count_fence ys"
  using assms
proof (induction xs)
  case (Cons x xs)
  then show ?case using count_fence_skip[of x "xs @ ys"] by simp
qed simp

lemma space_not_backtick: "is_space c \<Longrightarrow> c \<noteq> backtick"
  by (auto simp: is_space_def)

lemma fenced_source_split:
  "fenced_source cs = Some src \<Longrightarrow> \<exists>ws. cs = src @ [newline, backtick, backtick, backtick] @ ws \<and> list_all is_space ws"
proof (induction cs arbitrary: src)
  case (Cons c cs)
  show ?case
  proof (cases "closes (c # cs)")
    case True
    then have "c # cs = [newline, backtick, backtick, backtick] @ drop 4 (c # cs)"
      by (metis append_take_drop_id closes_def)
    then show ?thesis using True Cons.prems by (auto simp: closes_def)
  next
    case False
    then obtain s where "src = c # s" "fenced_source cs = Some s" using Cons.prems by auto
    then show ?thesis using Cons.IH[of s] by auto
  qed
qed simp

lemma first_found: "(case xs of [] \<Rightarrow> None | m # _ \<Rightarrow> m) = Some s \<Longrightarrow> Some s \<in> set xs"
  by (cases xs) auto

lemma fence_body_split:
  assumes "fence_body cs = Some src"
  shows "\<exists>ws ws'. cs = ws @ [newline] @ src @ [newline, backtick, backtick, backtick] @ ws' \<and>
    list_all is_space ws \<and> list_all is_space ws'"
proof -
  let ?ns = "rev (filter (\<lambda>n. cs ! n = newline) [0..<length (takeWhile is_space cs)])"
  have "Some src \<in> set (filter (\<lambda>m. m \<noteq> None) (map (\<lambda>n. fenced_source (drop (Suc n) cs)) ?ns))"
    using assms unfolding fence_body_def by (rule first_found)
  then obtain n where n: "n < length (takeWhile is_space cs)" "cs ! n = newline"
    "fenced_source (drop (Suc n) cs) = Some src" by auto
  have l: "n < length cs" using n(1) length_takeWhile_le[of is_space cs] by linarith
  obtain ws' where ws': "drop (Suc n) cs = src @ [newline, backtick, backtick, backtick] @ ws'" "list_all is_space ws'"
    using fenced_source_split[OF n(3)] by blast
  have "cs = take n cs @ [newline] @ drop (Suc n) cs" using id_take_nth_drop[OF l] n(2) by simp
  moreover have "list_all is_space (take n cs)"
  proof -
    have "take n cs = take n (takeWhile is_space cs)"
      using n(1) by (metis append_take_drop_id less_imp_le takeWhile_dropWhile_id take_append take_all_iff
          append_Nil2 diff_is_0_eq take_eq_Nil)
    then show ?thesis by (auto simp: list_all_iff dest: in_set_takeD set_takeWhileD)
  qed
  ultimately show ?thesis using ws' by metis
qed

lemma match_fence_split:
  assumes "match_fence text = Some src"
  shows "\<exists>ws0 l ws ws'. text = ws0 @ [backtick, backtick, backtick, l] @ ws @ [newline] @ src @
      [newline, backtick, backtick, backtick] @ ws' \<and> list_all is_space ws0 \<and> (l = 99 \<or> l = 67) \<and>
    list_all is_space ws \<and> list_all is_space ws'"
proof -
  obtain l rest where r: "dropWhile is_space text = [backtick, backtick, backtick, l] @ rest" "l = 99 \<or> l = 67"
    "fence_body rest = Some src" using assms by (auto simp: match_fence_def split: list.splits if_splits)
  obtain ws ws' where "rest = ws @ [newline] @ src @ [newline, backtick, backtick, backtick] @ ws'"
    "list_all is_space ws" "list_all is_space ws'" using fence_body_split[OF r(3)] by blast
  moreover have "list_all is_space (takeWhile is_space text)" by (auto simp: list_all_iff dest: set_takeWhileD)
  moreover have "text = takeWhile is_space text @ dropWhile is_space text" by simp
  ultimately show ?thesis using r by (metis append_assoc)
qed

lemma fenced_source_plain:
  assumes "match_fence text = Some src" "count_fence text = 2"
  shows "count_fence src = 0"
proof -
  obtain ws0 l ws ws' where t: "text = ws0 @ [backtick, backtick, backtick, l] @ ws @ [newline] @ src @
      [newline, backtick, backtick, backtick] @ ws'" "list_all is_space ws0" "l = 99 \<or> l = 67"
    "list_all is_space ws" "list_all is_space ws'" using match_fence_split[OF assms(1)] by blast
  have b: "backtick \<notin> set ws0" "backtick \<notin> set (l # ws @ [newline])"
    using t(2-4) space_not_backtick by (auto simp: list_all_iff)
  have "count_fence text = Suc (count_fence ((l # ws @ [newline]) @ src @ newline # [backtick, backtick, backtick] @ ws'))"
    unfolding t(1) using count_fence_prefix[OF b(1)] by simp
  also have "\<dots> = Suc (count_fence (src @ newline # [backtick, backtick, backtick] @ ws'))"
    unfolding count_fence_prefix[OF b(2)] ..
  also have "\<dots> = Suc (count_fence src + count_fence (newline # [backtick, backtick, backtick] @ ws'))"
    using count_fence_sep[of newline src "[backtick, backtick, backtick] @ ws'"] by simp
  also have "count_fence (newline # [backtick, backtick, backtick] @ ws') = Suc (count_fence ws')"
    using count_fence_skip[of newline "[backtick, backtick, backtick] @ ws'"] by simp
  finally show ?thesis using assms(2) by simp
qed

lemma utf8_encode_append: "utf8_encode (xs @ ys) = utf8_encode xs @ utf8_encode ys"
  by (simp add: utf8_encode_def)

lemma extract_InrE:
  assumes "extract_c_source raw n allow = Inr src"
  obtains cs where "int (length raw) \<le> n" "utf8_decode raw = Some cs" "0 \<notin> set cs" "count_fence cs = 0"
      "\<not> list_all is_space cs" "src = raw"
    | cs source where "int (length raw) \<le> n" "allow" "utf8_decode raw = Some cs" "0 \<notin> set cs" "count_fence cs = 2"
      "match_fence cs = Some source" "\<not> list_all is_space source" "src = utf8_encode source"
  using assms by (auto simp: extract_c_source_def split: if_splits option.splits)

text \<open>
  C32. What is extracted is a contiguous part of the response, within the byte limit, and plain: extracting
  it again with fences disabled, as a prepared job does before dispatch, returns it unchanged.
\<close>

theorem extraction_is_plain:
  assumes "extract_c_source raw n allow = Inr src"
  shows "int (length src) \<le> n \<and> (\<exists>pre post. raw = pre @ src @ post) \<and> extract_c_source src n False = Inr src"
  using assms
proof (cases rule: extract_InrE)
  case (1 cs)
  then have "\<exists>pre post. raw = pre @ src @ post" by (intro exI[of _ "[]"]) simp
  then show ?thesis using 1 by (simp add: extract_c_source_def)
next
  case (2 cs source)
  obtain a b where ab: "cs = a @ source @ b" using match_fence_split[OF 2(6)] by (metis append_assoc)
  have r: "list_all scalar cs" "raw = utf8_encode cs" using decode_sound[OF 2(3)] by auto
  then have s: "raw = utf8_encode a @ src @ utf8_encode b" using ab 2(8) by (simp add: utf8_encode_append)
  have "utf8_decode src = Some source" using r(1) ab decode_encode[of source] 2(8) by simp
  moreover have "count_fence source = 0" by (rule fenced_source_plain[OF 2(6,5)])
  moreover have "0 \<notin> set source" using 2(4) ab by simp
  moreover have "int (length src) \<le> n" using 2(1) s by simp
  ultimately show ?thesis using s 2(7) by (auto simp: extract_c_source_def)
qed

theorem extraction_is_plain_witness:
  "extract_c_source (utf8_encode [96, 96, 96, 99, 10, 105, 59, 10, 96, 96, 96]) 64 True = Inr (utf8_encode [105, 59]) \<and>
   extract_c_source (utf8_encode [105, 59]) 64 False = Inr (utf8_encode [105, 59])"
proof -
  have d: "utf8_decode (utf8_encode [96, 96, 96, 99, 10, 105, 59, 10, 96, 96, 96]) =
      Some [96, 96, 96, 99, 10, 105, 59, 10, 96, 96, 96]" by (rule decode_encode) (simp add: scalar_def)
  have m: "match_fence [96, 96, 96, 99, 10, 105, 59, 10, 96, 96, 96] = Some [105, 59]"
    by (simp add: match_fence_def fence_body_def is_space_def closes_def)
  have l: "length (utf8_encode [96, 96, 96, 99, 10, 105, 59, 10, 96, 96, 96]) = 11"
    by (simp add: utf8_encode_def utf8_code_def)
  have "extract_c_source (utf8_encode [96, 96, 96, 99, 10, 105, 59, 10, 96, 96, 96]) 64 True = Inr (utf8_encode [105, 59])"
    unfolding extract_c_source_def d l by (simp add: m is_space_def)
  then show ?thesis using extraction_is_plain by blast
qed

end
