(* ===== verification/Job.thy ===== *)
theory Job
  imports Experiments Submission
begin

text \<open>
  The data of \<open>job.py\<close> and the task bundle it starts from: evaluation plans, the scoring contract a
  plan admits, the physical blob table and the cross-bound job manifest, with every field constraint and
  validator in source order.  The contract \<open>task.py\<close> derives from the bundle itself is here as well.
  Fields of a single literal value are written by the dump functions and need no component.
\<close>

abbreviation JobBundleError :: "string \<Rightarrow> exn" where
  "JobBundleError m \<equiv> Exn ''JobBundleError'' m"

definition MAX_JOB_MANIFEST_BYTES :: nat where "MAX_JOB_MANIFEST_BYTES = 256 * 1024"
definition MAX_JOB_JSON_DEPTH :: nat where "MAX_JOB_JSON_DEPTH = 64"
definition MAX_JOB_JSON_NODES :: nat where "MAX_JOB_JSON_NODES = 65536"
definition MAX_JOB_BLOBS :: nat where "MAX_JOB_BLOBS = 256"
definition MAX_JOB_BLOB_BYTES :: nat where "MAX_JOB_BLOB_BYTES = 16 * 1024 * 1024"
definition MAX_JOB_TOTAL_BLOB_BYTES :: nat where "MAX_JOB_TOTAL_BLOB_BYTES = 128 * 1024 * 1024"

section \<open>Task bundles and plans\<close>

record task_bundle =
  tb_public :: public_task
  tb_private :: private_grader
  tb_public_sha256 :: string
  tb_private_sha256 :: string
  tb_bundle_sha256 :: string

record job_blob =
  jb_sha256 :: string
  jb_size_bytes :: int

definition job_blob_ok :: "job_blob \<Rightarrow> bool" where
  "job_blob_ok b \<longleftrightarrow> sha256_ok (jb_sha256 b) \<and> 1 \<le> jb_size_bytes b \<and> jb_size_bytes b \<le> int MAX_JOB_BLOB_BYTES"

definition job_blob_json :: "job_blob \<Rightarrow> json" where
  "job_blob_json b = JObj [(''sha256'', JStr (jb_sha256 b)), (''size_bytes'', JInt (jb_size_bytes b))]"

record evaluation_case =
  ec_case_id :: string
  ec_input :: artifact_ref
  ec_assertions :: "assertion_spec list"

definition evaluation_case_check :: "evaluation_case \<Rightarrow> exn option" where
  "evaluation_case_check c = raises
     [(\<not> stable_id (ec_case_id c), VE ''case_id''), (\<not> artifact_ref_ok (ec_input c), VE ''input''),
      (ec_assertions c = [] \<or> 256 < length (ec_assertions c) \<or> \<not> list_all assertion_spec_ok (ec_assertions c),
        VE ''assertions''),
      (\<not> distinct (map av_assertion_id (ec_assertions c)), VE ''functional assertion IDs must be unique within a case'')]"

definition evaluation_case_json :: "evaluation_case \<Rightarrow> json" where
  "evaluation_case_json c = JObj
     [(''case_id'', JStr (ec_case_id c)), (''input'', artifact_ref_json (ec_input c)),
      (''assertions'', jarr assertion_spec_json (ec_assertions c))]"

record evaluation_plan =
  vp_task_id :: string
  vp_task_version :: string
  vp_family :: family
  vp_public_task_sha256 :: string
  vp_private_grader_sha256 :: string
  vp_task_bundle_sha256 :: string
  vp_environment_id :: string
  vp_candidate_contract :: candidate_contract
  vp_program :: program_contract
  vp_public_sdk_id :: string
  vp_max_attempts :: int
  vp_whole_attempt_timeout_seconds :: int
  vp_functional_cases :: "evaluation_case list"
  vp_semantic_obligations :: "semantic_obligation list"

definition bundle_digest :: "hasher \<Rightarrow> string \<Rightarrow> string \<Rightarrow> string" where
  "bundle_digest h public_sha256 private_sha256 = sha256_json h (JObj
     [(''schema_version'', JStr ''bpe.task-bundle.v1''), (''public_sha256'', JStr public_sha256),
      (''private_sha256'', JStr private_sha256)])"

definition single_xdp :: "program_contract \<Rightarrow> bool" where
  "single_xdp p \<longleftrightarrow> pc_program_type p = ''xdp'' \<and> pc_section p = ''xdp'' \<and> pc_max_programs p = 1"

definition evaluation_plan_check :: "hasher \<Rightarrow> evaluation_plan \<Rightarrow> exn option" where
  "evaluation_plan_check h p = raises
     [(\<not> stable_id (vp_task_id p), VE ''task_id''), (\<not> stable_id (vp_task_version p), VE ''task_version''),
      (\<not> sha256_ok (vp_public_task_sha256 p), VE ''public_task_sha256''),
      (\<not> sha256_ok (vp_private_grader_sha256 p), VE ''private_grader_sha256''),
      (\<not> sha256_ok (vp_task_bundle_sha256 p), VE ''task_bundle_sha256''),
      (\<not> stable_id (vp_environment_id p), VE ''environment_id''),
      (\<not> candidate_contract_ok (vp_candidate_contract p), VE ''candidate_contract''),
      (\<not> program_contract_ok (vp_program p), VE ''program''), (\<not> stable_id (vp_public_sdk_id p), VE ''public_sdk_id''),
      (\<not> (1 \<le> vp_max_attempts p \<and> vp_max_attempts p \<le> 16), VE ''max_attempts''),
      (\<not> (1 \<le> vp_whole_attempt_timeout_seconds p \<and> vp_whole_attempt_timeout_seconds p \<le> 600),
        VE ''whole_attempt_timeout_seconds''),
      (vp_functional_cases p = [] \<or> 256 < length (vp_functional_cases p) \<or>
         list_ex (\<lambda>c. evaluation_case_check c \<noteq> None) (vp_functional_cases p), VE ''functional_cases''),
      (vp_semantic_obligations p = [] \<or> 1024 < length (vp_semantic_obligations p) \<or>
         \<not> list_all semantic_obligation_ok (vp_semantic_obligations p), VE ''semantic_obligations''),
      (\<not> single_xdp (vp_program p), VE ''evaluation-plan v1 supports exactly one XDP program''),
      (cc_allow_markdown_fence (vp_candidate_contract p),
        VE ''evaluation-plan candidates must be post-extraction plain C source''),
      (vp_task_bundle_sha256 p \<noteq> bundle_digest h (vp_public_task_sha256 p) (vp_private_grader_sha256 p),
        VE ''evaluation-plan task bundle digest is inconsistent''),
      (\<not> distinct (map ec_case_id (vp_functional_cases p)), VE ''evaluation-plan functional case IDs must be unique''),
      (\<not> distinct (map so_obligation_id (vp_semantic_obligations p)),
        VE ''evaluation-plan semantic obligation IDs must be unique'')]"

definition evaluation_plan_json :: "evaluation_plan \<Rightarrow> json" where
  "evaluation_plan_json p = JObj
     [(''schema_version'', JStr ''bpe.evaluation-plan.v1''), (''profile'', JStr ''xdp-bpf-prog-test-run-v1''),
      (''task_id'', JStr (vp_task_id p)), (''task_version'', JStr (vp_task_version p)),
      (''family'', JStr (family_value (vp_family p))), (''public_task_sha256'', JStr (vp_public_task_sha256 p)),
      (''private_grader_sha256'', JStr (vp_private_grader_sha256 p)),
      (''task_bundle_sha256'', JStr (vp_task_bundle_sha256 p)), (''environment_id'', JStr (vp_environment_id p)),
      (''candidate_contract'', candidate_contract_json (vp_candidate_contract p)),
      (''program'', program_contract_json (vp_program p)), (''public_sdk_id'', JStr (vp_public_sdk_id p)),
      (''max_attempts'', JInt (vp_max_attempts p)),
      (''whole_attempt_timeout_seconds'', JInt (vp_whole_attempt_timeout_seconds p)),
      (''functional_cases'', jarr evaluation_case_json (vp_functional_cases p)),
      (''semantic_obligations'', jarr semantic_obligation_json (vp_semantic_obligations p)),
      (''strict_scoring_policy_id'', JStr ''strict-success-v1'')]"

section \<open>Scoring contracts\<close>

text \<open>The constructors of \<open>ExpectedCheck\<close> and \<open>ScoringContract\<close>.\<close>

definition ExpectedCheck :: "stage \<Rightarrow> string \<Rightarrow> bool \<Rightarrow> rat \<Rightarrow> artifact_dict \<Rightarrow> expected_check result" where
  "ExpectedCheck stage check_id required weight inputs =
     (let x = \<lparr> xc_stage = stage, xc_check_id = check_id, xc_required = required, xc_weight = weight,
        xc_input_artifacts = inputs \<rparr>
      in if expected_check_ok x then Inr x else Inl (VE ''expected check''))"

definition ScoringContract :: "string \<Rightarrow> string \<Rightarrow> string \<Rightarrow> expected_check list \<Rightarrow> contract result" where
  "ScoringContract task_id task_version bundle_sha256 checks =
     (let c = \<lparr> sc_task_id = task_id, sc_task_version = task_version, sc_task_bundle_sha256 = bundle_sha256,
        sc_checks = checks \<rparr>
      in check (contract_check c) (Inr c))"

definition object_checks :: "expected_check list result" where
  "object_checks = traverse (\<lambda>name. ExpectedCheck OBJECT_POLICY name True 1 [])
     [''object/entrypoint'', ''object/program-type'', ''object/section'', ''object/program-count'']"

definition functional_check_id :: "string \<Rightarrow> string \<Rightarrow> string" where
  "functional_check_id case_id assertion_id = ''functional/'' @ case_id @ ''/'' @ assertion_id"

definition semantic_checks :: "semantic_obligation list \<Rightarrow> expected_check list result" where
  "semantic_checks = traverse (\<lambda>s. ExpectedCheck SEMANTICS (''semantics/'' @ so_obligation_id s) (so_required s) 1 [])"

definition plan_functional_checks :: "evaluation_plan \<Rightarrow> expected_check list result" where
  "plan_functional_checks p = traverse (\<lambda>(c, a). ExpectedCheck FUNCTIONAL
       (functional_check_id (ec_case_id c) (av_assertion_id a)) (av_required a) (av_weight a) [(''input'', ec_input c)])
     [(c, a). c \<leftarrow> vp_functional_cases p, a \<leftarrow> ec_assertions c]"

definition scoring_contract_for_plan :: "evaluation_plan \<Rightarrow> contract result" where
  "scoring_contract_for_plan p =
     rbind object_checks (\<lambda>object. rbind (plan_functional_checks p) (\<lambda>functional.
     rbind (semantic_checks (vp_semantic_obligations p)) (\<lambda>semantic.
       ScoringContract (vp_task_id p) (vp_task_version p) (vp_task_bundle_sha256 p) (object @ functional @ semantic))))"

definition task_case_input :: "functional_case \<Rightarrow> artifact_ref" where
  "task_case_input c = \<lparr> ar_sha256 = fr_sha256 (fc_input_ref c), ar_size_bytes = fr_size_bytes (fc_input_ref c),
     ar_media_type = ''application/octet-stream'' \<rparr>"

definition ArtifactRef :: "artifact_ref \<Rightarrow> artifact_ref result" where
  "ArtifactRef a = (if artifact_ref_ok a then Inr a else Inl (VE ''artifact reference''))"

definition bundle_functional_checks :: "task_bundle \<Rightarrow> expected_check list result" where
  "bundle_functional_checks b = traverse (\<lambda>(c, a). rbind (ArtifactRef (task_case_input c)) (\<lambda>input. ExpectedCheck FUNCTIONAL
       (functional_check_id (fc_case_id c) (av_assertion_id a)) (av_required a) (av_weight a) [(''input'', input)]))
     [(c, a). c \<leftarrow> pg_functional_cases (tb_private b), a \<leftarrow> fc_assertions c]"

text \<open>\<open>task.build_scoring_contract\<close>.\<close>

definition build_scoring_contract :: "task_bundle \<Rightarrow> contract result" where
  "build_scoring_contract b =
     rbind object_checks (\<lambda>object. rbind (bundle_functional_checks b) (\<lambda>functional.
     rbind (semantic_checks (pg_semantic_obligations (tb_private b))) (\<lambda>semantic.
       ScoringContract (pt_task_id (tb_public b)) (pt_version (tb_public b)) (tb_bundle_sha256 b)
         (object @ functional @ semantic))))"

definition evaluation_case_of :: "functional_case \<Rightarrow> evaluation_case result" where
  "evaluation_case_of c = rbind (ArtifactRef (task_case_input c)) (\<lambda>input.
     let e = \<lparr> ec_case_id = fc_case_id c, ec_input = input, ec_assertions = fc_assertions c \<rparr>
     in check (evaluation_case_check e) (Inr e))"

definition build_evaluation_plan :: "hasher \<Rightarrow> task_bundle \<Rightarrow> evaluation_plan result" where
  "build_evaluation_plan h b = (let pub = tb_public b; priv = tb_private b in
     if \<not> single_xdp (pt_program pub) then Inl (JobBundleError ''evaluation-plan v1 supports exactly one XDP program'')
     else if list_ex (\<lambda>c. fc_driver c \<noteq> ''bpf_prog_run/xdp@1'') (pg_functional_cases priv)
     then Inl (JobBundleError ''evaluation-plan v1 does not support task drivers'')
     else rbind (traverse evaluation_case_of (pg_functional_cases priv)) (\<lambda>cases.
       let p = \<lparr> vp_task_id = pt_task_id pub, vp_task_version = pt_version pub, vp_family = pt_family pub,
         vp_public_task_sha256 = tb_public_sha256 b, vp_private_grader_sha256 = tb_private_sha256 b,
         vp_task_bundle_sha256 = tb_bundle_sha256 b, vp_environment_id = pt_environment_id pub,
         vp_candidate_contract = (pt_candidate_contract pub)\<lparr> cc_allow_markdown_fence := False \<rparr>,
         vp_program = pt_program pub, vp_public_sdk_id = pt_public_sdk_id pub,
         vp_max_attempts = pt_max_attempts pub,
         vp_whole_attempt_timeout_seconds = pt_whole_attempt_timeout_seconds pub,
         vp_functional_cases = cases, vp_semantic_obligations = pg_semantic_obligations priv \<rparr>
       in check (evaluation_plan_check h p) (Inr p)))"

section \<open>Job manifests\<close>

text \<open>The dictionary \<open>by_digest\<close> is an association list; its sorted items order by digest.\<close>

fun blob_sizes :: "(string \<times> int) list \<Rightarrow> artifact_ref list \<Rightarrow> (string \<times> int) list result" where
  "blob_sizes by_digest [] = Inr by_digest"
| "blob_sizes by_digest (r # refs) = (case map_of by_digest (ar_sha256 r) of
     None \<Rightarrow> blob_sizes (by_digest @ [(ar_sha256 r, ar_size_bytes r)]) refs
   | Some previous \<Rightarrow>
       if previous \<noteq> ar_size_bytes r then Inl (Exn ''ValueError'' ''one blob digest is paired with inconsistent sizes'')
       else blob_sizes by_digest refs)"

definition JobBlobRef :: "string \<times> int \<Rightarrow> job_blob result" where
  "JobBlobRef d = (let b = \<lparr> jb_sha256 = fst d, jb_size_bytes = snd d \<rparr>
     in if job_blob_ok b then Inr b else Inl (VE ''job blob reference''))"

definition physical_blob_table :: "artifact_ref list \<Rightarrow> job_blob list result" where
  "physical_blob_table refs = rbind (blob_sizes [] refs) (\<lambda>by_digest. traverse JobBlobRef (sort by_digest))"

record job_manifest =
  jm_request :: request
  jm_request_sha256 :: string
  jm_suite :: suite
  jm_suite_sha256 :: string
  jm_experiment :: experiment_manifest
  jm_experiment_sha256 :: string
  jm_environment :: environment
  jm_environment_sha256 :: string
  jm_reward_policy :: policy
  jm_reward_policy_sha256 :: string
  jm_harness_commit :: string
  jm_expected_grader_id :: string
  jm_restore_nonce :: string
  jm_plan :: evaluation_plan
  jm_plan_sha256 :: string
  jm_contract :: contract
  jm_contract_sha256 :: string
  jm_blobs :: "job_blob list"
  jm_total_blob_bytes :: int

definition required_references :: "request \<Rightarrow> evaluation_plan \<Rightarrow> artifact_ref list" where
  "required_references r p = rq_candidate r # map ec_input (vp_functional_cases p)"

definition job_fields_check :: "hasher \<Rightarrow> job_manifest \<Rightarrow> exn option" where
  "job_fields_check h m = raises
     [(request_check (jm_request m) \<noteq> None, VE ''request''), (\<not> sha256_ok (jm_request_sha256 m), VE ''request_sha256''),
      (suite_check (jm_suite m) \<noteq> None, VE ''suite''), (\<not> sha256_ok (jm_suite_sha256 m), VE ''suite_sha256''),
      (experiment_check (jm_experiment m) \<noteq> None, VE ''experiment''),
      (\<not> sha256_ok (jm_experiment_sha256 m), VE ''experiment_sha256''),
      (environment_check (jm_environment m) \<noteq> None, VE ''environment''),
      (\<not> sha256_ok (jm_environment_sha256 m), VE ''environment_sha256''),
      (policy_check (jm_reward_policy m) \<noteq> None, VE ''reward_policy''),
      (\<not> sha256_ok (jm_reward_policy_sha256 m), VE ''reward_policy_sha256''),
      (\<not> hex40_ok (jm_harness_commit m), VE ''harness_commit''),
      (\<not> sha256_ok (jm_expected_grader_id m), VE ''expected_grader_id''),
      (\<not> sha256_ok (jm_restore_nonce m), VE ''restore_nonce''),
      (evaluation_plan_check h (jm_plan m) \<noteq> None, VE ''plan''), (\<not> sha256_ok (jm_plan_sha256 m), VE ''plan_sha256''),
      (contract_check (jm_contract m) \<noteq> None, VE ''contract''), (\<not> sha256_ok (jm_contract_sha256 m), VE ''contract_sha256''),
      (jm_blobs m = [] \<or> MAX_JOB_BLOBS < length (jm_blobs m) \<or> \<not> list_all job_blob_ok (jm_blobs m), VE ''blobs''),
      (\<not> (1 \<le> jm_total_blob_bytes m \<and> jm_total_blob_bytes m \<le> int MAX_JOB_TOTAL_BLOB_BYTES), VE ''total_blob_bytes'')]"

definition task_identities_check :: "job_manifest \<Rightarrow> exn option" where
  "task_identities_check m = (let r = jm_request m; p = jm_plan m; c = jm_contract m; e = jm_environment m in raises
     [(en_isolation e \<noteq> I_MICROVM, VE ''evaluation job preparation requires a microVM environment''),
      (jm_restore_nonce m = replicate 64 CHR ''0'', VE ''restore nonce cannot use the all-zero placeholder''),
      (rq_environment_id r \<noteq> en_environment_id e, VE ''job request and environment IDs differ''),
      (vp_environment_id p \<noteq> en_environment_id e, VE ''job plan and environment IDs differ''),
      (rq_diagnostic_condition r = D_BPFIX \<and> en_bpfix_commit e = None,
        VE ''bpfix evaluation jobs require a pinned bpfix commit''),
      ((rq_task_id r, rq_task_version r, rq_task_bundle_sha256 r) \<noteq>
          (vp_task_id p, vp_task_version p, vp_task_bundle_sha256 p) \<or>
        (rq_task_id r, rq_task_version r, rq_task_bundle_sha256 r) \<noteq>
          (sc_task_id c, sc_task_version c, sc_task_bundle_sha256 c),
        VE ''job request, plan, and scoring-contract task identities differ''),
      (scoring_contract_for_plan p \<noteq> Inr c, VE ''job scoring contract is not exactly derived from its plan''),
      (ar_media_type (rq_candidate r) \<noteq> ''text/x-c'', VE ''evaluation candidate must use the text/x-c media type''),
      (ar_size_bytes (rq_candidate r) > cc_max_response_bytes (vp_candidate_contract p),
        VE ''evaluation candidate exceeds the task candidate byte limit'')])"

definition digests_check :: "hasher \<Rightarrow> job_manifest \<Rightarrow> exn option" where
  "digests_check h m = raises
     [(jm_request_sha256 m \<noteq> sha256_json h (request_json (jm_request m)), VE ''job request digest''),
      (jm_suite_sha256 m \<noteq> sha256_json h (suite_json (jm_suite m)), VE ''job suite digest''),
      (jm_experiment_sha256 m \<noteq> sha256_json h (experiment_json (jm_experiment m)), VE ''job experiment digest''),
      (jm_environment_sha256 m \<noteq> sha256_json h (environment_json (jm_environment m)), VE ''job environment digest''),
      (jm_reward_policy_sha256 m \<noteq> sha256_json h (policy_json (jm_reward_policy m)), VE ''job reward policy digest''),
      (jm_plan_sha256 m \<noteq> sha256_json h (evaluation_plan_json (jm_plan m)), VE ''job plan digest''),
      (jm_contract_sha256 m \<noteq> sha256_json h (contract_json (jm_contract m)), VE ''job contract digest'')]"

definition experiment_binding_check :: "hasher \<Rightarrow> job_manifest \<Rightarrow> exn option" where
  "experiment_binding_check h m = (let r = jm_request m; x = jm_experiment m; s = jm_suite m; e = jm_environment m in raises
     [(rq_experiment_id r \<noteq> ex_experiment_id x \<or> rq_experiment_manifest_sha256 r \<noteq> jm_experiment_sha256 m,
        VE ''job request does not bind the embedded experiment''),
      (rq_suite_id r \<noteq> su_suite_id s \<or> rq_suite_manifest_sha256 r \<noteq> jm_suite_sha256 m \<or>
        ex_suite_id x \<noteq> su_suite_id s \<or> ex_suite_manifest_sha256 x \<noteq> jm_suite_sha256 m,
        VE ''job request and experiment do not bind the embedded suite''),
      (rq_model_id r \<noteq> ex_model_id x \<or> rq_model_artifact_sha256 r \<noteq> ex_model_artifact_sha256 x \<or>
        rq_sampling_config_sha256 r \<noteq> ex_sampling_config_sha256 x \<or>
        rq_diagnostic_condition r \<noteq> ex_diagnostic_condition x,
        VE ''job request generation configuration differs from experiment''),
      (ex_environment_sha256 x \<noteq> jm_environment_sha256 m \<or> su_environment_id s \<noteq> en_environment_id e,
        VE ''job experiment or suite does not bind the environment''),
      (ex_reward_policy_id x \<noteq> rp_policy_id (jm_reward_policy m) \<or>
        ex_reward_policy_sha256 x \<noteq> jm_reward_policy_sha256 m,
        VE ''job reward or strict scoring policy identity differs''),
      (jm_harness_commit m \<noteq> ex_harness_commit x \<or> jm_expected_grader_id m \<noteq> ex_expected_grader_id x,
        VE ''job harness or grader identity differs from experiment''),
      (jm_expected_grader_id m \<noteq> grader_id_for h r e (jm_harness_commit m),
        VE ''job grader identity does not bind request and environment'')])"

text \<open>\<open>seed_plans\<close> is keyed by training seed, the last plan of a seed winning.\<close>

definition seed_plan_check :: "job_manifest \<Rightarrow> exn option" where
  "seed_plan_check m = (let r = jm_request m in
     case map_of (rev (map (\<lambda>s. (sp_training_seed s, s)) (ex_seed_plans (jm_experiment m)))) (rq_training_seed r) of
       None \<Rightarrow> Some (VE ''job request uses a training seed outside the experiment'')
     | Some s \<Rightarrow> raises
         [(rq_checkpoint_id r \<noteq> sp_checkpoint_id s \<or> rq_checkpoint_artifact_sha256 r \<noteq> sp_checkpoint_artifact_sha256 s,
            VE ''job request checkpoint differs from its training seed plan''),
          (rq_sample_index r \<ge> int (length (sp_generation_seeds s)),
            VE ''job request sample index is outside the experiment''),
          (rq_generation_seed r \<noteq> sp_generation_seeds s ! nat (rq_sample_index r),
            VE ''job request generation seed differs from the experiment''),
          (rq_attempt_index r \<ge> vp_max_attempts (jm_plan m), VE ''job request attempt index exceeds the task limit''),
          ((rq_attempt_index r = 0) \<noteq> (rq_parent_request_id r = None),
            VE ''job request parent linkage does not match its attempt index'')])"

definition suite_task_check :: "job_manifest \<Rightarrow> exn option" where
  "suite_task_check m = (let p = jm_plan m in
     case filter (\<lambda>t. st_task_id t = rq_task_id (jm_request m)) (su_tasks (jm_suite m)) of
       [t] \<Rightarrow> raises
         [((st_task_version t, st_task_bundle_sha256 t, st_evaluation_plan_sha256 t, st_scoring_contract_sha256 t,
             st_family t, st_program_type t) \<noteq>
           (vp_task_version p, vp_task_bundle_sha256 p, jm_plan_sha256 m, jm_contract_sha256 m, vp_family p,
             pc_program_type (vp_program p)), VE ''job task plan or contract differs from the frozen suite'')]
     | _ \<Rightarrow> Some (VE ''job request task is not uniquely present in the suite''))"

definition blob_total :: "job_blob list \<Rightarrow> int" where
  "blob_total bs = sum_list (map jb_size_bytes bs)"

definition blob_table_check :: "job_manifest \<Rightarrow> exn option" where
  "blob_table_check m = (case physical_blob_table (required_references (jm_request m) (jm_plan m)) of
     Inl e \<Rightarrow> Some (VE (exn_msg e))
   | Inr expected \<Rightarrow> raises
       [(jm_blobs m \<noteq> expected, VE ''job blob table must exactly cover candidate and functional inputs''),
        (jm_total_blob_bytes m \<noteq> blob_total expected, VE ''job total blob bytes do not match the exact blob table'')])"

definition job_manifest_check :: "hasher \<Rightarrow> job_manifest \<Rightarrow> exn option" where
  "job_manifest_check h m = orelse (job_fields_check h m) (orelse (task_identities_check m)
     (orelse (digests_check h m) (orelse (experiment_binding_check h m)
     (orelse (seed_plan_check m) (orelse (suite_task_check m) (blob_table_check m))))))"

definition job_manifest_json :: "job_manifest \<Rightarrow> json" where
  "job_manifest_json m = JObj
     [(''schema_version'', JStr ''bpe.evaluation-job.v1''), (''status'', JStr ''prepared''),
      (''request'', request_json (jm_request m)), (''request_sha256'', JStr (jm_request_sha256 m)),
      (''suite'', suite_json (jm_suite m)), (''suite_sha256'', JStr (jm_suite_sha256 m)),
      (''experiment'', experiment_json (jm_experiment m)), (''experiment_sha256'', JStr (jm_experiment_sha256 m)),
      (''environment'', environment_json (jm_environment m)), (''environment_sha256'', JStr (jm_environment_sha256 m)),
      (''reward_policy'', policy_json (jm_reward_policy m)), (''reward_policy_sha256'', JStr (jm_reward_policy_sha256 m)),
      (''harness_commit'', JStr (jm_harness_commit m)), (''expected_grader_id'', JStr (jm_expected_grader_id m)),
      (''restore_nonce'', JStr (jm_restore_nonce m)), (''plan'', evaluation_plan_json (jm_plan m)),
      (''plan_sha256'', JStr (jm_plan_sha256 m)), (''contract'', contract_json (jm_contract m)),
      (''contract_sha256'', JStr (jm_contract_sha256 m)), (''blobs'', jarr job_blob_json (jm_blobs m)),
      (''total_blob_bytes'', JInt (jm_total_blob_bytes m)), (''execution_authorized'', JBool False),
      (''authoritative'', JBool False)]"

definition build_evaluation_job_manifest ::
  "hasher \<Rightarrow> request \<Rightarrow> suite \<Rightarrow> experiment_manifest \<Rightarrow> environment \<Rightarrow> policy \<Rightarrow> string \<Rightarrow> evaluation_plan \<Rightarrow>
    contract \<Rightarrow> job_manifest result" where
  "build_evaluation_job_manifest h request suite experiment environment reward_policy restore_nonce plan contract =
     rbind (physical_blob_table (required_references request plan)) (\<lambda>blobs.
     let m = \<lparr> jm_request = request, jm_request_sha256 = sha256_json h (request_json request),
       jm_suite = suite, jm_suite_sha256 = sha256_json h (suite_json suite),
       jm_experiment = experiment, jm_experiment_sha256 = sha256_json h (experiment_json experiment),
       jm_environment = environment, jm_environment_sha256 = sha256_json h (environment_json environment),
       jm_reward_policy = reward_policy, jm_reward_policy_sha256 = sha256_json h (policy_json reward_policy),
       jm_harness_commit = ex_harness_commit experiment,
       jm_expected_grader_id = grader_id_for h request environment (ex_harness_commit experiment),
       jm_restore_nonce = restore_nonce, jm_plan = plan, jm_plan_sha256 = sha256_json h (evaluation_plan_json plan),
       jm_contract = contract, jm_contract_sha256 = sha256_json h (contract_json contract),
       jm_blobs = blobs, jm_total_blob_bytes = blob_total blobs \<rparr>
     in check (job_manifest_check h m) (Inr m))"

section \<open>The contract of a plan and the contract of a bundle\<close>

lemma traverse_concat_map:
  assumes "list_all2 (\<lambda>x y. map f (g x) = map f' (g' y)) xs ys"
  shows "traverse f (concat (map g xs)) = traverse f' (concat (map g' ys))"
proof -
  have "map f (concat (map g xs)) = map f' (concat (map g' ys))"
    using assms by (induction rule: list_all2_induct) auto
  moreover have "traverse k zs = traverse id (map k zs)" for k :: "'e \<Rightarrow> 'f result" and zs
    by (induction zs) auto
  ultimately show ?thesis by (metis (no_types))
qed

end
