(* ===== verification/Job_Bundle.thy ===== *)
theory Job_Bundle
  imports Job "HOL-Library.AList"
begin

text \<open>
  The bundle reader and the publication step of \<open>job.py\<close> over an explicit store of inodes.  Other
  processes may change the store between any two system calls: a reader runs against a timeline, the
  store it finds at its \<open>t\<close>-th call, and a descriptor is the number of the inode it was opened on.
  \<open>loads\<close> and \<open>model_fields\<close> stand for \<open>strict_json_loads\<close> over the \<open>json\<close> module and for the field
  parsing of Pydantic; the validators of the manifest are \<open>job_manifest_check\<close>.
\<close>

section \<open>Store and system calls\<close>

datatype inode =
    Reg (st_dev: nat) (st_nlink: nat) (st_times: "nat \<times> nat") (content: "byte list")
  | Directory (st_dev: nat) (entries: "(string \<times> nat) list")
  | Symlink (st_dev: nat)
  | Special (st_dev: nat)

type_synonym store = "nat \<rightharpoonup> inode"
type_synonym timeline = "nat \<Rightarrow> store"
type_synonym 'a io = "nat \<Rightarrow> 'a result \<times> nat"

fun S_ISREG :: "inode \<Rightarrow> bool" where
  "S_ISREG (Reg _ _ _ _) = True"
| "S_ISREG _ = False"

fun S_ISDIR :: "inode \<Rightarrow> bool" where
  "S_ISDIR (Directory _ _) = True"
| "S_ISDIR _ = False"

fun S_ISLNK :: "inode \<Rightarrow> bool" where
  "S_ISLNK (Symlink _) = True"
| "S_ISLNK _ = False"

definition st_size :: "inode \<Rightarrow> nat" where
  "st_size n = (case n of Reg _ _ _ bs \<Rightarrow> length bs | _ \<Rightarrow> 0)"

definition hard_linked :: "inode \<Rightarrow> bool" where
  "hard_linked n = (case n of Reg _ l _ _ \<Rightarrow> l \<noteq> 1 | _ \<Rightarrow> False)"

definition ret :: "'a \<Rightarrow> 'a io" where
  "ret x t = (Inr x, t)"

definition lift_result :: "'a result \<Rightarrow> 'a io" where
  "lift_result r t = (r, t)"

definition guard :: "bool \<Rightarrow> exn \<Rightarrow> unit io" where
  "guard bad e t = (if bad then Inl e else Inr (), t)"

definition iobind :: "'a io \<Rightarrow> ('a \<Rightarrow> 'b io) \<Rightarrow> 'b io" where
  "iobind p f t = (case p t of (Inl e, t') \<Rightarrow> (Inl e, t') | (Inr x, t') \<Rightarrow> f x t')"

definition syscall :: "timeline \<Rightarrow> (store \<Rightarrow> 'a option) \<Rightarrow> string \<Rightarrow> 'a io" where
  "syscall W call failure t =
     (case call (W t) of None \<Rightarrow> Inl (JobBundleError failure) | Some x \<Rightarrow> Inr x, Suc t)"

definition lookup_at :: "store \<Rightarrow> nat \<Rightarrow> string \<Rightarrow> nat option" where
  "lookup_at fs parent name = (case fs parent of Some (Directory _ es) \<Rightarrow> map_of es name | _ \<Rightarrow> None)"

definition stat_at :: "nat \<Rightarrow> string \<Rightarrow> store \<Rightarrow> (nat \<times> inode) option" where
  "stat_at parent name fs = (case lookup_at fs parent name of
     None \<Rightarrow> None | Some i \<Rightarrow> map_option (\<lambda>n. (i, n)) (fs i))"

text \<open>\<open>os.open\<close> with \<open>O_NOFOLLOW\<close>, and with \<open>O_DIRECTORY\<close> for directories.\<close>

definition open_at :: "nat \<Rightarrow> string \<Rightarrow> bool \<Rightarrow> store \<Rightarrow> nat option" where
  "open_at parent name directory fs = (case stat_at parent name fs of
     None \<Rightarrow> None | Some (i, n) \<Rightarrow> if S_ISLNK n \<or> directory \<and> \<not> S_ISDIR n then None else Some i)"

definition read_fd :: "nat \<Rightarrow> nat \<Rightarrow> store \<Rightarrow> byte list option" where
  "read_fd fd count fs = (case fs fd of Some (Reg _ _ _ bs) \<Rightarrow> Some (take count bs) | _ \<Rightarrow> None)"

definition scandir_fd :: "nat \<Rightarrow> store \<Rightarrow> string list option" where
  "scandir_fd fd fs = (case fs fd of Some (Directory _ es) \<Rightarrow> Some (map fst es) | _ \<Rightarrow> None)"

section \<open>Reading a bundle\<close>

definition expected_kind :: "bool \<Rightarrow> inode \<Rightarrow> bool" where
  "expected_kind directory n = (if directory then S_ISDIR n else S_ISREG n)"

definition open_root :: "timeline \<Rightarrow> nat \<Rightarrow> string \<Rightarrow> (nat \<times> nat) io" where
  "open_root W parent name =
     iobind (syscall W (stat_at parent name) ''cannot inspect job bundle root'') (\<lambda>(i, before).
     iobind (guard (S_ISLNK before \<or> \<not> S_ISDIR before)
       (JobBundleError ''job bundle root is not a non-symlink directory'')) (\<lambda>_.
     iobind (syscall W (open_at parent name True) ''cannot open job bundle root'') (\<lambda>fd.
     iobind (syscall W (\<lambda>fs. fs fd) ''cannot inspect opened job bundle root'') (\<lambda>opened.
     iobind (guard ((st_dev opened, fd) \<noteq> (st_dev before, i) \<or> \<not> S_ISDIR opened)
       (JobBundleError ''job bundle root changed while it was being opened'')) (\<lambda>_.
     ret (fd, st_dev opened))))))"

definition open_component :: "timeline \<Rightarrow> string \<Rightarrow> nat \<Rightarrow> nat \<Rightarrow> bool \<Rightarrow> string \<Rightarrow> nat io" where
  "open_component W name parent_fd root_device directory label =
     iobind (syscall W (stat_at parent_fd name) (''cannot inspect '' @ label)) (\<lambda>(i, before).
     iobind (guard (S_ISLNK before \<or> \<not> expected_kind directory before \<or> st_dev before \<noteq> root_device)
       (JobBundleError (label @ '' is not a same-device non-symlink object''))) (\<lambda>_.
     iobind (guard (\<not> directory \<and> hard_linked before)
       (JobBundleError (label @ '' must not be externally hard-linked''))) (\<lambda>_.
     iobind (syscall W (open_at parent_fd name directory) (''cannot open '' @ label)) (\<lambda>fd.
     iobind (syscall W (\<lambda>fs. fs fd) (''cannot inspect opened '' @ label)) (\<lambda>opened.
     iobind (guard ((st_dev opened, fd) \<noteq> (st_dev before, i) \<or> \<not> expected_kind directory opened \<or>
         st_dev opened \<noteq> root_device \<or> \<not> directory \<and> hard_linked opened)
       (JobBundleError (label @ '' changed while it was being opened''))) (\<lambda>_.
     ret fd))))))"

definition size_mismatch :: "nat option \<Rightarrow> nat \<Rightarrow> bool" where
  "size_mismatch expected_bytes n = (case expected_bytes of None \<Rightarrow> False | Some k \<Rightarrow> n \<noteq> k)"

definition read_file_at :: "timeline \<Rightarrow> string \<Rightarrow> nat \<Rightarrow> nat \<Rightarrow> nat \<Rightarrow> string \<Rightarrow> nat option \<Rightarrow> byte list io" where
  "read_file_at W name parent_fd root_device max_bytes label expected_bytes =
     iobind (open_component W name parent_fd root_device False label) (\<lambda>fd.
     iobind (syscall W (\<lambda>fs. fs fd) (''cannot inspect opened '' @ label)) (\<lambda>opened.
     iobind (guard (st_size opened > max_bytes) (JobBundleError (label @ '' exceeds the byte limit''))) (\<lambda>_.
     iobind (guard (size_mismatch expected_bytes (st_size opened)) (JobBundleError (label @ '' size mismatch''))) (\<lambda>_.
     iobind (syscall W (read_fd fd (max_bytes + 1)) (''cannot read '' @ label)) (\<lambda>bytes.
     iobind (syscall W (\<lambda>fs. fs fd) (''cannot inspect opened '' @ label)) (\<lambda>after.
     iobind (guard (length bytes > max_bytes) (JobBundleError (label @ '' exceeds the byte limit''))) (\<lambda>_.
     iobind (guard (size_mismatch expected_bytes (length bytes)) (JobBundleError (label @ '' size mismatch''))) (\<lambda>_.
     iobind (guard (length bytes \<noteq> st_size opened \<or>
         (st_size after, st_times after, st_nlink after) \<noteq> (st_size opened, st_times opened, st_nlink opened))
       (JobBundleError (label @ '' changed while it was being read''))) (\<lambda>_.
     ret bytes)))))))))"

definition directory_entries :: "timeline \<Rightarrow> nat \<Rightarrow> string \<Rightarrow> nat \<Rightarrow> string set io" where
  "directory_entries W fd label max_entries =
     iobind (syscall W (scandir_fd fd) (''cannot enumerate '' @ label)) (\<lambda>names.
     iobind (guard (card (set names) > max_entries)
       (JobBundleError (label @ '' is not exactly closed: exceeds the entry limit''))) (\<lambda>_.
     ret (set names)))"

text \<open>The explicit stack of \<open>_validate_json_complexity\<close>, its top first.\<close>

function validate_json_complexity_loop :: "(json \<times> nat) list \<Rightarrow> nat \<Rightarrow> exn option" where
  "validate_json_complexity_loop [] nodes = None"
| "validate_json_complexity_loop ((current, depth) # stack) nodes =
     (if depth > MAX_JOB_JSON_DEPTH \<or> Suc nodes > MAX_JOB_JSON_NODES
      then Some (JobBundleError ''job manifest JSON exceeds the structural complexity limit'')
      else case current of
        JObj kvs \<Rightarrow> validate_json_complexity_loop (rev (map (\<lambda>(k, child). (child, Suc depth)) kvs) @ stack) (Suc nodes)
      | JArr xs \<Rightarrow> validate_json_complexity_loop (rev (map (\<lambda>child. (child, Suc depth)) xs) @ stack) (Suc nodes)
      | _ \<Rightarrow> validate_json_complexity_loop stack (Suc nodes))"
  by pat_completeness auto
termination by (relation "measure (\<lambda>(stack, nodes). MAX_JOB_JSON_NODES - nodes)") auto

definition validate_json_complexity :: "json \<Rightarrow> exn option" where
  "validate_json_complexity v = validate_json_complexity_loop [(v, 0)] 0"

definition parse_manifest ::
  "hasher \<Rightarrow> (byte list \<Rightarrow> json result) \<Rightarrow> (json \<Rightarrow> job_manifest result) \<Rightarrow> byte list \<Rightarrow> job_manifest result" where
  "parse_manifest h loads model_fields raw = (let invalid = Inl (JobBundleError ''invalid evaluation job manifest'') in
     case loads raw of Inl _ \<Rightarrow> invalid
     | Inr v \<Rightarrow> check (validate_json_complexity v) (case model_fields v of Inl _ \<Rightarrow> invalid
       | Inr m \<Rightarrow> if job_manifest_check h m \<noteq> None then invalid
         else if canonical_json_bytes h (job_manifest_json m) \<noteq> raw
         then Inl (JobBundleError ''evaluation job manifest is not canonical JSON'')
         else Inr m))"

record loaded_job =
  lj_manifest :: job_manifest
  lj_manifest_sha256 :: string
  lj_anchored :: bool
  lj_blobs :: "(job_blob \<times> byte list) list"

definition blob_bytes :: "loaded_job \<Rightarrow> string \<Rightarrow> byte list result" where
  "blob_bytes job digest = (case find (\<lambda>(b, _). jb_sha256 b = digest) (lj_blobs job) of
     Some (_, bytes) \<Rightarrow> Inr bytes | None \<Rightarrow> Inl (Exn ''KeyError'' digest))"

fun read_blobs :: "hasher \<Rightarrow> timeline \<Rightarrow> nat \<Rightarrow> nat \<Rightarrow> job_blob list \<Rightarrow> (job_blob \<times> byte list) list io" where
  "read_blobs h W store_fd root_device [] = ret []"
| "read_blobs h W store_fd root_device (b # bs) =
     iobind (read_file_at W (jb_sha256 b) store_fd root_device MAX_JOB_BLOB_BYTES (''job blob '' @ jb_sha256 b)
       (Some (nat (jb_size_bytes b)))) (\<lambda>bytes.
     iobind (guard (sha256 h bytes \<noteq> jb_sha256 b) (JobBundleError (''job blob digest mismatch: '' @ jb_sha256 b))) (\<lambda>_.
     iobind (read_blobs h W store_fd root_device bs) (\<lambda>rest. ret ((b, bytes) # rest))))"

definition candidate_check :: "job_manifest \<Rightarrow> (job_blob \<times> byte list) list \<Rightarrow> unit result" where
  "candidate_check m loaded =
     (case map_of (rev (map (\<lambda>(b, bytes). (jb_sha256 b, bytes)) loaded)) (ar_sha256 (rq_candidate (jm_request m))) of
        None \<Rightarrow> Inl (Exn ''KeyError'' (ar_sha256 (rq_candidate (jm_request m))))
      | Some bytes \<Rightarrow> (case extract_c_source bytes (cc_max_response_bytes (vp_candidate_contract (jm_plan m))) False of
          Inl _ \<Rightarrow> Inl (JobBundleError ''job candidate is not plain bounded C source'')
        | Inr extracted \<Rightarrow>
            if extracted \<noteq> bytes then Inl (JobBundleError ''job candidate source changed during strict extraction'')
            else Inr ()))"

definition load_evaluation_job_from_root ::
  "hasher \<Rightarrow> (byte list \<Rightarrow> json result) \<Rightarrow> (json \<Rightarrow> job_manifest result) \<Rightarrow> timeline \<Rightarrow> nat \<Rightarrow> nat \<Rightarrow> string option \<Rightarrow>
    loaded_job io" where
  "load_evaluation_job_from_root h loads model_fields W root_fd root_device expected =
     iobind (read_file_at W ''manifest.json'' root_fd root_device MAX_JOB_MANIFEST_BYTES ''job manifest'' None) (\<lambda>raw.
     iobind (lift_result (parse_manifest h loads model_fields raw)) (\<lambda>m.
     iobind (guard (expected \<noteq> None \<and> expected \<noteq> Some (sha256 h raw))
       (JobBundleError ''job manifest trust anchor mismatch'')) (\<lambda>_.
     iobind (directory_entries W root_fd ''job bundle root'' 2) (\<lambda>names.
     iobind (guard (names \<noteq> {''manifest.json'', ''blobs''}) (JobBundleError ''job bundle root is not exactly closed'')) (\<lambda>_.
     iobind (open_component W ''blobs'' root_fd root_device True ''job blob-store parent'') (\<lambda>blobs_fd.
     iobind (directory_entries W blobs_fd ''job blob-store parent'' 1) (\<lambda>names.
     iobind (guard (names \<noteq> {''sha256''}) (JobBundleError ''job blob-store parent is not exactly closed'')) (\<lambda>_.
     iobind (open_component W ''sha256'' blobs_fd root_device True ''job SHA-256 blob store'') (\<lambda>sha256_fd.
     let expected_names = set (map jb_sha256 (jm_blobs m)) in
     iobind (directory_entries W sha256_fd ''job SHA-256 blob store'' (card expected_names)) (\<lambda>names.
     iobind (guard (names \<noteq> expected_names) (JobBundleError ''job SHA-256 blob store is not exactly closed'')) (\<lambda>_.
     iobind (read_blobs h W sha256_fd root_device (jm_blobs m)) (\<lambda>loaded.
     iobind (lift_result (candidate_check m loaded)) (\<lambda>_.
     iobind (guard (int (sum_list (map (length \<circ> snd) loaded)) \<noteq> jm_total_blob_bytes m)
       (JobBundleError ''loaded job byte total differs from the manifest'')) (\<lambda>_.
     iobind (directory_entries W root_fd ''job bundle root'' 2) (\<lambda>names.
     iobind (guard (names \<noteq> {''manifest.json'', ''blobs''})
       (JobBundleError ''job bundle changed while it was being loaded'')) (\<lambda>_.
     iobind (directory_entries W blobs_fd ''job blob-store parent'' 1) (\<lambda>names.
     iobind (guard (names \<noteq> {''sha256''}) (JobBundleError ''job bundle changed while it was being loaded'')) (\<lambda>_.
     iobind (directory_entries W sha256_fd ''job SHA-256 blob store'' (card expected_names)) (\<lambda>names.
     iobind (guard (names \<noteq> expected_names) (JobBundleError ''job blob store changed while it was being loaded'')) (\<lambda>_.
     ret \<lparr> lj_manifest = m, lj_manifest_sha256 = sha256 h raw, lj_anchored = (expected \<noteq> None),
       lj_blobs = loaded \<rparr>))))))))))))))))))))"

definition load_evaluation_job_bundle ::
  "hasher \<Rightarrow> (byte list \<Rightarrow> json result) \<Rightarrow> (json \<Rightarrow> job_manifest result) \<Rightarrow> timeline \<Rightarrow> nat \<Rightarrow> string \<Rightarrow> string option \<Rightarrow>
    loaded_job io" where
  "load_evaluation_job_bundle h loads model_fields W parent name expected =
     iobind (open_root W parent name) (\<lambda>(root_fd, root_device).
       load_evaluation_job_from_root h loads model_fields W root_fd root_device expected)"

section \<open>Publishing a staged bundle\<close>

definition add_entry :: "nat \<Rightarrow> string \<Rightarrow> nat \<Rightarrow> store \<Rightarrow> store" where
  "add_entry dir name i fs = (case fs dir of
     Some (Directory d es) \<Rightarrow> fs(dir \<mapsto> Directory d (AList.update name i es)) | _ \<Rightarrow> fs)"

definition remove_entry :: "nat \<Rightarrow> string \<Rightarrow> store \<Rightarrow> store" where
  "remove_entry dir name fs = (case fs dir of
     Some (Directory d es) \<Rightarrow> fs(dir \<mapsto> Directory d (AList.delete name es)) | _ \<Rightarrow> fs)"

text \<open>\<open>os.mkdir\<close> gives the new directory the inode \<open>fresh\<close> on the device of its parent.\<close>

definition mkdir_at :: "nat \<Rightarrow> string \<Rightarrow> nat \<Rightarrow> store \<Rightarrow> store result" where
  "mkdir_at parent name fresh fs = (case fs parent of
     Some (Directory d es) \<Rightarrow>
       if map_of es name \<noteq> None then Inl (JobBundleError ''job bundle target already exists'')
       else Inr (add_entry parent name fresh (fs(fresh \<mapsto> Directory d [])))
   | _ \<Rightarrow> Inl (JobBundleError ''cannot reserve job bundle target''))"

definition rename_at :: "string \<Rightarrow> nat \<Rightarrow> nat \<Rightarrow> store \<Rightarrow> store result" where
  "rename_at name src dst fs = (case lookup_at fs src name of
     Some i \<Rightarrow> Inr (add_entry dst name i (remove_entry src name fs))
   | None \<Rightarrow> Inl (JobBundleError ''job bundle publication failed; the reserved target remains fail-closed''))"

text \<open>The stores after each of the three calls that publish, oldest first.\<close>

definition publish_staged_bundle :: "nat \<Rightarrow> nat \<Rightarrow> string \<Rightarrow> nat \<Rightarrow> store \<Rightarrow> store list result" where
  "publish_staged_bundle parent_fd staged_fd target_name fresh fs =
     rbind (mkdir_at parent_fd target_name fresh fs) (\<lambda>fs1.
     rbind (rename_at ''blobs'' staged_fd fresh fs1) (\<lambda>fs2.
     rbind (rename_at ''manifest.json'' staged_fd fresh fs2) (\<lambda>fs3. Inr [fs1, fs2, fs3])))"

end
