(* ===== verification/Job_Facts.thy ===== *)
theory Job_Facts
  imports Job_Bundle
begin

text \<open>
  What the manifest validator and the bundle reader guarantee: the blob table lists every referenced
  digest once with its size; a reader that returns a job under any timeline returns a sealed one; and a
  reader of a store that holds a closed bundle returns it.
\<close>

named_theorems io_simps "how a reader reaches a result"

section \<open>Reader steps\<close>

lemma iobind_Inr_iff [io_simps]:
  "iobind p f t = (Inr z, t') \<longleftrightarrow> (\<exists>x u. p t = (Inr x, u) \<and> f x u = (Inr z, t'))"
  by (auto simp: iobind_def split: prod.splits sum.splits)

lemma step_Inr_iff [io_simps]:
  "ret x t = (Inr z, t') \<longleftrightarrow> z = x \<and> t' = t"
  "guard bad e t = (Inr u, t') \<longleftrightarrow> \<not> bad \<and> t' = t"
  "lift_result r t = (Inr z, t') \<longleftrightarrow> r = Inr z \<and> t' = t"
  by (auto simp: ret_def guard_def lift_result_def)

lemma syscall_Inr_iff [io_simps]: "syscall W call e t = (Inr z, t') \<longleftrightarrow> call (W t) = Some z \<and> t' = Suc t"
  by (auto simp: syscall_def split: option.splits)

definition forward :: "'a io \<Rightarrow> bool" where
  "forward p \<longleftrightarrow> (\<forall>t. t \<le> snd (p t))"

lemma forward_step [intro!]: "forward (ret x)" "forward (guard bad e)" "forward (lift_result r)" "forward (syscall W call m)"
  by (auto simp: forward_def ret_def guard_def lift_result_def syscall_def)

lemma forward_iobind [intro!]:
  assumes "forward p" "\<And>x. forward (f x)" shows "forward (iobind p f)"
  unfolding forward_def
proof
  fix t
  obtain r u where p: "p t = (r, u)" by (cases "p t")
  have "t \<le> u" using assms(1) p unfolding forward_def by (metis snd_conv)
  moreover have "u \<le> snd (f x u)" for x using assms(2) unfolding forward_def by blast
  ultimately show "t \<le> snd (iobind p f t)" using p by (auto simp: iobind_def split: sum.splits intro: order_trans)
qed

lemma forwardD: "forward p \<Longrightarrow> p t = (r, t') \<Longrightarrow> t \<le> t'"
  unfolding forward_def by (metis snd_conv)

lemma forward_reads:
  "forward (open_component W name fd dev dir l)" "forward (read_file_at W name fd dev n l k)"
  "forward (directory_entries W fd l n)"
proof -
  show c: "forward (open_component W name fd dev dir l)" for name fd dev dir l
    unfolding open_component_def by (auto split: prod.splits)
  show "forward (read_file_at W name fd dev n l k)" unfolding read_file_at_def using c by blast
  show "forward (directory_entries W fd l n)" unfolding directory_entries_def by blast
qed

lemma forward_read_blobs: "forward (read_blobs h W fd dev bs)"
  by (induction bs) (auto intro: forward_reads)

lemma read_file_at_Inr:
  "read_file_at W name fd dev n l k t = (Inr bytes, t') \<Longrightarrow> length bytes \<le> n \<and> \<not> size_mismatch k (length bytes)"
  unfolding read_file_at_def io_simps by (auto simp: not_less)

lemma directory_entries_Inr:
  "directory_entries W fd l n t = (Inr names, t') \<longleftrightarrow>
     (\<exists>ns. scandir_fd fd (W t) = Some ns \<and> names = set ns \<and> card names \<le> n \<and> t' = Suc t)"
  unfolding directory_entries_def io_simps by auto

lemma read_blobs_Inr:
  assumes "read_blobs h W fd dev bs t = (Inr loaded, t')"
  shows "map fst loaded = bs \<and>
    (\<forall>(b, bytes) \<in> set loaded. sha256 h bytes = jb_sha256 b \<and> length bytes = nat (jb_size_bytes b))"
  using assms
proof (induction bs arbitrary: t t' loaded)
  case Nil
  then show ?case by (simp add: io_simps)
next
  case (Cons b bs)
  then obtain bytes u rest v where r: "read_file_at W (jb_sha256 b) fd dev MAX_JOB_BLOB_BYTES (''job blob '' @ jb_sha256 b)
      (Some (nat (jb_size_bytes b))) t = (Inr bytes, u)" "sha256 h bytes = jb_sha256 b"
    "read_blobs h W fd dev bs u = (Inr rest, v)" "loaded = (b, bytes) # rest"
    by (auto simp: io_simps)
  then show ?case using Cons.IH[OF r(3)] read_file_at_Inr[OF r(1)] by (simp add: size_mismatch_def)
qed

section \<open>The blob table\<close>

lemma blob_sizes_Inr:
  assumes "blob_sizes acc refs = Inr tab" "distinct (map fst acc)"
  shows "distinct (map fst tab) \<and> set tab = set acc \<union> (\<lambda>r. (ar_sha256 r, ar_size_bytes r)) ` set refs"
  using assms
proof (induction acc refs rule: blob_sizes.induct)
  case (2 acc r refs)
  show ?case
  proof (cases "map_of acc (ar_sha256 r)")
    case None
    then have "ar_sha256 r \<notin> fst ` set acc" by (simp add: map_of_eq_None_iff)
    then show ?thesis using 2 None by auto
  next
    case (Some n)
    then have "(ar_sha256 r, n) \<in> set acc" by (rule map_of_SomeD)
    then show ?thesis using 2 Some by (auto split: if_splits)
  qed
qed simp

lemma sorted_distinct_keys: "sorted xs \<Longrightarrow> distinct (map fst xs) \<Longrightarrow> sorted_wrt (<) (map fst xs)"
  for xs :: "('a :: linorder \<times> 'b :: linorder) list"
  by (induction xs) (auto simp: less_eq_prod_def image_iff less_le)

lemma physical_blob_table_exact:
  assumes "physical_blob_table refs = Inr bs"
  shows "sorted_wrt (<) (map jb_sha256 bs)" "list_all job_blob_ok bs"
    "(\<lambda>b. (jb_sha256 b, jb_size_bytes b)) ` set bs = (\<lambda>r. (ar_sha256 r, ar_size_bytes r)) ` set refs"
proof -
  obtain tab where t: "blob_sizes [] refs = Inr tab" "traverse JobBlobRef (sort tab) = Inr bs"
    using assms by (auto simp: physical_blob_table_def rbind_Inr_iff)
  note ex = blob_sizes_Inr[OF t(1)]
  have b: "list_all2 (\<lambda>d b. d = (jb_sha256 b, jb_size_bytes b) \<and> job_blob_ok b) (sort tab) bs"
    using t(2) unfolding traverse_Inr_iff
    by (rule list_all2_mono) (auto simp: JobBlobRef_def Let_def split: if_splits)
  then have m: "sort tab = map (\<lambda>b. (jb_sha256 b, jb_size_bytes b)) bs" and ok: "list_all job_blob_ok bs"
    by (induction rule: list_all2_induct) auto
  have "distinct (map fst tab)" using ex by simp
  then have "distinct (map fst (sort tab))" unfolding distinct_map by simp
  from sorted_distinct_keys[OF sorted_sort this] show "sorted_wrt (<) (map jb_sha256 bs)" by (simp add: m comp_def)
  show "list_all job_blob_ok bs" by (rule ok)
  show "(\<lambda>b. (jb_sha256 b, jb_size_bytes b)) ` set bs = (\<lambda>r. (ar_sha256 r, ar_size_bytes r)) ` set refs"
    using ex m by (metis (no_types, lifting) Un_empty_left list.map(1) distinct.simps(1) list.set(1) list.set_map set_sort)
qed

lemma job_manifest_blobs:
  assumes "job_manifest_check h m = None"
  shows "physical_blob_table (required_references (jm_request m) (jm_plan m)) = Inr (jm_blobs m)"
    "jm_total_blob_bytes m = blob_total (jm_blobs m)"
  using assms by (auto simp: job_manifest_check_def orelse_None_iff blob_table_check_def split: sum.splits)

lemma manifest_digests_distinct: "job_manifest_check h m = None \<Longrightarrow> distinct (map jb_sha256 (jm_blobs m))"
  using physical_blob_table_exact(1)[OF job_manifest_blobs(1)] strict_sorted_iff by blast

lemma manifest_candidate_blob:
  assumes "job_manifest_check h m = None"
  shows "\<exists>b \<in> set (jm_blobs m). jb_sha256 b = ar_sha256 (rq_candidate (jm_request m))"
proof -
  let ?c = "rq_candidate (jm_request m)"
  have "(ar_sha256 ?c, ar_size_bytes ?c) \<in> (\<lambda>b. (jb_sha256 b, jb_size_bytes b)) ` set (jm_blobs m)"
    unfolding physical_blob_table_exact(3)[OF job_manifest_blobs(1)[OF assms]]
    by (rule image_eqI[of _ _ ?c]) (auto simp: required_references_def)
  then show ?thesis by auto
qed

section \<open>Sealed jobs\<close>

definition loaded_job_ok :: "hasher \<Rightarrow> loaded_job \<Rightarrow> bool" where
  "loaded_job_ok h j \<longleftrightarrow> job_manifest_check h (lj_manifest j) = None \<and>
     lj_manifest_sha256 j = sha256_json h (job_manifest_json (lj_manifest j)) \<and>
     map fst (lj_blobs j) = jm_blobs (lj_manifest j) \<and>
     (\<forall>(b, bytes) \<in> set (lj_blobs j). sha256 h bytes = jb_sha256 b \<and> int (length bytes) = jb_size_bytes b) \<and>
     (\<exists>source. blob_bytes j (ar_sha256 (rq_candidate (jm_request (lj_manifest j)))) = Inr source \<and>
       extract_c_source source (cc_max_response_bytes (vp_candidate_contract (jm_plan (lj_manifest j)))) False = Inr source)"

lemma parse_manifest_Inr:
  "parse_manifest h loads mf raw = Inr m \<Longrightarrow> job_manifest_check h m = None \<and> canonical_json_bytes h (job_manifest_json m) = raw"
  by (auto simp: parse_manifest_def Let_def check_Inr_iff split: sum.splits if_splits)

lemma find_map_of: "map_option snd (find (\<lambda>(b, _). f b = k) xs) = map_of (map (\<lambda>(b, c). (f b, c)) xs) k"
  by (induction xs) (auto split: prod.splits)

lemma map_of_rev_distinct: "distinct (map fst xs) \<Longrightarrow> map_of (rev xs) = map_of xs"
  by (rule map_of_inject_set[THEN iffD2]) (auto simp: rev_map[symmetric])

lemma loaded_lookup:
  assumes "distinct (map jb_sha256 (map fst loaded))" "lj_blobs j = loaded"
  shows "blob_bytes j d = (case map_of (rev (map (\<lambda>(b, bytes). (jb_sha256 b, bytes)) loaded)) d of
    None \<Rightarrow> Inl (Exn ''KeyError'' d) | Some bytes \<Rightarrow> Inr bytes)"
proof -
  have "distinct (map fst (map (\<lambda>(b, bytes). (jb_sha256 b, bytes)) loaded))"
    using assms(1) by (simp add: comp_def case_prod_beta)
  then have "map_of (rev (map (\<lambda>(b, bytes). (jb_sha256 b, bytes)) loaded)) d =
      map_option snd (find (\<lambda>(b, _). jb_sha256 b = d) loaded)"
    by (simp add: map_of_rev_distinct find_map_of del: rev_map)
  then show ?thesis by (auto simp: blob_bytes_def assms(2) split: option.splits)
qed

definition lists :: "store \<Rightarrow> nat \<Rightarrow> string set \<Rightarrow> bool" where
  "lists fs fd names \<longleftrightarrow> (\<exists>ns. scandir_fd fd fs = Some ns \<and> set ns = names)"

lemma load_rootE:
  assumes "load_evaluation_job_from_root h loads mf W rfd dev expected t = (Inr j, t')"
  obtains raw m sfd loaded u s v where "parse_manifest h loads mf raw = Inr m"
    "expected = None \<or> expected = Some (sha256 h raw)" "t \<le> u" "u < s" "s < v" "v + 2 \<le> t'"
    "lists (W u) rfd {''manifest.json'', ''blobs''}" "lists (W v) rfd {''manifest.json'', ''blobs''}"
    "lists (W s) sfd (jb_sha256 ` set (jm_blobs m))" "lists (W (v + 2)) sfd (jb_sha256 ` set (jm_blobs m))"
    "read_blobs h W sfd dev (jm_blobs m) (Suc s) = (Inr loaded, v)" "candidate_check m loaded = Inr ()"
    "j = \<lparr> lj_manifest = m, lj_manifest_sha256 = sha256 h raw, lj_anchored = (expected \<noteq> None), lj_blobs = loaded \<rparr>"
  using assms unfolding load_evaluation_job_from_root_def Let_def
  apply (clarsimp simp: io_simps directory_entries_Inr)
  subgoal premises p for raw u m ns bfd ub nsa sfd s nsb loaded v
    by (rule p(1)[of raw u s v sfd])
      (use p forwardD[OF forward_reads(2) p(2)] forwardD[OF forward_reads(1) p(6)] forwardD[OF forward_reads(1) p(9)]
        forwardD[OF forward_read_blobs p(12)] in \<open>auto simp: lists_def\<close>)
  done

lemma loaded_root_ok:
  assumes "load_evaluation_job_from_root h loads mf W rfd dev expected t = (Inr j, t')"
  shows "loaded_job_ok h j"
  using assms
proof (cases rule: load_rootE)
  case (1 raw m sfd loaded u s v)
  have m: "job_manifest_check h m = None" "canonical_json_bytes h (job_manifest_json m) = raw"
    using parse_manifest_Inr[OF 1(1)] by auto
  have b: "map fst loaded = jm_blobs m"
    "\<forall>(b, bytes) \<in> set loaded. sha256 h bytes = jb_sha256 b \<and> length bytes = nat (jb_size_bytes b)"
    using read_blobs_Inr[OF 1(11)] by auto
  have size: "1 \<le> jb_size_bytes b" if mem: "b \<in> set (jm_blobs m)" for b
    using physical_blob_table_exact(2)[OF job_manifest_blobs(1)[OF m(1)]] mem by (auto simp: list_all_iff job_blob_ok_def)
  have "int (length bytes) = jb_size_bytes b" if mem: "(b, bytes) \<in> set loaded" for b bytes
  proof -
    have "b \<in> set (jm_blobs m)" using mem b(1) by (metis fst_conv image_eqI list.set_map)
    then show ?thesis using size[of b] b(2) mem by auto
  qed
  moreover have "\<exists>source. blob_bytes j (ar_sha256 (rq_candidate (jm_request m))) = Inr source \<and>
      extract_c_source source (cc_max_response_bytes (vp_candidate_contract (jm_plan m))) False = Inr source"
  proof -
    have "blob_bytes j d = (case map_of (rev (map (\<lambda>(b, bytes). (jb_sha256 b, bytes)) loaded)) d of
        None \<Rightarrow> Inl (Exn ''KeyError'' d) | Some bytes \<Rightarrow> Inr bytes)" for d
      by (rule loaded_lookup) (use manifest_digests_distinct[OF m(1)] b(1) 1(13) in simp_all)
    then show ?thesis using 1(12) by (auto simp: candidate_check_def split: option.splits sum.splits if_splits)
  qed
  ultimately show ?thesis using 1(13) m b by (auto simp: loaded_job_ok_def sha256_json_def)
qed

end
