(* ===== verification/Job_Publish.thy ===== *)
theory Job_Publish
  imports Job_Facts
begin

text \<open>
  Readers that meet a bundle while it is published: what a reader does against a store that no longer
  changes, the stores the three publication calls produce, and the outcome of a load that starts at any
  point of the publication.
\<close>

section \<open>Readers of a settled store\<close>

definition holds :: "store \<Rightarrow> (string \<times> nat) list \<Rightarrow> string \<Rightarrow> nat \<Rightarrow> inode \<Rightarrow> bool" where
  "holds fs es name i n \<longleftrightarrow> map_of es name = Some i \<and> fs i = Some n"

definition blob_files :: "store \<Rightarrow> (string \<times> nat) list \<Rightarrow> nat \<Rightarrow> (job_blob \<times> byte list) list \<Rightarrow> bool" where
  "blob_files fs es dev loaded \<longleftrightarrow> fst ` set es = jb_sha256 ` fst ` set loaded \<and>
     (\<forall>(b, bytes) \<in> set loaded. \<exists>i stamp. holds fs es (jb_sha256 b) i (Reg dev 1 stamp bytes))"

definition blob_tree :: "store \<Rightarrow> nat \<Rightarrow> nat \<Rightarrow> nat \<Rightarrow> (job_blob \<times> byte list) list \<Rightarrow> bool" where
  "blob_tree fs bfd sfd dev loaded \<longleftrightarrow> (\<exists>bes ses. fs bfd = Some (Directory dev bes) \<and> fst ` set bes = {''sha256''} \<and>
     holds fs bes ''sha256'' sfd (Directory dev ses) \<and> blob_files fs ses dev loaded)"

definition settled :: "timeline \<Rightarrow> store \<Rightarrow> nat \<Rightarrow> bool" where
  "settled W fs t \<longleftrightarrow> (\<forall>u \<ge> t. W u = fs)"

lemma settledD: "settled W fs t \<Longrightarrow> t \<le> u \<Longrightarrow> W u = fs"
  by (simp add: settled_def)

lemma settled_later: "settled W fs t \<Longrightarrow> t \<le> u \<Longrightarrow> settled W fs u"
  by (simp add: settled_def)

lemma holds_stat: "fs fd = Some (Directory d es) \<Longrightarrow> holds fs es name i n \<Longrightarrow> stat_at fd name fs = Some (i, n)"
  by (simp add: holds_def stat_at_def lookup_at_def)

lemmas io_defs = iobind_def guard_def syscall_def ret_def lift_result_def

lemma open_component_settled:
  assumes "settled W fs t" "fs fd = Some (Directory d es)" "holds fs es name i n" "expected_kind directory n"
    "st_dev n = dev" "directory \<or> \<not> hard_linked n"
  shows "open_component W name fd dev directory l t = (Inr i, t + 3)"
proof -
  have i: "fs i = Some n" using assms(3) by (simp add: holds_def)
  have k: "\<not> S_ISLNK n" "directory \<Longrightarrow> S_ISDIR n" using assms(4) by (cases n; auto simp: expected_kind_def split: if_splits)+
  have o: "open_at fd name directory fs = Some i" using k by (auto simp: open_at_def holds_stat[OF assms(2,3)])
  show ?thesis unfolding open_component_def
    using assms(4-6) k(1) by (simp add: io_defs settledD[OF assms(1)] holds_stat[OF assms(2,3)] o i)
qed

lemma read_file_at_settled:
  assumes "settled W fs t" "fs fd = Some (Directory d es)" "holds fs es name i (Reg dev 1 stamp bytes)"
    "length bytes \<le> k" "\<not> size_mismatch e (length bytes)"
  shows "read_file_at W name fd dev k l e t = (Inr bytes, t + 6)"
proof -
  have i: "fs i = Some (Reg dev 1 stamp bytes)" using assms(3) by (simp add: holds_def)
  have o: "open_component W name fd dev False l t = (Inr i, t + 3)"
    by (rule open_component_settled[OF assms(1-3)]) (simp_all add: expected_kind_def hard_linked_def)
  have r: "read_fd i (k + 1) fs = Some bytes" using assms(4) by (simp add: read_fd_def i)
  show ?thesis unfolding read_file_at_def
    using assms(4,5) by (simp add: iobind_def[of "open_component W name fd dev False l"] o)
      (simp add: io_defs settledD[OF assms(1)] i r[simplified] st_size_def)
qed

lemma directory_entries_settled:
  assumes "settled W fs t" "fs fd = Some (Directory d es)" "card (fst ` set es) \<le> k"
  shows "directory_entries W fd l k t = (Inr (fst ` set es), Suc t)"
  using settledD[OF assms(1) order_refl] assms(2,3)
  unfolding directory_entries_Inr by (simp add: scandir_fd_def)

lemma read_blobs_settled:
  assumes "settled W fs t" "fs fd = Some (Directory dev es)"
    "\<forall>(b, bytes) \<in> set loaded. (\<exists>i stamp. holds fs es (jb_sha256 b) i (Reg dev 1 stamp bytes)) \<and>
      sha256 h bytes = jb_sha256 b \<and> int (length bytes) = jb_size_bytes b \<and> length bytes \<le> MAX_JOB_BLOB_BYTES"
  shows "read_blobs h W fd dev (map fst loaded) t = (Inr loaded, t + 6 * length loaded)"
  using assms
proof (induction loaded arbitrary: t)
  case Nil
  then show ?case by (simp add: ret_def)
next
  case (Cons x loaded)
  obtain b bytes where x: "x = (b, bytes)" by (cases x)
  obtain i stamp where f: "holds fs es (jb_sha256 b) i (Reg dev 1 stamp bytes)" using Cons.prems(3) x by auto
  have ok: "sha256 h bytes = jb_sha256 b" "int (length bytes) = jb_size_bytes b" "length bytes \<le> MAX_JOB_BLOB_BYTES"
    using Cons.prems(3) x by auto
  have "read_file_at W (jb_sha256 b) fd dev MAX_JOB_BLOB_BYTES l (Some (nat (jb_size_bytes b))) t = (Inr bytes, t + 6)" for l
    by (rule read_file_at_settled[OF Cons.prems(1,2) f ok(3)]) (simp add: size_mismatch_def ok(2)[symmetric])
  moreover have "read_blobs h W fd dev (map fst loaded) (t + 6) = (Inr loaded, t + 6 + 6 * length loaded)"
    by (rule Cons.IH) (use Cons.prems settled_later[OF Cons.prems(1)] in auto)
  ultimately show ?case by (simp add: iobind_def guard_def ret_def x ok(1) add.assoc)
qed

text \<open>The content of a publishable bundle: what the reader will accept once the tree is complete.\<close>

definition publishable :: "hasher \<Rightarrow> (byte list \<Rightarrow> json result) \<Rightarrow> (json \<Rightarrow> job_manifest result) \<Rightarrow> byte list \<Rightarrow>
    job_manifest \<Rightarrow> (job_blob \<times> byte list) list \<Rightarrow> bool" where
  "publishable h loads mf raw m loaded \<longleftrightarrow> parse_manifest h loads mf raw = Inr m \<and> length raw \<le> MAX_JOB_MANIFEST_BYTES \<and>
     map fst loaded = jm_blobs m \<and> candidate_check m loaded = Inr () \<and>
     (\<forall>(b, bytes) \<in> set loaded. sha256 h bytes = jb_sha256 b \<and> int (length bytes) = jb_size_bytes b)"

lemma loaded_total:
  assumes "map fst loaded = bs" "\<forall>(b, bytes) \<in> set loaded. int (length bytes) = jb_size_bytes b"
  shows "int (sum_list (map (length \<circ> snd) loaded)) = blob_total bs"
proof -
  have "map (int \<circ> length \<circ> snd) loaded = map jb_size_bytes (map fst loaded)" using assms(2) by auto
  then have "sum_list (map (int \<circ> length \<circ> snd) loaded) = blob_total bs" by (simp add: blob_total_def assms(1))
  moreover have "int (sum_list (map (length \<circ> snd) loaded)) = sum_list (map (int \<circ> length \<circ> snd) loaded)"
    by (induction loaded) auto
  ultimately show ?thesis by simp
qed

lemma publishable_sizes:
  assumes "publishable h loads mf raw m loaded"
  shows "\<forall>(b, bytes) \<in> set loaded. length bytes \<le> MAX_JOB_BLOB_BYTES"
    "int (sum_list (map (length \<circ> snd) loaded)) = jm_total_blob_bytes m"
proof -
  have m: "job_manifest_check h m = None" "map fst loaded = jm_blobs m"
    "\<forall>(b, bytes) \<in> set loaded. int (length bytes) = jb_size_bytes b"
    using assms parse_manifest_Inr by (auto simp: publishable_def)
  have "job_blob_ok b" if mem: "(b, bytes) \<in> set loaded" for b bytes
    using physical_blob_table_exact(2)[OF job_manifest_blobs(1)[OF m(1)]] mem m(2)
    by (metis fst_conv image_eqI list.set_map list_all_iff)
  then show "\<forall>(b, bytes) \<in> set loaded. length bytes \<le> MAX_JOB_BLOB_BYTES"
    using m(3) by (fastforce simp: job_blob_ok_def)
  show "int (sum_list (map (length \<circ> snd) loaded)) = jm_total_blob_bytes m"
    using loaded_total[OF m(2,3)]
    using job_manifest_blobs(2)[OF m(1)] by simp
qed

lemma load_settled:
  assumes "settled W fs t" "publishable h loads mf raw m loaded" "expected = None \<or> expected = Some (sha256 h raw)"
    "fs fd = Some (Directory dev es)" "fst ` set es = {''manifest.json'', ''blobs''}"
    "holds fs es ''manifest.json'' i (Reg dev 1 stamp raw)" "map_of es ''blobs'' = Some bfd" "blob_tree fs bfd sfd dev loaded"
  shows "fst (load_evaluation_job_from_root h loads mf W fd dev expected t) =
    Inr \<lparr> lj_manifest = m, lj_manifest_sha256 = sha256 h raw, lj_anchored = (expected \<noteq> None), lj_blobs = loaded \<rparr>"
proof -
  obtain bes ses where b: "fs bfd = Some (Directory dev bes)" "fst ` set bes = {''sha256''}"
    "holds fs bes ''sha256'' sfd (Directory dev ses)" "blob_files fs ses dev loaded"
    using assms(8) by (auto simp: blob_tree_def)
  have s: "fs sfd = Some (Directory dev ses)" using b(3) by (simp add: holds_def)
  have p: "parse_manifest h loads mf raw = Inr m" "length raw \<le> MAX_JOB_MANIFEST_BYTES" "map fst loaded = jm_blobs m"
    "candidate_check m loaded = Inr ()" using assms(2) by (auto simp: publishable_def)
  have names: "fst ` set ses = jb_sha256 ` set (jm_blobs m)" using b(4) p(3) by (metis blob_files_def list.set_map)
  note set = settled_later[OF assms(1)]
  have raw: "read_file_at W ''manifest.json'' fd dev MAX_JOB_MANIFEST_BYTES ''job manifest'' None t = (Inr raw, t + 6)"
    by (rule read_file_at_settled[OF assms(1,4,6) p(2)]) (simp add: size_mismatch_def)
  have dirs: "directory_entries W fd l 2 u = (Inr {''manifest.json'', ''blobs''}, Suc u)"
    "directory_entries W bfd l (Suc 0) u = (Inr {''sha256''}, Suc u)"
    "directory_entries W sfd l (card (jb_sha256 ` set (jm_blobs m))) u = (Inr (jb_sha256 ` set (jm_blobs m)), Suc u)"
    if u: "t \<le> u" for u l
    using directory_entries_settled[OF set[OF u] assms(4), of 2 l]
      directory_entries_settled[OF set[OF u] b(1), of "Suc 0" l] directory_entries_settled[OF set[OF u] s, of _ l]
    by (simp_all add: assms(5) b(2) names)
  have opens: "open_component W ''blobs'' fd dev True l u = (Inr bfd, u + 3)"
    "open_component W ''sha256'' bfd dev True l u = (Inr sfd, u + 3)" if u: "t \<le> u" for u l
    using open_component_settled[OF set[OF u] assms(4), of "''blobs''" bfd "Directory dev bes" True dev l]
      open_component_settled[OF set[OF u] b(1,3), of True dev l] assms(7) b(1)
    by (simp_all add: expected_kind_def holds_def)
  have blobs: "read_blobs h W sfd dev (jm_blobs m) u = (Inr loaded, u + 6 * length loaded)" if u: "t \<le> u" for u
    using read_blobs_settled[OF set[OF u] s, of loaded h] b(4) publishable_sizes(1)[OF assms(2)] assms(2)
    unfolding p(3) by (fastforce simp: blob_files_def publishable_def)
  show ?thesis
    unfolding load_evaluation_job_from_root_def Let_def
    using assms(3) publishable_sizes(2)[OF assms(2)]
    by (auto simp: iobind_def guard_def ret_def lift_result_def raw p dirs opens blobs)
qed

section \<open>Stores of a publication\<close>

text \<open>A complete staged bundle next to a target name that is still free.\<close>

definition staged_bundle :: "store \<Rightarrow> nat \<Rightarrow> nat \<Rightarrow> string \<Rightarrow> nat \<Rightarrow> byte list \<Rightarrow> (job_blob \<times> byte list) list \<Rightarrow> bool" where
  "staged_bundle fs parent staged target dev raw loaded \<longleftrightarrow> (\<exists>pes es i stamp bfd sfd.
     fs parent = Some (Directory dev pes) \<and> map_of pes target = None \<and> fs staged = Some (Directory dev es) \<and>
     holds fs es ''manifest.json'' i (Reg dev 1 stamp raw) \<and> map_of es ''blobs'' = Some bfd \<and>
     blob_tree fs bfd sfd dev loaded \<and> parent \<noteq> staged \<and> {bfd, sfd} \<inter> {parent, staged} = {})"

lemma blob_tree_kept:
  assumes "blob_tree fs bfd sfd dev loaded" "fs' bfd = fs bfd" "fs' sfd = fs sfd"
    "\<And>i d l st bs. fs i = Some (Reg d l st bs) \<Longrightarrow> fs' i = fs i"
  shows "blob_tree fs' bfd sfd dev loaded"
proof -
  obtain bes ses where b: "fs bfd = Some (Directory dev bes)" "fst ` set bes = {''sha256''}"
    "holds fs bes ''sha256'' sfd (Directory dev ses)" "blob_files fs ses dev loaded"
    using assms(1) by (auto simp: blob_tree_def)
  have k: "holds fs' es name i (Reg d l st bs)" if "holds fs es name i (Reg d l st bs)" for es name i d l st bs
    using that assms(4)[of i d l st bs] by (simp add: holds_def)
  have "\<exists>i st. holds fs' ses (jb_sha256 b) i (Reg dev 1 st bytes)" if mem: "(b, bytes) \<in> set loaded" for b bytes
  proof -
    obtain i st where "holds fs ses (jb_sha256 b) i (Reg dev 1 st bytes)" using b(4) mem by (auto simp: blob_files_def)
    then show ?thesis using k by metis
  qed
  then have "blob_files fs' ses dev loaded" using b(4) by (auto simp: blob_files_def)
  then show ?thesis using b assms(2,3) by (auto simp: blob_tree_def holds_def)
qed

text \<open>What the entry of the target holds after \<open>k\<close> publication calls.\<close>

definition target_entries :: "nat \<Rightarrow> nat \<Rightarrow> nat \<Rightarrow> (string \<times> nat) list" where
  "target_entries k bfd i =
     (if k < 2 then [] else if k = 2 then [(''blobs'', bfd)] else [(''blobs'', bfd), (''manifest.json'', i)])"

definition publication :: "store list \<Rightarrow> nat \<Rightarrow> string \<Rightarrow> nat \<Rightarrow> nat \<Rightarrow> byte list \<Rightarrow> (job_blob \<times> byte list) list \<Rightarrow> bool" where
  "publication stores parent target fresh dev raw loaded \<longleftrightarrow> length stores = 4 \<and> lookup_at (stores ! 0) parent target = None \<and>
     (\<exists>bfd sfd i stamp. (stores ! 3) i = Some (Reg dev 1 stamp raw) \<and> blob_tree (stores ! 3) bfd sfd dev loaded \<and>
       (\<forall>k \<in> {1..3}. lookup_at (stores ! k) parent target = Some fresh \<and>
         (stores ! k) fresh = Some (Directory dev (target_entries k bfd i))))"

lemma publication_stores:
  assumes "staged_bundle fs parent staged target dev raw loaded" "fs fresh = None"
  shows "\<exists>stores. publish_staged_bundle parent staged target fresh fs = Inr stores \<and>
    publication (fs # stores) parent target fresh dev raw loaded"
proof -
  obtain pes es i stamp bfd sfd where s: "fs parent = Some (Directory dev pes)" "map_of pes target = None"
    "fs staged = Some (Directory dev es)" "map_of es ''manifest.json'' = Some i" "fs i = Some (Reg dev 1 stamp raw)"
    "map_of es ''blobs'' = Some bfd" "blob_tree fs bfd sfd dev loaded" "parent \<noteq> staged" "{bfd, sfd} \<inter> {parent, staged} = {}"
    using assms(1) by (auto simp: staged_bundle_def holds_def)
  define fs1 where "fs1 = fs(fresh \<mapsto> Directory dev [], parent \<mapsto> Directory dev (AList.update target fresh pes))"
  define fs2 where "fs2 = fs1(staged \<mapsto> Directory dev (AList.delete ''blobs'' es),
    fresh \<mapsto> Directory dev (target_entries 2 bfd i))"
  define fs3 where "fs3 = fs2(staged \<mapsto> Directory dev (AList.delete ''manifest.json'' (AList.delete ''blobs'' es)),
    fresh \<mapsto> Directory dev (target_entries 3 bfd i))"
  have "fs bfd \<noteq> None" "fs sfd \<noteq> None" using s(7) by (auto simp: blob_tree_def holds_def)
  moreover have "fresh \<noteq> x" if "fs x \<noteq> None" for x using that assms(2) by auto
  ultimately have "fresh \<noteq> parent" "fresh \<noteq> staged" "fresh \<noteq> i" "fresh \<noteq> bfd" "fresh \<noteq> sfd" by (simp_all add: s)
  moreover have "i \<noteq> parent" "i \<noteq> staged" using s(1,3,5) by auto
  moreover have "bfd \<noteq> parent" "bfd \<noteq> staged" "sfd \<noteq> parent" "sfd \<noteq> staged" using s(9) by auto
  ultimately have ne: "fresh \<noteq> parent" "fresh \<noteq> staged" "fresh \<noteq> i" "fresh \<noteq> bfd" "fresh \<noteq> sfd" "i \<noteq> parent"
    "i \<noteq> staged" "bfd \<noteq> parent" "bfd \<noteq> staged" "sfd \<noteq> parent" "sfd \<noteq> staged" .
  have "mkdir_at parent target fresh fs = Inr fs1"
    using ne s(1,2) by (simp add: mkdir_at_def add_entry_def fs1_def)
  moreover have "rename_at ''blobs'' staged fresh fs1 = Inr fs2"
    using ne s(3,6,8) by (simp add: rename_at_def lookup_at_def add_entry_def remove_entry_def fs1_def fs2_def target_entries_def)
  moreover have "rename_at ''manifest.json'' staged fresh fs2 = Inr fs3"
    using ne s(4) by (simp add: rename_at_def lookup_at_def add_entry_def remove_entry_def fs2_def fs3_def target_entries_def
        AList.delete_conv')
  ultimately have pub: "publish_staged_bundle parent staged target fresh fs = Inr [fs1, fs2, fs3]"
    by (simp add: publish_staged_bundle_def)
  have tree: "blob_tree fs3 bfd sfd dev loaded"
    by (rule blob_tree_kept[OF s(7)]) (use ne s(1,3) assms(2) in \<open>auto simp: fs1_def fs2_def fs3_def\<close>)
  have raw_file: "fs3 i = Some (Reg dev 1 stamp raw)" using ne s(5) by (simp add: fs1_def fs2_def fs3_def)
  have free: "lookup_at fs parent target = None" using s(1,2) by (simp add: lookup_at_def)
  have taken: "lookup_at ([fs, fs1, fs2, fs3] ! k) parent target = Some fresh \<and>
      ([fs, fs1, fs2, fs3] ! k) fresh = Some (Directory dev (target_entries k bfd i))" if "k \<in> {1..3}" for k
  proof -
    have "k = 1 \<or> k = 2 \<or> k = 3" using that by auto
    then show ?thesis
      using ne s(8) by (auto simp: lookup_at_def fs1_def fs2_def fs3_def AList.update_conv' target_entries_def)
  qed
  have "publication [fs, fs1, fs2, fs3] parent target fresh dev raw loaded"
    unfolding publication_def
  proof (intro conjI exI ballI)
    show "([fs, fs1, fs2, fs3] ! 3) i = Some (Reg dev 1 stamp raw)" using raw_file by simp
    show "blob_tree ([fs, fs1, fs2, fs3] ! 3) bfd sfd dev loaded" using tree by simp
  qed (use free taken in simp_all)
  then show ?thesis using pub by blast
qed

section \<open>Loading during a publication\<close>

text \<open>A timeline in which the store only moves forward through the stores of a publication.\<close>

definition publishing :: "timeline \<Rightarrow> (nat \<Rightarrow> nat) \<Rightarrow> store list \<Rightarrow> bool" where
  "publishing W phase stores \<longleftrightarrow> mono phase \<and> (\<forall>t. phase t < length stores \<and> W t = stores ! phase t)"

lemma publishing_phase:
  assumes "publishing W phase stores" "t \<le> u"
  shows "phase t \<le> phase u" "phase u < length stores" "W u = stores ! phase u"
  using assms by (auto simp: publishing_def dest: monoD)

lemma open_root_publishing:
  assumes "\<And>u. t \<le> u \<Longrightarrow> \<exists>es. lookup_at (W u) parent target = Some fd \<and> W u fd = Some (Directory dev es)"
  shows "open_root W parent target t = (Inr (fd, dev), t + 3)"
proof -
  have s: "\<exists>es. stat_at parent target (W u) = Some (fd, Directory dev es) \<and> W u fd = Some (Directory dev es)" if "t \<le> u" for u
    using assms[OF that] by (auto simp: stat_at_def)
  obtain e1 e2 e3 where "stat_at parent target (W t) = Some (fd, Directory dev e1)"
    "stat_at parent target (W (Suc t)) = Some (fd, Directory dev e2)" "W (Suc (Suc t)) fd = Some (Directory dev e3)"
    using s[of t] s[of "Suc t"] s[of "Suc (Suc t)"] by auto
  then show ?thesis unfolding open_root_def by (simp add: io_defs open_at_def)
qed

lemma load_before_manifest:
  assumes "lookup_at (W t) fd ''manifest.json'' = None"
  shows "fst (load_evaluation_job_from_root h loads mf W fd dev expected t) = Inl (JobBundleError ''cannot inspect job manifest'')"
  by (simp add: load_evaluation_job_from_root_def read_file_at_def open_component_def iobind_def syscall_def stat_at_def assms)

lemma load_before_target:
  assumes "lookup_at (W t) parent target = None"
  shows "fst (load_evaluation_job_bundle h loads mf W parent target expected t) = Inl (JobBundleError ''cannot inspect job bundle root'')"
  by (simp add: load_evaluation_job_bundle_def open_root_def iobind_def syscall_def stat_at_def assms)

lemma load_published_root:
  assumes "publication stores parent target fresh dev raw loaded" "publishing W phase stores" "1 \<le> phase u"
    "publishable h loads mf raw m loaded" "expected = None \<or> expected = Some (sha256 h raw)"
  shows "fst (load_evaluation_job_from_root h loads mf W fresh dev expected u) =
    (if phase u < 3 then Inl (JobBundleError ''cannot inspect job manifest'')
     else Inr \<lparr> lj_manifest = m, lj_manifest_sha256 = sha256 h raw, lj_anchored = (expected \<noteq> None), lj_blobs = loaded \<rparr>)"
proof -
  obtain bfd sfd i stamp where p: "length stores = 4" "(stores ! 3) i = Some (Reg dev 1 stamp raw)"
    "blob_tree (stores ! 3) bfd sfd dev loaded"
    "\<And>k. k \<in> {1..3} \<Longrightarrow> (stores ! k) fresh = Some (Directory dev (target_entries k bfd i))"
    using assms(1) unfolding publication_def by blast
  show ?thesis
  proof (cases "phase u < 3")
    case True
    have "lookup_at (W u) fresh ''manifest.json'' = None"
      using p(4)[of "phase u"] assms(3) True publishing_phase(3)[OF assms(2) order_refl, of u]
      by (simp add: lookup_at_def target_entries_def)
    then show ?thesis using load_before_manifest True by simp
  next
    case False
    have three: "phase v = 3" if "u \<le> v" for v using publishing_phase(1,2)[OF assms(2) that] False p(1) by simp
    have s: "settled W (stores ! 3) u" unfolding settled_def using publishing_phase(3)[OF assms(2)] three by simp
    have e: "(stores ! 3) fresh = Some (Directory dev [(''blobs'', bfd), (''manifest.json'', i)])"
      using p(4)[of 3] by (simp add: target_entries_def)
    show ?thesis
      using load_settled[OF s assms(4,5) e _ _ _ p(3), of i stamp] p(2) three[of u] by (auto simp: holds_def)
  qed
qed

lemma load_during_publication:
  assumes "publication stores parent target fresh dev raw loaded" "publishable h loads mf raw m loaded"
    "expected = None \<or> expected = Some (sha256 h raw)" "publishing W phase stores"
  shows "fst (load_evaluation_job_bundle h loads mf W parent target expected t) =
    (if phase t = 0 then Inl (JobBundleError ''cannot inspect job bundle root'')
     else if phase (t + 3) < 3 then Inl (JobBundleError ''cannot inspect job manifest'')
     else Inr \<lparr> lj_manifest = m, lj_manifest_sha256 = sha256 h raw, lj_anchored = (expected \<noteq> None), lj_blobs = loaded \<rparr>)"
proof (cases "phase t = 0")
  case True
  then have "lookup_at (W t) parent target = None"
    using assms(1) publishing_phase(3)[OF assms(4) order_refl, of t] by (simp add: publication_def)
  then show ?thesis using load_before_target True by simp
next
  case False
  have ph: "phase u \<in> {1..3}" "W u = stores ! phase u" if "t \<le> u" for u
    using publishing_phase[OF assms(4) that] False assms(1) by (auto simp: publication_def)
  have "open_root W parent target t = (Inr (fresh, dev), t + 3)"
  proof (rule open_root_publishing)
    fix u assume "t \<le> u"
    then show "\<exists>es. lookup_at (W u) parent target = Some fresh \<and> W u fresh = Some (Directory dev es)"
      using ph[of u] assms(1) unfolding publication_def by auto
  qed
  then show ?thesis
    using load_published_root[OF assms(1,4) _ assms(2,3), of "t + 3"] ph(1)[of "t + 3"] False
    by (simp add: load_evaluation_job_bundle_def iobind_def)
qed

end
