(* ===== verification/Job_Dispatch.thy ===== *)
theory Job_Dispatch
  imports Dispatch_Ledger Job_Publish
begin

text \<open>
  \<open>dispatch.dispatch_expectation_for\<close>: the bindings a worker expects of an authorization, derived from
  a loaded job and a local execution profile.  The derivation re-examines the loaded job; the locale
  \<open>job_source\<close> states what it may rely on when the job comes from a reader that seals what it returns.
\<close>

abbreviation DispatchExpectationError :: "string \<Rightarrow> exn" where
  "DispatchExpectationError m \<equiv> Exn ''DispatchExpectationError'' m"

definition blob_identity :: "job_blob \<Rightarrow> string \<times> int" where
  "blob_identity b = (jb_sha256 b, jb_size_bytes b)"

fun dispatch_blobs :: "hasher \<Rightarrow> (string \<times> int) set \<Rightarrow> (string \<times> int) set \<Rightarrow> nat \<Rightarrow> (job_blob \<times> byte list) list \<Rightarrow>
    ((string \<times> int) set \<times> nat) result" where
  "dispatch_blobs h expected seen nbytes [] = Inr (seen, nbytes)"
| "dispatch_blobs h expected seen nbytes ((b, bytes) # rest) =
     (if \<not> job_blob_ok b \<or> blob_identity b \<notin> expected \<or> blob_identity b \<in> seen \<or>
        int (length bytes) \<noteq> jb_size_bytes b \<or> sha256 h bytes \<noteq> jb_sha256 b
      then Inl (DispatchExpectationError ''dispatch loaded-job blob set is invalid'')
      else dispatch_blobs h expected (insert (blob_identity b) seen) (nbytes + length bytes) rest)"

definition expectation_for :: "hasher \<Rightarrow> loaded_job \<Rightarrow> execution_profile \<Rightarrow> dispatch_purpose \<Rightarrow> string \<Rightarrow> string \<Rightarrow> string \<Rightarrow>
    expectation" where
  "expectation_for h loaded profile purpose audience policy_id policy_sha256 = (let m = lj_manifest loaded in
     \<lparr> xp_job_manifest_sha256 = lj_manifest_sha256 loaded, xp_request_sha256 = jm_request_sha256 m,
       xp_experiment_sha256 = jm_experiment_sha256 m, xp_environment_sha256 = jm_environment_sha256 m,
       xp_execution_profile_sha256 = sha256_json h (execution_profile_json profile),
       xp_resource_profile_sha256 = ep_resource_profile_sha256 profile, xp_purpose = purpose,
       xp_worker_pool_audience = audience, xp_policy_id = policy_id, xp_policy_sha256 = policy_sha256 \<rparr>)"

definition dispatch_expectation_for :: "hasher \<Rightarrow> loaded_job \<Rightarrow> execution_profile \<Rightarrow> string \<Rightarrow> dispatch_purpose \<Rightarrow> string \<Rightarrow>
    string \<Rightarrow> string \<Rightarrow> expectation result" where
  "dispatch_expectation_for h loaded profile expected_sha256 purpose audience policy_id policy_sha256 =
     (let m = lj_manifest loaded; expected_blobs = set (map blob_identity (jm_blobs m));
        x = expectation_for h loaded profile purpose audience policy_id policy_sha256 in
      check (raises
        [(job_manifest_check h m \<noteq> None \<or> execution_profile_check h profile \<noteq> None,
           DispatchExpectationError ''dispatch job or profile is invalid''),
         (\<not> lj_anchored loaded, DispatchExpectationError ''dispatch job is not anchored by an expected digest''),
         (lj_manifest_sha256 loaded \<noteq> expected_sha256 \<or> lj_manifest_sha256 loaded \<noteq> sha256_json h (job_manifest_json m),
           DispatchExpectationError ''dispatch job anchor differs from its manifest'')])
      (rbind (dispatch_blobs h expected_blobs {} 0 (lj_blobs loaded)) (\<lambda>(seen, nbytes).
      check (raises
        [(seen \<noteq> expected_blobs \<or> int nbytes \<noteq> jm_total_blob_bytes m,
           DispatchExpectationError ''dispatch loaded-job blob set is incomplete''),
         (ep_environment profile \<noteq> jm_environment m \<or> ep_environment_sha256 profile \<noteq> jm_environment_sha256 m,
           DispatchExpectationError ''dispatch execution profile differs from the anchored job environment''),
         (ep_worker_pool_audience profile \<noteq> audience,
           DispatchExpectationError ''dispatch execution profile differs from the trusted worker audience''),
         (er_wall_timeout_ms (ep_resources profile) > vp_whole_attempt_timeout_seconds (jm_plan m) * 1000,
           DispatchExpectationError ''dispatch resource timeout exceeds the anchored evaluation plan''),
         (validate_expectation x \<noteq> None, DispatchExpectationError ''trusted dispatch policy inputs are invalid'')])
      (Inr x))))"

section \<open>Expectations of sealed jobs\<close>

lemma dispatch_blobs_sealed:
  assumes "list_all job_blob_ok (map fst loaded)" "blob_identity ` fst ` set loaded \<subseteq> expected"
    "distinct (map (blob_identity \<circ> fst) loaded)" "seen \<inter> blob_identity ` fst ` set loaded = {}"
    "\<forall>(b, bytes) \<in> set loaded. sha256 h bytes = jb_sha256 b \<and> int (length bytes) = jb_size_bytes b"
  shows "dispatch_blobs h expected seen nbytes loaded =
    Inr (seen \<union> blob_identity ` fst ` set loaded, nbytes + sum_list (map (length \<circ> snd) loaded))"
  using assms
proof (induction loaded arbitrary: seen nbytes)
  case (Cons x loaded)
  obtain b bytes where x: "x = (b, bytes)" by (cases x)
  have "dispatch_blobs h expected (insert (blob_identity b) seen) (nbytes + length bytes) loaded =
      Inr (insert (blob_identity b) seen \<union> blob_identity ` fst ` set loaded,
        nbytes + length bytes + sum_list (map (length \<circ> snd) loaded))"
    by (rule Cons.IH) (use Cons.prems x in auto)
  moreover have "blob_identity b \<notin> seen" using Cons.prems(4) x by auto
  ultimately show ?case using Cons.prems x by (simp add: add.assoc comp_def)
qed simp

lemma blob_identity_inj: "distinct (map jb_sha256 bs) \<Longrightarrow> distinct (map blob_identity bs)"
  by (induction bs) (auto simp: blob_identity_def)

lemma sealed_blobs:
  assumes "loaded_job_ok h j"
  shows "dispatch_blobs h (set (map blob_identity (jm_blobs (lj_manifest j)))) {} 0 (lj_blobs j) =
      Inr (set (map blob_identity (jm_blobs (lj_manifest j))), sum_list (map (length \<circ> snd) (lj_blobs j)))"
    "int (sum_list (map (length \<circ> snd) (lj_blobs j))) = jm_total_blob_bytes (lj_manifest j)"
proof -
  let ?m = "lj_manifest j"
  have ok: "job_manifest_check h ?m = None" "map fst (lj_blobs j) = jm_blobs ?m"
    "\<forall>(b, bytes) \<in> set (lj_blobs j). sha256 h bytes = jb_sha256 b \<and> int (length bytes) = jb_size_bytes b"
    using assms by (auto simp: loaded_job_ok_def)
  have f: "fst ` set (lj_blobs j) = set (jm_blobs ?m)" using ok(2) by (metis list.set_map)
  have d: "distinct (map (blob_identity \<circ> fst) (lj_blobs j))"
    using blob_identity_inj[OF manifest_digests_distinct[OF ok(1)]] ok(2) by (metis map_map)
  have l: "list_all job_blob_ok (map fst (lj_blobs j))"
    using physical_blob_table_exact(2)[OF job_manifest_blobs(1)[OF ok(1)]] ok(2) by simp
  show "dispatch_blobs h (set (map blob_identity (jm_blobs ?m))) {} 0 (lj_blobs j) =
      Inr (set (map blob_identity (jm_blobs ?m)), sum_list (map (length \<circ> snd) (lj_blobs j)))"
    using dispatch_blobs_sealed[OF l _ d _ ok(3), of "set (map blob_identity (jm_blobs ?m))" "{}" 0] by (simp add: f)
  show "int (sum_list (map (length \<circ> snd) (lj_blobs j))) = jm_total_blob_bytes ?m"
    using loaded_total[OF ok(2)] ok(3) job_manifest_blobs(2)[OF ok(1)] by auto
qed

lemma manifest_environment_digest:
  "job_manifest_check h m = None \<Longrightarrow> jm_environment_sha256 m = sha256_json h (environment_json (jm_environment m))"
  by (simp add: job_manifest_check_def orelse_None_iff digests_check_def)

lemma profile_environment_digest:
  "execution_profile_check h p = None \<Longrightarrow> ep_environment_sha256 p = sha256_json h (environment_json (ep_environment p))"
  by (simp add: execution_profile_check_def)

lemma validate_expectation_iff:
  "validate_expectation x = None \<longleftrightarrow> list_all sha256_ok [xp_job_manifest_sha256 x, xp_request_sha256 x, xp_experiment_sha256 x,
     xp_environment_sha256 x, xp_execution_profile_sha256 x, xp_resource_profile_sha256 x, xp_policy_sha256 x] \<and>
   stable_id (xp_worker_pool_audience x) \<and> stable_id (xp_policy_id x)"
proof -
  have "stable_id ''expectation-probe''" by (simp add: stable_id_def id_start_def id_char_def is_lower_def is_upper_def is_digit_def)
  then show ?thesis using digest_ones_ok
    by (auto simp: validate_expectation_def expectation_probe_def payload_check_def int_in_def opt_ok_def
        retry_lineage_broken_def MAX_AUTHORIZATION_LIFETIME_SECONDS_def)
qed

lemma expectation_inputs:
  assumes "job_manifest_check h (lj_manifest j) = None" "lj_manifest_sha256 j = sha256_json h (job_manifest_json (lj_manifest j))"
    "execution_profile_check h profile = None" "hexdigest_ok h" "ep_worker_pool_audience profile = audience"
  shows "validate_expectation (expectation_for h j profile purpose audience pid psha) = None \<longleftrightarrow> stable_id pid \<and> sha256_ok psha"
proof -
  have "sha256_ok (jm_request_sha256 (lj_manifest j))" "sha256_ok (jm_experiment_sha256 (lj_manifest j))"
    "sha256_ok (jm_environment_sha256 (lj_manifest j))"
    using assms(1) by (simp_all add: job_manifest_check_def orelse_None_iff job_fields_check_def)
  moreover have "stable_id audience" "sha256_ok (ep_resource_profile_sha256 profile)"
    using assms(3,5) by (auto simp: execution_profile_check_def)
  moreover have "sha256_ok (sha256_json h v)" for v using assms(4) by (rule sha256_json_ok)
  ultimately show ?thesis
    using assms(2) by (auto simp: validate_expectation_iff expectation_for_def Let_def)
qed

text \<open>A reader of jobs seals what it returns and honours the expected digest it was given.\<close>

locale job_source =
  fixes hash :: hasher
    and load :: "'i \<Rightarrow> string option \<Rightarrow> loaded_job io"
  assumes sealed: "load i expected t = (Inr j, t') \<Longrightarrow> loaded_job_ok hash j"
    and anchored_at: "load i expected t = (Inr j, t') \<Longrightarrow>
      lj_anchored j = (expected \<noteq> None) \<and> (expected = None \<or> expected = Some (lj_manifest_sha256 j))"
begin

lemma expectation_of_source:
  assumes "load i (Some d) t = (Inr j, t')" "hexdigest_ok hash"
  shows "dispatch_expectation_for hash j profile d purpose audience pid psha = Inr x \<longleftrightarrow>
    execution_profile_check hash profile = None \<and> ep_environment profile = jm_environment (lj_manifest j) \<and>
    ep_worker_pool_audience profile = audience \<and>
    er_wall_timeout_ms (ep_resources profile) \<le> vp_whole_attempt_timeout_seconds (jm_plan (lj_manifest j)) * 1000 \<and>
    stable_id pid \<and> sha256_ok psha \<and> x = expectation_for hash j profile purpose audience pid psha"
proof -
  note ok = sealed[OF assms(1)]
  have m: "job_manifest_check hash (lj_manifest j) = None"
    "lj_manifest_sha256 j = sha256_json hash (job_manifest_json (lj_manifest j))"
    using ok by (simp_all add: loaded_job_ok_def)
  have a: "lj_anchored j" "lj_manifest_sha256 j = d" using anchored_at[OF assms(1)] by simp_all
  have "ep_environment_sha256 profile = jm_environment_sha256 (lj_manifest j)"
    if "execution_profile_check hash profile = None" "ep_environment profile = jm_environment (lj_manifest j)"
    using profile_environment_digest[OF that(1)] manifest_environment_digest[OF m(1)] that(2) by simp
  then show ?thesis
    unfolding dispatch_expectation_for_def Let_def sealed_blobs(1)[OF ok]
    using m a sealed_blobs(2)[OF ok] expectation_inputs[OF m _ assms(2), of profile audience purpose pid psha]
    by (auto simp: check_Inr_iff not_less)
qed

end

lemma load_bundle_root:
  "load_evaluation_job_bundle h loads mf W parent name expected t = (Inr j, t') \<Longrightarrow>
    \<exists>rfd dev u. load_evaluation_job_from_root h loads mf W rfd dev expected u = (Inr j, t') \<and> t \<le> u"
proof -
  assume "load_evaluation_job_bundle h loads mf W parent name expected t = (Inr j, t')"
  then obtain rfd dev u where o: "open_root W parent name t = (Inr (rfd, dev), u)"
    "load_evaluation_job_from_root h loads mf W rfd dev expected u = (Inr j, t')"
    by (auto simp: load_evaluation_job_bundle_def iobind_Inr_iff)
  have "forward (open_root W parent name)" unfolding open_root_def by (auto split: prod.splits)
  then have "t \<le> u" by (rule forwardD) (rule o(1))
  then show ?thesis using o(2) by blast
qed

interpretation bundles: job_source h "\<lambda>(loads, mf, W, parent, name). load_evaluation_job_bundle h loads mf W parent name" for h
proof (unfold_locales)
  fix i expected t j t'
  assume l: "(case i of (loads, mf, W, parent, name) \<Rightarrow> load_evaluation_job_bundle h loads mf W parent name) expected t = (Inr j, t')"
  obtain loads mf W parent name where i: "i = (loads, mf, W, parent, name)" by (metis prod.exhaust)
  obtain rfd dev u where r: "load_evaluation_job_from_root h loads mf W rfd dev expected u = (Inr j, t')"
    using l i load_bundle_root by fastforce
  show "loaded_job_ok h j" by (rule loaded_root_ok[OF r])
  show "lj_anchored j = (expected \<noteq> None) \<and> (expected = None \<or> expected = Some (lj_manifest_sha256 j))"
    by (rule load_rootE[OF r]) simp
qed

end
