(* ===== verification/Job_Samples.thy ===== *)
theory Job_Samples
  imports Job_Dispatch Aggregate_Samples "HOL-Library.Multiset"
begin

text \<open>
  A concrete prepared job: a task bundle with its plan and contract, the manifest of the strict run of
  \<open>Aggregate_Samples\<close>, a bound on the size of its canonical bytes, an execution profile for it, and the
  stores of its publication.
\<close>

section \<open>A concrete job\<close>

definition sample_source :: "byte list" where
  "sample_source = replicate 12 97"

definition sample_assertion :: assertion_spec where
  "sample_assertion = \<lparr> av_assertion_id = ''a'', av_kind = ''xdp_action'', av_required = True, av_weight = 1, av_expected = None \<rparr>"

definition sample_obligation :: semantic_obligation where
  "sample_obligation = \<lparr> so_obligation_id = ''o'', so_kind = ''k'', so_description = ''d'', so_required = True \<rparr>"

definition sample_file :: file_ref where
  "sample_file = \<lparr> fr_path = ''f'', fr_sha256 = digest_a, fr_size_bytes = 12 \<rparr>"

definition sample_bundle :: task_bundle where
  "sample_bundle = \<lparr>
     tb_public = \<lparr> pt_task_id = ''t'', pt_version = ''v1'', pt_family = REPAIR, pt_prompt = sample_file,
       pt_starter_source = Some sample_file,
       pt_candidate_contract = \<lparr> cc_max_response_bytes = 64, cc_allow_markdown_fence = True \<rparr>,
       pt_program = \<lparr> pc_program_type = ''xdp'', pc_section = ''xdp'', pc_entrypoint = ''p'', pc_max_programs = 1 \<rparr>,
       pt_public_sdk_id = ''sdk'', pt_environment_id = ''env'', pt_max_attempts = 3,
       pt_whole_attempt_timeout_seconds = 30 \<rparr>,
     tb_private = \<lparr> pg_task_id = ''t'', pg_task_version = ''v1'', pg_split = DEVELOPMENT, pg_root_cause = Some ''rc'',
       pg_contamination_group = ''g'',
       pg_provenance = \<lparr> pv_repository = ''r'', pv_commit = commit_b, pv_source_path = ''s'', pv_license = ''l'',
         pv_original_sha256 = digest_a \<rparr>,
       pg_mutation = None, pg_reference_source = sample_file, pg_valid_alternatives = [sample_file],
       pg_qualification_partial_fixes = [],
       pg_functional_cases = [\<lparr> fc_case_id = ''c'', fc_driver = ''bpf_prog_run/xdp@1'', fc_input_ref = sample_file,
         fc_assertions = [sample_assertion] \<rparr>],
       pg_semantic_obligations = [sample_obligation],
       pg_negative_controls = map (\<lambda>i. \<lparr> nc_control_id = i, nc_kind = NO_OP, nc_source = sample_file,
         nc_expected_first_failure = SEMANTICS \<rparr>) [''c1'', ''c2'', ''c3'', ''c4''] \<rparr>,
     tb_public_sha256 = digest_a, tb_private_sha256 = digest_a, tb_bundle_sha256 = digest_a \<rparr>"

definition sample_input :: artifact_ref where
  "sample_input = \<lparr> ar_sha256 = digest_a, ar_size_bytes = 12, ar_media_type = ''application/octet-stream'' \<rparr>"

definition sample_plan :: evaluation_plan where
  "sample_plan = \<lparr> vp_task_id = ''t'', vp_task_version = ''v1'', vp_family = REPAIR, vp_public_task_sha256 = digest_a,
     vp_private_grader_sha256 = digest_a, vp_task_bundle_sha256 = digest_a, vp_environment_id = ''env'',
     vp_candidate_contract = \<lparr> cc_max_response_bytes = 64, cc_allow_markdown_fence = False \<rparr>,
     vp_program = \<lparr> pc_program_type = ''xdp'', pc_section = ''xdp'', pc_entrypoint = ''p'', pc_max_programs = 1 \<rparr>,
     vp_public_sdk_id = ''sdk'', vp_max_attempts = 3, vp_whole_attempt_timeout_seconds = 30,
     vp_functional_cases = [\<lparr> ec_case_id = ''c'', ec_input = sample_input, ec_assertions = [sample_assertion] \<rparr>],
     vp_semantic_obligations = [sample_obligation] \<rparr>"

lemma weight_one [simp]: "weight_ok 1"
  by (simp add: weight_ok_def is_f64_def)

lemma sample_items_ok [simp]: "assertion_spec_ok sample_assertion" "semantic_obligation_ok sample_obligation"
  "artifact_ref_ok sample_input"
  by (simp_all add: assertion_spec_ok_def sample_assertion_def semantic_obligation_ok_def sample_obligation_def
      artifact_ref_ok_def sample_input_def id_simps)

lemma sample_plan_ok: "evaluation_plan_check sample_hasher sample_plan = None"
  by (simp add: evaluation_plan_check_def sample_plan_def evaluation_case_check_def candidate_contract_ok_def
      program_contract_ok_def single_xdp_def bundle_digest_def id_simps)

lemma sample_plan_built: "build_evaluation_plan sample_hasher sample_bundle = Inr sample_plan"
proof -
  have "evaluation_case_of \<lparr> fc_case_id = ''c'', fc_driver = ''bpf_prog_run/xdp@1'', fc_input_ref = sample_file,
      fc_assertions = [sample_assertion] \<rparr> = Inr \<lparr> ec_case_id = ''c'', ec_input = sample_input, ec_assertions = [sample_assertion] \<rparr>"
    by (simp add: evaluation_case_of_def ArtifactRef_def task_case_input_def sample_file_def evaluation_case_check_def
        sample_input_def[symmetric] id_simps)
  then show ?thesis
    using sample_plan_ok
    by (simp add: build_evaluation_plan_def sample_bundle_def single_xdp_def sample_plan_def)
qed

definition sample_expected_check :: "stage \<Rightarrow> string \<Rightarrow> artifact_dict \<Rightarrow> expected_check" where
  "sample_expected_check st name inputs =
     \<lparr> xc_stage = st, xc_check_id = name, xc_required = True, xc_weight = 1, xc_input_artifacts = inputs \<rparr>"

definition sample_plan_contract :: contract where
  "sample_plan_contract = \<lparr> sc_task_id = ''t'', sc_task_version = ''v1'', sc_task_bundle_sha256 = digest_a, sc_checks =
     map (\<lambda>name. sample_expected_check OBJECT_POLICY name [])
       [''object/entrypoint'', ''object/program-type'', ''object/section'', ''object/program-count''] @
     [sample_expected_check FUNCTIONAL ''functional/c/a'' [(''input'', sample_input)],
      sample_expected_check SEMANTICS ''semantics/o'' []] \<rparr>"

abbreviation vm_environment :: environment where
  "vm_environment \<equiv> sample_environment\<lparr>en_isolation := I_MICROVM, en_snapshot_sha256 := Some digest_a\<rparr>"

definition sample_blob :: job_blob where
  "sample_blob = \<lparr> jb_sha256 = digest_a, jb_size_bytes = 12 \<rparr>"

definition sample_job :: job_manifest where
  "sample_job = \<lparr> jm_request = sample_request, jm_request_sha256 = digest_a, jm_suite = sample_suite,
     jm_suite_sha256 = digest_a, jm_experiment = sample_experiment, jm_experiment_sha256 = digest_a,
     jm_environment = vm_environment, jm_environment_sha256 = digest_a, jm_reward_policy = default_policy ''p'',
     jm_reward_policy_sha256 = digest_a, jm_harness_commit = commit_b, jm_expected_grader_id = digest_a,
     jm_restore_nonce = digest_a, jm_plan = sample_plan, jm_plan_sha256 = digest_a, jm_contract = sample_plan_contract,
     jm_contract_sha256 = digest_a, jm_blobs = [sample_blob], jm_total_blob_bytes = 12 \<rparr>"

lemma sample_expected_ok: "stable_id name \<Longrightarrow> st \<in> {OBJECT_POLICY, FUNCTIONAL, SEMANTICS} \<Longrightarrow> dict_ok artifact_ref_ok d \<Longrightarrow>
    list_all (stable_id \<circ> fst) d \<Longrightarrow> expected_check_ok (sample_expected_check st name d)"
  by (simp add: expected_check_ok_def sample_expected_check_def)

lemma sample_check_ids [simp]: "stable_id ''object/entrypoint''" "stable_id ''object/program-type''" "stable_id ''object/section''"
  "stable_id ''object/program-count''" "stable_id ''functional/c/a''" "stable_id ''semantics/o''" "stable_id ''input''"
  by (simp_all add: id_simps)

lemma sample_checks_ok [simp]: "list_all expected_check_ok (sc_checks sample_plan_contract)"
  by (simp add: sample_plan_contract_def sample_expected_ok dict_ok_def)

lemma sample_plan_contract_ok [simp]: "contract_check sample_plan_contract = None"
  using sample_checks_ok
  by (auto simp: contract_check_def sample_plan_contract_def sample_expected_check_def id_simps)

lemma sample_plan_contract_derived: "scoring_contract_for_plan sample_plan = Inr sample_plan_contract"
proof -
  have e: "ExpectedCheck st name True 1 d = Inr (sample_expected_check st name d)"
    if "expected_check_ok (sample_expected_check st name d)" for st name d
    using that by (simp add: ExpectedCheck_def sample_expected_check_def)
  have o: "object_checks = Inr (map (\<lambda>name. sample_expected_check OBJECT_POLICY name [])
      [''object/entrypoint'', ''object/program-type'', ''object/section'', ''object/program-count''])"
    using sample_checks_ok by (simp add: object_checks_def sample_plan_contract_def e)
  have f: "plan_functional_checks sample_plan = Inr [sample_expected_check FUNCTIONAL ''functional/c/a'' [(''input'', sample_input)]]"
    using sample_checks_ok
    by (simp add: plan_functional_checks_def sample_plan_def sample_assertion_def functional_check_id_def sample_plan_contract_def e)
  have sem: "semantic_checks (vp_semantic_obligations sample_plan) = Inr [sample_expected_check SEMANTICS ''semantics/o'' []]"
    using sample_checks_ok
    by (simp add: semantic_checks_def sample_plan_def sample_obligation_def sample_plan_contract_def e)
  have "ScoringContract (vp_task_id sample_plan) (vp_task_version sample_plan) (vp_task_bundle_sha256 sample_plan)
      (sc_checks sample_plan_contract) = Inr sample_plan_contract"
    using sample_plan_contract_ok by (simp add: ScoringContract_def Let_def sample_plan_def sample_plan_contract_def)
  then show ?thesis by (simp add: scoring_contract_for_plan_def o f sem sample_plan_contract_def)
qed

lemma sample_blob_table: "physical_blob_table (required_references sample_request sample_plan) = Inr [sample_blob]"
  by (simp add: physical_blob_table_def required_references_def sample_request_def sample_plan_def sample_ref_def
      sample_input_def JobBlobRef_def Let_def job_blob_ok_def sample_blob_def MAX_JOB_BLOB_BYTES_def)

lemma vm_environment_ok [simp]: "environment_check vm_environment = None"
  by (simp add: environment_check_def sample_environment_def id_simps)

lemma sample_job_fields: "job_fields_check sample_hasher sample_job = None"
proof -
  have "job_blob_ok sample_blob" by (simp add: job_blob_ok_def sample_blob_def MAX_JOB_BLOB_BYTES_def)
  moreover have "policy_check (default_policy ''p'') = None" by (simp add: id_simps)
  ultimately show ?thesis
    by (simp add: job_fields_check_def sample_job_def sample_suite_ok sample_experiment_ok sample_plan_ok
        MAX_JOB_BLOBS_def MAX_JOB_TOTAL_BLOB_BYTES_def del: default_policy_ok)
qed

lemma sample_job_bindings:
  "task_identities_check sample_job = None" "digests_check sample_hasher sample_job = None"
  "experiment_binding_check sample_hasher sample_job = None" "seed_plan_check sample_job = None"
  "suite_task_check sample_job = None" "blob_table_check sample_job = None"
proof -
  show "task_identities_check sample_job = None"
    by (simp add: task_identities_check_def sample_job_def sample_plan_contract_derived)
      (simp add: sample_request_def sample_plan_def sample_plan_contract_def sample_environment_def sample_ref_def digest_a_def)
  show "digests_check sample_hasher sample_job = None" by (simp add: digests_check_def sample_job_def)
  show "experiment_binding_check sample_hasher sample_job = None"
    by (simp add: experiment_binding_check_def sample_job_def grader_id_for_def)
      (simp add: sample_request_def sample_experiment_def sample_suite_def sample_environment_def default_policy_def)
  show "seed_plan_check sample_job = None"
    by (simp add: seed_plan_check_def sample_job_def sample_request_def sample_experiment_def sample_plan_def)
  show "suite_task_check sample_job = None"
    by (simp add: suite_task_check_def sample_job_def sample_request_def sample_suite_def sample_suite_task_def sample_plan_def)
  show "blob_table_check sample_job = None"
    by (simp add: blob_table_check_def sample_job_def sample_blob_table) (simp add: blob_total_def sample_blob_def)
qed

lemma sample_job_ok: "job_manifest_check sample_hasher sample_job = None"
  by (simp add: job_manifest_check_def orelse_None_iff sample_job_fields sample_job_bindings)

section \<open>The size of canonical bytes\<close>

fun json_bound :: "(rat \<Rightarrow> string) \<Rightarrow> json \<Rightarrow> nat" where
  "json_bound fr (JStr s) = 2 + 6 * length s"
| "json_bound fr (JArr xs) = 2 + sum_list (map (\<lambda>x. Suc (json_bound fr x)) xs)"
| "json_bound fr (JObj kvs) = 2 + sum_list (map (\<lambda>(k, v). 4 + 6 * length k + json_bound fr v) kvs)"
| "json_bound fr v = length (json_dumps fr v)"

lemma length_join_comma: "length (join_comma xs) \<le> sum_list (map (\<lambda>x. Suc (length x)) xs)"
  by (induction xs rule: join_comma.induct) auto

lemma length_escape: "length (concat (map escape_char s)) \<le> 6 * length s"
proof (induction s)
  case (Cons c s)
  have "length (escape_char c) \<le> 6" by (simp add: escape_char_def Let_def)
  then show ?case using Cons by simp
qed simp

lemma length_string_repr: "length (string_repr s) \<le> 2 + 6 * length s"
  using length_escape[of s] by (simp add: string_repr_def)

lemma sum_sort_key: "sum_list (map f (sort_key k xs)) = sum_list (map f xs)" for f :: "'a \<Rightarrow> nat"
  by (metis mset_map mset_sort sum_mset_sum_list)

lemma length_json_dumps: "length (json_dumps fr v) \<le> json_bound fr v"
proof (induction fr v rule: json_bound.induct)
  case (1 fr s)
  then show ?case using length_string_repr by simp
next
  case (2 fr xs)
  have "sum_list (map (\<lambda>x. Suc (length (json_dumps fr x))) xs) \<le> sum_list (map (\<lambda>x. Suc (json_bound fr x)) xs)"
    using 2 by (intro sum_list_mono) auto
  then show ?case using length_join_comma[of "map (json_dumps fr) xs"] by (simp add: comp_def)
next
  case (3 fr kvs)
  let ?line = "\<lambda>(k, v). string_repr k @ '':'' @ v"
  have l: "length (string_repr k) \<le> 2 + 6 * length k" for k by (rule length_string_repr)
  have "length (join_comma (map ?line (sort_key fst (map (\<lambda>(k, v). (k, json_dumps fr v)) kvs)))) \<le>
      sum_list (map (\<lambda>x. Suc (length (?line x))) (sort_key fst (map (\<lambda>(k, v). (k, json_dumps fr v)) kvs)))"
    using length_join_comma[of "map ?line (sort_key fst (map (\<lambda>(k, v). (k, json_dumps fr v)) kvs))"] by (simp add: comp_def)
  also have "\<dots> = sum_list (map (\<lambda>(k, v). Suc (length (?line (k, json_dumps fr v)))) kvs)"
    unfolding sum_sort_key by (simp add: comp_def case_prod_unfold)
  also have "\<dots> \<le> sum_list (map (\<lambda>(k, v). 4 + 6 * length k + json_bound fr v) kvs)"
  proof (rule sum_list_mono)
    fix x assume "x \<in> set kvs"
    then have "length (json_dumps fr (snd x)) \<le> json_bound fr (snd x)" using 3[of x "fst x" "snd x"] by simp
    then show "(case x of (k, v) \<Rightarrow> Suc (length (?line (k, json_dumps fr v)))) \<le> (case x of (k, v) \<Rightarrow> 4 + 6 * length k + json_bound fr v)"
      using l[of "fst x"] by (auto simp: case_prod_beta)
  qed
  finally show ?case by simp
qed simp_all

lemma length_utf8: "length (utf8 s) \<le> 2 * length s"
  by (induction s) (auto simp: utf8_def utf8_char_def Let_def)

lemma length_canonical: "length (canonical_json_bytes h v) \<le> 2 * json_bound (float_repr h) v + 1"
  using length_utf8[of "json_dumps (float_repr h) v"] length_json_dumps[of "float_repr h" v] by (simp add: canonical_json_bytes_def)

definition sample_raw :: "byte list" where
  "sample_raw = canonical_json_bytes sample_hasher (job_manifest_json sample_job)"

lemma sample_lengths [simp]: "length digest_a = 64" "length commit_b = 40"
  by (simp_all add: digest_a_def commit_b_def)

lemma short_ints: "length (int_repr 0) = 1" "length (int_repr 1) = 1" "length (int_repr 12) = 2" "length (int_repr 64) = 2"
  "length (int_repr 3) = 1" "length (int_repr 30) = 2"
  by (simp_all add: int_repr_def nat_repr.simps[of 0] nat_repr.simps[of "Suc 0"] nat_repr.simps[of 12] nat_repr.simps[of 64]
      nat_repr.simps[of 3] nat_repr.simps[of 30] nat_repr.simps[of 6])

lemmas bound_simps = jarr_def jdict_def jopt_def short_ints sample_input_def sample_ref_def artifact_ref_json_def

lemma sample_bounds:
  "json_bound (\<lambda>_. ''1.0'') (request_json sample_request) \<le> 10000"
  "json_bound (\<lambda>_. ''1.0'') (suite_json sample_suite) \<le> 10000"
  "json_bound (\<lambda>_. ''1.0'') (experiment_json sample_experiment) \<le> 10000"
  "json_bound (\<lambda>_. ''1.0'') (environment_json vm_environment) \<le> 10000"
  "json_bound (\<lambda>_. ''1.0'') (policy_json (default_policy ''p'')) \<le> 10000"
  "json_bound (\<lambda>_. ''1.0'') (evaluation_plan_json sample_plan) \<le> 10000"
  "json_bound (\<lambda>_. ''1.0'') (contract_json sample_plan_contract) \<le> 10000"
  "json_bound (\<lambda>_. ''1.0'') (jarr job_blob_json [sample_blob]) \<le> 10000"
proof -
  show "json_bound (\<lambda>_. ''1.0'') (request_json sample_request) \<le> 10000"
    by (simp add: request_json_def sample_request_def bound_simps)
  show "json_bound (\<lambda>_. ''1.0'') (suite_json sample_suite) \<le> 10000"
    by (simp add: suite_json_def suite_task_json_def sample_suite_def sample_suite_task_def bound_simps)
  show "json_bound (\<lambda>_. ''1.0'') (experiment_json sample_experiment) \<le> 10000"
    by (simp add: experiment_json_def sample_experiment_def seed_plan_json_def bound_simps)
  show "json_bound (\<lambda>_. ''1.0'') (environment_json vm_environment) \<le> 10000"
    by (simp add: environment_json_def sample_environment_def bound_simps)
  show "json_bound (\<lambda>_. ''1.0'') (policy_json (default_policy ''p'')) \<le> 10000"
    by (simp add: policy_json_def default_policy_def)
  show "json_bound (\<lambda>_. ''1.0'') (evaluation_plan_json sample_plan) \<le> 10000"
    by (simp add: evaluation_plan_json_def sample_plan_def evaluation_case_json_def sample_assertion_def assertion_spec_json_def
        semantic_obligation_json_def sample_obligation_def candidate_contract_json_def program_contract_json_def bound_simps)
  show "json_bound (\<lambda>_. ''1.0'') (contract_json sample_plan_contract) \<le> 10000"
    by (simp add: contract_json_def sample_plan_contract_def expected_check_json_def sample_expected_check_def bound_simps)
  show "json_bound (\<lambda>_. ''1.0'') (jarr job_blob_json [sample_blob]) \<le> 10000"
    by (simp add: job_blob_json_def sample_blob_def bound_simps)
qed

lemma sample_raw_length: "length sample_raw \<le> MAX_JOB_MANIFEST_BYTES"
proof -
  have "json_bound (float_repr sample_hasher) (job_manifest_json sample_job) \<le> 100000"
    using sample_bounds by (simp add: job_manifest_json_def sample_job_def sample_hasher_def short_ints)
  then show ?thesis using length_canonical[of sample_hasher "job_manifest_json sample_job"]
    by (simp add: sample_raw_def MAX_JOB_MANIFEST_BYTES_def)
qed

lemma sample_complexity: "validate_json_complexity (job_manifest_json sample_job) = None"
  by (simp add: validate_json_complexity_def job_manifest_json_def sample_job_def MAX_JOB_JSON_DEPTH_def MAX_JOB_JSON_NODES_def
    request_json_def sample_request_def suite_json_def suite_task_json_def sample_suite_def sample_suite_task_def
    experiment_json_def sample_experiment_def seed_plan_json_def environment_json_def sample_environment_def
    policy_json_def evaluation_plan_json_def sample_plan_def evaluation_case_json_def sample_assertion_def assertion_spec_json_def
    semantic_obligation_json_def sample_obligation_def candidate_contract_json_def program_contract_json_def
    contract_json_def sample_plan_contract_def expected_check_json_def sample_expected_check_def job_blob_json_def bound_simps)

section \<open>Stores and profile of the job\<close>

definition sample_loads :: "byte list \<Rightarrow> json result" where
  "sample_loads raw = (if raw = sample_raw then Inr (job_manifest_json sample_job) else Inl (Exn ''CanonicalJSONError'' ''sample''))"

definition sample_fields :: "json \<Rightarrow> job_manifest result" where
  "sample_fields v = (if v = job_manifest_json sample_job then Inr sample_job else Inl (VE ''sample''))"

lemma sample_source_plain: "extract_c_source sample_source 64 False = Inr sample_source"
proof -
  have "sample_source = utf8_encode (replicate 12 97)"
    by (simp add: sample_source_def utf8_encode_def utf8_code_def byte_of_def numeral_eq_Suc)
  then have "utf8_decode sample_source = Some (replicate 12 97)" using decode_encode[of "replicate 12 97"] by (simp add: scalar_def list_all_iff)
  moreover have "count_fence (replicate 12 97) = 0" by (rule count_fence_none) simp
  ultimately show ?thesis by (simp add: extract_c_source_def sample_source_def is_space_def list_all_iff)
qed

lemma sample_publishable: "publishable sample_hasher sample_loads sample_fields sample_raw sample_job [(sample_blob, sample_source)]"
proof -
  have "parse_manifest sample_hasher sample_loads sample_fields sample_raw = Inr sample_job"
    by (simp add: parse_manifest_def sample_loads_def sample_fields_def sample_complexity sample_job_ok sample_raw_def[symmetric])
  moreover have "candidate_check sample_job [(sample_blob, sample_source)] = Inr ()"
    by (simp add: candidate_check_def sample_job_def sample_blob_def sample_request_def sample_ref_def sample_plan_def
        sample_source_plain)
  ultimately show ?thesis
    using sample_raw_length by (simp add: publishable_def) (simp add: sample_job_def sample_blob_def sample_source_def
        sample_hasher_def digest_a_def)
qed

definition sample_loaded :: "bool \<Rightarrow> loaded_job" where
  "sample_loaded pinned = \<lparr> lj_manifest = sample_job, lj_manifest_sha256 = digest_a, lj_anchored = pinned,
     lj_blobs = [(sample_blob, sample_source)] \<rparr>"

text \<open>Inode 1 is the parent, 2 the staged bundle, 3 and 4 its blob directories, 5 and 6 its files.\<close>

definition staged_store :: store where
  "staged_store = [1 \<mapsto> Directory 7 [(''stage'', 2)], 2 \<mapsto> Directory 7 [(''manifest.json'', 5), (''blobs'', 3)],
     3 \<mapsto> Directory 7 [(''sha256'', 4)], 4 \<mapsto> Directory 7 [(digest_a, 6)], 5 \<mapsto> Reg 7 1 (0, 0) sample_raw,
     6 \<mapsto> Reg 7 1 (0, 0) sample_source]"

lemma staged_tree: "blob_tree staged_store 3 4 7 [(sample_blob, sample_source)]"
  by (simp add: blob_tree_def staged_store_def holds_def blob_files_def sample_blob_def)

lemma sample_staged: "staged_bundle staged_store 1 2 ''job'' 7 sample_raw [(sample_blob, sample_source)]"
  unfolding staged_bundle_def using staged_tree
  by (intro exI[of _ "[(''stage'', 2)]"] exI[of _ "[(''manifest.json'', 5), (''blobs'', 3)]"] exI[of _ 5] exI[of _ "(0, 0)"]
      exI[of _ 3] exI[of _ 4]) (simp add: staged_store_def holds_def)

lemma sample_load:
  "fst (load_evaluation_job_bundle sample_hasher sample_loads sample_fields (\<lambda>_. staged_store) 1 ''stage'' (Some digest_a) 0) =
    Inr (sample_loaded True)"
proof -
  have "open_root (\<lambda>_. staged_store) 1 ''stage'' 0 = (Inr (2, 7), 0 + 3)"
    by (rule open_root_publishing) (simp add: staged_store_def lookup_at_def)
  moreover have "fst (load_evaluation_job_from_root sample_hasher sample_loads sample_fields (\<lambda>_. staged_store) 2 7 (Some digest_a) 3) =
      Inr \<lparr> lj_manifest = sample_job, lj_manifest_sha256 = sha256 sample_hasher sample_raw, lj_anchored = (Some digest_a \<noteq> None),
        lj_blobs = [(sample_blob, sample_source)] \<rparr>"
    by (rule load_settled[OF _ sample_publishable _ _ _ _ _ staged_tree])
      (auto simp: settled_def staged_store_def holds_def sample_hasher_def digest_a_def)
  ultimately show ?thesis
    by (simp add: load_evaluation_job_bundle_def iobind_def sample_loaded_def sample_hasher_def digest_a_def)
qed

definition sample_resources :: resource_profile where
  "sample_resources = \<lparr> er_profile_id = ''res'', er_wall_timeout_ms = 30000, er_cpu_time_seconds = 10,
     er_memory_bytes = 67108864, er_pids_max = 16, er_open_files_max = 64, er_file_size_bytes = 1024, er_stack_bytes = 65536,
     er_stdout_bytes = 0, er_stderr_bytes = 0, er_tmpfs_bytes = 1048576, er_tmpfs_inodes = 16 \<rparr>"

definition sample_profile :: execution_profile where
  "sample_profile = \<lparr> ep_profile_id = ''prof'', ep_worker_pool_audience = ''pool'', ep_environment = vm_environment,
     ep_environment_sha256 = digest_a, ep_resources = sample_resources, ep_resource_profile_sha256 = digest_a,
     ep_firecracker_version = ''1.7'', ep_firecracker_sha256 = digest_a, ep_jailer_sha256 = digest_a,
     ep_guest_agent_sha256 = digest_a, ep_seccomp_policy_sha256 = digest_a, ep_jailer_config_sha256 = digest_a,
     ep_snapshot = \<lparr> sn_vm_state_sha256 = digest_a, sn_memory_sha256 = digest_a, sn_kernel_image_sha256 = digest_a,
       sn_kernel_config_sha256 = digest_a, sn_kernel_btf_sha256 = digest_a, sn_rootfs_sha256 = digest_a,
       sn_block_device_config_sha256 = digest_a, sn_vsock_config_sha256 = digest_a \<rparr>,
     ep_snapshot_components_sha256 = digest_a, ep_host_kernel_release = ''6.8.0'', ep_host_kernel_sha256 = digest_a,
     ep_host_architecture = ''x86_64'', ep_cpu_vendor = ''vendor'', ep_cpu_model = ''model'', ep_cpu_template = None,
     ep_cpu_features = [''sse2''], ep_snapshot_compatibility_profile = ''compat'' \<rparr>"

lemma sample_profile_ok: "execution_profile_check sample_hasher sample_profile = None"
proof -
  have "resource_profile_check sample_resources = None"
    by (simp add: resource_profile_check_def sample_resources_def int_in_def id_simps)
  then show ?thesis
    by (simp add: execution_profile_check_def sample_profile_def snapshot_components_ok_def id_simps)
      (simp add: sample_environment_def id_simps)
qed

end
