(* ===== verification/Job_Correct.thy ===== *)
theory Job_Correct
  imports Job_Samples
begin

text \<open>
  Properties of job preparation: the two derivations of a scoring contract agree, a loaded job is sealed
  whatever happens to its tree meanwhile, a reader never meets a half-published bundle it accepts, and a
  sealed job can be refused dispatch only for its profile, audience, time limit or policy.
\<close>

section \<open>Properties\<close>

text \<open>
  C33. The two modules that derive a scoring contract agree: for every task bundle that has an evaluation
  plan, the contract the plan admits, error or value, is the one \<open>task.build_scoring_contract\<close> derives
  from the bundle, so a suite frozen with one is accepted by the other.
\<close>

theorem plan_contract_is_bundle_contract:
  assumes "build_evaluation_plan h b = Inr p"
  shows "scoring_contract_for_plan p = build_scoring_contract b"
proof -
  have p: "list_all2 (\<lambda>c e. evaluation_case_of c = Inr e) (pg_functional_cases (tb_private b)) (vp_functional_cases p)"
    "vp_semantic_obligations p = pg_semantic_obligations (tb_private b)" "vp_task_id p = pt_task_id (tb_public b)"
    "vp_task_version p = pt_version (tb_public b)" "vp_task_bundle_sha256 p = tb_bundle_sha256 b"
    using assms by (auto simp: build_evaluation_plan_def Let_def check_Inr_iff rbind_Inr_iff traverse_Inr_iff split: if_splits)
  have "bundle_functional_checks b = plan_functional_checks p"
    unfolding bundle_functional_checks_def plan_functional_checks_def
  proof (rule traverse_concat_map, rule list_all2_mono[OF p(1)])
    fix c e assume "evaluation_case_of c = Inr e"
    then have "ArtifactRef (task_case_input c) = Inr (ec_input e)" "ec_case_id e = fc_case_id c" "ec_assertions e = fc_assertions c"
      by (auto simp: evaluation_case_of_def Let_def rbind_Inr_iff check_Inr_iff)
    then show "map (\<lambda>(c, a). rbind (ArtifactRef (task_case_input c)) (\<lambda>input. ExpectedCheck FUNCTIONAL
          (functional_check_id (fc_case_id c) (av_assertion_id a)) (av_required a) (av_weight a) [(''input'', input)]))
        (map (Pair c) (fc_assertions c)) =
      map (\<lambda>(c, a). ExpectedCheck FUNCTIONAL (functional_check_id (ec_case_id c) (av_assertion_id a)) (av_required a)
          (av_weight a) [(''input'', ec_input c)]) (map (Pair e) (ec_assertions e))" by simp
  qed
  then show ?thesis using p(2-5) by (simp add: scoring_contract_for_plan_def build_scoring_contract_def)
qed

theorem plan_contract_is_bundle_contract_witness:
  "build_evaluation_plan sample_hasher sample_bundle = Inr sample_plan \<and>
   scoring_contract_for_plan sample_plan = build_scoring_contract sample_bundle"
  using sample_plan_built plan_contract_is_bundle_contract[OF sample_plan_built] by simp



text \<open>
  C35. Publication is atomic for readers.  The three calls that publish a complete staged bundle succeed,
  and a load that starts at any moment while they run returns exactly the published job when the
  target existed at its first call and the manifest had been moved by its fourth; otherwise it fails on
  the missing target or the missing manifest.  No reader accepts a partial tree.
\<close>

theorem publication_is_atomic:
  assumes "staged_bundle fs parent staged target dev raw loaded" "fs fresh = None"
    "publishable h loads mf raw m loaded" "expected = None \<or> expected = Some (sha256 h raw)"
  shows "\<exists>stores. publish_staged_bundle parent staged target fresh fs = Inr stores \<and>
    (\<forall>W phase t. publishing W phase (fs # stores) \<longrightarrow>
      fst (load_evaluation_job_bundle h loads mf W parent target expected t) =
        (if phase t = 0 then Inl (JobBundleError ''cannot inspect job bundle root'')
         else if phase (t + 3) < 3 then Inl (JobBundleError ''cannot inspect job manifest'')
         else Inr \<lparr> lj_manifest = m, lj_manifest_sha256 = sha256 h raw, lj_anchored = (expected \<noteq> None), lj_blobs = loaded \<rparr>))"
proof -
  obtain stores where p: "publish_staged_bundle parent staged target fresh fs = Inr stores"
    "publication (fs # stores) parent target fresh dev raw loaded" using publication_stores[OF assms(1,2)] by blast
  then show ?thesis using load_during_publication[OF p(2) assms(3,4)] by blast
qed

theorem publication_is_atomic_witness:
  "\<exists>stores. publish_staged_bundle 1 2 ''job'' 9 staged_store = Inr stores \<and>
     fst (load_evaluation_job_bundle sample_hasher sample_loads sample_fields (\<lambda>t. (staged_store # stores) ! min t 3) 1 ''job'' None 0) =
       Inl (JobBundleError ''cannot inspect job bundle root'') \<and>
     fst (load_evaluation_job_bundle sample_hasher sample_loads sample_fields (\<lambda>t. (staged_store # stores) ! min t 3) 1 ''job'' None 1) =
       Inr (sample_loaded False)"
proof -
  have "staged_store 9 = None" by (simp add: staged_store_def)
  then obtain stores where p: "publish_staged_bundle 1 2 ''job'' 9 staged_store = Inr stores"
    "\<And>W phase t. publishing W phase (staged_store # stores) \<Longrightarrow>
      fst (load_evaluation_job_bundle sample_hasher sample_loads sample_fields W 1 ''job'' None t) =
        (if phase t = 0 then Inl (JobBundleError ''cannot inspect job bundle root'')
         else if phase (t + 3) < 3 then Inl (JobBundleError ''cannot inspect job manifest'')
         else Inr \<lparr> lj_manifest = sample_job, lj_manifest_sha256 = sha256 sample_hasher sample_raw,
           lj_anchored = ((None :: string option) \<noteq> None), lj_blobs = [(sample_blob, sample_source)] \<rparr>)"
    using publication_is_atomic[OF sample_staged _ sample_publishable, of 9 None] by blast
  have "length stores = 3" using p(1) by (auto simp: publish_staged_bundle_def rbind_Inr_iff)
  then have "publishing (\<lambda>t. (staged_store # stores) ! min t 3) (\<lambda>t. min t 3) (staged_store # stores)"
    by (auto simp: publishing_def mono_def)
  note l = p(2)[OF this]
  show ?thesis using p(1) l[of 0] l[of 1] by (simp add: sample_loaded_def sample_hasher_def digest_a_def)
qed

text \<open>
  C36. Loading and dispatch compose.  For a job that loaded under its expected digest, however the tree
  changed meanwhile, the bindings of an authorization are derived exactly when the execution profile is
  valid and names the job's environment, the trusted audience and a wall-clock limit within the plan, and
  the policy inputs are well formed; they then pin that manifest and its request, experiment and
  environment.  None of the re-examinations of the loaded job can refuse it.
\<close>

theorem loaded_job_dispatch_iff:
  assumes "load_evaluation_job_bundle h loads mf W parent name (Some d) t = (Inr j, t')" "hexdigest_ok h"
  shows "dispatch_expectation_for h j profile d purpose audience pid psha = Inr x \<longleftrightarrow>
    execution_profile_check h profile = None \<and> ep_environment profile = jm_environment (lj_manifest j) \<and>
    ep_worker_pool_audience profile = audience \<and>
    er_wall_timeout_ms (ep_resources profile) \<le> vp_whole_attempt_timeout_seconds (jm_plan (lj_manifest j)) * 1000 \<and>
    stable_id pid \<and> sha256_ok psha \<and> x = expectation_for h j profile purpose audience pid psha \<and>
    xp_job_manifest_sha256 x = d"
proof -
  have "lj_manifest_sha256 j = d"
    using bundles.anchored_at[of h "(loads, mf, W, parent, name)" "Some d" t j t'] assms(1) by simp
  then have "xp_job_manifest_sha256 (expectation_for h j profile purpose audience pid psha) = d"
    by (simp add: expectation_for_def Let_def)
  then show ?thesis
    using bundles.expectation_of_source[of h "(loads, mf, W, parent, name)" d t j t' profile purpose audience pid psha x] assms
    by auto
qed

theorem loaded_job_dispatch_iff_witness:
  "\<exists>x. dispatch_expectation_for sample_hasher (sample_loaded True) sample_profile digest_a P_BENCHMARK ''pool'' ''policy'' digest_a =
      Inr x \<and> xp_job_manifest_sha256 x = digest_a"
proof -
  obtain t' where l: "load_evaluation_job_bundle sample_hasher sample_loads sample_fields (\<lambda>_. staged_store) 1 ''stage''
      (Some digest_a) 0 = (Inr (sample_loaded True), t')" using sample_load by (metis prod.collapse)
  have "ep_environment sample_profile = jm_environment (lj_manifest (sample_loaded True))"
    "ep_worker_pool_audience sample_profile = ''pool''"
    "er_wall_timeout_ms (ep_resources sample_profile) \<le>
      vp_whole_attempt_timeout_seconds (jm_plan (lj_manifest (sample_loaded True))) * 1000"
    by (simp_all add: sample_profile_def sample_loaded_def sample_job_def sample_resources_def sample_plan_def)
  moreover have "stable_id ''policy''" by (simp add: id_simps)
  moreover have "xp_job_manifest_sha256 (expectation_for sample_hasher (sample_loaded True) sample_profile P_BENCHMARK
      ''pool'' ''policy'' digest_a) = digest_a" by (simp add: expectation_for_def sample_loaded_def Let_def)
  ultimately show ?thesis
    using loaded_job_dispatch_iff[OF l sample_hexdigest_ok, of sample_profile P_BENCHMARK "''pool''" "''policy''" digest_a]
      sample_profile_ok digest_a_ok by metis
qed

end
