(* ===== verification/Replay.thy ===== *)
theory Replay
  imports Grading Job_Bundle
begin

text \<open>
  \<open>replay.py\<close>: the manifest of a replay, its bounds, and the inspection of a replay tree that other
  processes may change between system calls.  The store and its timeline are those of \<open>Job_Bundle\<close>;
  \<open>M t i\<close> stands for what a stat of inode \<open>i\<close> at call \<open>t\<close> shows beyond the store: the permission bits,
  and the size, time stamps and link count of a directory.  \<open>loads\<close> and the five parsers of \<open>replay_parsers\<close> stand for the \<open>json\<close> module and the
  field parsing of Pydantic; the validators are those of the models.
\<close>

abbreviation ReplayError :: "string \<Rightarrow> exn" where
  "ReplayError m \<equiv> Exn ''ReplayError'' m"

definition MAX_REPLAY_MANIFEST_BYTES :: nat where "MAX_REPLAY_MANIFEST_BYTES = 256 * 1024"
definition MAX_REPLAY_ARTIFACTS :: nat where "MAX_REPLAY_ARTIFACTS = 256"
definition MAX_REPLAY_FILE_BYTES :: nat where "MAX_REPLAY_FILE_BYTES = 16 * 1024 * 1024"
definition MAX_REPLAY_TOTAL_BYTES :: nat where "MAX_REPLAY_TOTAL_BYTES = 128 * 1024 * 1024"

section \<open>Manifests\<close>

record replay_manifest =
  rm_evidence :: artifact_ref
  rm_grade :: artifact_ref
  rm_contract :: artifact_ref
  rm_events :: artifact_ref
  rm_policy :: artifact_ref
  rm_artifacts :: artifact_dict

definition replay_manifest_ok :: "replay_manifest \<Rightarrow> bool" where
  "replay_manifest_ok m \<longleftrightarrow> artifact_ref_ok (rm_evidence m) \<and> artifact_ref_ok (rm_grade m) \<and> artifact_ref_ok (rm_contract m) \<and>
     artifact_ref_ok (rm_events m) \<and> artifact_ref_ok (rm_policy m) \<and> dict_ok artifact_ref_ok (rm_artifacts m)"

definition replay_manifest_json :: "replay_manifest \<Rightarrow> json" where
  "replay_manifest_json m = JObj
     [(''schema_version'', JStr ''bpe.replay.v1''), (''evidence'', artifact_ref_json (rm_evidence m)),
      (''grade'', artifact_ref_json (rm_grade m)), (''contract'', artifact_ref_json (rm_contract m)),
      (''events'', artifact_ref_json (rm_events m)), (''policy'', artifact_ref_json (rm_policy m)),
      (''artifacts'', jdict artifact_ref_json (rm_artifacts m))]"

definition fixed_refs :: "replay_manifest \<Rightarrow> (string \<times> artifact_ref) list" where
  "fixed_refs m = [(''evidence'', rm_evidence m), (''contract'', rm_contract m), (''grade'', rm_grade m),
     (''events'', rm_events m), (''policy'', rm_policy m)]"

definition exceeds_file_limit :: "artifact_ref \<Rightarrow> bool" where
  "exceeds_file_limit r \<longleftrightarrow> ar_size_bytes r > int MAX_REPLAY_FILE_BYTES"

text \<open>
  \<open>reference_by_digest.setdefault(...)\<close> over the labelled references in order.  For the artifacts the
  size limit is checked in the same loop, before the metadata.
\<close>

fun bind_references :: "bool \<Rightarrow> (string \<times> artifact_ref) list \<Rightarrow> (string \<times> artifact_ref) list \<Rightarrow>
    (string \<times> artifact_ref) list result" where
  "bind_references limit by_digest [] = Inr by_digest"
| "bind_references limit by_digest ((label, r) # refs) =
     (if limit \<and> exceeds_file_limit r then Inl (ReplayError (''artifact '' @ label @ '' exceeds the replay file limit''))
      else case map_of by_digest (ar_sha256 r) of
        None \<Rightarrow> bind_references limit ((ar_sha256 r, r) # by_digest) refs
      | Some previous \<Rightarrow>
          if previous \<noteq> r
          then Inl (ReplayError (''replay manifest uses inconsistent metadata for digest '' @ ar_sha256 r))
          else bind_references limit by_digest refs)"

text \<open>\<open>result.setdefault(...)\<close> over the artifacts, in insertion order.\<close>

fun first_by_digest :: "artifact_ref list \<Rightarrow> artifact_ref list \<Rightarrow> artifact_ref list" where
  "first_by_digest acc [] = acc"
| "first_by_digest acc (r # refs) =
     first_by_digest (if ar_sha256 r \<in> set (map ar_sha256 acc) then acc else acc @ [r]) refs"

definition validate_manifest_bounds :: "replay_manifest \<Rightarrow> nat \<Rightarrow> exn option" where
  "validate_manifest_bounds m manifest_size = orelse (raises
     ([(manifest_size > MAX_REPLAY_MANIFEST_BYTES, ReplayError ''replay manifest exceeds the byte limit''),
       (length (rm_artifacts m) > MAX_REPLAY_ARTIFACTS, ReplayError ''replay manifest exceeds the artifact limit'')] @
      map (\<lambda>(l, r). (exceeds_file_limit r, ReplayError (l @ '' exceeds the replay file limit''))) (fixed_refs m)))
     (case rbind (bind_references False [] (fixed_refs m)) (\<lambda>by_digest. bind_references True by_digest (rm_artifacts m)) of
        Inl e \<Rightarrow> Some e
      | Inr _ \<Rightarrow> raises [(int manifest_size + sum_list (map (ar_size_bytes \<circ> snd) (fixed_refs m)) +
            sum_list (map ar_size_bytes (first_by_digest [] (map snd (rm_artifacts m)))) > int MAX_REPLAY_TOTAL_BYTES,
          ReplayError ''replay content exceeds the total limit'')])"

definition artifact_refs_by_digest :: "replay_manifest \<Rightarrow> artifact_ref list result" where
  "artifact_refs_by_digest m = (let refs = map snd (rm_artifacts m); first = first_by_digest [] refs in
     if \<exists>r \<in> set refs. r \<notin> set first then Inl (ReplayError ''replay manifest uses inconsistent metadata for artifact'')
     else Inr first)"

fun join_with :: "string \<Rightarrow> string list \<Rightarrow> string" where
  "join_with sep [] = []"
| "join_with sep [x] = x"
| "join_with sep (x # y # zs) = x @ sep @ join_with sep (y # zs)"

definition artifact_label :: "replay_manifest \<Rightarrow> string \<Rightarrow> string" where
  "artifact_label m digest = ''artifact '' @
     join_with '', '' (sort (map fst (filter (\<lambda>(_, r). ar_sha256 r = digest) (rm_artifacts m))))"

definition validate_replay_manifest :: "hasher \<Rightarrow> replay_manifest \<Rightarrow> replay_manifest result" where
  "validate_replay_manifest h m = (if \<not> replay_manifest_ok m then Inl (ReplayError ''invalid replay manifest'')
     else check (validate_manifest_bounds m (length (canonical_json_bytes h (replay_manifest_json m)))) (Inr m))"

definition event_json :: "nat \<Rightarrow> stage_evidence \<Rightarrow> json" where
  "event_json sequence s = JObj
     [(''schema_version'', JStr ''bpe.event.v1''), (''sequence'', JInt (int sequence)),
      (''stage'', JStr (stage_value (se_stage s))), (''outcome'', JStr (outcome_value (se_outcome s))),
      (''reason_code'', JStr (se_reason_code s)), (''duration_ms'', JInt (se_duration_ms s))]"

definition event_bytes :: "hasher \<Rightarrow> evidence \<Rightarrow> byte list" where
  "event_bytes h e = concat (map (\<lambda>(i, s). canonical_json_bytes h (event_json i s)) (enumerate 0 (ev_stages e)))"

definition evidence_artifact_refs :: "evidence \<Rightarrow> artifact_ref list" where
  "evidence_artifact_refs e = rq_candidate (ev_request e) # map snd (ev_observation_artifacts e) @
     concat (map (\<lambda>s. map snd (se_artifacts s) @ concat (map (\<lambda>c. map snd (ce_artifacts c)) (se_checks s))) (ev_stages e))"

section \<open>Reading a replay tree\<close>

type_synonym metas = "nat \<Rightarrow> nat \<Rightarrow> nat"
type_synonym metadata = "nat \<times> nat \<times> (bool \<times> bool) \<times> nat \<times> (nat \<times> nat) \<times> nat \<times> nat"

definition link_count :: "inode \<Rightarrow> nat" where
  "link_count n = (case n of Reg _ l _ _ \<Rightarrow> l | _ \<Rightarrow> 0)"

definition time_stamps :: "inode \<Rightarrow> nat \<times> nat" where
  "time_stamps n = (case n of Reg _ _ ts _ \<Rightarrow> ts | _ \<Rightarrow> (0, 0))"

text \<open>Device, inode, file type, size, time stamps, link count, and the opaque rest.\<close>

definition stable_metadata :: "nat \<Rightarrow> inode \<Rightarrow> nat \<Rightarrow> metadata" where
  "stable_metadata i n rest = (st_dev n, i, (S_ISREG n, S_ISDIR n), st_size n, time_stamps n, link_count n, rest)"

definition rcall :: "timeline \<Rightarrow> (nat \<Rightarrow> store \<Rightarrow> 'a option) \<Rightarrow> exn \<Rightarrow> 'a io" where
  "rcall W call e t = (case call t (W t) of None \<Rightarrow> Inl e | Some x \<Rightarrow> Inr x, Suc t)"

definition stat_meta :: "metas \<Rightarrow> nat \<Rightarrow> string \<Rightarrow> nat \<Rightarrow> store \<Rightarrow> (inode \<times> metadata) option" where
  "stat_meta M parent name t fs = map_option (\<lambda>(i, n). (n, stable_metadata i n (M t i))) (stat_at parent name fs)"

definition fstat_meta :: "metas \<Rightarrow> nat \<Rightarrow> nat \<Rightarrow> store \<Rightarrow> (inode \<times> metadata) option" where
  "fstat_meta M fd t fs = map_option (\<lambda>n. (n, stable_metadata fd n (M t fd))) (fs fd)"

record file_record =
  fl_parent :: nat
  fl_name :: string
  fl_label :: string
  fl_metadata :: metadata
  fl_content :: "byte list"

record directory_record =
  dr_parent :: nat
  dr_name :: string
  dr_label :: string
  dr_descriptor :: nat
  dr_metadata :: metadata

definition replay_open_root :: "timeline \<Rightarrow> metas \<Rightarrow> nat \<Rightarrow> string \<Rightarrow> (nat \<times> nat \<times> metadata) io" where
  "replay_open_root W M parent name =
     iobind (rcall W (stat_meta M parent name) (ReplayError ''cannot inspect replay root'')) (\<lambda>(before, meta).
     iobind (guard (S_ISLNK before \<or> \<not> S_ISDIR before)
       (ReplayError ''replay root is missing, not a directory, or a symlink'')) (\<lambda>_.
     iobind (rcall W (\<lambda>_. open_at parent name True) (ReplayError ''cannot open replay root'')) (\<lambda>fd.
     iobind (rcall W (fstat_meta M fd) (ReplayError ''cannot inspect opened replay root'')) (\<lambda>(opened, meta').
     iobind (guard (meta' \<noteq> meta \<or> \<not> S_ISDIR opened) (ReplayError ''replay root changed while it was being opened'')) (\<lambda>_.
     ret (fd, st_dev opened, meta'))))))"

definition replay_open_directory :: "timeline \<Rightarrow> metas \<Rightarrow> string \<Rightarrow> nat \<Rightarrow> nat \<Rightarrow> string \<Rightarrow> directory_record io" where
  "replay_open_directory W M name parent_fd root_device label =
     iobind (rcall W (stat_meta M parent_fd name) (ReplayError (label @ '': missing''))) (\<lambda>(before, meta).
     iobind (guard (S_ISLNK before \<or> \<not> S_ISDIR before \<or> st_dev before \<noteq> root_device)
       (ReplayError (label @ '' is not a same-device non-symlink directory''))) (\<lambda>_.
     iobind (rcall W (\<lambda>_. open_at parent_fd name True) (ReplayError (''cannot open '' @ label))) (\<lambda>fd.
     iobind (rcall W (fstat_meta M fd) (ReplayError (''cannot inspect opened '' @ label))) (\<lambda>(opened, meta').
     iobind (guard (meta' \<noteq> meta \<or> \<not> S_ISDIR opened \<or> st_dev opened \<noteq> root_device)
       (ReplayError (label @ '' changed while it was being opened''))) (\<lambda>_.
     ret \<lparr> dr_parent = parent_fd, dr_name = name, dr_label = label, dr_descriptor = fd, dr_metadata = meta' \<rparr>)))))"

definition replay_read_file :: "timeline \<Rightarrow> metas \<Rightarrow> string \<Rightarrow> nat \<Rightarrow> nat \<Rightarrow> nat \<Rightarrow> string \<Rightarrow> nat option \<Rightarrow> file_record io" where
  "replay_read_file W M name parent_fd root_device max_bytes label expected_bytes =
     iobind (rcall W (stat_meta M parent_fd name) (ReplayError (label @ '': missing''))) (\<lambda>(before, meta).
     iobind (guard (S_ISLNK before \<or> \<not> S_ISREG before \<or> st_dev before \<noteq> root_device)
       (ReplayError (label @ '' is not a same-device non-symlink regular file''))) (\<lambda>_.
     iobind (guard (link_count before \<noteq> 1) (ReplayError (label @ '' must not be externally hard-linked''))) (\<lambda>_.
     iobind (guard (st_size before > max_bytes) (ReplayError (label @ '' exceeds the byte limit''))) (\<lambda>_.
     iobind (guard (size_mismatch expected_bytes (st_size before)) (ReplayError (label @ '': integrity mismatch''))) (\<lambda>_.
     iobind (rcall W (\<lambda>_. open_at parent_fd name False) (ReplayError (''cannot open '' @ label))) (\<lambda>fd.
     iobind (rcall W (fstat_meta M fd) (Exn ''OSError'' label)) (\<lambda>(opened, meta').
     iobind (guard (meta' \<noteq> meta \<or> \<not> S_ISREG opened \<or> st_dev opened \<noteq> root_device \<or> link_count opened \<noteq> 1)
       (ReplayError (label @ '' changed while it was being opened''))) (\<lambda>_.
     iobind (rcall W (\<lambda>_. read_fd fd (max_bytes + 1)) (Exn ''OSError'' label)) (\<lambda>bytes.
     iobind (rcall W (fstat_meta M fd) (Exn ''OSError'' label)) (\<lambda>(after, meta'').
     iobind (guard (length bytes > max_bytes) (ReplayError (label @ '' exceeds the byte limit''))) (\<lambda>_.
     iobind (guard (size_mismatch expected_bytes (length bytes)) (ReplayError (label @ '': integrity mismatch''))) (\<lambda>_.
     iobind (guard (length bytes \<noteq> st_size opened \<or> meta'' \<noteq> meta')
       (ReplayError (label @ '' changed while it was being read''))) (\<lambda>_.
     ret \<lparr> fl_parent = parent_fd, fl_name = name, fl_label = label, fl_metadata = meta'', fl_content = bytes \<rparr>)))))))))))))"

definition replay_entries :: "timeline \<Rightarrow> nat \<Rightarrow> string \<Rightarrow> nat \<Rightarrow> string set io" where
  "replay_entries W fd label max_entries =
     iobind (rcall W (\<lambda>_. scandir_fd fd) (ReplayError (''cannot enumerate '' @ label))) (\<lambda>names.
     iobind (guard (length names > max_entries) (ReplayError (label @ '' is not closed: exceeds the entry limit''))) (\<lambda>_.
     ret (set names)))"

definition recheck_file :: "timeline \<Rightarrow> metas \<Rightarrow> file_record \<Rightarrow> unit io" where
  "recheck_file W M r =
     iobind (rcall W (stat_meta M (fl_parent r) (fl_name r)) (ReplayError (fl_label r @ '' changed after it was read''))) (\<lambda>(visible, meta).
     guard (meta \<noteq> fl_metadata r \<or> \<not> S_ISREG visible) (ReplayError (fl_label r @ '' changed after it was read'')))"

definition recheck_directory :: "timeline \<Rightarrow> metas \<Rightarrow> directory_record \<Rightarrow> unit io" where
  "recheck_directory W M r = (let failure = dr_label r @ '' changed during replay inspection'' in
     iobind (rcall W (stat_meta M (dr_parent r) (dr_name r)) (ReplayError failure)) (\<lambda>(visible, meta).
     iobind (rcall W (fstat_meta M (dr_descriptor r)) (ReplayError failure)) (\<lambda>(_, meta').
     guard (meta \<noteq> dr_metadata r \<or> meta' \<noteq> dr_metadata r \<or> \<not> S_ISDIR visible) (ReplayError failure))))"

definition recheck_root :: "timeline \<Rightarrow> metas \<Rightarrow> nat \<Rightarrow> string \<Rightarrow> nat \<Rightarrow> metadata \<Rightarrow> unit io" where
  "recheck_root W M parent name root_fd root_metadata = (let failure = ''replay root changed during inspection'' in
     iobind (rcall W (stat_meta M parent name) (ReplayError failure)) (\<lambda>(visible, meta).
     iobind (rcall W (fstat_meta M root_fd) (ReplayError failure)) (\<lambda>(_, meta').
     guard (meta \<noteq> root_metadata \<or> meta' \<noteq> root_metadata \<or> \<not> S_ISDIR visible) (ReplayError failure))))"

fun for_each :: "('a \<Rightarrow> unit io) \<Rightarrow> 'a list \<Rightarrow> unit io" where
  "for_each f [] = ret ()"
| "for_each f (x # xs) = iobind (f x) (\<lambda>_. for_each f xs)"

section \<open>Parsing and inspection\<close>

text \<open>
  \<open>_validate_json_complexity\<close> is the loop of \<open>job.py\<close>, with the same limits and its own exception.  The
  strings of the model have no surrogates, so its tests for them never fire.
\<close>

definition replay_json_complexity :: "string \<Rightarrow> json \<Rightarrow> exn option" where
  "replay_json_complexity label v =
     map_option (\<lambda>_. ReplayError (label @ '' JSON exceeds the structural complexity limit'')) (validate_json_complexity v)"

definition parse_canonical_model ::
  "hasher \<Rightarrow> (byte list \<Rightarrow> json result) \<Rightarrow> (json \<Rightarrow> 'm result) \<Rightarrow> ('m \<Rightarrow> bool) \<Rightarrow> ('m \<Rightarrow> json) \<Rightarrow> string \<Rightarrow> byte list \<Rightarrow> 'm result" where
  "parse_canonical_model h loads parse valid dump name raw =
     (let invalid = Inl (ReplayError (''invalid JSON metadata in '' @ name)) in
      case loads raw of Inl _ \<Rightarrow> invalid
      | Inr v \<Rightarrow>
          check (replay_json_complexity name v) (case parse v of Inl _ \<Rightarrow> invalid
          | Inr m \<Rightarrow> if \<not> valid m then invalid
            else if canonical_json_bytes h (dump m) \<noteq> raw then Inl (ReplayError (''metadata is not canonical JSON: '' @ name))
            else Inr m))"

record replay_parsers =
  parse_replay_manifest :: "json \<Rightarrow> replay_manifest result"
  parse_evidence :: "json \<Rightarrow> evidence result"
  parse_contract :: "json \<Rightarrow> contract result"
  parse_grade :: "json \<Rightarrow> grade result"
  parse_policy :: "json \<Rightarrow> policy result"

record loaded_replay =
  lr_manifest :: replay_manifest
  lr_evidence :: evidence
  lr_contract :: contract
  lr_stored_grade :: grade
  lr_stored_policy :: policy

record replay_verification =
  rv_valid :: bool
  rv_anchored :: bool
  rv_manifest_sha256 :: "string option"
  rv_errors :: "string list"
  rv_rescored_grade :: "grade option"

definition require_ref :: "hasher \<Rightarrow> file_record \<Rightarrow> artifact_ref \<Rightarrow> unit io" where
  "require_ref h r expected = guard (sha256 h (fl_content r) \<noteq> ar_sha256 expected \<or> int (length (fl_content r)) \<noteq> ar_size_bytes expected)
     (ReplayError (fl_label r @ '': integrity mismatch''))"

definition fixed_specs :: "replay_manifest \<Rightarrow> (string \<times> string \<times> artifact_ref) list" where
  "fixed_specs m = [(''evidence.json'', ''evidence'', rm_evidence m), (''contract.json'', ''contract'', rm_contract m),
     (''grade.json'', ''grade'', rm_grade m), (''events.jsonl'', ''events'', rm_events m), (''policy.json'', ''policy'', rm_policy m)]"

definition FIXED_REPLAY_FILES :: "string list" where
  "FIXED_REPLAY_FILES = [''manifest.json'', ''evidence.json'', ''contract.json'', ''grade.json'', ''events.jsonl'', ''policy.json'']"

definition file_budget :: "nat \<Rightarrow> nat" where
  "file_budget nread = min MAX_REPLAY_FILE_BYTES (MAX_REPLAY_TOTAL_BYTES - nread)"

definition budget_left :: "nat \<Rightarrow> unit io" where
  "budget_left nread = guard (nread > MAX_REPLAY_TOTAL_BYTES) (ReplayError ''replay content exceeds the total limit'')"

fun read_fixed :: "timeline \<Rightarrow> metas \<Rightarrow> nat \<Rightarrow> nat \<Rightarrow> nat \<Rightarrow> (string \<times> string \<times> artifact_ref) list \<Rightarrow> (nat \<times> file_record list) io" where
  "read_fixed W M root_fd root_device nread [] = ret (nread, [])"
| "read_fixed W M root_fd root_device nread ((name, label, _) # specs) =
     iobind (budget_left nread) (\<lambda>_.
     iobind (replay_read_file W M name root_fd root_device (file_budget nread) label None) (\<lambda>r.
     iobind (read_fixed W M root_fd root_device (nread + length (fl_content r)) specs) (\<lambda>(n, rs). ret (n, r # rs))))"

fun read_artifacts :: "hasher \<Rightarrow> timeline \<Rightarrow> metas \<Rightarrow> nat \<Rightarrow> nat \<Rightarrow> replay_manifest \<Rightarrow> nat \<Rightarrow> artifact_ref list \<Rightarrow> file_record list io" where
  "read_artifacts h W M store_fd root_device m nread [] = ret []"
| "read_artifacts h W M store_fd root_device m nread (a # refs) =
     iobind (budget_left nread) (\<lambda>_.
     iobind (replay_read_file W M (ar_sha256 a) store_fd root_device (file_budget nread) (artifact_label m (ar_sha256 a))
       (Some (nat (ar_size_bytes a)))) (\<lambda>r.
     iobind (require_ref h r a) (\<lambda>_.
     iobind (read_artifacts h W M store_fd root_device m (nread + length (fl_content r)) refs) (\<lambda>rs. ret (r # rs)))))"

text \<open>The artifact directories, opened only when the manifest lists artifacts.\<close>

definition open_artifact_store :: "timeline \<Rightarrow> metas \<Rightarrow> nat \<Rightarrow> nat \<Rightarrow> artifact_ref list \<Rightarrow> (directory_record \<times> directory_record) io" where
  "open_artifact_store W M root_fd root_device refs =
     iobind (replay_open_directory W M ''artifacts'' root_fd root_device ''artifact store parent'') (\<lambda>artifacts.
     iobind (replay_entries W (dr_descriptor artifacts) ''artifact store parent'' 1) (\<lambda>names.
     iobind (guard (names \<noteq> {''sha256''}) (ReplayError ''artifact store parent is not closed'')) (\<lambda>_.
     iobind (replay_open_directory W M ''sha256'' (dr_descriptor artifacts) root_device ''artifact store'') (\<lambda>store.
     iobind (replay_entries W (dr_descriptor store) ''artifact store'' (length refs)) (\<lambda>names.
     iobind (guard (names \<noteq> set (map ar_sha256 refs)) (ReplayError ''artifact store is not closed'')) (\<lambda>_.
     ret (artifacts, store)))))))"

definition recheck_artifact_store :: "timeline \<Rightarrow> artifact_ref list \<Rightarrow> directory_record \<times> directory_record \<Rightarrow> unit io" where
  "recheck_artifact_store W refs ds =
     iobind (replay_entries W (dr_descriptor (fst ds)) ''artifact store parent'' 1) (\<lambda>names.
     iobind (guard (names \<noteq> {''sha256''}) (ReplayError ''artifact store parent changed during inspection'')) (\<lambda>_.
     iobind (replay_entries W (dr_descriptor (snd ds)) ''artifact store'' (length refs)) (\<lambda>names.
     guard (names \<noteq> set (map ar_sha256 refs)) (ReplayError ''artifact store changed during inspection''))))"

definition parse_fixed :: "hasher \<Rightarrow> (byte list \<Rightarrow> json result) \<Rightarrow> replay_parsers \<Rightarrow> replay_manifest \<Rightarrow> file_record list \<Rightarrow> loaded_replay result" where
  "parse_fixed h loads P m records = (let raw = (\<lambda>i. fl_content (records ! i)) in
     rbind (parse_canonical_model h loads (parse_evidence P) (\<lambda>e. evidence_check h e = None) evidence_json ''evidence.json'' (raw 0)) (\<lambda>e.
     rbind (parse_canonical_model h loads (parse_contract P) (\<lambda>c. contract_check c = None) contract_json ''contract.json'' (raw 1)) (\<lambda>c.
     rbind (parse_canonical_model h loads (parse_grade P) (\<lambda>g. grade_check g = None) grade_json ''grade.json'' (raw 2)) (\<lambda>g.
     rbind (parse_canonical_model h loads (parse_policy P) (\<lambda>p. policy_check p = None) policy_json ''policy.json'' (raw 4)) (\<lambda>p.
     Inr \<lparr> lr_manifest = m, lr_evidence = e, lr_contract = c, lr_stored_grade = g, lr_stored_policy = p \<rparr>)))))"

text \<open>What follows the reading of the manifest in \<open>_inspect_replay\<close>.\<close>

definition inspect_tree :: "hasher \<Rightarrow> (byte list \<Rightarrow> json result) \<Rightarrow> replay_parsers \<Rightarrow> timeline \<Rightarrow> metas \<Rightarrow> nat \<Rightarrow> string \<Rightarrow>
    nat \<times> nat \<times> metadata \<Rightarrow> file_record \<Rightarrow> loaded_replay io" where
  "inspect_tree h loads P W M parent name opened_root manifest_record =
     (let root_fd = fst opened_root; root_device = fst (snd opened_root); raw = fl_content manifest_record in
     iobind (lift_result (parse_canonical_model h loads (parse_replay_manifest P) replay_manifest_ok replay_manifest_json
       ''manifest.json'' raw)) (\<lambda>m.
     iobind (lift_result (check (validate_manifest_bounds m (length raw)) (Inr ()))) (\<lambda>_.
     let expected_top = set FIXED_REPLAY_FILES \<union> (if rm_artifacts m = [] then {} else {''artifacts''}) in
     iobind (replay_entries W root_fd ''replay root'' (card expected_top)) (\<lambda>names.
     iobind (guard (names \<noteq> expected_top) (ReplayError ''replay tree is not closed'')) (\<lambda>_.
     iobind (lift_result (artifact_refs_by_digest m)) (\<lambda>refs.
     iobind (if rm_artifacts m = [] then ret None
       else iobind (open_artifact_store W M root_fd root_device refs) (\<lambda>ds. ret (Some ds))) (\<lambda>dirs.
     iobind (read_fixed W M root_fd root_device (length raw) (fixed_specs m)) (\<lambda>(nread, records).
     iobind (lift_result (parse_fixed h loads P m records)) (\<lambda>loaded.
     iobind (for_each (\<lambda>(r, a). require_ref h r a) (zip records (map (snd \<circ> snd) (fixed_specs m)))) (\<lambda>_.
     iobind (guard (fl_content (records ! 3) \<noteq> event_bytes h (lr_evidence loaded))
       (ReplayError ''events do not match evidence-derived canonical events'')) (\<lambda>_.
     iobind (case dirs of None \<Rightarrow> ret []
       | Some ds \<Rightarrow> read_artifacts h W M (dr_descriptor (snd ds)) root_device m nread (sort_key ar_sha256 refs)) (\<lambda>artifact_records.
     iobind (guard (\<not> set (evidence_artifact_refs (lr_evidence loaded)) \<subseteq> set (map snd (rm_artifacts m)))
       (ReplayError ''evidence artifact metadata is absent from manifest'')) (\<lambda>_.
     iobind (replay_entries W root_fd ''replay root'' (card expected_top)) (\<lambda>names.
     iobind (guard (names \<noteq> expected_top) (ReplayError ''replay tree changed while it was being inspected'')) (\<lambda>_.
     iobind (case dirs of None \<Rightarrow> ret () | Some ds \<Rightarrow> recheck_artifact_store W refs ds) (\<lambda>_.
     iobind (for_each (recheck_file W M) (manifest_record # records @ artifact_records)) (\<lambda>_.
     iobind (case dirs of None \<Rightarrow> ret () | Some ds \<Rightarrow> iobind (recheck_directory W M (snd ds)) (\<lambda>_. recheck_directory W M (fst ds))) (\<lambda>_.
     iobind (recheck_root W M parent name root_fd (snd (snd opened_root))) (\<lambda>_.
     ret loaded)))))))))))))))))))"

definition failed_inspection :: "bool \<Rightarrow> string option \<Rightarrow> string list \<Rightarrow> grade option \<Rightarrow> replay_verification \<times> loaded_replay option" where
  "failed_inspection pinned digest errors rescored =
     (\<lparr> rv_valid = False, rv_anchored = pinned, rv_manifest_sha256 = digest, rv_errors = errors, rv_rescored_grade = rescored \<rparr>, None)"

definition finish_inspection :: "hasher \<Rightarrow> bool \<Rightarrow> string \<Rightarrow> string list \<Rightarrow> loaded_replay \<Rightarrow> replay_verification \<times> loaded_replay option" where
  "finish_inspection h pinned digest errors loaded =
     (case score_evidence h (lr_evidence loaded) (lr_contract loaded) (lr_stored_policy loaded) of
        Inl _ \<Rightarrow> failed_inspection pinned (Some digest) (errors @ [''replay cannot be rescored'']) None
      | Inr rescored \<Rightarrow> (let errors = errors @ (if rescored \<noteq> lr_stored_grade loaded
            then [''stored grade does not equal deterministic rescore''] else []) in
          if errors \<noteq> [] then failed_inspection pinned (Some digest) errors (Some rescored)
          else (\<lparr> rv_valid = True, rv_anchored = pinned, rv_manifest_sha256 = Some digest, rv_errors = [],
            rv_rescored_grade = Some rescored \<rparr>, Some loaded)))"

definition inspect_replay :: "hasher \<Rightarrow> (byte list \<Rightarrow> json result) \<Rightarrow> replay_parsers \<Rightarrow> timeline \<Rightarrow> metas \<Rightarrow> nat \<Rightarrow> string \<Rightarrow>
    string option \<Rightarrow> nat \<Rightarrow> replay_verification \<times> loaded_replay option" where
  "inspect_replay h loads P W M parent name expected t =
     (case iobind (replay_open_root W M parent name) (\<lambda>opened_root.
        iobind (replay_read_file W M ''manifest.json'' (fst opened_root) (fst (snd opened_root)) MAX_REPLAY_MANIFEST_BYTES ''manifest'' None) (\<lambda>r.
        ret (opened_root, r))) t of
        (Inl e, _) \<Rightarrow> failed_inspection False None [''invalid replay: '' @ exn_msg e] None
      | (Inr (opened_root, r), u) \<Rightarrow>
        (let digest = sha256 h (fl_content r); pinned = (expected = Some digest);
           errors = (if expected \<noteq> None \<and> \<not> pinned then [''manifest trust anchor mismatch''] else []) in
         case inspect_tree h loads P W M parent name opened_root r u of
           (Inl e, _) \<Rightarrow> failed_inspection pinned (Some digest) (errors @ [''invalid replay: '' @ exn_msg e]) None
         | (Inr loaded, _) \<Rightarrow> finish_inspection h pinned digest errors loaded))"

definition verify_replay :: "hasher \<Rightarrow> (byte list \<Rightarrow> json result) \<Rightarrow> replay_parsers \<Rightarrow> timeline \<Rightarrow> metas \<Rightarrow> nat \<Rightarrow> string \<Rightarrow>
    string option \<Rightarrow> nat \<Rightarrow> replay_verification" where
  "verify_replay h loads P W M parent name expected t = fst (inspect_replay h loads P W M parent name expected t)"

definition rescore_replay :: "hasher \<Rightarrow> (byte list \<Rightarrow> json result) \<Rightarrow> replay_parsers \<Rightarrow> timeline \<Rightarrow> metas \<Rightarrow> nat \<Rightarrow> string \<Rightarrow>
    policy \<Rightarrow> string option \<Rightarrow> nat \<Rightarrow> grade result" where
  "rescore_replay h loads P W M parent name p expected t =
     (let (v, loaded) = inspect_replay h loads P W M parent name expected t;
        invalid = Inl (ReplayError (''cannot rescore invalid replay: '' @ join_with ''; '' (rv_errors v))) in
      if \<not> rv_valid v then invalid
      else case loaded of None \<Rightarrow> invalid
        | Some l \<Rightarrow> check (policy_check p) (score_evidence h (lr_evidence l) (lr_contract l) p))"

end
