(* ===== verification/Replay_Facts.thy ===== *)
theory Replay_Facts
  imports Replay Job_Facts
begin

text \<open>
  What a valid inspection of a replay tree guarantees, whatever other processes did to the tree: the
  bytes it read, the references they match, and the models it parsed from them.
\<close>

section \<open>Reader steps\<close>

lemma rcall_Inr_iff [io_simps]: "rcall W call e t = (Inr z, t') \<longleftrightarrow> call t (W t) = Some z \<and> t' = Suc t"
  by (auto simp: rcall_def split: option.splits)

lemma forward_rcall [intro!]: "forward (rcall W call e)"
  by (simp add: forward_def rcall_def)

lemma iobindE:
  assumes "iobind p f t = (Inr z, t')"
  obtains x u where "p t = (Inr x, u)" "f x u = (Inr z, t')"
  using assms by (auto simp: io_simps)

lemma iobind2E:
  assumes "iobind p (\<lambda>(a, b). f a b) t = (Inr z, t')"
  obtains a b u where "p t = (Inr (a, b), u)" "f a b u = (Inr z, t')"
  using assms by (auto simp: io_simps)

text \<open>Some regular file held exactly these bytes at a call no earlier than \<open>t\<close>.\<close>

definition held :: "timeline \<Rightarrow> nat \<Rightarrow> byte list \<Rightarrow> bool" where
  "held W t bytes \<longleftrightarrow> (\<exists>u \<ge> t. \<exists>i d n ts. W u i = Some (Reg d n ts bytes))"

lemma held_mono: "held W u bytes \<Longrightarrow> t \<le> u \<Longrightarrow> held W t bytes"
  unfolding held_def by (meson order_trans)

lemma read_whole:
  assumes "read_fd fd (Suc n) fs = Some bytes" "length bytes \<le> n"
  shows "\<exists>d l ts. fs fd = Some (Reg d l ts bytes)"
  using assms by (auto simp: read_fd_def min_def split: option.splits inode.splits if_splits)

lemma forward_replay_reads:
  "forward (replay_open_directory W M name fd dev l)" "forward (replay_read_file W M name fd dev n l k)"
  "forward (replay_entries W fd l n)" "forward (open_artifact_store W M fd dev refs)"
proof -
  show d: "forward (replay_open_directory W M name fd dev l)" for name fd l
    unfolding replay_open_directory_def by (auto split: prod.splits)
  show "forward (replay_read_file W M name fd dev n l k)"
    unfolding replay_read_file_def by (auto split: prod.splits)
  show e: "forward (replay_entries W fd l n)" for fd l n unfolding replay_entries_def by auto
  show "forward (open_artifact_store W M fd dev refs)" unfolding open_artifact_store_def using d e by blast
qed

lemma replay_read_file_Inr:
  assumes "replay_read_file W M name fd dev n l k t = (Inr r, t')"
  shows "held W t (fl_content r)" "\<not> size_mismatch k (length (fl_content r))" "t \<le> t'"
    "fl_parent r = fd" "fl_name r = name"
proof -
  obtain f u bytes where r: "read_fd f (n + 1) (W u) = Some bytes" "length bytes \<le> n" "t \<le> u"
      "fl_content r = bytes" "\<not> size_mismatch k (length bytes)" "fl_parent r = fd" "fl_name r = name"
    using assms unfolding replay_read_file_def io_simps by (fastforce simp: io_simps split: prod.splits)
  have "\<exists>d l ts. W u f = Some (Reg d l ts bytes)" using read_whole[of f n "W u" bytes] r(1,2) by simp
  then show "held W t (fl_content r)" using r(3,4) unfolding held_def by blast
  show "\<not> size_mismatch k (length (fl_content r))" "fl_parent r = fd" "fl_name r = name" using r by auto
  show "t \<le> t'" by (rule forwardD[OF forward_replay_reads(2) assms])
qed

lemma forward_for_each: "(\<And>x. forward (f x)) \<Longrightarrow> forward (for_each f xs)"
  by (induction xs) auto

lemma require_ref_Inr [io_simps]:
  "require_ref h r a t = (Inr u, t') \<longleftrightarrow>
     sha256 h (fl_content r) = ar_sha256 a \<and> int (length (fl_content r)) = ar_size_bytes a \<and> t' = t"
  by (auto simp: require_ref_def io_simps)

lemma for_each_Inr: "for_each f xs t = (Inr (), t') \<Longrightarrow> x \<in> set xs \<Longrightarrow> \<exists>u v. f x u = (Inr (), v)"
  by (induction xs arbitrary: t) (auto simp: io_simps)

lemma read_fixed_Inr:
  assumes "read_fixed W M fd dev nread specs t = (Inr (n, records), t')"
  shows "length records = length specs \<and> (\<forall>r \<in> set records. held W t (fl_content r)) \<and> t \<le> t'"
  using assms
proof (induction specs arbitrary: nread t n records)
  case Nil
  then show ?case by (simp add: io_simps)
next
  case (Cons s specs)
  obtain name l a where s: "s = (name, l, a)" by (cases s)
  obtain r u rs where r: "replay_read_file W M name fd dev (file_budget nread) l None t = (Inr r, u)"
      "read_fixed W M fd dev (nread + length (fl_content r)) specs u = (Inr (n, rs), t')" "records = r # rs"
    using Cons.prems by (auto simp: s io_simps budget_left_def)
  note here = replay_read_file_Inr[OF r(1)] and rest = Cons.IH[OF r(2)]
  show ?case using here(1,3) rest r(3) held_mono[of W u _ t] by auto
qed

lemma read_artifacts_Inr:
  assumes "read_artifacts h W M fd dev m nread refs t = (Inr records, t')"
  shows "\<forall>a \<in> set refs. \<exists>bytes. held W t bytes \<and> sha256 h bytes = ar_sha256 a \<and> int (length bytes) = ar_size_bytes a"
  using assms
proof (induction refs arbitrary: nread t records)
  case (Cons a refs)
  obtain r u rs where r: "replay_read_file W M (ar_sha256 a) fd dev (file_budget nread) (artifact_label m (ar_sha256 a))
        (Some (nat (ar_size_bytes a))) t = (Inr r, u)"
      "sha256 h (fl_content r) = ar_sha256 a" "int (length (fl_content r)) = ar_size_bytes a"
      "read_artifacts h W M fd dev m (nread + length (fl_content r)) refs u = (Inr rs, t')"
    using Cons.prems by (auto simp: io_simps budget_left_def)
  note here = replay_read_file_Inr[OF r(1)]
  show ?case using here(1,3) r(2,3) Cons.IH[OF r(4)] held_mono[of W u _ t] by fastforce
qed simp

lemma first_by_digest_set: "set acc \<subseteq> set (first_by_digest acc refs)"
  by (induction acc refs rule: first_by_digest.induct) (auto split: if_splits)

lemma artifact_refs_by_digest_Inr:
  "artifact_refs_by_digest m = Inr refs \<Longrightarrow> snd ` set (rm_artifacts m) \<subseteq> set refs"
  by (auto simp: artifact_refs_by_digest_def Let_def split: if_splits)

section \<open>Parsed models\<close>

lemma parse_canonical_model_Inr:
  "parse_canonical_model h loads parse valid dump name raw = Inr m \<Longrightarrow>
     valid m \<and> raw = canonical_json_bytes h (dump m)"
  by (auto simp: parse_canonical_model_def Let_def check_Inr_iff split: sum.splits if_splits)

definition parsed_replay :: "hasher \<Rightarrow> (byte list \<Rightarrow> json result) \<Rightarrow> replay_parsers \<Rightarrow> loaded_replay \<Rightarrow>
    byte list \<Rightarrow> byte list list \<Rightarrow> bool" where
  "parsed_replay h loads P l raw files \<longleftrightarrow> length files = 5 \<and>
     parse_canonical_model h loads (parse_replay_manifest P) replay_manifest_ok replay_manifest_json
       ''manifest.json'' raw = Inr (lr_manifest l) \<and>
     parse_canonical_model h loads (parse_evidence P) (\<lambda>e. evidence_check h e = None) evidence_json
       ''evidence.json'' (files ! 0) = Inr (lr_evidence l) \<and>
     parse_canonical_model h loads (parse_contract P) (\<lambda>c. contract_check c = None) contract_json
       ''contract.json'' (files ! 1) = Inr (lr_contract l) \<and>
     parse_canonical_model h loads (parse_grade P) (\<lambda>g. grade_check g = None) grade_json
       ''grade.json'' (files ! 2) = Inr (lr_stored_grade l) \<and>
     parse_canonical_model h loads (parse_policy P) (\<lambda>p. policy_check p = None) policy_json
       ''policy.json'' (files ! 4) = Inr (lr_stored_policy l) \<and>
     files ! 3 = event_bytes h (lr_evidence l) \<and>
     list_all2 (\<lambda>bytes a. sha256 h bytes = ar_sha256 a \<and> int (length bytes) = ar_size_bytes a)
       files (map (snd \<circ> snd) (fixed_specs (lr_manifest l)))"

lemma for_each_require_ref:
  assumes "for_each (\<lambda>(r, a). require_ref h r a) (zip rs as) t = (Inr (), t')" "length rs = length as"
  shows "list_all2 (\<lambda>bytes a. sha256 h bytes = ar_sha256 a \<and> int (length bytes) = ar_size_bytes a) (map fl_content rs) as"
  using assms(2,1)
proof (induction rs as arbitrary: t rule: list_induct2)
  case (Cons r rs a as)
  then show ?case by (auto simp: io_simps)
qed simp

section \<open>Valid inspections\<close>

text \<open>The inspection after the manifest was read, as the facts a returned replay rests on.\<close>

definition tree_facts :: "hasher \<Rightarrow> (byte list \<Rightarrow> json result) \<Rightarrow> replay_parsers \<Rightarrow> timeline \<Rightarrow> nat \<Rightarrow> loaded_replay \<Rightarrow>
    byte list \<Rightarrow> byte list list \<Rightarrow> bool" where
  "tree_facts h loads P W t l raw files \<longleftrightarrow> parsed_replay h loads P l raw files \<and>
     validate_manifest_bounds (lr_manifest l) (length raw) = None \<and>
     (\<forall>bytes \<in> set files. held W t bytes) \<and>
     set (evidence_artifact_refs (lr_evidence l)) \<subseteq> snd ` set (rm_artifacts (lr_manifest l)) \<and>
     (\<forall>a \<in> snd ` set (rm_artifacts (lr_manifest l)).
        \<exists>bytes. held W t bytes \<and> sha256 h bytes = ar_sha256 a \<and> int (length bytes) = ar_size_bytes a)"

lemma parse_fixed_Inr:
  assumes "parse_fixed h loads P m records = Inr l" "length records = 5"
    and "parse_canonical_model h loads (parse_replay_manifest P) replay_manifest_ok replay_manifest_json
      ''manifest.json'' raw = Inr m"
    and "for_each (\<lambda>(r, a). require_ref h r a) (zip records (map (snd \<circ> snd) (fixed_specs m))) t = (Inr (), t')"
    and "fl_content (records ! 3) = event_bytes h (lr_evidence l)"
  shows "lr_manifest l = m" "parsed_replay h loads P l raw (map fl_content records)"
proof -
  show m: "lr_manifest l = m" using assms(1) by (auto simp: parse_fixed_def Let_def rbind_Inr_iff)
  have "length records = length (map (snd \<circ> snd) (fixed_specs m))" using assms(2) by (simp add: fixed_specs_def)
  note refs = for_each_require_ref[OF assms(4) this]
  show "parsed_replay h loads P l raw (map fl_content records)"
    unfolding parsed_replay_def m using assms(1,2,3,5) refs
    by (auto simp: parse_fixed_def Let_def rbind_Inr_iff)
qed

lemma tree_facts_mono: "tree_facts h loads P W u l raw files \<Longrightarrow> t \<le> u \<Longrightarrow> tree_facts h loads P W t l raw files"
  unfolding tree_facts_def using held_mono[of W u _ t] by blast

lemma forward_open_root: "forward (replay_open_root W M parent name)"
  unfolding replay_open_root_def by (auto split: prod.splits)

lemma inspect_tree_Inr:
  assumes "inspect_tree h loads P W M parent name opened_root record t = (Inr l, t')"
  shows "\<exists>files. tree_facts h loads P W t l (fl_content record) files"
proof -
  let ?fd = "fst opened_root" and ?dev = "fst (snd opened_root)"
  obtain m z refs k names u1 dirs u2 nread records u3 z' u4 arts u5 where
    m: "parse_canonical_model h loads (parse_replay_manifest P) replay_manifest_ok replay_manifest_json
        ''manifest.json'' (fl_content record) = Inr m"
      "check (validate_manifest_bounds m (length (fl_content record))) (Inr ()) = Inr z"
      "artifact_refs_by_digest m = Inr refs"
    and e: "replay_entries W ?fd ''replay root'' k t = (Inr names, u1)"
    and d: "(if rm_artifacts m = [] then ret None
       else iobind (open_artifact_store W M ?fd ?dev refs) (\<lambda>ds. ret (Some ds))) u1 = (Inr dirs, u2)"
    and f: "read_fixed W M ?fd ?dev (length (fl_content record)) (fixed_specs m) u2 = (Inr (nread, records), u3)"
      "parse_fixed h loads P m records = Inr l"
      "for_each (\<lambda>(r, a). require_ref h r a) (zip records (map (snd \<circ> snd) (fixed_specs m))) u3 = (Inr z', u4)"
      "\<not> fl_content (records ! 3) \<noteq> event_bytes h (lr_evidence l)"
    and a: "(case dirs of None \<Rightarrow> ret []
       | Some ds \<Rightarrow> read_artifacts h W M (dr_descriptor (snd ds)) ?dev m nread (sort_key ar_sha256 refs)) u4 = (Inr arts, u5)"
      "\<not> \<not> set (evidence_artifact_refs (lr_evidence l)) \<subseteq> set (map snd (rm_artifacts m))"
    using assms unfolding inspect_tree_def Let_def
    apply (elim iobind2E iobindE)
    apply (simp only: io_simps)
    apply (elim conjE exE)
    apply hypsubst
    apply (rule that)
    apply assumption+
    done
  have u1: "t \<le> u1" by (rule forwardD[OF forward_replay_reads(3) e])
  have bounds: "validate_manifest_bounds m (length (fl_content record)) = None" using m(2) by (simp add: check_Inr_iff)
  have u4: "u3 \<le> u4" by (rule forwardD[OF forward_for_each f(3)]) (auto simp: require_ref_def split: prod.splits)
  have u2: "u1 \<le> u2" using d forwardD[OF forward_replay_reads(4)] by (fastforce simp: io_simps split: if_splits)
  note fixed = read_fixed_Inr[OF f(1)]
  have len: "length records = 5" using fixed by (simp add: fixed_specs_def)
  note parsed = parse_fixed_Inr[OF f(2) len m(1), of u3 u4]
  have files: "\<forall>bytes \<in> set (map fl_content records). held W t bytes"
    using fixed u1 u2 held_mono[of W u2 _ t] by auto
  have "\<exists>bytes. held W t bytes \<and> sha256 h bytes = ar_sha256 a \<and> int (length bytes) = ar_size_bytes a"
    if "a \<in> snd ` set (rm_artifacts m)" for a
  proof -
    have ne: "rm_artifacts m \<noteq> []" using that by auto
    then obtain ds where "dirs = Some ds" using d by (auto simp: io_simps)
    with a(1) have "\<exists>bytes. held W u4 bytes \<and> sha256 h bytes = ar_sha256 a \<and> int (length bytes) = ar_size_bytes a"
      using read_artifacts_Inr artifact_refs_by_digest_Inr[OF m(3)] that by fastforce
    then show ?thesis using fixed u4 u1 u2 held_mono[of W u4 _ t] by auto
  qed
  then show ?thesis using parsed f(3,4) bounds files a(2) unfolding tree_facts_def by fastforce
qed

lemma inspect_replay_loaded:
  assumes "inspect_replay h loads P W M parent name expected t = (v, Some l)"
  shows "\<exists>raw files. tree_facts h loads P W t l raw files \<and> held W t raw \<and>
    rv_manifest_sha256 v = Some (sha256 h raw) \<and> (expected = None \<or> expected = Some (sha256 h raw)) \<and>
    rv_anchored v = (expected = Some (sha256 h raw)) \<and> rv_valid v \<and> rv_rescored_grade v = Some (lr_stored_grade l) \<and>
    score_evidence h (lr_evidence l) (lr_contract l) (lr_stored_policy l) = Inr (lr_stored_grade l)"
proof -
  let ?start = "iobind (replay_open_root W M parent name) (\<lambda>opened_root.
        iobind (replay_read_file W M ''manifest.json'' (fst opened_root) (fst (snd opened_root)) MAX_REPLAY_MANIFEST_BYTES
          ''manifest'' None) (\<lambda>r. ret (opened_root, r)))"
  obtain rt r u where s: "?start t = (Inr (rt, r), u)"
    using assms unfolding inspect_replay_def
    by (auto simp: failed_inspection_def split: prod.splits sum.splits)
  obtain k l' t' where tr: "inspect_tree h loads P W M parent name rt r u = (Inr l', t')"
    and fin: "finish_inspection h (expected = Some (sha256 h (fl_content r))) (sha256 h (fl_content r))
      (if expected \<noteq> None \<and> expected \<noteq> Some (sha256 h (fl_content r)) then [''manifest trust anchor mismatch''] else []) l'
      = (v, Some l)"
    using assms unfolding inspect_replay_def s
    by (auto simp: failed_inspection_def Let_def split: prod.splits sum.splits)
  obtain v0 where v0: "replay_read_file W M ''manifest.json'' (fst rt) (fst (snd rt)) MAX_REPLAY_MANIFEST_BYTES ''manifest'' None v0
      = (Inr r, u)" "t \<le> v0"
    using s forwardD[OF forward_open_root] by (auto simp: io_simps)
  note rd = replay_read_file_Inr[OF v0(1)]
  obtain files where fs: "tree_facts h loads P W u l' (fl_content r) files" using inspect_tree_Inr[OF tr] by blast
  have l: "l' = l" and rest: "expected = None \<or> expected = Some (sha256 h (fl_content r))"
      "rv_manifest_sha256 v = Some (sha256 h (fl_content r))" "rv_anchored v = (expected = Some (sha256 h (fl_content r)))"
      "rv_valid v" "rv_rescored_grade v = Some (lr_stored_grade l)"
      "score_evidence h (lr_evidence l) (lr_contract l) (lr_stored_policy l) = Inr (lr_stored_grade l)"
    using fin unfolding finish_inspection_def
    by (auto simp: failed_inspection_def Let_def split: sum.splits if_splits)
  have "tree_facts h loads P W t l (fl_content r) files"
    using tree_facts_mono[OF fs] v0(2) rd(3) unfolding l by simp
  then show ?thesis using rest held_mono[OF rd(1) v0(2)] by blast
qed

lemma inspection_closed:
  "\<not> rv_valid (fst (failed_inspection pinned known errors rescored))"
  "rv_valid (fst (finish_inspection h pinned digest errors l)) \<longrightarrow> snd (finish_inspection h pinned digest errors l) \<noteq> None"
  by (simp_all add: failed_inspection_def finish_inspection_def Let_def split: sum.split)

lemma valid_inspection:
  assumes "rv_valid (verify_replay h loads P W M parent name expected t)"
  obtains v l where "inspect_replay h loads P W M parent name expected t = (v, Some l)"
    "verify_replay h loads P W M parent name expected t = v"
proof -
  have "rv_valid (fst (inspect_replay h loads P W M parent name expected t)) \<longrightarrow>
      snd (inspect_replay h loads P W M parent name expected t) \<noteq> None"
    unfolding inspect_replay_def Let_def by (simp add: inspection_closed del: not_None_eq split: prod.split sum.split)
  then show ?thesis
    using assms that by (cases "inspect_replay h loads P W M parent name expected t") (auto simp: verify_replay_def)
qed

definition matches_ref :: "hasher \<Rightarrow> byte list \<Rightarrow> artifact_ref \<Rightarrow> bool" where
  "matches_ref h bytes a \<longleftrightarrow> sha256 h bytes = ar_sha256 a \<and> int (length bytes) = ar_size_bytes a"

lemma five_files: "length files = 5 \<Longrightarrow> \<exists>a b c d e. files = [a, b, c, d, e]"
  by (auto simp: numeral_eq_Suc length_Suc_conv)

lemma sealed_files:
  assumes "tree_facts h loads P W t l raw files"
  shows "raw = canonical_json_bytes h (replay_manifest_json (lr_manifest l))"
    "evidence_check h (lr_evidence l) = None" "contract_check (lr_contract l) = None"
    "grade_check (lr_stored_grade l) = None" "policy_check (lr_stored_policy l) = None"
    "list_all (\<lambda>(bytes, a). held W t bytes \<and> matches_ref h bytes a)
      [(canonical_json_bytes h (evidence_json (lr_evidence l)), rm_evidence (lr_manifest l)),
       (canonical_json_bytes h (contract_json (lr_contract l)), rm_contract (lr_manifest l)),
       (canonical_json_bytes h (grade_json (lr_stored_grade l)), rm_grade (lr_manifest l)),
       (event_bytes h (lr_evidence l), rm_events (lr_manifest l)),
       (canonical_json_bytes h (policy_json (lr_stored_policy l)), rm_policy (lr_manifest l))]"
    "\<forall>a \<in> set (evidence_artifact_refs (lr_evidence l)). \<exists>bytes. held W t bytes \<and> matches_ref h bytes a"
proof -
  have p: "parsed_replay h loads P l raw files" and held: "\<forall>bytes \<in> set files. held W t bytes"
    using assms by (simp_all add: tree_facts_def)
  then obtain a b c d e where files: "files = [a, b, c, d, e]" using five_files[of files] by (auto simp: parsed_replay_def)
  note q = p[unfolded parsed_replay_def files]
  have docs: "a = canonical_json_bytes h (evidence_json (lr_evidence l))" "b = canonical_json_bytes h (contract_json (lr_contract l))"
    "c = canonical_json_bytes h (grade_json (lr_stored_grade l))" "d = event_bytes h (lr_evidence l)"
    "e = canonical_json_bytes h (policy_json (lr_stored_policy l))"
    and "raw = canonical_json_bytes h (replay_manifest_json (lr_manifest l))"
    "evidence_check h (lr_evidence l) = None" "contract_check (lr_contract l) = None"
    "grade_check (lr_stored_grade l) = None" "policy_check (lr_stored_policy l) = None"
    using q[THEN conjunct2, THEN conjunct1, THEN parse_canonical_model_Inr]
      q[THEN conjunct2, THEN conjunct2, THEN conjunct1, THEN parse_canonical_model_Inr]
      q[THEN conjunct2, THEN conjunct2, THEN conjunct2, THEN conjunct1, THEN parse_canonical_model_Inr]
      q[THEN conjunct2, THEN conjunct2, THEN conjunct2, THEN conjunct2, THEN conjunct1, THEN parse_canonical_model_Inr]
      q[THEN conjunct2, THEN conjunct2, THEN conjunct2, THEN conjunct2, THEN conjunct2, THEN conjunct1, THEN parse_canonical_model_Inr]
      q[THEN conjunct2, THEN conjunct2, THEN conjunct2, THEN conjunct2, THEN conjunct2, THEN conjunct2, THEN conjunct1]
    by simp_all
  then show "raw = canonical_json_bytes h (replay_manifest_json (lr_manifest l))"
    "evidence_check h (lr_evidence l) = None" "contract_check (lr_contract l) = None"
    "grade_check (lr_stored_grade l) = None" "policy_check (lr_stored_policy l) = None" by simp_all
  show "list_all (\<lambda>(bytes, a). held W t bytes \<and> matches_ref h bytes a)
      [(canonical_json_bytes h (evidence_json (lr_evidence l)), rm_evidence (lr_manifest l)),
       (canonical_json_bytes h (contract_json (lr_contract l)), rm_contract (lr_manifest l)),
       (canonical_json_bytes h (grade_json (lr_stored_grade l)), rm_grade (lr_manifest l)),
       (event_bytes h (lr_evidence l), rm_events (lr_manifest l)),
       (canonical_json_bytes h (policy_json (lr_stored_policy l)), rm_policy (lr_manifest l))]"
    unfolding docs[symmetric] using held q by (auto simp: files fixed_specs_def matches_ref_def)
  show "\<forall>a \<in> set (evidence_artifact_refs (lr_evidence l)). \<exists>bytes. held W t bytes \<and> matches_ref h bytes a"
    using assms unfolding tree_facts_def matches_ref_def by blast
qed

text \<open>Two inspections of manifests with one digest read the same documents, unless the digest collides.\<close>

lemma same_documents:
  assumes f: "tree_facts h loads P W t l raw files" "held W t raw" "tree_facts h loads P W' t' l' raw' files'" "held W' t' raw'"
    and sha: "sha256 h raw = sha256 h raw'"
    and nc: "\<And>x y. held W t x \<Longrightarrow> held W' t' y \<Longrightarrow> sha256 h x = sha256 h y \<Longrightarrow> x = y"
  shows "lr_evidence l' = lr_evidence l" "lr_contract l' = lr_contract l"
proof -
  have raw: "raw = raw'" using nc f(2,4) sha by blast
  have p: "parsed_replay h loads P l raw files" "parsed_replay h loads P l' raw' files'" using f(1,3) by (simp_all add: tree_facts_def)
  have m: "lr_manifest l = lr_manifest l'" using p raw by (auto simp: parsed_replay_def)
  have same: "files ! k = files' ! k" if "k < 5" for k
  proof (rule nc)
    have len: "length files = 5" "length files' = 5" using p by (simp_all add: parsed_replay_def)
    then show "held W t (files ! k)" "held W' t' (files' ! k)" using f(1,3) that by (simp_all add: tree_facts_def)
    show "sha256 h (files ! k) = sha256 h (files' ! k)"
      using p m len that unfolding parsed_replay_def by (auto simp: list_all2_conv_all_nth)
  qed
  show "lr_evidence l' = lr_evidence l" using p same[of 0] by (auto simp: parsed_replay_def)
  show "lr_contract l' = lr_contract l" using p same[of 1] by (auto simp: parsed_replay_def)
qed

end
