(* ===== verification/Replay_Static.thy ===== *)
theory Replay_Static
  imports Replay_Facts "HOL-Library.Multiset"
begin

text \<open>
  A replay tree that nobody changes while it is inspected: every read returns the file, every recheck
  agrees with it, and the inspection loads the replay.
\<close>

definition file_in :: "store \<Rightarrow> nat \<Rightarrow> nat \<Rightarrow> string \<Rightarrow> byte list \<Rightarrow> bool" where
  "file_in fs dir dev name bytes \<longleftrightarrow> (\<exists>i ts. stat_at dir name fs = Some (i, Reg dev 1 ts bytes))"

definition closed_directory :: "store \<Rightarrow> nat \<Rightarrow> nat \<Rightarrow> string set \<Rightarrow> bool" where
  "closed_directory fs i dev names \<longleftrightarrow>
     (\<exists>es. fs i = Some (Directory dev es) \<and> distinct (map fst es) \<and> set (map fst es) = names)"

definition top_level_names :: "replay_manifest \<Rightarrow> string set" where
  "top_level_names m = set FIXED_REPLAY_FILES \<union> (if rm_artifacts m = [] then {} else {''artifacts''})"

definition artifact_store_on_disk :: "hasher \<Rightarrow> store \<Rightarrow> nat \<Rightarrow> nat \<Rightarrow> artifact_ref set \<Rightarrow> bool" where
  "artifact_store_on_disk h fs i dev refs \<longleftrightarrow>
     (\<exists>d s. lookup_at fs i ''artifacts'' = Some d \<and> closed_directory fs d dev {''sha256''} \<and>
       lookup_at fs d ''sha256'' = Some s \<and> closed_directory fs s dev (ar_sha256 ` refs) \<and>
       (\<forall>a \<in> refs. \<exists>bytes. file_in fs s dev (ar_sha256 a) bytes \<and> matches_ref h bytes a))"

text \<open>The layout \<open>write_replay\<close> leaves under \<open>name\<close>.\<close>

definition replay_on_disk :: "hasher \<Rightarrow> store \<Rightarrow> nat \<Rightarrow> string \<Rightarrow> replay_manifest \<Rightarrow> byte list \<Rightarrow> byte list list \<Rightarrow> bool" where
  "replay_on_disk h fs parent name m raw files \<longleftrightarrow> (\<exists>i dev. lookup_at fs parent name = Some i \<and>
     closed_directory fs i dev (top_level_names m) \<and> file_in fs i dev ''manifest.json'' raw \<and>
     list_all2 (file_in fs i dev) (map fst (fixed_specs m)) files \<and>
     (rm_artifacts m \<noteq> [] \<longrightarrow> artifact_store_on_disk h fs i dev (snd ` set (rm_artifacts m))))"

section \<open>Single reads\<close>

lemma static_rcall [simp]:
  "call t fs = Some x \<Longrightarrow> rcall (\<lambda>_. fs) call e t = (Inr x, Suc t)"
  by (simp add: rcall_def)

lemma step_simps [simp]: "guard False e t = (Inr (), t)" "ret x t = (Inr x, t)" "lift_result r t = (r, t)"
  by (simp_all add: guard_def ret_def lift_result_def)

lemma iobind_Inr: "p t = (Inr x, u) \<Longrightarrow> iobind p f t = f x u"
  by (simp add: iobind_def)

definition agrees :: "store \<Rightarrow> (nat \<Rightarrow> nat) \<Rightarrow> file_record \<Rightarrow> bool" where
  "agrees fs mt r \<longleftrightarrow> (\<exists>i n. stat_at (fl_parent r) (fl_name r) fs = Some (i, n) \<and> S_ISREG n \<and>
     fl_metadata r = stable_metadata i n (mt i))"

lemma static_read:
  assumes "file_in fs fd dev name bytes" "length bytes \<le> n" "\<not> size_mismatch k (length bytes)"
  shows "\<exists>r u. replay_read_file (\<lambda>_. fs) (\<lambda>_. mt) name fd dev n l k t = (Inr r, u) \<and> fl_content r = bytes \<and> agrees fs mt r"
proof -
  obtain i ts where st: "stat_at fd name fs = Some (i, Reg dev 1 ts bytes)" using assms(1) by (auto simp: file_in_def)
  then have i: "fs i = Some (Reg dev 1 ts bytes)"
    by (auto simp: stat_at_def split: option.splits)
  show ?thesis
    using assms(2,3) by (simp add: replay_read_file_def iobind_def stat_meta_def fstat_meta_def st i open_at_def read_fd_def
        st_size_def link_count_def agrees_def)
qed

lemma static_entries:
  "closed_directory fs fd dev names \<Longrightarrow> replay_entries (\<lambda>_. fs) fd l (card names) t = (Inr names, Suc t)"
  by (auto simp: closed_directory_def replay_entries_def iobind_def scandir_fd_def distinct_card[of "map fst _", simplified])

lemma static_recheck_file: "agrees fs mt r \<Longrightarrow> recheck_file (\<lambda>_. fs) (\<lambda>_. mt) r t = (Inr (), Suc t)"
  by (auto simp: agrees_def recheck_file_def iobind_def stat_meta_def)

definition directory_agrees :: "store \<Rightarrow> (nat \<Rightarrow> nat) \<Rightarrow> directory_record \<Rightarrow> bool" where
  "directory_agrees fs mt r \<longleftrightarrow> (\<exists>n. stat_at (dr_parent r) (dr_name r) fs = Some (dr_descriptor r, n) \<and>
     fs (dr_descriptor r) = Some n \<and> S_ISDIR n \<and> dr_metadata r = stable_metadata (dr_descriptor r) n (mt (dr_descriptor r)))"

lemma static_open_directory:
  assumes "lookup_at fs fd name = Some i" "closed_directory fs i dev names"
  shows "\<exists>r u. replay_open_directory (\<lambda>_. fs) (\<lambda>_. mt) name fd dev l t = (Inr r, u) \<and> dr_descriptor r = i \<and>
    directory_agrees fs mt r"
proof -
  obtain es where i: "fs i = Some (Directory dev es)" using assms(2) by (auto simp: closed_directory_def)
  then have st: "stat_at fd name fs = Some (i, Directory dev es)" using assms(1) by (simp add: stat_at_def)
  show ?thesis by (simp add: replay_open_directory_def iobind_def stat_meta_def fstat_meta_def st i open_at_def directory_agrees_def)
qed

lemma static_recheck_directory:
  "directory_agrees fs mt r \<Longrightarrow> recheck_directory (\<lambda>_. fs) (\<lambda>_. mt) r t = (Inr (), Suc (Suc t))"
  by (auto simp: directory_agrees_def recheck_directory_def Let_def iobind_def stat_meta_def fstat_meta_def)

lemma static_open_root:
  assumes "lookup_at fs parent name = Some i" "closed_directory fs i dev names"
  shows "\<exists>meta u. replay_open_root (\<lambda>_. fs) (\<lambda>_. mt) parent name t = (Inr (i, dev, meta), u) \<and>
    (\<forall>t. recheck_root (\<lambda>_. fs) (\<lambda>_. mt) parent name i meta t = (Inr (), Suc (Suc t)))"
proof -
  obtain es where i: "fs i = Some (Directory dev es)" using assms(2) by (auto simp: closed_directory_def)
  then have st: "stat_at parent name fs = Some (i, Directory dev es)" using assms(1) by (simp add: stat_at_def)
  show ?thesis by (simp add: replay_open_root_def recheck_root_def Let_def iobind_def stat_meta_def fstat_meta_def st i open_at_def)
qed

lemma static_for_each: "(\<And>x t. x \<in> set xs \<Longrightarrow> \<exists>u. f x t = (Inr (), u)) \<Longrightarrow> \<exists>u. for_each f xs t = (Inr (), u)"
proof (induction xs arbitrary: t)
  case (Cons x xs)
  obtain u where "f x t = (Inr (), u)" using Cons.prems by force
  then show ?case using Cons.IH[of u] Cons.prems by (simp add: iobind_def)
qed simp

section \<open>All files\<close>

lemma budget_ok: "nread + length bytes \<le> MAX_REPLAY_TOTAL_BYTES \<Longrightarrow> length bytes \<le> MAX_REPLAY_FILE_BYTES \<Longrightarrow>
  budget_left nread t = (Inr (), t) \<and> length bytes \<le> file_budget nread"
  by (simp add: budget_left_def file_budget_def)

lemma static_read_fixed:
  assumes "list_all2 (file_in fs fd dev) (map fst specs) files"
    and "nread + sum_list (map length files) \<le> MAX_REPLAY_TOTAL_BYTES" "\<forall>bytes \<in> set files. length bytes \<le> MAX_REPLAY_FILE_BYTES"
  shows "\<exists>rs u. read_fixed (\<lambda>_. fs) (\<lambda>_. mt) fd dev nread specs t = (Inr (nread + sum_list (map length files), rs), u) \<and>
    map fl_content rs = files \<and> list_all (agrees fs mt) rs"
  using assms
proof (induction specs arbitrary: files nread t)
  case (Cons s specs)
  obtain name l a where s: "s = (name, l, a)" by (cases s)
  obtain bytes rest where f: "files = bytes # rest" "file_in fs fd dev name bytes" "list_all2 (file_in fs fd dev) (map fst specs) rest"
    using Cons.prems(1) by (auto simp: s list_all2_Cons1)
  have b: "budget_left nread t = (Inr (), t)" "length bytes \<le> file_budget nread"
    using budget_ok[of nread bytes t] Cons.prems(2,3) by (simp_all add: f(1))
  obtain r u where r: "replay_read_file (\<lambda>_. fs) (\<lambda>_. mt) name fd dev (file_budget nread) l None t = (Inr r, u)"
      "fl_content r = bytes" "agrees fs mt r"
    using static_read[OF f(2) b(2), of None mt l t] by (auto simp: size_mismatch_def)
  obtain rs v where "read_fixed (\<lambda>_. fs) (\<lambda>_. mt) fd dev (nread + length bytes) specs u =
      (Inr (nread + length bytes + sum_list (map length rest), rs), v)" "map fl_content rs = rest" "list_all (agrees fs mt) rs"
    using Cons.IH[OF f(3), of "nread + length bytes" u] Cons.prems(2,3) by (auto simp: f(1))
  then show ?case using b(1) r by (simp add: s f(1) iobind_def add.assoc)
qed simp

lemma static_read_artifacts:
  assumes "\<forall>a \<in> set refs. \<exists>bytes. file_in fs fd dev (ar_sha256 a) bytes \<and> matches_ref h bytes a"
    and "int nread + sum_list (map ar_size_bytes refs) \<le> int MAX_REPLAY_TOTAL_BYTES" "\<forall>a \<in> set refs. ar_size_bytes a \<le> int MAX_REPLAY_FILE_BYTES"
  shows "\<exists>rs u. read_artifacts h (\<lambda>_. fs) (\<lambda>_. mt) fd dev m nread refs t = (Inr rs, u) \<and> list_all (agrees fs mt) rs"
  using assms
proof (induction refs arbitrary: nread t)
  case (Cons a refs)
  obtain bytes where f: "file_in fs fd dev (ar_sha256 a) bytes" "sha256 h bytes = ar_sha256 a" "int (length bytes) = ar_size_bytes a"
    using Cons.prems(1) by (auto simp: matches_ref_def)
  have "0 \<le> ar_size_bytes b" if "b \<in> set refs" for b
    using Cons.prems(1) that by (auto simp: matches_ref_def)
  then have "0 \<le> sum_list (map ar_size_bytes refs)" by (intro sum_list_nonneg) auto
  then have b: "budget_left nread t = (Inr (), t)" "length bytes \<le> file_budget nread"
    using budget_ok[of nread bytes t] Cons.prems(2,3) f(3) by simp_all
  obtain r u where r: "replay_read_file (\<lambda>_. fs) (\<lambda>_. mt) (ar_sha256 a) fd dev (file_budget nread) (artifact_label m (ar_sha256 a))
      (Some (nat (ar_size_bytes a))) t = (Inr r, u)" "fl_content r = bytes" "agrees fs mt r"
    using static_read[OF f(1) b(2), of "Some (nat (ar_size_bytes a))" mt "artifact_label m (ar_sha256 a)" t] by (auto simp: size_mismatch_def simp flip: f(3))
  obtain rs v where "read_artifacts h (\<lambda>_. fs) (\<lambda>_. mt) fd dev m (nread + length bytes) refs u = (Inr rs, v)"
      "list_all (agrees fs mt) rs"
    using Cons.IH[of "nread + length bytes" u] Cons.prems f(3) by auto
  then show ?case using b(1) r f(2,3) by (simp add: iobind_def require_ref_def)
qed simp

section \<open>Manifest bounds\<close>

lemma bind_references_Inr:
  assumes "bind_references limit acc refs = Inr acc'"
  shows "map_of acc \<subseteq>\<^sub>m map_of acc' \<and>
    (\<forall>(l, r) \<in> set refs. map_of acc' (ar_sha256 r) = Some r \<and> (limit \<longrightarrow> \<not> exceeds_file_limit r))"
  using assms
proof (induction limit acc refs rule: bind_references.induct)
  case (2 limit acc l r refs)
  have le: "\<not> (limit \<and> exceeds_file_limit r)" using 2(3) by (auto split: if_splits)
  show ?case
  proof (cases "map_of acc (ar_sha256 r)")
    case None
    then have "map_of ((ar_sha256 r, r) # acc) \<subseteq>\<^sub>m map_of acc' \<and>
        (\<forall>(l, r) \<in> set refs. map_of acc' (ar_sha256 r) = Some r \<and> (limit \<longrightarrow> \<not> exceeds_file_limit r))"
      using 2 le by (simp add: fun_upd_def)
    then show ?thesis using None le by (auto simp: map_le_def dom_def split: if_splits)
  next
    case (Some previous)
    then have "previous = r" "map_of acc \<subseteq>\<^sub>m map_of acc' \<and>
        (\<forall>(l, r) \<in> set refs. map_of acc' (ar_sha256 r) = Some r \<and> (limit \<longrightarrow> \<not> exceeds_file_limit r))"
      using 2 le by (auto split: if_splits)
    then show ?thesis using Some le by (auto simp: map_le_def dom_def)
  qed
qed (simp add: map_le_def)

lemma first_by_digest_facts:
  "set (first_by_digest acc refs) \<subseteq> set acc \<union> set refs"
  "ar_sha256 ` set (first_by_digest acc refs) = ar_sha256 ` (set acc \<union> set refs)"
  "distinct (map ar_sha256 acc) \<Longrightarrow> distinct (map ar_sha256 (first_by_digest acc refs))"
  by (induction acc refs rule: first_by_digest.induct) (auto simp: image_Un)

lemma bounds_None:
  assumes "validate_manifest_bounds m n = None"
  shows "\<forall>r \<in> set (map (snd \<circ> snd) (fixed_specs m)). ar_size_bytes r \<le> int MAX_REPLAY_FILE_BYTES"
    "\<forall>r \<in> snd ` set (rm_artifacts m). ar_size_bytes r \<le> int MAX_REPLAY_FILE_BYTES"
    "inj_on ar_sha256 (snd ` set (rm_artifacts m))"
    "int n + sum_list (map ar_size_bytes (map (snd \<circ> snd) (fixed_specs m))) +
       sum_list (map ar_size_bytes (first_by_digest [] (map snd (rm_artifacts m)))) \<le> int MAX_REPLAY_TOTAL_BYTES"
proof -
  obtain acc acc' where b: "bind_references True acc (rm_artifacts m) = Inr acc'"
    using assms by (auto simp: validate_manifest_bounds_def orelse_None_iff rbind_Inr_iff split: sum.splits)
  note art = bind_references_Inr[OF b]
  show "\<forall>r \<in> snd ` set (rm_artifacts m). ar_size_bytes r \<le> int MAX_REPLAY_FILE_BYTES"
    using art by (force simp: exceeds_file_limit_def)
  have "map_of acc' (ar_sha256 r) = Some r" if "r \<in> snd ` set (rm_artifacts m)" for r using art that by fastforce
  then show "inj_on ar_sha256 (snd ` set (rm_artifacts m))" by (intro inj_onI) (metis option.inject)
  show "\<forall>r \<in> set (map (snd \<circ> snd) (fixed_specs m)). ar_size_bytes r \<le> int MAX_REPLAY_FILE_BYTES"
    using assms by (auto simp: validate_manifest_bounds_def orelse_None_iff exceeds_file_limit_def fixed_refs_def fixed_specs_def)
  show "int n + sum_list (map ar_size_bytes (map (snd \<circ> snd) (fixed_specs m))) +
       sum_list (map ar_size_bytes (first_by_digest [] (map snd (rm_artifacts m)))) \<le> int MAX_REPLAY_TOTAL_BYTES"
    using assms by (auto simp: validate_manifest_bounds_def orelse_None_iff fixed_refs_def fixed_specs_def split: sum.splits if_splits)
qed

lemma bounds_refs:
  assumes "validate_manifest_bounds m n = None"
  obtains refs where "artifact_refs_by_digest m = Inr refs" "refs = first_by_digest [] (map snd (rm_artifacts m))"
    "set refs = snd ` set (rm_artifacts m)" "distinct (map ar_sha256 refs)"
proof -
  let ?refs = "first_by_digest [] (map snd (rm_artifacts m))"
  have sub: "set ?refs \<subseteq> snd ` set (rm_artifacts m)" using first_by_digest_facts(1)[of "[]" "map snd (rm_artifacts m)"] by simp
  have "r \<in> set ?refs" if r: "r \<in> snd ` set (rm_artifacts m)" for r
  proof -
    have "ar_sha256 r \<in> ar_sha256 ` set ?refs" using r by (simp add: first_by_digest_facts(2))
    then obtain r' where r': "r' \<in> set ?refs" "ar_sha256 r' = ar_sha256 r" by auto
    then have "r' = r" using inj_onD[OF bounds_None(3)[OF assms]] sub r by blast
    then show ?thesis using r'(1) by simp
  qed
  then have eq: "set ?refs = snd ` set (rm_artifacts m)" using sub by blast
  show ?thesis
    by (rule that[of ?refs]) (use eq first_by_digest_facts(3)[of "[]"] in \<open>auto simp: artifact_refs_by_digest_def Let_def\<close>)
qed

section \<open>The whole tree\<close>

lemma static_store:
  assumes "artifact_store_on_disk h fs i dev (set refs)" "distinct (map ar_sha256 refs)"
  shows "\<exists>ds u. open_artifact_store (\<lambda>_. fs) (\<lambda>_. mt) i dev refs t = (Inr ds, u) \<and>
    (\<forall>a \<in> set refs. \<exists>bytes. file_in fs (dr_descriptor (snd ds)) dev (ar_sha256 a) bytes \<and> matches_ref h bytes a) \<and>
    (\<forall>t. \<exists>u. recheck_artifact_store (\<lambda>_. fs) refs ds t = (Inr (), u)) \<and>
    directory_agrees fs mt (fst ds) \<and> directory_agrees fs mt (snd ds)"
proof -
  obtain d s where ds: "lookup_at fs i ''artifacts'' = Some d" "closed_directory fs d dev {''sha256''}"
      "lookup_at fs d ''sha256'' = Some s" "closed_directory fs s dev (ar_sha256 ` set refs)"
      "\<forall>a \<in> set refs. \<exists>bytes. file_in fs s dev (ar_sha256 a) bytes \<and> matches_ref h bytes a"
    using assms(1) unfolding artifact_store_on_disk_def by blast
  have c: "card (ar_sha256 ` set refs) = length refs" using distinct_card[OF assms(2)] by simp
  note e1 = static_entries[OF ds(2), simplified] and e2 = static_entries[OF ds(4), unfolded c]
  obtain r u where r: "replay_open_directory (\<lambda>_. fs) (\<lambda>_. mt) ''artifacts'' i dev ''artifact store parent'' t = (Inr r, u)"
      "dr_descriptor r = d" "directory_agrees fs mt r"
    using static_open_directory[OF ds(1,2)] by blast
  obtain r' u' where r': "replay_open_directory (\<lambda>_. fs) (\<lambda>_. mt) ''sha256'' d dev ''artifact store'' (Suc u) = (Inr r', u')"
      "dr_descriptor r' = s" "directory_agrees fs mt r'"
    using static_open_directory[OF ds(3,4)] by blast
  have "open_artifact_store (\<lambda>_. fs) (\<lambda>_. mt) i dev refs t = (Inr (r, r'), Suc u')"
    using r(1,2) r'(1,2) e1 e2 by (simp add: open_artifact_store_def iobind_def)
  moreover have "\<exists>u. recheck_artifact_store (\<lambda>_. fs) refs (r, r') t = (Inr (), u)" for t
    using r(2) r'(2) e1 e2 by (simp add: recheck_artifact_store_def iobind_def)
  ultimately show ?thesis using ds(5) r(3) r'(2,3) by (intro exI[of _ "(r, r')"] exI[of _ "Suc u'"]) simp
qed

lemma static_require_refs:
  assumes "list_all2 (matches_ref h) (map fl_content rs) as"
  shows "\<exists>u. for_each (\<lambda>(r, a). require_ref h r a) (zip rs as) t = (Inr (), u)"
proof (rule static_for_each, clarsimp)
  fix r a t assume "(r, a) \<in> set (zip rs as)"
  then have "matches_ref h (fl_content r) a" using assms by (auto simp: list_all2_conv_all_nth in_set_zip)
  then show "\<exists>u. require_ref h r a t = (Inr (), u)" by (simp add: require_ref_def matches_ref_def)
qed

lemma static_dirs:
  assumes "rm_artifacts m \<noteq> [] \<longrightarrow> artifact_store_on_disk h fs i dev (snd ` set (rm_artifacts m))"
    and refs: "set refs = snd ` set (rm_artifacts m)" "distinct (map ar_sha256 refs)"
    and small: "\<forall>r \<in> snd ` set (rm_artifacts m). ar_size_bytes r \<le> int MAX_REPLAY_FILE_BYTES"
  shows "\<exists>dirs u. (if rm_artifacts m = [] then ret None
       else iobind (open_artifact_store (\<lambda>_. fs) (\<lambda>_. mt) i dev refs) (\<lambda>ds. ret (Some ds))) t = (Inr dirs, u) \<and>
     (\<forall>t nread. int nread + sum_list (map ar_size_bytes refs) \<le> int MAX_REPLAY_TOTAL_BYTES \<longrightarrow>
        (\<exists>rs u. (case dirs of None \<Rightarrow> ret []
          | Some ds \<Rightarrow> read_artifacts h (\<lambda>_. fs) (\<lambda>_. mt) (dr_descriptor (snd ds)) dev m nread (sort_key ar_sha256 refs)) t
          = (Inr rs, u) \<and> list_all (agrees fs mt) rs)) \<and>
     (\<forall>t. \<exists>u. (case dirs of None \<Rightarrow> ret () | Some ds \<Rightarrow> recheck_artifact_store (\<lambda>_. fs) refs ds) t = (Inr (), u)) \<and>
     (\<forall>t. \<exists>u. (case dirs of None \<Rightarrow> ret () | Some ds \<Rightarrow> iobind (recheck_directory (\<lambda>_. fs) (\<lambda>_. mt) (snd ds))
        (\<lambda>_. recheck_directory (\<lambda>_. fs) (\<lambda>_. mt) (fst ds))) t = (Inr (), u))"
proof (cases "rm_artifacts m = []")
  case False
  then obtain ds u where ds: "open_artifact_store (\<lambda>_. fs) (\<lambda>_. mt) i dev refs t = (Inr ds, u)"
    "\<forall>a \<in> set refs. \<exists>bytes. file_in fs (dr_descriptor (snd ds)) dev (ar_sha256 a) bytes \<and> matches_ref h bytes a"
    "\<forall>t. \<exists>u. recheck_artifact_store (\<lambda>_. fs) refs ds t = (Inr (), u)"
    "directory_agrees fs mt (fst ds)" "directory_agrees fs mt (snd ds)"
    using static_store[of h fs i dev refs mt t] assms(1) refs by auto
  have sum: "sum_list (map ar_size_bytes (sort_key ar_sha256 refs)) = sum_list (map ar_size_bytes refs)"
    by (metis mset_map mset_sort sum_mset_sum_list)
  have "\<exists>rs u. read_artifacts h (\<lambda>_. fs) (\<lambda>_. mt) (dr_descriptor (snd ds)) dev m nread (sort_key ar_sha256 refs) t = (Inr rs, u) \<and>
      list_all (agrees fs mt) rs"
    if "int nread + sum_list (map ar_size_bytes refs) \<le> int MAX_REPLAY_TOTAL_BYTES" for t nread
    by (rule static_read_artifacts) (use ds(2) small refs(1) that sum in auto)
  then show ?thesis using ds(1,3) False static_recheck_directory[OF ds(4)] static_recheck_directory[OF ds(5)]
    by (intro exI[of _ "Some ds"] exI[of _ u]) (simp add: iobind_def)
qed simp

lemma int_sum_list: "int (sum_list ns) = sum_list (map int ns)"
  by (induction ns) auto

lemma replay_fits:
  assumes parsed: "parsed_replay h loads P l raw files" and bounds: "validate_manifest_bounds (lr_manifest l) (length raw) = None"
    and rf: "rf = first_by_digest [] (map snd (rm_artifacts (lr_manifest l)))" "set rf = snd ` set (rm_artifacts (lr_manifest l))"
  shows "\<forall>bytes \<in> set files. length bytes \<le> MAX_REPLAY_FILE_BYTES"
    "int (length raw + sum_list (map length files)) + sum_list (map ar_size_bytes rf) \<le> int MAX_REPLAY_TOTAL_BYTES"
    "length raw + sum_list (map length files) \<le> MAX_REPLAY_TOTAL_BYTES"
proof -
  let ?m = "lr_manifest l"
  have "list_all2 (matches_ref h) files (map (snd \<circ> snd) (fixed_specs ?m))"
    using parsed unfolding parsed_replay_def matches_ref_def by blast
  then have sizes: "map (int \<circ> length) files = map ar_size_bytes (map (snd \<circ> snd) (fixed_specs ?m))"
    by (induction rule: list_all2_induct) (auto simp: matches_ref_def)
  have sum: "int (sum_list (map length files)) = sum_list (map ar_size_bytes (map (snd \<circ> snd) (fixed_specs ?m)))"
    unfolding sizes[symmetric] by (simp add: int_sum_list)
  show within: "int (length raw + sum_list (map length files)) + sum_list (map ar_size_bytes rf) \<le> int MAX_REPLAY_TOTAL_BYTES"
    using bounds_None(4)[OF bounds] unfolding rf(1) of_nat_add sum .
  have "\<forall>n \<in> set (map (int \<circ> length) files). n \<le> int MAX_REPLAY_FILE_BYTES"
    unfolding sizes using bounds_None(1)[OF bounds] by auto
  then show "\<forall>bytes \<in> set files. length bytes \<le> MAX_REPLAY_FILE_BYTES" by simp
  have "replay_manifest_ok ?m" using parsed by (auto simp: parsed_replay_def dest!: parse_canonical_model_Inr)
  then have "0 \<le> ar_size_bytes a" if "a \<in> set rf" for a
    using that rf(2) by (auto simp: replay_manifest_ok_def dict_ok_def artifact_ref_ok_def list_all_iff)
  then have "0 \<le> sum_list (map ar_size_bytes rf)" by (intro sum_list_nonneg) auto
  then show "length raw + sum_list (map length files) \<le> MAX_REPLAY_TOTAL_BYTES" using within by linarith
qed

lemma static_inspect_tree:
  assumes parsed: "parsed_replay h loads P l raw files" and bounds: "validate_manifest_bounds (lr_manifest l) (length raw) = None"
    and refs: "set (evidence_artifact_refs (lr_evidence l)) \<subseteq> snd ` set (rm_artifacts (lr_manifest l))"
    and top_level: "closed_directory fs i dev (top_level_names (lr_manifest l))"
    and disk: "list_all2 (file_in fs i dev) (map fst (fixed_specs (lr_manifest l))) files"
      "rm_artifacts (lr_manifest l) \<noteq> [] \<longrightarrow> artifact_store_on_disk h fs i dev (snd ` set (rm_artifacts (lr_manifest l)))"
    and rec: "fl_content r = raw" "agrees fs mt r"
    and recheck: "\<forall>t. recheck_root (\<lambda>_. fs) (\<lambda>_. mt) parent name i meta t = (Inr (), Suc (Suc t))"
  shows "\<exists>u. inspect_tree h loads P (\<lambda>_. fs) (\<lambda>_. mt) parent name (i, dev, meta) r t = (Inr l, u)"
proof -
  let ?m = "lr_manifest l"
  let ?open = "\<lambda>rf. if rm_artifacts ?m = [] then ret None
       else iobind (open_artifact_store (\<lambda>_. fs) (\<lambda>_. mt) i dev rf) (\<lambda>ds. ret (Some ds))"
  let ?read = "\<lambda>dirs rf nread. case dirs of None \<Rightarrow> ret []
          | Some ds \<Rightarrow> read_artifacts h (\<lambda>_. fs) (\<lambda>_. mt) (dr_descriptor (snd ds)) dev ?m nread (sort_key ar_sha256 rf)"
  let ?again = "\<lambda>dirs rf. case dirs of None \<Rightarrow> ret () | Some ds \<Rightarrow> recheck_artifact_store (\<lambda>_. fs) rf ds"
  let ?dirs = "\<lambda>dirs. case dirs of None \<Rightarrow> ret () | Some ds \<Rightarrow> iobind (recheck_directory (\<lambda>_. fs) (\<lambda>_. mt) (snd ds))
        (\<lambda>_. recheck_directory (\<lambda>_. fs) (\<lambda>_. mt) (fst ds))"
  obtain rf where rf: "artifact_refs_by_digest ?m = Inr rf" "rf = first_by_digest [] (map snd (rm_artifacts ?m))"
    "set rf = snd ` set (rm_artifacts ?m)" "distinct (map ar_sha256 rf)" by (rule bounds_refs[OF bounds])
  note names = static_entries[OF top_level]
  obtain dirs u where d: "?open rf (Suc t) = (Inr dirs, u)"
    and arts: "\<And>t nread. int nread + sum_list (map ar_size_bytes rf) \<le> int MAX_REPLAY_TOTAL_BYTES \<Longrightarrow>
        (\<exists>rs u. ?read dirs rf nread t = (Inr rs, u) \<and> list_all (agrees fs mt) rs)"
    and again: "\<And>t. \<exists>u. ?again dirs rf t = (Inr (), u)" "\<And>t. \<exists>u. ?dirs dirs t = (Inr (), u)"
    using static_dirs[OF disk(2) rf(3,4) bounds_None(2)[OF bounds], of mt "Suc t"] by blast
  have match: "list_all2 (matches_ref h) files (map (snd \<circ> snd) (fixed_specs ?m))"
    using parsed unfolding parsed_replay_def matches_ref_def by blast
  note fits = replay_fits[OF parsed bounds rf(2,3)]
  obtain rs v where f: "read_fixed (\<lambda>_. fs) (\<lambda>_. mt) i dev (length raw) (fixed_specs ?m) u =
      (Inr (length raw + sum_list (map length files), rs), v)" "map fl_content rs = files" "list_all (agrees fs mt) rs"
    using static_read_fixed[OF disk(1) fits(3,1), of mt u] by auto
  have len: "length files = 5" "length rs = 5" using parsed f(2) by (auto simp: parsed_replay_def)
  have nth: "fl_content (rs ! k) = files ! k" if "k < 5" for k using that len nth_map[of k rs fl_content] by (simp add: f(2))
  have fixed: "parse_fixed h loads P ?m rs = Inr l"
    using parsed by (simp add: parse_fixed_def parsed_replay_def Let_def nth)
  have events: "fl_content (rs ! 3) = event_bytes h (lr_evidence l)" using parsed by (simp add: nth parsed_replay_def)
  obtain v1 where req: "for_each (\<lambda>(r, a). require_ref h r a) (zip rs (map (snd \<circ> snd) (fixed_specs ?m))) v = (Inr (), v1)"
    using static_require_refs[of h rs "map (snd \<circ> snd) (fixed_specs ?m)" v] match f(2) by auto
  obtain as v2 where a: "?read dirs rf (length raw + sum_list (map length files)) v1 = (Inr as, v2)" "list_all (agrees fs mt) as"
    using arts[OF fits(2)] by blast
  obtain v3 where s1: "?again dirs rf (Suc v2) = (Inr (), v3)"
    using again(1) by blast
  have "\<exists>w. for_each (recheck_file (\<lambda>_. fs) (\<lambda>_. mt)) (r # rs @ as) v3 = (Inr (), w)"
    by (rule static_for_each) (use rec(2) f(3) a(2) static_recheck_file in \<open>auto simp: list_all_iff\<close>)
  then obtain v4 where s2: "for_each (recheck_file (\<lambda>_. fs) (\<lambda>_. mt)) (r # rs @ as) v3 = (Inr (), v4)" by blast
  obtain v5 where s3: "?dirs dirs v4 = (Inr (), v5)"
    using again(2) by blast
  have man: "parse_canonical_model h loads (parse_replay_manifest P) replay_manifest_ok replay_manifest_json
       ''manifest.json'' raw = Inr ?m" using parsed by (simp add: parsed_replay_def)
  show ?thesis
    unfolding inspect_tree_def Let_def fst_conv snd_conv top_level_names_def[symmetric]
    by (simp add: iobind_Inr man rec(1) bounds names rf(1) iobind_Inr[of "?open rf", OF d] iobind_Inr[of "read_fixed (\<lambda>_. fs) (\<lambda>_. mt) i dev (length raw) (fixed_specs ?m)", OF f(1)] fixed events
        iobind_Inr[of "for_each _ _", OF req] iobind_Inr[of "?read dirs rf _", OF a(1)] refs iobind_Inr[of "?again dirs rf", OF s1] iobind_Inr[of "for_each _ _", OF s2]
        iobind_Inr[of "?dirs dirs", OF s3] recheck del: for_each.simps)
qed

definition loadable :: "hasher \<Rightarrow> (byte list \<Rightarrow> json result) \<Rightarrow> replay_parsers \<Rightarrow> store \<Rightarrow> nat \<Rightarrow> string \<Rightarrow> loaded_replay \<Rightarrow> byte list \<Rightarrow> bool" where
  "loadable h loads P fs parent name l raw \<longleftrightarrow> (\<exists>files. parsed_replay h loads P l raw files \<and>
     validate_manifest_bounds (lr_manifest l) (length raw) = None \<and>
     set (evidence_artifact_refs (lr_evidence l)) \<subseteq> snd ` set (rm_artifacts (lr_manifest l)) \<and>
     replay_on_disk h fs parent name (lr_manifest l) raw files)"

lemma static_inspect:
  assumes "loadable h loads P fs parent name l raw"
    and score: "score_evidence h (lr_evidence l) (lr_contract l) (lr_stored_policy l) = Inr (lr_stored_grade l)"
    and expected: "expected = None \<or> expected = Some (sha256 h raw)"
  shows "inspect_replay h loads P (\<lambda>_. fs) (\<lambda>_. mt) parent name expected t =
    (\<lparr> rv_valid = True, rv_anchored = (expected \<noteq> None), rv_manifest_sha256 = Some (sha256 h raw), rv_errors = [],
       rv_rescored_grade = Some (lr_stored_grade l) \<rparr>, Some l)"
proof -
  obtain files i dev where l: "parsed_replay h loads P l raw files" "validate_manifest_bounds (lr_manifest l) (length raw) = None"
      "set (evidence_artifact_refs (lr_evidence l)) \<subseteq> snd ` set (rm_artifacts (lr_manifest l))"
    and d: "lookup_at fs parent name = Some i" "closed_directory fs i dev (top_level_names (lr_manifest l))"
      "file_in fs i dev ''manifest.json'' raw" "list_all2 (file_in fs i dev) (map fst (fixed_specs (lr_manifest l))) files"
      "rm_artifacts (lr_manifest l) \<noteq> [] \<longrightarrow> artifact_store_on_disk h fs i dev (snd ` set (rm_artifacts (lr_manifest l)))"
    using assms(1) unfolding loadable_def replay_on_disk_def by blast
  obtain meta u where o: "replay_open_root (\<lambda>_. fs) (\<lambda>_. mt) parent name t = (Inr (i, dev, meta), u)"
    "\<forall>t. recheck_root (\<lambda>_. fs) (\<lambda>_. mt) parent name i meta t = (Inr (), Suc (Suc t))"
    using static_open_root[OF d(1,2)] by blast
  have "length raw \<le> MAX_REPLAY_MANIFEST_BYTES" using l(2) by (auto simp: validate_manifest_bounds_def orelse_None_iff)
  then obtain r v where r: "replay_read_file (\<lambda>_. fs) (\<lambda>_. mt) ''manifest.json'' i dev MAX_REPLAY_MANIFEST_BYTES ''manifest'' None u
      = (Inr r, v)" "fl_content r = raw" "agrees fs mt r"
    using static_read[OF d(3), of MAX_REPLAY_MANIFEST_BYTES None mt "''manifest''" u] by (auto simp: size_mismatch_def)
  obtain w where tree: "inspect_tree h loads P (\<lambda>_. fs) (\<lambda>_. mt) parent name (i, dev, meta) r v = (Inr l, w)"
    using static_inspect_tree[OF l d(2,4,5) r(2,3) o(2)] by blast
  show ?thesis
    using expected by (auto simp: inspect_replay_def iobind_def o(1) r(1,2) tree finish_inspection_def score Let_def)
qed

end
