(* ===== verification/Replay_Samples.thy ===== *)
theory Replay_Samples
  imports Replay_Static Job_Samples
begin

text \<open>
  A replay of the solved sample attempt on disk, under a digest function that tells its files apart.
\<close>

section \<open>A digest function that tells the files apart\<close>

text \<open>The third and fourth byte, where the first key of a JSON object starts, pick the digest.\<close>

definition prefix_digit :: "byte list \<Rightarrow> char" where
  "prefix_digit bs = (let key = take 2 (drop 2 bs) in
     if key = [101, 110] then CHR ''1'' else if key = [99, 104] then CHR ''2'' else if key = [98, 101] then CHR ''3''
     else if key = [100, 117] then CHR ''4'' else if key = [99, 111] then CHR ''5'' else if key = [97, 114] then CHR ''b'' else CHR ''a'')"

definition replay_hasher :: hasher where
  "replay_hasher = \<lparr> sha256 = (\<lambda>bs. replicate 64 (prefix_digit bs)), float_repr = (\<lambda>_. ''1.0'') \<rparr>"

lemma prefix_digit_hex: "is_hex (prefix_digit bs)"
  by (simp add: prefix_digit_def Let_def is_hex_def is_digit_def)

lemma replay_hexdigest_ok [simp]: "hexdigest_ok replay_hasher"
  using prefix_digit_hex by (simp add: hexdigest_ok_def replay_hasher_def sha256_ok_def list_all_iff)

lemma dumps_first_key:
  assumes "k \<in> fst ` set kvs" "\<forall>k' \<in> fst ` set kvs. k \<le> k'"
  shows "\<exists>rest. json_dumps fr (JObj kvs) = ''{'' @ string_repr k @ '':'' @ rest"
proof -
  let ?s = "sort_key fst (map (\<lambda>(k, v). (k, json_dumps fr v)) kvs)"
  have keys: "fst ` set ?s = fst ` set kvs" by (force simp: image_iff)
  obtain k0 v0 s where s: "?s = (k0, v0) # s" using assms(1) keys by (cases ?s) auto
  have "sorted (map fst ?s)" by (rule sorted_sort_key)
  then have low: "k0 \<le> k'" if "k' \<in> fst ` set ?s" for k' using that unfolding s by auto
  have "k0 \<in> fst ` set ?s" unfolding s by simp
  then have "k \<le> k0" using assms(2) unfolding keys by blast
  moreover have "k0 \<le> k" using low assms(1) unfolding keys by blast
  ultimately have "k0 = k" by simp
  then show ?thesis using s by (cases s) auto
qed

lemma utf8_append: "utf8 (xs @ ys) = utf8 xs @ utf8 ys"
  by (simp add: utf8_def)

lemma canonical_first_key:
  assumes "k \<in> fst ` set kvs" "\<forall>k' \<in> fst ` set kvs. k \<le> k'"
  shows "\<exists>rest. canonical_json_bytes h (JObj kvs) = utf8 (''{'' @ string_repr k) @ rest"
proof -
  obtain rest where "json_dumps (float_repr h) (JObj kvs) = (''{'' @ string_repr k) @ ('':'' @ rest)"
    using dumps_first_key[OF assms, of "float_repr h"] by auto
  then show ?thesis unfolding canonical_json_bytes_def by (simp only: utf8_append append_assoc) blast
qed

lemma first_key_digit:
  assumes "c # d # k \<in> fst ` set kvs" "\<forall>k' \<in> fst ` set kvs. c # d # k \<le> k'"
    and "escape_char c = [c]" "escape_char d = [d]" "utf8_char c = [x]" "utf8_char d = [y]"
  shows "prefix_digit (canonical_json_bytes h (JObj kvs) @ tail) = prefix_digit [0, 0, x, y]"
proof -
  obtain rest where r: "canonical_json_bytes h (JObj kvs) = utf8 (''{'' @ string_repr (c # d # k)) @ rest"
    using canonical_first_key[OF assms(1,2)] by blast
  have "length (utf8_char (CHR ''{'')) = 1" "length (utf8_char dquote) = 1"
    by (simp_all add: utf8_char_def dquote_def)
  then have "take 2 (drop 2 (canonical_json_bytes h (JObj kvs) @ tail)) = [x, y]"
    unfolding r using assms(3-6) by (simp add: string_repr_def utf8_def numeral_2_eq_2 length_Suc_conv) auto
  then show ?thesis by (simp add: prefix_digit_def)
qed

lemma plain_chars:
  "escape_char (CHR ''a'') = ''a''" "escape_char (CHR ''b'') = ''b''" "escape_char (CHR ''c'') = ''c''"
  "escape_char (CHR ''d'') = ''d''" "escape_char (CHR ''e'') = ''e''" "escape_char (CHR ''h'') = ''h''"
  "escape_char (CHR ''n'') = ''n''" "escape_char (CHR ''o'') = ''o''" "escape_char (CHR ''r'') = ''r''"
  "escape_char (CHR ''u'') = ''u''"
  "utf8_char (CHR ''a'') = [97]" "utf8_char (CHR ''b'') = [98]" "utf8_char (CHR ''c'') = [99]"
  "utf8_char (CHR ''d'') = [100]" "utf8_char (CHR ''e'') = [101]" "utf8_char (CHR ''h'') = [104]"
  "utf8_char (CHR ''n'') = [110]" "utf8_char (CHR ''o'') = [111]" "utf8_char (CHR ''r'') = [114]"
  "utf8_char (CHR ''u'') = [117]"
  by (simp_all add: escape_char_def utf8_char_def dquote_def bslash_def char_of_def)

section \<open>The files of the sample replay\<close>

definition digest_of :: "char \<Rightarrow> string" where
  "digest_of c = replicate 64 c"

definition replay_evidence :: evidence where
  "replay_evidence = solved_evidence\<lparr>ev_grader_id := digest_of (CHR ''1'')\<rparr>"

definition replay_grade :: grade where
  "replay_grade = comparable_grade replay_hasher replay_evidence sample_contract (default_policy ''p'') 1"

definition evidence_raw :: "byte list" where
  "evidence_raw = canonical_json_bytes replay_hasher (evidence_json replay_evidence)"

definition contract_raw :: "byte list" where
  "contract_raw = canonical_json_bytes replay_hasher (contract_json sample_contract)"

definition grade_raw :: "byte list" where
  "grade_raw = canonical_json_bytes replay_hasher (grade_json replay_grade)"

definition events_raw :: "byte list" where
  "events_raw = event_bytes replay_hasher replay_evidence"

definition policy_raw :: "byte list" where
  "policy_raw = canonical_json_bytes replay_hasher (policy_json (default_policy ''p''))"

definition sample_file_ref :: "char \<Rightarrow> byte list \<Rightarrow> artifact_ref" where
  "sample_file_ref c bytes = \<lparr> ar_sha256 = digest_of c, ar_size_bytes = int (length bytes), ar_media_type = ''application/json'' \<rparr>"

definition replay_sample :: replay_manifest where
  "replay_sample = \<lparr> rm_evidence = sample_file_ref (CHR ''1'') evidence_raw, rm_grade = sample_file_ref (CHR ''3'') grade_raw,
     rm_contract = sample_file_ref (CHR ''2'') contract_raw, rm_events = sample_file_ref (CHR ''4'') events_raw,
     rm_policy = sample_file_ref (CHR ''5'') policy_raw, rm_artifacts = [(''candidate'', sample_ref)] \<rparr>"

definition manifest_raw :: "byte list" where
  "manifest_raw = canonical_json_bytes replay_hasher (replay_manifest_json replay_sample)"

lemma sha256_replay: "sha256 replay_hasher bs = digest_of (prefix_digit bs)"
  by (simp add: replay_hasher_def digest_of_def)

lemma digest_of_inject [simp]: "digest_of c = digest_of d \<longleftrightarrow> c = d"
  by (simp add: digest_of_def)

lemma digest_of_a: "digest_of (CHR ''a'') = digest_a"
  by (simp add: digest_of_def digest_a_def)

lemmas first_key_simps = plain_chars prefix_digit_def Let_def

lemma file_digits:
  "prefix_digit evidence_raw = CHR ''1''" "prefix_digit contract_raw = CHR ''2''" "prefix_digit grade_raw = CHR ''3''"
  "prefix_digit policy_raw = CHR ''5''" "prefix_digit manifest_raw = CHR ''b''"
proof -
  show "prefix_digit evidence_raw = CHR ''1''"
    unfolding evidence_raw_def evidence_json_def
    using first_key_digit[of "CHR ''e''" "CHR ''n''" "''vironment''" _ 101 110 _ "[]"] by (simp add: first_key_simps)
  show "prefix_digit contract_raw = CHR ''2''"
    unfolding contract_raw_def contract_json_def
    using first_key_digit[of "CHR ''c''" "CHR ''h''" "''ecks''" _ 99 104 _ "[]"] by (simp add: first_key_simps)
  show "prefix_digit grade_raw = CHR ''3''"
    unfolding grade_raw_def grade_json_def
    using first_key_digit[of "CHR ''b''" "CHR ''e''" "''nchmark_score''" _ 98 101 _ "[]"] by (simp add: first_key_simps)
  show "prefix_digit policy_raw = CHR ''5''"
    unfolding policy_raw_def policy_json_def
    using first_key_digit[of "CHR ''c''" "CHR ''o''" "''mpile_failure_reward''" _ 99 111 _ "[]"] by (simp add: first_key_simps)
  show "prefix_digit manifest_raw = CHR ''b''"
    unfolding manifest_raw_def replay_manifest_json_def
    using first_key_digit[of "CHR ''a''" "CHR ''r''" "''tifacts''" _ 97 114 _ "[]"] by (simp add: first_key_simps)
qed

lemma events_digit: "prefix_digit events_raw = CHR ''4''"
proof -
  obtain tail where "events_raw = canonical_json_bytes replay_hasher (event_json 0 (passed_stage INGEST)) @ tail"
    by (simp add: events_raw_def event_bytes_def replay_evidence_def solved_evidence_def evidence_of_def STAGE_ORDER_def)
  moreover have "prefix_digit (canonical_json_bytes replay_hasher (event_json 0 (passed_stage INGEST)) @ tail) = prefix_digit [0, 0, 100, 117]"
    unfolding event_json_def by (rule first_key_digit[of "CHR ''d''" "CHR ''u''" "''ration_ms''" _ 100 117]) (simp_all add: plain_chars)
  ultimately show ?thesis by (simp add: first_key_simps)
qed

lemma source_digit: "prefix_digit sample_source = CHR ''a''"
proof -
  have "replicate 2 x = [x, x]" for x :: byte by (simp add: numeral_2_eq_2)
  then show ?thesis by (simp add: sample_source_def first_key_simps)
qed

lemma digest_of_ok: "is_hex c \<Longrightarrow> sha256_ok (digest_of c)"
  by (simp add: digest_of_def sha256_ok_def list_all_iff)

lemma replay_evidence_ok [simp]: "evidence_check replay_hasher replay_evidence = None"
proof -
  have "grader_id_for replay_hasher sample_request sample_environment commit_b = digest_of (CHR ''1'')"
    unfolding grader_id_for_def sha256_json_def sha256_replay
    using first_key_digit[of "CHR ''e''" "CHR ''n''" "''vironment_sha256''" _ 101 110 replay_hasher "[]"] by (simp add: first_key_simps)
  moreover have "sha256_ok (digest_of (CHR ''1''))" by (rule digest_of_ok) (simp add: is_hex_def is_digit_def)
  ultimately show ?thesis using solved_evidence_ok
    by (simp add: evidence_check_def orelse_None_iff replay_evidence_def solved_evidence_def evidence_of_def)
qed

lemma replay_validates: "validate_contract replay_evidence sample_contract = None"
  using solved_matches by (simp add: replay_evidence_def validate_contract_def Let_def split: if_splits)

lemma replay_scored: "score_evidence replay_hasher replay_evidence sample_contract (default_policy ''p'') = Inr replay_grade"
proof -
  have p: "policy_check (default_policy ''p'') = None" by (simp add: id_simps)
  have f: "first_non_pass replay_evidence = None" using solved_first by (simp add: replay_evidence_def first_non_pass_def)
  obtain r where r: "score_evidence replay_hasher replay_evidence sample_contract (default_policy ''p'') =
      Inr (comparable_grade replay_hasher replay_evidence sample_contract (default_policy ''p'') r)"
    "training_reward replay_evidence (default_policy ''p'') None None (explicit_hack replay_evidence (default_policy ''p'')) = Inr r"
    using score_comparable[OF replay_evidence_ok sample_contract_ok p replay_validates replay_hexdigest_ok] f by auto
  then show ?thesis by (simp add: replay_grade_def training_reward_def default_policy_def)
qed

section \<open>Their size and shape\<close>

lemma length_nat_repr: "n < 10 ^ Suc k \<Longrightarrow> length (nat_repr n) \<le> Suc k"
proof (induction k arbitrary: n)
  case 0
  then show ?case by (simp add: nat_repr.simps[of n])
next
  case (Suc k)
  have "n div 10 < 10 ^ Suc k" using Suc.prems by (simp add: div_less_iff_less_mult)
  then show ?case using Suc.IH[of "n div 10"] by (subst nat_repr.simps) simp
qed

lemma replay_grade_fields:
  "gr_policy_id replay_grade = ''p''" "gr_grader_id replay_grade = digest_of (CHR ''1'')" "gr_task_id replay_grade = ''t''"
  "gr_candidate_sha256 replay_grade = digest_a" "gr_evidence_sha256 replay_grade = digest_of (CHR ''1'')"
  "gr_contract_sha256 replay_grade = digest_of (CHR ''2'')" "gr_comparable replay_grade" "gr_strict_success replay_grade = Some True"
  "gr_benchmark_score replay_grade = Some 1" "gr_training_reward replay_grade = Some 1" "gr_first_failure replay_grade = None"
  "gr_failure_reason replay_grade = None" "gr_stage_outcomes replay_grade st = Some PASS"
proof -
  have "stage_outcomes_of replay_evidence st = Some PASS"
    by (cases st) (simp_all add: stage_outcomes_of_def replay_evidence_def solved_evidence_def evidence_of_def STAGE_ORDER_def)
  then show "gr_stage_outcomes replay_grade st = Some PASS" by (simp add: replay_grade_def comparable_grade_def Let_def)
  show "gr_evidence_sha256 replay_grade = digest_of (CHR ''1'')" "gr_contract_sha256 replay_grade = digest_of (CHR ''2'')"
    using file_digits(1,2)
    by (simp_all add: replay_grade_def comparable_grade_def Let_def sha256_json_def sha256_replay evidence_raw_def contract_raw_def)
qed (use solved_first in \<open>simp_all add: replay_grade_def comparable_grade_def Let_def default_policy_def replay_evidence_def
  first_non_pass_def solved_evidence_def evidence_of_def sample_request_def sample_ref_def\<close>)

lemma length_digest_of [simp]: "length (digest_of c) = 64"
  by (simp add: digest_of_def)

lemma short_five: "length (int_repr 5) = 1"
  by (simp add: int_repr_def nat_repr.simps[of 5])

lemma replay_bounds:
  "json_bound (\<lambda>_. ''1.0'') (evidence_json replay_evidence) \<le> 49000"
  "json_bound (\<lambda>_. ''1.0'') (contract_json sample_contract) \<le> 10000"
  "json_bound (\<lambda>_. ''1.0'') (grade_json replay_grade) \<le> 10000"
proof -
  have "json_bound (\<lambda>_. ''1.0'') (environment_json sample_environment) \<le> 10000"
    by (simp add: environment_json_def sample_environment_def bound_simps)
  moreover have "json_bound (\<lambda>_. ''1.0'') (stage_evidence_json (passed_stage st)) \<le> 4000" for st
    by (cases st) (simp_all add: stage_evidence_json_def check_evidence_json_def passed_stage_def sample_stage_def sample_check_def
      checked_stages_def bound_simps short_five)
  from this[of INGEST] this[of COMPILE] this[of OBJECT_POLICY] this[of VERIFIER] this[of FUNCTIONAL] this[of SEMANTICS]
  have "json_bound (\<lambda>_. ''1.0'') (jarr stage_evidence_json (map passed_stage STAGE_ORDER)) \<le> 24100"
    by (simp add: jarr_def STAGE_ORDER_def)
  ultimately show "json_bound (\<lambda>_. ''1.0'') (evidence_json replay_evidence) \<le> 49000"
    using sample_bounds(1)
    by (simp add: evidence_json_def replay_evidence_def solved_evidence_def evidence_of_def jdict_def)
  show "json_bound (\<lambda>_. ''1.0'') (contract_json sample_contract) \<le> 10000"
    by (simp add: contract_json_def sample_contract_def expected_check_json_def sample_expected_def bound_simps)
  show "json_bound (\<lambda>_. ''1.0'') (grade_json replay_grade) \<le> 10000"
    by (simp add: grade_json_def replay_grade_fields STAGE_ORDER_def bound_simps)
qed

lemma replay_float_repr [simp]: "float_repr replay_hasher = (\<lambda>_. ''1.0'')"
  by (simp add: replay_hasher_def)

lemma event_length: "length (canonical_json_bytes replay_hasher (event_json i (passed_stage st))) \<le> 4000" if "i < 10"
proof -
  have "length (int_repr (int i)) \<le> 1" using length_nat_repr[of i 0] that by (simp add: int_repr_def)
  then have "json_bound (\<lambda>_. ''1.0'') (event_json i (passed_stage st)) \<le> 1500"
    by (cases st) (simp_all add: event_json_def passed_stage_def sample_stage_def short_five)
  then show ?thesis using length_canonical[of replay_hasher "event_json i (passed_stage st)"] by simp
qed

lemma raw_lengths:
  "length evidence_raw < 99999" "length contract_raw < 99999" "length grade_raw < 99999" "length events_raw < 99999"
  "length policy_raw < 99999"
proof -
  note c = length_canonical[of replay_hasher]
  show "length evidence_raw < 99999" using c[of "evidence_json replay_evidence"] replay_bounds(1) by (simp add: evidence_raw_def)
  show "length contract_raw < 99999" using c[of "contract_json sample_contract"] replay_bounds(2) by (simp add: contract_raw_def)
  show "length grade_raw < 99999" using c[of "grade_json replay_grade"] replay_bounds(3) by (simp add: grade_raw_def)
  show "length policy_raw < 99999"
    using c[of "policy_json (default_policy ''p'')"] sample_bounds(5) by (simp add: policy_raw_def)
  show "length events_raw < 99999"
    using event_length[of 0 INGEST] event_length[of "Suc 0" COMPILE] event_length[of "Suc (Suc 0)" OBJECT_POLICY]
      event_length[of "Suc (Suc (Suc 0))" VERIFIER] event_length[of "Suc (Suc (Suc (Suc 0)))" FUNCTIONAL]
      event_length[of "Suc (Suc (Suc (Suc (Suc 0))))" SEMANTICS]
    by (simp add: events_raw_def event_bytes_def replay_evidence_def solved_evidence_def evidence_of_def STAGE_ORDER_def)
qed

lemma sample_file_ref_bound: "length bytes < 99999 \<Longrightarrow> json_bound (\<lambda>_. ''1.0'') (artifact_ref_json (sample_file_ref c bytes)) \<le> 2000"
  using length_nat_repr[of "length bytes" 4] by (simp add: artifact_ref_json_def sample_file_ref_def int_repr_def)

lemma manifest_length: "length manifest_raw \<le> 30000"
proof -
  have "json_bound (\<lambda>_. ''1.0'') (replay_manifest_json replay_sample) \<le> 14900"
    using raw_lengths[THEN sample_file_ref_bound, of "CHR ''1''"] raw_lengths[THEN sample_file_ref_bound, of "CHR ''2''"]
      raw_lengths[THEN sample_file_ref_bound, of "CHR ''3''"] raw_lengths[THEN sample_file_ref_bound, of "CHR ''4''"]
      raw_lengths[THEN sample_file_ref_bound, of "CHR ''5''"]
    by (simp add: replay_manifest_json_def replay_sample_def jdict_def) (simp add: bound_simps)
  then show ?thesis using length_canonical[of replay_hasher "replay_manifest_json replay_sample"] by (simp add: manifest_raw_def)
qed

lemma replay_complexity:
  "validate_json_complexity (contract_json sample_contract) = None"
  "validate_json_complexity (grade_json replay_grade) = None"
  "validate_json_complexity (policy_json (default_policy ''p'')) = None"
  "validate_json_complexity (replay_manifest_json replay_sample) = None"
  "validate_json_complexity (evidence_json replay_evidence) = None"
  by (simp_all add: validate_json_complexity_def MAX_JOB_JSON_DEPTH_def MAX_JOB_JSON_NODES_def contract_json_def sample_contract_def
    expected_check_json_def sample_expected_def grade_json_def replay_grade_fields STAGE_ORDER_def policy_json_def
    replay_manifest_json_def replay_sample_def evidence_json_def replay_evidence_def solved_evidence_def evidence_of_def
    request_json_def environment_json_def sample_request_def sample_environment_def stage_evidence_json_def check_evidence_json_def
    passed_stage_def sample_stage_def sample_check_def checked_stages_def bound_simps)

section \<open>Parsing them back\<close>

definition replay_documents :: "json list" where
  "replay_documents = [replay_manifest_json replay_sample, evidence_json replay_evidence, contract_json sample_contract,
     grade_json replay_grade, policy_json (default_policy ''p'')]"

definition replay_loads :: "byte list \<Rightarrow> json result" where
  "replay_loads raw = (case find (\<lambda>v. canonical_json_bytes replay_hasher v = raw) replay_documents of
     None \<Rightarrow> Inl (Exn ''CanonicalJSONError'' ''sample'') | Some v \<Rightarrow> Inr v)"

definition parse_document :: "('m \<Rightarrow> json) \<Rightarrow> 'm \<Rightarrow> json \<Rightarrow> 'm result" where
  "parse_document dump m v = (if v = dump m then Inr m else Inl (VE ''sample''))"

definition sample_parsers :: replay_parsers where
  "sample_parsers = \<lparr> parse_replay_manifest = parse_document replay_manifest_json replay_sample,
     parse_evidence = parse_document evidence_json replay_evidence, parse_contract = parse_document contract_json sample_contract,
     parse_grade = parse_document grade_json replay_grade, parse_policy = parse_document policy_json (default_policy ''p'') \<rparr>"

lemma raws_differ:
  "manifest_raw \<noteq> evidence_raw" "manifest_raw \<noteq> contract_raw" "manifest_raw \<noteq> grade_raw" "manifest_raw \<noteq> policy_raw"
  "evidence_raw \<noteq> contract_raw" "evidence_raw \<noteq> grade_raw" "evidence_raw \<noteq> policy_raw" "contract_raw \<noteq> grade_raw"
  "contract_raw \<noteq> policy_raw" "grade_raw \<noteq> policy_raw"
  using file_digits by auto

lemma replay_loaded:
  "replay_loads manifest_raw = Inr (replay_manifest_json replay_sample)"
  "replay_loads evidence_raw = Inr (evidence_json replay_evidence)"
  "replay_loads contract_raw = Inr (contract_json sample_contract)"
  "replay_loads grade_raw = Inr (grade_json replay_grade)"
  "replay_loads policy_raw = Inr (policy_json (default_policy ''p''))"
  using raws_differ raws_differ[symmetric]
  by (simp_all add: replay_loads_def replay_documents_def flip: manifest_raw_def evidence_raw_def contract_raw_def
      grade_raw_def policy_raw_def)

lemma parse_document_back:
  assumes "raw = canonical_json_bytes replay_hasher (dump m)" "replay_loads raw = Inr (dump m)"
    and "validate_json_complexity (dump m) = None" "valid m"
  shows "parse_canonical_model replay_hasher replay_loads (parse_document dump m) valid dump name raw = Inr m"
  using assms by (simp add: parse_canonical_model_def parse_document_def replay_json_complexity_def)

lemma sample_file_ref_ok: "is_hex c \<Longrightarrow> length bytes < 99999 \<Longrightarrow> artifact_ref_ok (sample_file_ref c bytes)"
  by (simp add: artifact_ref_ok_def sample_file_ref_def digest_of_ok text_ok_def)

lemma replay_sample_ok: "replay_manifest_ok replay_sample"
  using raw_lengths by (simp add: replay_manifest_ok_def replay_sample_def sample_file_ref_ok is_hex_def is_digit_def dict_ok_def)

lemma replay_sample_bounds: "validate_manifest_bounds replay_sample (length manifest_raw) = None"
proof -
  have small: "length bytes < 99999 \<Longrightarrow> \<not> exceeds_file_limit (sample_file_ref c bytes)" for c bytes
    by (simp add: exceeds_file_limit_def sample_file_ref_def MAX_REPLAY_FILE_BYTES_def)
  have ref: "\<not> exceeds_file_limit sample_ref" by (simp add: exceeds_file_limit_def sample_ref_def MAX_REPLAY_FILE_BYTES_def)
  have names: "ar_sha256 (sample_file_ref c bytes) = digest_of c" "ar_size_bytes (sample_file_ref c bytes) = int (length bytes)"
    "ar_sha256 sample_ref = digest_of (CHR ''a'')" "ar_size_bytes sample_ref = 12" for c bytes
    by (simp_all add: sample_file_ref_def sample_ref_def digest_of_a)
  show ?thesis using raw_lengths manifest_length
    by (simp add: validate_manifest_bounds_def orelse_None_iff fixed_refs_def replay_sample_def small ref names
        MAX_REPLAY_MANIFEST_BYTES_def MAX_REPLAY_ARTIFACTS_def MAX_REPLAY_TOTAL_BYTES_def)
qed

lemma replay_grade_ok: "grade_check replay_grade = None"
  using replay_scored by (auto simp: score_evidence_def check_Inr_iff make_grade_def rbind_Inr_iff split: if_splits)

definition replay_loaded_sample :: loaded_replay where
  "replay_loaded_sample = \<lparr> lr_manifest = replay_sample, lr_evidence = replay_evidence, lr_contract = sample_contract,
     lr_stored_grade = replay_grade, lr_stored_policy = default_policy ''p'' \<rparr>"

lemma replay_sample_parsed: "parsed_replay replay_hasher replay_loads sample_parsers replay_loaded_sample manifest_raw
    [evidence_raw, contract_raw, grade_raw, events_raw, policy_raw]"
proof -
  have p: "policy_check (default_policy ''p'') = None" by (simp add: id_simps)
  have "list_all2 (\<lambda>bytes a. sha256 replay_hasher bytes = ar_sha256 a \<and> int (length bytes) = ar_size_bytes a)
      [evidence_raw, contract_raw, grade_raw, events_raw, policy_raw] (map (snd \<circ> snd) (fixed_specs replay_sample))"
    by (simp add: fixed_specs_def replay_sample_def sample_file_ref_def sha256_replay file_digits events_digit)
  then show ?thesis
    using replay_sample_ok replay_complexity replay_loaded replay_grade_ok p
    by (simp add: parsed_replay_def replay_loaded_sample_def sample_parsers_def parse_document_back events_raw_def
        manifest_raw_def evidence_raw_def contract_raw_def grade_raw_def policy_raw_def)
qed

section \<open>The tree on disk\<close>

text \<open>Inode 1 holds the replay 2; 3 to 8 are its files, 9 and 10 the artifact directories, 11 the candidate.\<close>

definition replay_store :: store where
  "replay_store = [1 \<mapsto> Directory 7 [(''run'', 2)],
     2 \<mapsto> Directory 7 [(''manifest.json'', 3), (''evidence.json'', 4), (''contract.json'', 5), (''grade.json'', 6),
       (''events.jsonl'', 7), (''policy.json'', 8), (''artifacts'', 9)],
     3 \<mapsto> Reg 7 1 (0, 0) manifest_raw, 4 \<mapsto> Reg 7 1 (0, 0) evidence_raw, 5 \<mapsto> Reg 7 1 (0, 0) contract_raw,
     6 \<mapsto> Reg 7 1 (0, 0) grade_raw, 7 \<mapsto> Reg 7 1 (0, 0) events_raw, 8 \<mapsto> Reg 7 1 (0, 0) policy_raw,
     9 \<mapsto> Directory 7 [(''sha256'', 10)], 10 \<mapsto> Directory 7 [(digest_a, 11)], 11 \<mapsto> Reg 7 1 (0, 0) sample_source]"

lemma replay_tree: "replay_on_disk replay_hasher replay_store 1 ''run'' replay_sample manifest_raw
    [evidence_raw, contract_raw, grade_raw, events_raw, policy_raw]"
  unfolding replay_on_disk_def artifact_store_on_disk_def
  by (rule exI[of _ 2], rule exI[of _ 7])
    (simp add: replay_store_def replay_sample_def lookup_at_def closed_directory_def file_in_def stat_at_def top_level_names_def
      FIXED_REPLAY_FILES_def fixed_specs_def matches_ref_def sample_ref_def sha256_replay source_digit digest_of_a
      sample_source_def[THEN arg_cong[of _ _ length]] insert_commute)

lemma replay_loadable: "loadable replay_hasher replay_loads sample_parsers replay_store 1 ''run'' replay_loaded_sample manifest_raw"
proof -
  have "set (evidence_artifact_refs replay_evidence) \<subseteq> {sample_ref}"
    by (auto simp: evidence_artifact_refs_def replay_evidence_def solved_evidence_def evidence_of_def sample_request_def
        passed_stage_def sample_stage_def sample_check_def split: if_splits)
  then have "set (evidence_artifact_refs (lr_evidence replay_loaded_sample)) \<subseteq>
      snd ` set (rm_artifacts (lr_manifest replay_loaded_sample))"
    by (simp add: replay_loaded_sample_def replay_sample_def)
  moreover have "lr_manifest replay_loaded_sample = replay_sample" by (simp add: replay_loaded_sample_def)
  ultimately show ?thesis unfolding loadable_def using replay_sample_parsed replay_sample_bounds replay_tree by auto
qed

lemma manifest_digest: "sha256 replay_hasher manifest_raw = digest_of (CHR ''b'')"
  by (simp add: sha256_replay file_digits)

lemma replay_sample_score:
  "score_evidence replay_hasher (lr_evidence replay_loaded_sample) (lr_contract replay_loaded_sample)
     (lr_stored_policy replay_loaded_sample) = Inr (lr_stored_grade replay_loaded_sample)"
  using replay_scored by (simp add: replay_loaded_sample_def)

lemma replay_sample_valid:
  "expected = None \<or> expected = Some (digest_of (CHR ''b'')) \<Longrightarrow>
     rv_valid (verify_replay replay_hasher replay_loads sample_parsers (\<lambda>_. replay_store) (\<lambda>_ _. 0) 1 ''run'' expected 0)"
  using static_inspect[OF replay_loadable replay_sample_score, of expected "\<lambda>_. 0" 0]
  by (simp add: verify_replay_def manifest_digest)

text \<open>The seven files of the tree have seven digests.\<close>

lemma replay_store_held:
  "held (\<lambda>_. replay_store) t x \<Longrightarrow>
     x \<in> {manifest_raw, evidence_raw, contract_raw, grade_raw, events_raw, policy_raw, sample_source}"
  by (auto simp: held_def replay_store_def split: if_splits)

lemma replay_store_injective:
  assumes "held (\<lambda>_. replay_store) t x" "held (\<lambda>_. replay_store) t' y" "sha256 replay_hasher x = sha256 replay_hasher y"
  shows "x = y"
proof -
  have "prefix_digit x = prefix_digit y" using assms(3) by (simp add: sha256_replay)
  then show ?thesis using replay_store_held[OF assms(1)] replay_store_held[OF assms(2)]
    by (auto simp: file_digits events_digit source_digit)
qed

end
