(* ===== verification/Replay_Correct.thy ===== *)
theory Replay_Correct
  imports Replay_Samples
begin

text \<open>
  The properties of replay verification and rescoring: what a valid verdict guarantees, that an intact
  replay gets it, and what rescoring under another policy can change.
\<close>

text \<open>
  C37. A replay is declared valid only when it is sealed, whatever other processes do to the tree while
  it is read.  The manifest is canonical and carries the trusted digest when one is given; evidence,
  contract, grade, events and policy are valid canonical documents whose bytes have the digests and sizes
  of the manifest; every artifact the evidence refers to was on disk with its digest and size; and the
  stored grade is the grade the stored evidence, contract and policy determine.
\<close>

theorem valid_replay_sealed:
  assumes valid: "rv_valid (verify_replay h loads P W M parent name expected t)"
  shows "\<exists>m e c g p.
    (let raw = canonical_json_bytes h (replay_manifest_json m) in held W t raw \<and>
       rv_manifest_sha256 (verify_replay h loads P W M parent name expected t) = Some (sha256 h raw) \<and>
       (expected = None \<or> expected = Some (sha256 h raw))) \<and>
    evidence_check h e = None \<and> contract_check c = None \<and> grade_check g = None \<and> policy_check p = None \<and>
    list_all (\<lambda>(bytes, a). held W t bytes \<and> matches_ref h bytes a)
      [(canonical_json_bytes h (evidence_json e), rm_evidence m), (canonical_json_bytes h (contract_json c), rm_contract m),
       (canonical_json_bytes h (grade_json g), rm_grade m), (event_bytes h e, rm_events m),
       (canonical_json_bytes h (policy_json p), rm_policy m)] \<and>
    (\<forall>a \<in> set (evidence_artifact_refs e). \<exists>bytes. held W t bytes \<and> matches_ref h bytes a) \<and>
    score_evidence h e c p = Inr g \<and> rv_rescored_grade (verify_replay h loads P W M parent name expected t) = Some g"
proof -
  obtain v l where i: "inspect_replay h loads P W M parent name expected t = (v, Some l)" and v: "verify_replay h loads P W M parent name expected t = v"
    using valid_inspection[OF valid] .
  obtain raw files where f: "tree_facts h loads P W t l raw files" "held W t raw" "rv_manifest_sha256 v = Some (sha256 h raw)"
      "expected = None \<or> expected = Some (sha256 h raw)" "rv_rescored_grade v = Some (lr_stored_grade l)"
      "score_evidence h (lr_evidence l) (lr_contract l) (lr_stored_policy l) = Inr (lr_stored_grade l)"
    using inspect_replay_loaded[OF i] by blast
  note s = sealed_files[OF f(1)]
  show ?thesis unfolding v
    by (rule exI[of _ "lr_manifest l"], rule exI[of _ "lr_evidence l"], rule exI[of _ "lr_contract l"],
        rule exI[of _ "lr_stored_grade l"], rule exI[of _ "lr_stored_policy l"])
      (use s f in \<open>simp add: Let_def\<close>)
qed

text \<open>
  C38. An intact replay verifies: a closed tree that holds the documents of a graded attempt, and that
  nobody changes during the inspection, is declared valid, anchored when its digest was given, and
  rescoring it under its own policy returns the stored grade.
\<close>

theorem intact_replay_verifies:
  assumes l: "loadable h loads P fs parent name l raw"
    and score: "score_evidence h (lr_evidence l) (lr_contract l) (lr_stored_policy l) = Inr (lr_stored_grade l)"
    and expected: "expected \<in> {None, Some (sha256 h raw)}"
  shows "verify_replay h loads P (\<lambda>_. fs) (\<lambda>_. mt) parent name expected t =
      \<lparr> rv_valid = True, rv_anchored = (expected \<noteq> None), rv_manifest_sha256 = Some (sha256 h raw), rv_errors = [],
        rv_rescored_grade = Some (lr_stored_grade l) \<rparr> \<and>
    rescore_replay h loads P (\<lambda>_. fs) (\<lambda>_. mt) parent name (lr_stored_policy l) expected t = Inr (lr_stored_grade l)"
proof -
  note i = static_inspect[OF l score, of expected mt t]
  have "policy_check (lr_stored_policy l) = None" using score_evidence_checks(3)[OF score] .
  then show ?thesis using i expected score by (auto simp: verify_replay_def rescore_replay_def)
qed

text \<open>
  C39. Rescoring changes the reward and nothing else.  When two trees verify against one trusted digest,
  at whatever times and under whatever interference, then rescoring the second under a valid policy
  returns the grade of the first with only the policy id and the training reward replaced, or the two
  trees held a concrete pair of different byte strings with the same digest.
\<close>

theorem rescore_keeps_verdict:
  assumes first: "rv_valid (verify_replay h loads P W M parent name (Some d) t)"
    and second: "rv_valid (verify_replay h loads P W' M' parent' name' (Some d) t')"
    and p: "policy_check p = None" and hex: "hexdigest_ok h"
  shows "(\<exists>g r. rv_rescored_grade (verify_replay h loads P W M parent name (Some d) t) = Some g \<and>
      rescore_replay h loads P W' M' parent' name' p (Some d) t' =
        Inr (g\<lparr>gr_policy_id := rp_policy_id p, gr_training_reward := r\<rparr>)) \<or>
    (\<exists>x y. x \<noteq> y \<and> held W t x \<and> held W' t' y \<and> sha256 h x = sha256 h y)"
proof (rule disjCI)
  assume nc: "\<not> (\<exists>x y. x \<noteq> y \<and> held W t x \<and> held W' t' y \<and> sha256 h x = sha256 h y)"
  obtain v l where i: "inspect_replay h loads P W M parent name (Some d) t = (v, Some l)" and v: "verify_replay h loads P W M parent name (Some d) t = v"
    using valid_inspection[OF first] .
  obtain v' l' where i': "inspect_replay h loads P W' M' parent' name' (Some d) t' = (v', Some l')" "rv_valid v'"
    using valid_inspection[OF second] second by metis
  obtain raw files where f: "tree_facts h loads P W t l raw files" "held W t raw" "d = sha256 h raw"
      "rv_rescored_grade v = Some (lr_stored_grade l)"
      "score_evidence h (lr_evidence l) (lr_contract l) (lr_stored_policy l) = Inr (lr_stored_grade l)"
    using inspect_replay_loaded[OF i] by auto
  obtain raw' files' where f': "tree_facts h loads P W' t' l' raw' files'" "held W' t' raw'" "d = sha256 h raw'"
    using inspect_replay_loaded[OF i'(1)] by auto
  have "lr_evidence l' = lr_evidence l" "lr_contract l' = lr_contract l"
    using same_documents[OF f(1,2) f'(1,2)] f(3) f'(3) nc by metis+
  then have "rescore_replay h loads P W' M' parent' name' p (Some d) t' = score_evidence h (lr_evidence l) (lr_contract l) p"
    using i' p by (simp add: rescore_replay_def)
  then show "\<exists>g r. rv_rescored_grade (verify_replay h loads P W M parent name (Some d) t) = Some g \<and>
      rescore_replay h loads P W' M' parent' name' p (Some d) t' = Inr (g\<lparr>gr_policy_id := rp_policy_id p, gr_training_reward := r\<rparr>)"
    using verdict_independent_of_policy[OF f(5) p hex] f(4) unfolding v by auto
qed

section \<open>Witnesses\<close>

theorem valid_replay_sealed_witness:
  "\<exists>m e c g p. held (\<lambda>_. replay_store) 0 (canonical_json_bytes replay_hasher (replay_manifest_json m)) \<and>
     evidence_check replay_hasher e = None \<and> score_evidence replay_hasher e c p = Inr g \<and>
     rv_rescored_grade (verify_replay replay_hasher replay_loads sample_parsers (\<lambda>_. replay_store) (\<lambda>_ _. 0) 1 ''run'' None 0)
       = Some g"
  using valid_replay_sealed[OF replay_sample_valid[OF disjI1[OF refl]]] unfolding Let_def by blast

theorem intact_replay_verifies_witness:
  "rescore_replay replay_hasher replay_loads sample_parsers (\<lambda>_. replay_store) (\<lambda>_ _. 0) 1 ''run'' (default_policy ''p'')
     (Some (digest_of (CHR ''b''))) 0 = Inr replay_grade"
  using intact_replay_verifies[OF replay_loadable replay_sample_score, of "Some (digest_of (CHR ''b''))" "\<lambda>_. 0" 0]
  by (simp add: manifest_digest) (simp add: replay_loaded_sample_def)

theorem rescore_keeps_verdict_witness:
  "\<exists>g r. rv_rescored_grade (verify_replay replay_hasher replay_loads sample_parsers (\<lambda>_. replay_store) (\<lambda>_ _. 0) 1 ''run''
       (Some (digest_of (CHR ''b''))) 0) = Some g \<and>
     rescore_replay replay_hasher replay_loads sample_parsers (\<lambda>_. replay_store) (\<lambda>_ _. 0) 1 ''run'' tight_policy
       (Some (digest_of (CHR ''b''))) 0 = Inr (g\<lparr>gr_policy_id := ''tight'', gr_training_reward := r\<rparr>)"
proof -
  note valid = replay_sample_valid[OF disjI2[OF refl]]
  have "rp_policy_id tight_policy = ''tight''" by (simp add: tight_policy_def default_policy_def)
  then show ?thesis
    using rescore_keeps_verdict[OF valid valid tight_policy_ok replay_hexdigest_ok] replay_store_injective by metis
qed

end
