(* ===== verification/Reward_Ordering.thy ===== *)
theory Reward_Ordering
  imports Complex_Main Prelude "HOL-Library.AList"
begin

text \<open>
  \<open>qualification._validate_acyclic_ordering\<close>: the topological sweep over the reward-ordering
  constraints of a qualification plan.  The dictionaries \<open>outgoing\<close> and \<open>indegree\<close> are association
  lists, the sets of children are kept in the order of their insertion, and the stack \<open>ready\<close> has its
  top first.  The sweep accepts exactly the acyclic relations.
\<close>

section \<open>The sweep\<close>

type_synonym indegree = "(string \<times> int) list"

definition degree :: "indegree \<Rightarrow> string \<Rightarrow> int" where
  "degree d x = (case map_of d x of None \<Rightarrow> 0 | Some n \<Rightarrow> n)"

fun add_relations :: "(string \<times> string list) list \<Rightarrow> indegree \<Rightarrow> (string \<times> string) list \<Rightarrow>
    ((string \<times> string list) list \<times> indegree) result" where
  "add_relations outgoing d [] = Inr (outgoing, d)"
| "add_relations outgoing d ((better, worse) # relations) = (case map_of outgoing better of
     None \<Rightarrow> Inl (Exn ''KeyError'' better)
   | Some children \<Rightarrow> add_relations (AList.update better (if worse \<in> set children then children else children @ [worse]) outgoing)
       (AList.update worse (degree d worse + 1) d) relations)"

fun relax :: "string list \<Rightarrow> indegree \<Rightarrow> string list \<Rightarrow> indegree \<times> string list" where
  "relax [] d ready = (d, ready)"
| "relax (child # children) d ready =
     relax children (AList.update child (degree d child - 1) d) (if degree d child - 1 = 0 then child # ready else ready)"

definition positives :: "indegree \<Rightarrow> string set" where
  "positives d = {x. 0 < degree d x}"

lemma finite_positives [simp]: "finite (positives d)"
  by (rule finite_subset[of _ "dom (map_of d)"]) (auto simp: positives_def degree_def finite_dom_map_of split: option.splits)

lemma degree_update [simp]: "degree (AList.update x n d) y = (if y = x then n else degree d y)"
  by (simp add: degree_def AList.update_conv')

lemma relax_measure:
  "length (snd (relax children d ready)) + card (positives (fst (relax children d ready))) \<le> length ready + card (positives d)"
proof (induction children d ready rule: relax.induct)
  case (2 child children d ready)
  let ?d = "AList.update child (degree d child - 1) d"
  have sub: "positives ?d \<subseteq> positives d" by (auto simp: positives_def)
  show ?case
  proof (cases "degree d child = 1")
    case True
    have "positives ?d \<subset> positives d" using sub True by (auto simp: positives_def)
    then have "card (positives ?d) < card (positives d)" by (simp add: psubset_card_mono)
    then show ?thesis using 2 True by simp
  next
    case False
    then show ?thesis using 2 card_mono[OF _ sub] by simp
  qed
qed simp

function sweep :: "(string \<times> string list) list \<Rightarrow> indegree \<Rightarrow> string list \<Rightarrow> nat \<Rightarrow> nat result" where
  "sweep outgoing d [] visited = Inr visited"
| "sweep outgoing d (current # ready) visited = (case map_of outgoing current of
     None \<Rightarrow> Inl (Exn ''KeyError'' current)
   | Some children \<Rightarrow> sweep outgoing (fst (relax children d ready)) (snd (relax children d ready)) (Suc visited))"
  by pat_completeness auto
termination
proof (relation "measure (\<lambda>(outgoing, d, ready, visited). length ready + card (positives d))")
  fix outgoing current children and d :: indegree and ready :: "string list" and visited :: nat
  show "((outgoing, fst (relax children d ready), snd (relax children d ready), Suc visited), (outgoing, d, current # ready, visited))
    \<in> measure (\<lambda>(outgoing, d, ready, visited). length ready + card (positives d))"
    using relax_measure[of children d ready] by simp
qed simp

definition validate_acyclic_ordering :: "string list \<Rightarrow> (string \<times> string) list \<Rightarrow> exn option" where
  "validate_acyclic_ordering anchor_ids relations =
     (case add_relations (map (\<lambda>a. (a, [])) anchor_ids) (map (\<lambda>a. (a, 0)) anchor_ids) relations of
        Inl e \<Rightarrow> Some e
      | Inr (outgoing, d) \<Rightarrow> (case sweep outgoing d (rev (filter (\<lambda>a. degree d a = 0) anchor_ids)) 0 of
          Inl e \<Rightarrow> Some e
        | Inr visited \<Rightarrow>
            if visited \<noteq> length anchor_ids then Some (Exn ''ValueError'' ''reward-ordering constraints must be acyclic'')
            else None))"

section \<open>What the dictionaries hold\<close>

definition parents :: "(string \<times> string) list \<Rightarrow> string \<Rightarrow> string list" where
  "parents rel x = map fst (filter (\<lambda>(b, w). w = x) rel)"

definition children_of :: "(string \<times> string) list \<Rightarrow> string \<Rightarrow> string set" where
  "children_of rel x = {w. (x, w) \<in> set rel}"

lemma add_relations_Inr:
  assumes "distinct (map fst out)" "fst ` set rel \<subseteq> fst ` set out" "\<forall>(x, cs) \<in> set out. distinct cs"
  shows "\<exists>out' d'. add_relations out d rel = Inr (out', d') \<and>
    (\<forall>x. degree d' x = degree d x + int (length (parents rel x))) \<and>
    (\<forall>x cs. map_of out x = Some cs \<longrightarrow> (\<exists>cs'. map_of out' x = Some cs' \<and> distinct cs' \<and> set cs' = set cs \<union> children_of rel x))"
  using assms
proof (induction out d rel rule: add_relations.induct)
  case (1 out d)
  then show ?case by (auto simp: parents_def children_of_def dest: map_of_SomeD)
next
  case (2 out d b w rel)
  obtain cs where cs: "map_of out b = Some cs" using 2(3) by (metis (no_types, lifting) map_of_eq_None_iff image_eqI
      insert_iff list.set(2) fst_conv not_None_eq subsetD)
  let ?cs = "if w \<in> set cs then cs else cs @ [w]"
  let ?out = "AList.update b ?cs out"
  have d: "distinct cs" using 2(4) map_of_SomeD[OF cs] by auto
  have keys: "distinct (map fst ?out)" using 2(2) by (simp add: AList.distinct_update)
  have sub: "fst ` set rel \<subseteq> fst ` set ?out" using 2(3) by (auto simp: AList.dom_update)
  have dist: "\<forall>(x, ds) \<in> set ?out. distinct ds"
  proof (intro ballI, clarify)
    fix x ds assume "(x, ds) \<in> set ?out"
    then have "map_of ?out x = Some ds" using keys by simp
    then show "distinct ds" using d 2(4) by (auto simp: AList.update_conv' split: if_splits dest: map_of_SomeD)
  qed
  obtain out' d' where IH: "add_relations ?out (AList.update w (degree d w + 1) d) rel = Inr (out', d')"
    "\<forall>x. degree d' x = degree (AList.update w (degree d w + 1) d) x + int (length (parents rel x))"
    "\<forall>x cs. map_of ?out x = Some cs \<longrightarrow> (\<exists>cs'. map_of out' x = Some cs' \<and> distinct cs' \<and> set cs' = set cs \<union> children_of rel x)"
    using 2(1)[OF cs keys sub dist] by blast
  have "\<exists>ds'. map_of out' x = Some ds' \<and> distinct ds' \<and> set ds' = set ds \<union> children_of ((b, w) # rel) x"
    if x: "map_of out x = Some ds" for x ds
  proof (cases "x = b")
    case True
    have "map_of ?out b = Some ?cs" by (simp add: AList.update_conv')
    then obtain ds' where "map_of out' b = Some ds'" "distinct ds'" "set ds' = set ?cs \<union> children_of rel b"
      using IH(3) by blast
    then show ?thesis using True x cs by (auto simp: children_of_def)
  next
    case False
    then have "map_of ?out x = Some ds" using x by (simp add: AList.update_conv')
    then show ?thesis using IH(3) False by (auto simp: children_of_def)
  qed
  moreover have "degree d' x = degree d x + int (length (parents ((b, w) # rel) x))" for x
    using IH(2) by (simp add: parents_def)
  ultimately show ?case using IH(1) cs by auto
qed

lemma relax_result:
  assumes "distinct children"
  shows "degree (fst (relax children d ready)) x = degree d x - (if x \<in> set children then 1 else 0)"
    "snd (relax children d ready) = rev (filter (\<lambda>x. degree d x = 1) children) @ ready"
proof -
  show "degree (fst (relax children d ready)) x = degree d x - (if x \<in> set children then 1 else 0)" for x
    using assms by (induction children d ready rule: relax.induct) auto
  show "snd (relax children d ready) = rev (filter (\<lambda>x. degree d x = 1) children) @ ready"
    using assms
  proof (induction children d ready rule: relax.induct)
    case (2 child children d ready)
    have "filter (\<lambda>x. degree (AList.update child (degree d child - 1) d) x = 1) children = filter (\<lambda>x. degree d x = 1) children"
      using 2(2) by (auto intro!: filter_cong)
    then show ?case using 2 by auto
  qed simp
qed

section \<open>The sweep decides acyclicity\<close>

definition pending :: "(string \<times> string) list \<Rightarrow> string set \<Rightarrow> string \<Rightarrow> nat" where
  "pending rel V x = length (filter (\<lambda>b. b \<notin> V) (parents rel x))"

definition ranked :: "(string \<times> string) list \<Rightarrow> string set \<Rightarrow> (string \<Rightarrow> nat) \<Rightarrow> bool" where
  "ranked rel V r \<longleftrightarrow> (\<forall>x \<in> V. r x < card V) \<and> (\<forall>(b, x) \<in> set rel. x \<in> V \<longrightarrow> b \<in> V \<and> r b < r x)"

text \<open>The visited anchors \<open>V\<close>, the pending constraints of the others, and the anchors ready to be visited.\<close>

definition sweep_inv :: "string list \<Rightarrow> (string \<times> string) list \<Rightarrow> string set \<Rightarrow> indegree \<Rightarrow> string list \<Rightarrow> bool" where
  "sweep_inv ids rel V d ready \<longleftrightarrow> V \<subseteq> set ids \<and> distinct ready \<and>
     set ready = {x \<in> set ids. x \<notin> V \<and> pending rel V x = 0} \<and> (\<forall>x. degree d x = int (pending rel V x)) \<and> (\<exists>r. ranked rel V r)"

lemma parents_mem: "b \<in> set (parents rel x) \<longleftrightarrow> (b, x) \<in> set rel"
  by (force simp: parents_def)

lemma distinct_parents: "distinct rel \<Longrightarrow> distinct (parents rel x)"
  by (auto simp: parents_def distinct_map inj_on_def)

lemma pending_zero: "pending rel V x = 0 \<longleftrightarrow> (\<forall>b. (b, x) \<in> set rel \<longrightarrow> b \<in> V)"
  by (auto simp: pending_def filter_empty_conv parents_mem)

lemma pending_insert:
  assumes "distinct rel" "c \<notin> V"
  shows "pending rel V x = pending rel (insert c V) x + (if (c, x) \<in> set rel then 1 else 0)"
proof -
  have len: "length (filter P (parents rel x)) = card {b. (b, x) \<in> set rel \<and> P b}" for P
    using distinct_card[of "filter P (parents rel x)"] distinct_parents[OF assms(1)] by (simp add: parents_mem conj_commute)
  have fin: "finite {b. (b, x) \<in> set rel \<and> P b}" for P
    using finite_subset[of "{b. (b, x) \<in> set rel \<and> P b}" "fst ` set rel"] by force
  show ?thesis
  proof (cases "(c, x) \<in> set rel")
    case True
    then have "{b. (b, x) \<in> set rel \<and> b \<notin> V} = insert c {b. (b, x) \<in> set rel \<and> b \<notin> insert c V}" using assms(2) by auto
    then show ?thesis using True fin[of "\<lambda>b. b \<notin> insert c V"] by (simp add: pending_def len)
  next
    case False
    then have "{b. (b, x) \<in> set rel \<and> b \<notin> V} = {b. (b, x) \<in> set rel \<and> b \<notin> insert c V}" by auto
    then show ?thesis using False by (simp add: pending_def len)
  qed
qed

lemma ranked_insert:
  assumes "ranked rel V r" "c \<notin> V" "pending rel V c = 0" "finite V"
  shows "ranked rel (insert c V) (r(c := card V))"
  using assms unfolding ranked_def pending_zero by (auto simp: less_Suc_eq)

lemma sweep_step:
  assumes inv: "sweep_inv ids rel V d (c # ready)" and rel: "distinct rel" "snd ` set rel \<subseteq> set ids"
    and cs: "distinct cs" "set cs = children_of rel c"
  shows "sweep_inv ids rel (insert c V) (fst (relax cs d ready)) (snd (relax cs d ready))"
proof -
  have c: "c \<in> set ids" "c \<notin> V" "pending rel V c = 0" "distinct ready" "c \<notin> set ready" "V \<subseteq> set ids"
    and rd: "insert c (set ready) = {x \<in> set ids. x \<notin> V \<and> pending rel V x = 0}"
    and deg: "\<And>x. degree d x = int (pending rel V x)" using inv by (auto simp: sweep_inv_def)
  have fin: "finite V" using c(6) finite_subset by blast
  note p = pending_insert[OF rel(1) c(2)]
  obtain r0 where r0: "ranked rel V r0" using inv by (auto simp: sweep_inv_def)
  have "degree (fst (relax cs d ready)) x = int (pending rel (insert c V) x)" for x
    using relax_result(1)[OF cs(1), of d ready x] p[of x] deg cs(2) by (auto simp: children_of_def)
  moreover have "distinct (snd (relax cs d ready))"
  proof -
    have "pending rel V x = 0" if "x \<in> set ready" for x using rd that by blast
    then have "x \<notin> set ready" if "degree d x = 1" for x using deg[of x] that by force
    then show ?thesis using cs(1) c(4) relax_result(2)[OF cs(1), of d ready] by auto
  qed
  moreover have "x \<in> set (snd (relax cs d ready)) \<longleftrightarrow> x \<in> set ids \<and> x \<notin> insert c V \<and> pending rel (insert c V) x = 0" for x
  proof -
    have r: "x \<in> set ready \<longleftrightarrow> x \<noteq> c \<and> x \<in> set ids \<and> x \<notin> V \<and> pending rel V x = 0" using rd c(5) by auto
    have child: "x \<in> set ids \<and> x \<noteq> c \<and> x \<notin> V" if "(c, x) \<in> set rel"
    proof -
      have "x \<in> set ids" using rel(2) that by force
      moreover have "x \<noteq> c" using c(2,3) that by (auto simp: pending_zero)
      moreover have "x \<notin> V" using r0 c(2) that by (auto simp: ranked_def)
      ultimately show ?thesis by simp
    qed
    have new: "x \<in> set (snd (relax cs d ready)) \<longleftrightarrow> x \<in> set ready \<or> (c, x) \<in> set rel \<and> pending rel V x = 1"
      using relax_result(2)[OF cs(1), of d ready] cs(2) deg[of x] by (auto simp: children_of_def)
    show ?thesis
    proof (cases "(c, x) \<in> set rel")
      case True
      then show ?thesis unfolding new r using child p[of x] by auto
    next
      case False
      then show ?thesis unfolding new r using p[of x] by auto
    qed
  qed
  moreover have "\<exists>r. ranked rel (insert c V) r" using ranked_insert[OF r0 c(2,3) fin] by blast
  ultimately show ?thesis using c(1,6) by (auto simp: sweep_inv_def)
qed

lemma ranked_acyclic:
  assumes "ranked rel V r" "snd ` set rel \<subseteq> V"
  shows "acyclic (set rel)"
proof (rule acyclic_subset)
  show "acyclic (measure r)" by (rule wf_acyclic) simp
  have "r b < r x" if "(b, x) \<in> set rel" for b x
  proof -
    have "x \<in> V" using that assms(2) by force
    then show ?thesis using assms(1) that by (auto simp: ranked_def)
  qed
  then show "set rel \<subseteq> measure r" by auto
qed

lemma blocked_cyclic:
  assumes "acyclic (set rel)" "fst ` set rel \<subseteq> I" "V \<subseteq> I" "finite I" "{x \<in> I. x \<notin> V \<and> pending rel V x = 0} = {}"
  shows "V = I"
proof (rule ccontr)
  assume "V \<noteq> I"
  then obtain x where "x \<in> I - V" using assms(3) by blast
  moreover have "wf (set rel)" using finite_acyclic_wf[OF _ assms(1)] by simp
  ultimately obtain z where z: "z \<in> I - V" "\<And>y. (y, z) \<in> set rel \<Longrightarrow> y \<notin> I - V" by (metis wfE_min)
  then have "pending rel V z = 0" unfolding pending_zero using assms(2) by force
  then show False using z(1) assms(5) by blast
qed

lemma sweep_total:
  assumes "sweep_inv ids rel V d ready" "distinct rel" "fst ` set rel \<subseteq> set ids" "snd ` set rel \<subseteq> set ids"
    "\<forall>x \<in> set ids. \<exists>cs. map_of out x = Some cs \<and> distinct cs \<and> set cs = children_of rel x"
  shows "\<exists>W. sweep out d ready (card V) = Inr (card W) \<and> W \<subseteq> set ids \<and> (W = set ids \<longleftrightarrow> acyclic (set rel))"
  using assms
proof (induction out d ready "card V" arbitrary: V rule: sweep.induct)
  case (1 out d)
  then obtain r where r: "ranked rel V r" and V: "V \<subseteq> set ids" "{x \<in> set ids. x \<notin> V \<and> pending rel V x = 0} = {}"
    by (auto simp: sweep_inv_def)
  have "acyclic (set rel)" if "V = set ids" using ranked_acyclic[OF r] 1(4) that by simp
  moreover have "V = set ids" if "acyclic (set rel)" by (rule blocked_cyclic[OF that 1(3) V(1) _ V(2)]) simp
  ultimately show ?case using V(1) by auto
next
  case (2 out d c ready)
  have c: "c \<in> set ids" "c \<notin> V" "V \<subseteq> set ids" using 2(2) by (auto simp: sweep_inv_def)
  then have card: "card (insert c V) = Suc (card V)" using finite_subset[OF c(3)] by simp
  obtain cs where cs: "map_of out c = Some cs" "distinct cs" "set cs = children_of rel c" using 2(6) c(1) by blast
  show ?case
    using 2(1)[OF cs(1) card[symmetric] sweep_step[OF 2(2,3,5) cs(2,3)] 2(3-6)] cs(1) card by simp
qed

lemma acyclic_decided:
  assumes "distinct ids" "distinct rel" "fst ` set rel \<subseteq> set ids" "snd ` set rel \<subseteq> set ids"
  shows "validate_acyclic_ordering ids rel =
    (if acyclic (set rel) then None else Some (Exn ''ValueError'' ''reward-ordering constraints must be acyclic''))"
proof -
  let ?out = "map (\<lambda>a. (a, [] :: string list)) ids" and ?d = "map (\<lambda>a. (a, 0 :: int)) ids"
  have zero: "degree ?d x = 0" for x by (auto simp: degree_def map_of_map_restrict restrict_map_def split: option.splits)
  obtain out d where a: "add_relations ?out ?d rel = Inr (out, d)"
    "\<forall>x. degree d x = int (length (parents rel x))"
    "\<forall>x cs. map_of ?out x = Some cs \<longrightarrow> (\<exists>cs'. map_of out x = Some cs' \<and> distinct cs' \<and> set cs' = set cs \<union> children_of rel x)"
    using add_relations_Inr[of ?out rel ?d] assms zero by (auto simp: comp_def image_image)
  have i: "sweep_inv ids rel {} d (rev (filter (\<lambda>a. degree d a = 0) ids))"
    using assms(1) a(2) by (auto simp: sweep_inv_def pending_def ranked_def)
  have o: "\<forall>x \<in> set ids. \<exists>cs. map_of out x = Some cs \<and> distinct cs \<and> set cs = children_of rel x"
  proof
    fix x assume "x \<in> set ids"
    then have "map_of ?out x = Some []" by (simp add: map_of_map_restrict restrict_map_def)
    then show "\<exists>cs. map_of out x = Some cs \<and> distinct cs \<and> set cs = children_of rel x" using a(3) by fastforce
  qed
  obtain W where W: "sweep out d (rev (filter (\<lambda>a. degree d a = 0) ids)) 0 = Inr (card W)" "W \<subseteq> set ids"
    "W = set ids \<longleftrightarrow> acyclic (set rel)" using sweep_total[OF i assms(2-4) o] by auto
  have "card W = length ids \<longleftrightarrow> W = set ids"
    using W(2) assms(1) card_subset_eq[of "set ids" W] distinct_card[OF assms(1)] by auto
  then show ?thesis using W a(1) by (simp add: validate_acyclic_ordering_def)
qed

section \<open>Rewards that respect the orderings\<close>

definition ranks :: "(string \<Rightarrow> rat) \<Rightarrow> (string \<times> string) list \<Rightarrow> bool" where
  "ranks reward rel \<longleftrightarrow> (\<forall>a. -1 \<le> reward a \<and> reward a \<le> 1) \<and> list_all (\<lambda>(better, worse). reward worse < reward better) rel"

lemma ranks_acyclic:
  assumes "ranks reward rel"
  shows "acyclic (set rel)"
proof -
  have "reward y < reward x" if "(x, y) \<in> (set rel)\<^sup>+" for x y
    using that
  proof (induction rule: trancl_induct)
    case (base y)
    then show ?case using assms by (auto simp: ranks_def list_all_iff)
  next
    case (step y z)
    then have "reward z < reward y" using assms by (auto simp: ranks_def list_all_iff)
    then show ?case using step.IH by simp
  qed
  then show ?thesis unfolding acyclic_def by fastforce
qed

lemma acyclic_ranks:
  assumes "acyclic (set rel)"
  shows "\<exists>reward. ranks reward rel"
proof -
  define below where "below a = {w. (a, w) \<in> (set rel)\<^sup>+}" for a
  define n where "n = card (snd ` set rel)"
  have sub: "below a \<subseteq> snd ` set rel" for a
    using trancl_range[of "set rel"] by (fastforce simp: below_def Range_snd[symmetric])
  have fin: "finite (below a)" for a by (rule finite_subset[OF sub]) simp
  have le: "card (below a) \<le> n" for a unfolding n_def by (rule card_mono[OF _ sub]) simp
  have "card (below w) < card (below b)" if "(b, w) \<in> set rel" for b w
  proof (rule psubset_card_mono[OF fin])
    have "w \<in> below b" "w \<notin> below w" using that assms by (auto simp: below_def acyclic_def)
    moreover have "below w \<subseteq> below b" using that by (auto simp: below_def intro: trancl_into_trancl2)
    ultimately show "below w \<subset> below b" by blast
  qed
  moreover have "rat_of_nat (card (below a)) \<le> 1 + rat_of_nat n" for a using le[of a] by linarith
  ultimately have "ranks (\<lambda>a. of_nat (card (below a)) / of_nat (Suc n)) rel"
    by (auto simp: ranks_def list_all_iff divide_simps intro: order_trans[of _ 0])
  then show ?thesis by blast
qed

text \<open>
  C40. The sweep over the reward-ordering constraints terminates with the right answer: for distinct
  anchors and distinct constraints among them it accepts exactly when some assignment of rewards in the
  admissible interval satisfies every strict ordering, and otherwise reports the cycle.
\<close>

theorem ordering_accepted_iff_rankable:
  assumes "distinct anchor_ids" "distinct relations" "fst ` set relations \<subseteq> set anchor_ids" "snd ` set relations \<subseteq> set anchor_ids"
  shows "validate_acyclic_ordering anchor_ids relations =
    (if \<exists>reward. ranks reward relations then None
     else Some (Exn ''ValueError'' ''reward-ordering constraints must be acyclic''))"
  using acyclic_decided[OF assms] acyclic_ranks ranks_acyclic by auto

theorem ordering_accepted_iff_rankable_witness:
  "validate_acyclic_ordering [''fix'', ''part'', ''noop''] [(''fix'', ''part''), (''part'', ''noop''), (''fix'', ''noop'')] = None \<and>
   validate_acyclic_ordering [''a'', ''b''] [(''a'', ''b''), (''b'', ''a'')] \<noteq> None"
proof
  let ?r = "[(''fix'', ''part''), (''part'', ''noop''), (''fix'', ''noop'')]"
  have "ranks (\<lambda>a. if a = ''fix'' then 1 else if a = ''part'' then 0 else -1) ?r" by (simp add: ranks_def)
  then have "\<exists>reward. ranks reward ?r" by blast
  then show "validate_acyclic_ordering [''fix'', ''part'', ''noop''] ?r = None"
    using ordering_accepted_iff_rankable[of "[''fix'', ''part'', ''noop'']" ?r] by simp
  have "\<nexists>reward. ranks reward [(''a'', ''b''), (''b'', ''a'')]" by (auto simp: ranks_def)
  then show "validate_acyclic_ordering [''a'', ''b''] [(''a'', ''b''), (''b'', ''a'')] \<noteq> None"
    using ordering_accepted_iff_rankable[of "[''a'', ''b'']" "[(''a'', ''b''), (''b'', ''a'')]"] by simp
qed

end
